(* ===== verification/Py_Base.thy ===== *)
theory Py_Base
  imports Main "HOL-Library.AList" "HOL-Library.Sublist"
begin

text \<open>
  The part of the Python language and standard library that the components use: exceptions
  as values, \<open>str\<close> operations, decimal conversion, insertion-ordered dictionaries and the
  dynamic values that arrive as decoded JSON. Text is a list of characters; the operations
  are exact on ASCII, and a character above 127 is an opaque letter that is neither white
  space nor a digit and has no case. Dictionaries are association lists: \<open>map_of\<close> reads a
  key, \<open>AList.update\<close> assigns one (in place when the key is present, at the end when it
  is new, as Python does) and \<open>AList.delete\<close> removes it.
\<close>

named_theorems py_simps \<open>equations that evaluate the Python operations\<close>
named_theorems py_text \<open>facts about text that the component proofs rewrite with\<close>

section \<open>Exceptions\<close>

datatype py_exc =
    ValueError string
  | TypeError string
  | KeyError string
  | RuntimeError string
  | ValidationError string
  | AttributeError string
  | DoesNotExist string
  | DatabaseError string
  | OverflowError string

type_synonym 'a result = "py_exc + 'a"

primrec exc_text :: "py_exc \<Rightarrow> string" where
  "exc_text (ValueError m) = m"
| "exc_text (TypeError m) = m"
| "exc_text (KeyError m) = m"
| "exc_text (RuntimeError m) = m"
| "exc_text (ValidationError m) = m"
| "exc_text (AttributeError m) = m"
| "exc_text (DoesNotExist m) = m"
| "exc_text (DatabaseError m) = m"
| "exc_text (OverflowError m) = m"

definition rbind :: "'a result \<Rightarrow> ('a \<Rightarrow> 'b result) \<Rightarrow> 'b result" where
  "rbind r f = (case r of Inl e \<Rightarrow> Inl e | Inr x \<Rightarrow> f x)"

lemma rbind_simps [simp]:
  "rbind (Inl e) f = Inl e"
  "rbind (Inr x) f = f x"
  by (simp_all add: rbind_def)

lemma rbind_Inr_iff: "rbind r f = Inr y \<longleftrightarrow> (\<exists>x. r = Inr x \<and> f x = Inr y)"
  by (cases r) auto

text \<open>A list comprehension whose element may raise.\<close>

fun rmap :: "('a \<Rightarrow> 'b result) \<Rightarrow> 'a list \<Rightarrow> 'b list result" where
  "rmap f [] = Inr []"
| "rmap f (x # xs) = rbind (f x) (\<lambda>y. rbind (rmap f xs) (\<lambda>ys. Inr (y # ys)))"

lemma rmap_Inr: "(\<And>x. x \<in> set xs \<Longrightarrow> f x = Inr (g x)) \<Longrightarrow> rmap f xs = Inr (map g xs)"
  by (induction xs) auto

section \<open>Characters\<close>

abbreviation ord :: "char \<Rightarrow> nat" where
  "ord c \<equiv> of_char c"

definition is_digit :: "char \<Rightarrow> bool" where
  "is_digit c \<longleftrightarrow> 48 \<le> ord c \<and> ord c \<le> 57"

definition is_upper :: "char \<Rightarrow> bool" where
  "is_upper c \<longleftrightarrow> 65 \<le> ord c \<and> ord c \<le> 90"

definition is_space :: "char \<Rightarrow> bool" where
  "is_space c \<longleftrightarrow> (9 \<le> ord c \<and> ord c \<le> 13) \<or> (28 \<le> ord c \<and> ord c \<le> 32)"

definition lower_char :: "char \<Rightarrow> char" where
  "lower_char c = (if is_upper c then char_of (ord c + 32) else c)"

definition is_lower :: "char \<Rightarrow> bool" where
  "is_lower c \<longleftrightarrow> 97 \<le> ord c \<and> ord c \<le> 122"

definition upper_char :: "char \<Rightarrow> char" where
  "upper_char c = (if is_lower c then char_of (ord c - 32) else c)"

lemma ord_char_of: "n < 256 \<Longrightarrow> ord (char_of n) = n"
  by (simp add: of_char_of)

lemma lower_char_not_upper: "\<not> is_upper (lower_char c)"
proof (cases "is_upper c")
  case True
  then have "ord (lower_char c) = ord c + 32"
    by (auto simp: lower_char_def is_upper_def intro!: ord_char_of)
  with True show ?thesis by (simp add: is_upper_def)
next
  case False
  then show ?thesis by (simp add: lower_char_def)
qed

lemma lower_char_idem [simp]: "lower_char (lower_char c) = lower_char c"
  using lower_char_not_upper[of c] by (simp add: lower_char_def[of "lower_char c"])

lemma is_space_lower_char [simp]: "is_space (lower_char c) = is_space c"
proof (cases "is_upper c")
  case True
  then have "ord (lower_char c) = ord c + 32"
    by (auto simp: lower_char_def is_upper_def intro!: ord_char_of)
  with True show ?thesis by (auto simp: is_upper_def is_space_def)
next
  case False
  then show ?thesis by (simp add: lower_char_def)
qed

section \<open>Text\<close>

definition str_lower :: "string \<Rightarrow> string" where
  "str_lower = map lower_char"

definition str_upper :: "string \<Rightarrow> string" where
  "str_upper = map upper_char"

definition lstrip :: "string \<Rightarrow> string" where
  "lstrip s = dropWhile is_space s"

definition rstrip :: "string \<Rightarrow> string" where
  "rstrip s = rev (dropWhile is_space (rev s))"

definition strip :: "string \<Rightarrow> string" where
  "strip s = rstrip (lstrip s)"

definition rstrip_char :: "char \<Rightarrow> string \<Rightarrow> string" where
  "rstrip_char c s = rev (dropWhile ((=) c) (rev s))"

definition startswith :: "string \<Rightarrow> string \<Rightarrow> bool" where
  "startswith p s \<longleftrightarrow> take (length p) s = p"

fun contains :: "string \<Rightarrow> string \<Rightarrow> bool" where
  "contains p [] \<longleftrightarrow> p = []"
| "contains p (c # s) \<longleftrightarrow> startswith p (c # s) \<or> contains p s"

definition removeprefix :: "string \<Rightarrow> string \<Rightarrow> string" where
  "removeprefix p s = (if startswith p s then drop (length p) s else s)"

text \<open>\<open>s.split(c)\<close> for a one-character separator.\<close>

fun split_on :: "char \<Rightarrow> string \<Rightarrow> string list" where
  "split_on d [] = [[]]"
| "split_on d (c # s) =
     (if c = d then [] # split_on d s
      else (case split_on d s of [] \<Rightarrow> [[c]] | w # ws \<Rightarrow> (c # w) # ws))"

text \<open>\<open>s.split("..")\<close>: occurrences are taken from the left and do not overlap.\<close>

fun split_dots :: "string \<Rightarrow> string list" where
  "split_dots [] = [[]]"
| "split_dots [c] = [[c]]"
| "split_dots (c # d # s) =
     (if c = CHR ''.'' \<and> d = CHR ''.'' then [] # split_dots s
      else (case split_dots (d # s) of [] \<Rightarrow> [[c]] | w # ws \<Rightarrow> (c # w) # ws))"

text \<open>\<open>s.split()\<close>: runs of white space separate, and no field is empty.\<close>

fun words_acc :: "string \<Rightarrow> string \<Rightarrow> string list" where
  "words_acc w [] = (if w = [] then [] else [rev w])"
| "words_acc w (c # s) =
     (if is_space c then (if w = [] then words_acc [] s else rev w # words_acc [] s)
      else words_acc (c # w) s)"

definition split_ws :: "string \<Rightarrow> string list" where
  "split_ws s = words_acc [] s"

fun str_join :: "string \<Rightarrow> string list \<Rightarrow> string" where
  "str_join sep [] = []"
| "str_join sep [x] = x"
| "str_join sep (x # y # xs) = x @ sep @ str_join sep (y # xs)"

text \<open>\<open>s.partition(c)\<close> without the separator itself.\<close>

definition partition_char :: "char \<Rightarrow> string \<Rightarrow> string \<times> string" where
  "partition_char d s =
     (takeWhile (\<lambda>c. c \<noteq> d) s, drop 1 (dropWhile (\<lambda>c. c \<noteq> d) s))"

lemma str_lower_idem [simp]: "str_lower (str_lower s) = str_lower s"
  by (simp add: str_lower_def)

lemma str_lower_Nil [simp]: "str_lower [] = []"
  by (simp add: str_lower_def)

lemma str_lower_append [py_text]: "str_lower (s @ t) = str_lower s @ str_lower t"
  by (simp add: str_lower_def)

lemma length_str_lower [simp]: "length (str_lower s) = length s"
  by (simp add: str_lower_def)

lemma startswith_append [simp]: "startswith p (p @ s)"
  by (simp add: startswith_def)

lemma startswith_iff: "startswith p s \<longleftrightarrow> (\<exists>t. s = p @ t)"
  by (metis append_take_drop_id append_eq_conv_conj startswith_def)

lemma contains_iff: "contains p s \<longleftrightarrow> (\<exists>u v. s = u @ p @ v)"
proof (induction s)
  case Nil
  then show ?case by auto
next
  case (Cons c s)
  show ?case
  proof
    assume "contains p (c # s)"
    then show "\<exists>u v. c # s = u @ p @ v"
    proof (simp, elim disjE)
      assume "startswith p (c # s)"
      then show ?thesis by (metis append_Nil startswith_iff)
    next
      assume "contains p s"
      then show ?thesis using Cons.IH by (metis append_Cons)
    qed
  next
    assume "\<exists>u v. c # s = u @ p @ v"
    then obtain u v where uv: "c # s = u @ p @ v" by blast
    show "contains p (c # s)"
    proof (cases u)
      case Nil
      with uv have "startswith p (c # s)" by (auto simp: startswith_iff)
      then show ?thesis by simp
    next
      case (Cons d u')
      with uv have "s = u' @ p @ v" by simp
      then show ?thesis using Cons.IH by auto
    qed
  qed
qed

lemma contains_append_left [py_text]: "contains p s \<Longrightarrow> contains p (t @ s)"
  by (metis append.assoc contains_iff)

lemma contains_append_right [py_text]: "contains p s \<Longrightarrow> contains p (s @ t)"
  by (metis append.assoc contains_iff)

lemma contains_self [simp]: "contains p p"
  by (metis append_Nil append_Nil2 contains_iff)

lemma contains_Nil [simp]: "contains [] s"
  by (cases s) (simp_all add: startswith_def)

lemma split_on_ne [simp]: "split_on d s \<noteq> []"
  by (induction s) (auto split: list.splits)

lemma split_dots_ne [simp]: "split_dots s \<noteq> []"
  by (induction s rule: split_dots.induct) (auto split: list.splits)

lemma split_on_no_sep: "w \<in> set (split_on d s) \<Longrightarrow> d \<notin> set w"
proof (induction s arbitrary: w)
  case Nil
  then show ?case by simp
next
  case (Cons c s)
  obtain v vs where v: "split_on d s = v # vs" by (cases "split_on d s") auto
  with Cons.IH have IH: "\<And>u. u \<in> set (v # vs) \<Longrightarrow> d \<notin> set u" by metis
  show ?case
  proof (cases "c = d")
    case True
    with Cons.prems v have "w = [] \<or> w \<in> set (v # vs)" by auto
    with IH show ?thesis by auto
  next
    case False
    with Cons.prems v have "w = c # v \<or> w \<in> set vs" by auto
    with IH[of v] IH[of w] False show ?thesis by auto
  qed
qed

lemma split_on_absent: "d \<notin> set s \<Longrightarrow> split_on d s = [s]"
  by (induction s) auto

lemma split_on_append: "d \<notin> set w \<Longrightarrow> split_on d (w @ d # s) = w # split_on d s"
  by (induction w) auto

lemma split_on_join:
  "xs \<noteq> [] \<Longrightarrow> (\<And>x. x \<in> set xs \<Longrightarrow> d \<notin> set x) \<Longrightarrow> split_on d (str_join [d] xs) = xs"
proof (induction xs rule: induct_list012)
  case 1
  then show ?case by simp
next
  case (2 x)
  then show ?case by (simp add: split_on_absent)
next
  case (3 x y zs)
  then show ?case by (simp add: split_on_append)
qed

lemma words_acc_clean:
  "w' \<in> set (words_acc w s) \<Longrightarrow> \<forall>c \<in> set w. \<not> is_space c \<Longrightarrow> w' \<noteq> [] \<and> (\<forall>c \<in> set w'. \<not> is_space c)"
proof (induction s arbitrary: w)
  case Nil
  then show ?case by (simp split: if_splits)
next
  case (Cons c s)
  show ?case
  proof (cases "is_space c")
    case True
    with Cons.prems(1) have "w' \<in> set (words_acc [] s) \<or> (w \<noteq> [] \<and> w' = rev w)"
      by (auto split: if_splits)
    with Cons.IH[of "[]"] Cons.prems(2) show ?thesis by auto
  next
    case False
    with Cons.prems have "w' \<in> set (words_acc (c # w) s)" by simp
    then show ?thesis using Cons.IH[of "c # w"] Cons.prems(2) False by simp
  qed
qed

lemma split_ws_clean: "w \<in> set (split_ws s) \<Longrightarrow> w \<noteq> [] \<and> (\<forall>c \<in> set w. \<not> is_space c)"
  unfolding split_ws_def by (erule words_acc_clean) simp

lemma lstrip_no_space: "s \<noteq> [] \<Longrightarrow> \<not> is_space (hd s) \<Longrightarrow> lstrip s = s"
  by (cases s) (simp_all add: lstrip_def)

lemma rstrip_no_space: "s \<noteq> [] \<Longrightarrow> \<not> is_space (last s) \<Longrightarrow> rstrip s = s"
  by (cases s rule: rev_cases) (simp_all add: rstrip_def)

lemma strip_Nil [simp]: "strip [] = []"
  by (simp add: strip_def lstrip_def rstrip_def)

lemma lstrip_hd: "lstrip s \<noteq> [] \<Longrightarrow> \<not> is_space (hd (lstrip s))"
  by (simp add: lstrip_def hd_dropWhile)

lemma rstrip_prefix: "\<exists>t. s = rstrip s @ t"
proof -
  have "rev s = takeWhile is_space (rev s) @ dropWhile is_space (rev s)" by simp
  then have "s = rev (dropWhile is_space (rev s)) @ rev (takeWhile is_space (rev s))"
    by (metis rev_append rev_rev_ident)
  then show ?thesis unfolding rstrip_def by blast
qed

lemma rstrip_last: "rstrip s \<noteq> [] \<Longrightarrow> \<not> is_space (last (rstrip s))"
  by (simp add: rstrip_def last_rev hd_dropWhile)

lemma strip_hd: "strip s \<noteq> [] \<Longrightarrow> \<not> is_space (hd (strip s))"
proof -
  assume ne: "strip s \<noteq> []"
  obtain t where "lstrip s = strip s @ t" using rstrip_prefix[of "lstrip s"] by (auto simp: strip_def)
  then have "lstrip s \<noteq> []" and "hd (lstrip s) = hd (strip s)" using ne by auto
  then show ?thesis using lstrip_hd[of s] by simp
qed

lemma strip_idem [simp]: "strip (strip s) = strip s"
proof (cases "strip s = []")
  case True
  then show ?thesis by simp
next
  case False
  have "lstrip (strip s) = strip s" using False strip_hd by (intro lstrip_no_space) auto
  moreover have "rstrip (strip s) = strip s"
    using False rstrip_last[of "lstrip s"] by (intro rstrip_no_space) (auto simp: strip_def)
  ultimately show ?thesis by (simp add: strip_def[of "strip s"])
qed

lemma strip_no_space: "\<forall>c \<in> set s. \<not> is_space c \<Longrightarrow> strip s = s"
  by (cases "s = []") (simp, simp add: strip_def lstrip_no_space rstrip_no_space)

section \<open>Decimal conversion\<close>

fun str_of_nat :: "nat \<Rightarrow> string" where
  "str_of_nat n =
     (if n < 10 then [char_of (48 + n)]
      else str_of_nat (n div 10) @ [char_of (48 + n mod 10)])"

declare str_of_nat.simps [simp del]

definition str_of_int :: "int \<Rightarrow> string" where
  "str_of_int i = (if i < 0 then CHR ''-'' # str_of_nat (nat (- i)) else str_of_nat (nat i))"

text \<open>
  \<open>int(text)\<close>: surrounding white space, an optional sign, digits with single underscores
  between them, and at most 4300 digits (CPython's conversion limit); None is \<open>ValueError\<close>.
\<close>

fun digits_acc :: "nat \<Rightarrow> bool \<Rightarrow> string \<Rightarrow> nat option" where
  "digits_acc n after_digit [] = (if after_digit then Some n else None)"
| "digits_acc n after_digit (c # s) =
     (if is_digit c then digits_acc (10 * n + (ord c - 48)) True s
      else if c = CHR ''_'' \<and> after_digit then digits_acc n False s
      else None)"

definition nat_of_digits :: "string \<Rightarrow> nat option" where
  "nat_of_digits s =
     (if length (filter is_digit s) \<le> 4300 then digits_acc 0 False s else None)"

definition int_of_string :: "string \<Rightarrow> int option" where
  "int_of_string text =
     (case strip text of
        [] \<Rightarrow> None
      | c # s \<Rightarrow>
          (if c = CHR ''-'' then map_option (\<lambda>n. - int n) (nat_of_digits s)
           else if c = CHR ''+'' then map_option int (nat_of_digits s)
           else map_option int (nat_of_digits (c # s))))"

text \<open>The regular expression \<open>[0-9]+\<close> under \<open>fullmatch\<close>.\<close>

definition all_digits :: "string \<Rightarrow> bool" where
  "all_digits s \<longleftrightarrow> s \<noteq> [] \<and> list_all is_digit s"

lemma digit_not_space: "is_digit c \<Longrightarrow> \<not> is_space c"
  by (auto simp: is_digit_def is_space_def)

lemma digits_acc_all: "list_all is_digit s \<Longrightarrow> \<exists>m. digits_acc n True s = Some m"
  by (induction s arbitrary: n) auto

lemma digits_acc_append:
  "list_all is_digit s \<Longrightarrow> is_digit c \<Longrightarrow>
    digits_acc n b (s @ [c]) = map_option (\<lambda>m. 10 * m + (ord c - 48)) (digits_acc n (b \<or> s = []) s)"
  by (induction s arbitrary: n b) auto

lemma str_of_nat_ne [simp]: "str_of_nat n \<noteq> []"
  by (subst str_of_nat.simps) simp

lemma digit_char: "d < 10 \<Longrightarrow> is_digit (char_of (48 + d)) \<and> ord (char_of (48 + d)) = 48 + d"
  by (simp add: is_digit_def of_char_of)

lemma str_of_nat_digits: "list_all is_digit (str_of_nat n)"
proof (induction n rule: str_of_nat.induct)
  case (1 n)
  then show ?case
    using digit_char[of n] digit_char[of "n mod 10"]
    by (subst str_of_nat.simps) auto
qed

lemma digits_acc_str_of_nat: "digits_acc 0 b (str_of_nat n) = Some n"
proof (induction n arbitrary: b rule: str_of_nat.induct)
  case (1 n)
  show ?case
  proof (cases "n < 10")
    case True
    then show ?thesis using digit_char[of n] by (subst str_of_nat.simps) simp
  next
    case False
    have "digits_acc 0 b (str_of_nat (n div 10) @ [char_of (48 + n mod 10)]) =
      map_option (\<lambda>m. 10 * m + (ord (char_of (48 + n mod 10)) - 48))
        (digits_acc 0 b (str_of_nat (n div 10)))"
      using digit_char[of "n mod 10"] str_of_nat_digits by (simp add: digits_acc_append)
    also have "\<dots> = Some (10 * (n div 10) + n mod 10)"
      using 1[OF False] digit_char[of "n mod 10"] by simp
    finally show ?thesis using False by (subst str_of_nat.simps) simp
  qed
qed

lemma strip_str_of_nat [simp]: "strip (str_of_nat n) = str_of_nat n"
  by (rule strip_no_space) (use str_of_nat_digits in \<open>auto simp: list_all_iff dest: digit_not_space\<close>)

lemma hd_digit_not_sign: "list_all is_digit (c # s) \<Longrightarrow> c \<noteq> CHR ''-'' \<and> c \<noteq> CHR ''+''"
  by (auto simp: is_digit_def)

lemma str_of_nat_inj: "str_of_nat m = str_of_nat n \<Longrightarrow> m = n"
  by (metis digits_acc_str_of_nat option.inject)

lemma int_of_string_nat:
  assumes "length (str_of_nat n) \<le> 4300"
  shows "int_of_string (str_of_nat n) = Some (int n)"
proof -
  obtain c s where cs: "str_of_nat n = c # s" by (cases "str_of_nat n") auto
  have "nat_of_digits (c # s) = Some n"
    using assms digits_acc_str_of_nat[of False n] str_of_nat_digits[of n]
    unfolding nat_of_digits_def cs
    by (metis filter_True list_all_iff)
  moreover have "strip (c # s) = c # s" using strip_str_of_nat[of n] cs by simp
  ultimately show ?thesis
    using hd_digit_not_sign[of c s] str_of_nat_digits[of n] unfolding cs int_of_string_def by simp
qed

section \<open>Dynamic values\<close>

text \<open>
  A decoded JSON document, or an attribute whose type the code inspects at run time. Numbers
  that are not integers do not occur in the payloads the model reads.
\<close>

datatype pyval =
    PNone
  | PBool bool
  | PInt int
  | PStr string
  | PList "pyval list"
  | PDict "(string \<times> pyval) list"

primrec truthy :: "pyval \<Rightarrow> bool" where
  "truthy PNone = False"
| "truthy (PBool b) = b"
| "truthy (PInt i) = (i \<noteq> 0)"
| "truthy (PStr s) = (s \<noteq> [])"
| "truthy (PList xs) = (xs \<noteq> [])"
| "truthy (PDict d) = (d \<noteq> [])"

text \<open>\<open>a or b\<close>.\<close>

definition py_or :: "pyval \<Rightarrow> pyval \<Rightarrow> pyval" where
  "py_or a b = (if truthy a then a else b)"

text \<open>\<open>d.get(key)\<close> on a value known to be a dictionary.\<close>

definition dget :: "(string \<times> pyval) list \<Rightarrow> string \<Rightarrow> pyval" where
  "dget d k = (case map_of d k of None \<Rightarrow> PNone | Some v \<Rightarrow> v)"

text \<open>\<open>value in (None, "")\<close>.\<close>

definition none_or_empty :: "pyval \<Rightarrow> bool" where
  "none_or_empty v \<longleftrightarrow> v = PNone \<or> v = PStr []"

text \<open>\<open>repr\<close> and \<open>str\<close>.\<close>

definition hex_digit :: "nat \<Rightarrow> char" where
  "hex_digit n = (if n < 10 then char_of (48 + n) else char_of (87 + n))"

definition repr_char :: "char \<Rightarrow> char \<Rightarrow> string" where
  "repr_char q c =
     (if c = CHR 0x5C \<or> c = q then [CHR 0x5C, c]
      else if c = CHR 0x09 then [CHR 0x5C, CHR ''t'']
      else if c = CHR 0x0A then [CHR 0x5C, CHR ''n'']
      else if c = CHR 0x0D then [CHR 0x5C, CHR ''r'']
      else if ord c < 32 \<or> ord c = 127
        then [CHR 0x5C, CHR ''x'', hex_digit (ord c div 16), hex_digit (ord c mod 16)]
      else [c])"

definition repr_str :: "string \<Rightarrow> string" where
  "repr_str s =
     (let q = (if CHR 0x27 \<in> set s \<and> CHR 0x22 \<notin> set s then CHR 0x22 else CHR 0x27)
      in [q] @ concat (map (repr_char q) s) @ [q])"

fun py_repr :: "pyval \<Rightarrow> string" where
  "py_repr PNone = ''None''"
| "py_repr (PBool b) = (if b then ''True'' else ''False'')"
| "py_repr (PInt i) = str_of_int i"
| "py_repr (PStr s) = repr_str s"
| "py_repr (PList xs) = ''['' @ str_join '', '' (map py_repr xs) @ '']''"
| "py_repr (PDict d) =
     CHR 0x7B # str_join '', '' (map (\<lambda>kv. repr_str (fst kv) @ '': '' @ py_repr (snd kv)) d)
       @ [CHR 0x7D]"

definition py_str :: "pyval \<Rightarrow> string" where
  "py_str v = (case v of PStr s \<Rightarrow> s | _ \<Rightarrow> py_repr v)"

text \<open>\<open>int(value)\<close>; None is \<open>TypeError\<close> or \<open>ValueError\<close>.\<close>

primrec int_of_pyval :: "pyval \<Rightarrow> int option" where
  "int_of_pyval PNone = None"
| "int_of_pyval (PBool b) = Some (if b then 1 else 0)"
| "int_of_pyval (PInt i) = Some i"
| "int_of_pyval (PStr s) = int_of_string s"
| "int_of_pyval (PList xs) = None"
| "int_of_pyval (PDict d) = None"

lemma py_str_PStr [simp]: "py_str (PStr s) = s"
  by (simp add: py_str_def)

lemma dget_Nil [simp]: "dget [] k = PNone"
  by (simp add: dget_def)

lemma dget_Cons: "dget ((k', v) # d) k = (if k = k' then v else dget d k)"
  by (simp add: dget_def)

lemma dget_update: "dget (AList.update k v d) k' = (if k' = k then v else dget d k')"
  by (simp add: dget_def update_conv)

lemma map_of_update: "map_of (AList.update k v d) k' = (if k' = k then Some v else map_of d k')"
  by (simp add: update_conv)

section \<open>Stable sorting by a key\<close>

text \<open>
  \<open>sorted(xs, key=f)\<close> is a stable sort: HOL's \<open>sort_key\<close>. A loop that skips the elements
  seen before keeps the first occurrence of each.
\<close>

fun dedup_acc :: "'a list \<Rightarrow> 'a list \<Rightarrow> 'a list" where
  "dedup_acc seen [] = []"
| "dedup_acc seen (x # xs) =
     (if x \<in> set seen then dedup_acc seen xs else x # dedup_acc (x # seen) xs)"

definition dedup :: "'a list \<Rightarrow> 'a list" where
  "dedup xs = dedup_acc [] xs"

lemma set_dedup_acc: "set (dedup_acc seen xs) = set xs - set seen"
  by (induction xs arbitrary: seen) auto

lemma set_dedup [simp]: "set (dedup xs) = set xs"
  by (simp add: dedup_def set_dedup_acc)

lemma distinct_dedup_acc: "distinct (dedup_acc seen xs)"
  by (induction xs arbitrary: seen) (auto simp: set_dedup_acc)

lemma distinct_dedup [simp]: "distinct (dedup xs)"
  by (simp add: dedup_def distinct_dedup_acc)

lemma dedup_acc_distinct: "distinct xs \<Longrightarrow> set xs \<inter> set seen = {} \<Longrightarrow> dedup_acc seen xs = xs"
  by (induction xs arbitrary: seen) auto

lemma dedup_distinct: "distinct xs \<Longrightarrow> dedup xs = xs"
  by (simp add: dedup_def dedup_acc_distinct)

lemma subseq_dedup_acc: "subseq (dedup_acc seen xs) xs"
  by (induction xs arbitrary: seen) (auto intro: subseq_Cons')

lemma subseq_dedup: "subseq (dedup xs) xs"
  by (simp add: dedup_def subseq_dedup_acc)

lemma sorted_wrt_subseq: "subseq xs ys \<Longrightarrow> sorted_wrt P ys \<Longrightarrow> sorted_wrt P xs"
  by (induction rule: list_emb.induct) (auto dest: list_emb_set)

end
