(* ===== verification/Interfaces.thy ===== *)
theory Interfaces
  imports Py_Base
begin

text \<open>
  The contracts the components rely on, as locales. Each is interpreted on the model's own
  definitions in the theory of the component that provides them:
  \<open>ranked_order\<close> (an ordering of work items by a dependency rank) in \<open>Sync_Types\<close>;
  \<open>guarded_machine\<close> (a state machine with an invariant) in \<open>Sync_Ownership\<close> and
  \<open>Connection_Authority\<close>; \<open>one_way_machine\<close> (with states it never leaves) in \<open>Deletion_Request\<close>.
\<close>

section \<open>Ordering by a dependency rank\<close>

locale ranked_order =
  fixes rank :: "'k \<Rightarrow> nat"
    and arrange :: "'k list \<Rightarrow> 'k list"
  assumes set_arrange: "set (arrange xs) = set xs"
    and distinct_arrange: "distinct (arrange xs)"
    and sorted_arrange: "sorted (map rank (arrange xs))"
begin

lemma arrange_before:
  assumes "a \<in> set xs" and "b \<in> set xs" and "rank a < rank b"
  shows "\<exists>us vs ws. arrange xs = us @ a # vs @ b # ws"
proof -
  have a: "a \<in> set (arrange xs)" and b: "b \<in> set (arrange xs)"
    using assms by (simp_all add: set_arrange)
  from a obtain us rest where us: "arrange xs = us @ a # rest" by (meson split_list)
  have "b \<notin> set us"
  proof
    assume "b \<in> set us"
    moreover have "sorted (map rank us @ rank a # map rank rest)"
      using sorted_arrange[of xs] us by simp
    ultimately have "rank b \<le> rank a" by (auto simp: sorted_append)
    with assms(3) show False by simp
  qed
  with b us assms(3) have "b \<in> set rest" by auto
  then obtain vs ws where "rest = vs @ b # ws" by (meson split_list)
  with us show ?thesis by auto
qed

end

section \<open>State machines with an invariant\<close>

locale guarded_machine =
  fixes start :: "'s \<Rightarrow> bool"
    and move :: "'s \<Rightarrow> 's \<Rightarrow> bool"
    and good :: "'s \<Rightarrow> bool"
  assumes start_good: "start s \<Longrightarrow> good s"
    and move_good: "good s \<Longrightarrow> move s t \<Longrightarrow> good t"
begin

lemma run_good: "move\<^sup>*\<^sup>* s t \<Longrightarrow> good s \<Longrightarrow> good t"
  by (induction rule: rtranclp_induct) (auto intro: move_good)

lemma reachable_good: "start s \<Longrightarrow> move\<^sup>*\<^sup>* s t \<Longrightarrow> good t"
  using run_good start_good by blast

end

locale one_way_machine = guarded_machine +
  fixes closed :: "'s \<Rightarrow> bool"
  assumes move_closed: "good s \<Longrightarrow> closed s \<Longrightarrow> move s t \<Longrightarrow> closed t"
begin

lemma run_closed: "move\<^sup>*\<^sup>* s t \<Longrightarrow> good s \<Longrightarrow> closed s \<Longrightarrow> closed t"
proof (induction rule: rtranclp_induct)
  case base
  then show ?case by simp
next
  case (step t u)
  then show ?case using run_good move_closed by blast
qed

end

end
