(* ===== verification/Sync_Types.thy ===== *)
theory Sync_Types
  imports Interfaces Complex_Main
begin

text \<open>
  \<open>netbox_proxbox/sync_types.py\<close> and \<open>backend_errors.py\<close>: the sync stages, their
  dependency order and backend paths, and the composition of a failed stage's message. The
  stages are the slugs of \<open>SyncTypeChoices\<close>. \<open>json.loads\<close> and \<open>json.dumps\<close> are the
  functions \<open>loads\<close> (None where it raises) and \<open>dumps\<close>; every lemma holds for any of them.
\<close>

section \<open>Stages\<close>

definition DEVICES :: string where "DEVICES = ''devices''"
definition STORAGE :: string where "STORAGE = ''storage''"
definition VIRTUAL_MACHINES :: string where "VIRTUAL_MACHINES = ''virtual-machines''"
definition TASK_HISTORY :: string where "TASK_HISTORY = ''task-history''"
definition VM_DISKS :: string where "VM_DISKS = ''vm-disks''"
definition VM_BACKUPS :: string where "VM_BACKUPS = ''vm-backups''"
definition VM_SNAPSHOTS :: string where "VM_SNAPSHOTS = ''vm-snapshots''"
definition NETWORK_INTERFACES :: string where "NETWORK_INTERFACES = ''network-interfaces''"
definition VM_INTERFACES :: string where "VM_INTERFACES = ''vm-interfaces''"
definition IP_ADDRESSES :: string where "IP_ADDRESSES = ''ip-addresses''"
definition SDN :: string where "SDN = ''sdn''"
definition REPLICATIONS :: string where "REPLICATIONS = ''replications''"
definition BACKUP_ROUTINES :: string where "BACKUP_ROUTINES = ''backup-routines''"
definition ALL_STAGES :: string where "ALL_STAGES = ''all''"

lemmas slug_defs = DEVICES_def STORAGE_def VIRTUAL_MACHINES_def TASK_HISTORY_def VM_DISKS_def
  VM_BACKUPS_def VM_SNAPSHOTS_def NETWORK_INTERFACES_def VM_INTERFACES_def IP_ADDRESSES_def
  SDN_def REPLICATIONS_def BACKUP_ROUTINES_def ALL_STAGES_def

lemma slugs_distinct:
  "distinct [DEVICES, STORAGE, VIRTUAL_MACHINES, TASK_HISTORY, VM_DISKS,
     VM_BACKUPS, VM_SNAPSHOTS, NETWORK_INTERFACES, VM_INTERFACES, IP_ADDRESSES,
     SDN, REPLICATIONS, BACKUP_ROUTINES, ALL_STAGES]"
  "distinct [ALL_STAGES, BACKUP_ROUTINES, REPLICATIONS, SDN, IP_ADDRESSES,
     VM_INTERFACES, NETWORK_INTERFACES, VM_SNAPSHOTS, VM_BACKUPS, VM_DISKS,
     TASK_HISTORY, VIRTUAL_MACHINES, STORAGE, DEVICES]"
  by (simp_all add: slug_defs)

lemmas slug_neq [simp] = slugs_distinct[simplified]

definition sync_stage_order :: "string list" where
  "sync_stage_order =
     [DEVICES, STORAGE, VIRTUAL_MACHINES, TASK_HISTORY, VM_DISKS, VM_BACKUPS, VM_SNAPSHOTS,
      NETWORK_INTERFACES, VM_INTERFACES, IP_ADDRESSES, SDN, REPLICATIONS, BACKUP_ROUTINES]"

definition sync_type_path :: "(string \<times> string) list" where
  "sync_type_path =
     [(DEVICES, ''dcim/devices/create''),
      (STORAGE, ''virtualization/virtual-machines/storage/create''),
      (VIRTUAL_MACHINES, ''virtualization/virtual-machines/create''),
      (TASK_HISTORY, ''virtualization/virtual-machines/task-history/create''),
      (VM_BACKUPS, ''virtualization/virtual-machines/backups/all/create''),
      (VM_DISKS, ''virtualization/virtual-machines/virtual-disks/create''),
      (VM_SNAPSHOTS, ''virtualization/virtual-machines/snapshots/all/create''),
      (REPLICATIONS, ''proxmox/replication''),
      (NETWORK_INTERFACES, ''dcim/devices/interfaces/create''),
      (VM_INTERFACES, ''virtualization/virtual-machines/interfaces/create''),
      (IP_ADDRESSES, ''virtualization/virtual-machines/interfaces/ip-address/create''),
      (SDN, ''proxmox/sdn/create''),
      (BACKUP_ROUTINES, ''proxmox/cluster/backup'')]"

text \<open>A template is the text before and after its one \<open>{vm_id}\<close>.\<close>

definition vm_scoped_path_templates :: "(string \<times> string \<times> string) list" where
  "vm_scoped_path_templates =
     [(VIRTUAL_MACHINES, ''virtualization/virtual-machines/'', ''/create''),
      (VM_DISKS, ''virtualization/virtual-machines/'', ''/virtual-disks/create''),
      (VM_BACKUPS, ''virtualization/virtual-machines/'', ''/backups/create''),
      (VM_SNAPSHOTS, ''virtualization/virtual-machines/'', ''/snapshots/create'')]"

definition allowed_sync_slugs :: "string list" where
  "allowed_sync_slugs = ALL_STAGES # map fst sync_type_path"

definition stage_order_index :: "string \<Rightarrow> nat" where
  "stage_order_index t =
     (case map_of (zip sync_stage_order [0..<length sync_stage_order]) t of
        None \<Rightarrow> 99 | Some i \<Rightarrow> i)"

definition arrange_stages :: "string list \<Rightarrow> string list" where
  "arrange_stages xs = dedup (sort_key stage_order_index xs)"

definition expanded_sync_stages :: "string list \<Rightarrow> string list" where
  "expanded_sync_stages types =
     (if types = [ALL_STAGES] then sync_stage_order
      else
        let e1 = (if NETWORK_INTERFACES \<in> set types \<and> VM_INTERFACES \<notin> set types
                  then types @ [VM_INTERFACES] else types);
            e2 = (if IP_ADDRESSES \<in> set e1 \<and> VM_INTERFACES \<notin> set e1
                  then e1 @ [VM_INTERFACES] else e1)
        in arrange_stages e2)"

definition normalize_sync_types :: "string list \<Rightarrow> string list" where
  "normalize_sync_types selected =
     (let uniq = dedup (filter (\<lambda>s. s \<in> set allowed_sync_slugs) (map strip selected))
      in if uniq = [] then [ALL_STAGES]
         else if ALL_STAGES \<in> set uniq then [ALL_STAGES]
         else sort_key stage_order_index uniq)"

definition sync_stream_path :: "string \<Rightarrow> string result" where
  "sync_stream_path sync_type =
     (case map_of sync_type_path sync_type of
        None \<Rightarrow> Inl (ValueError (''Unknown sync_type: '' @ repr_str sync_type))
      | Some base \<Rightarrow> Inr (rstrip_char (CHR ''/'') base @ ''/stream''))"

definition sync_stream_paths_for_stage :: "string \<Rightarrow> string list \<Rightarrow> string list result" where
  "sync_stream_paths_for_stage sync_type netbox_vm_ids =
     (if netbox_vm_ids = [] then rbind (sync_stream_path sync_type) (\<lambda>p. Inr [p])
      else
        (case map_of vm_scoped_path_templates sync_type of
           None \<Rightarrow> rbind (sync_stream_path sync_type) (\<lambda>p. Inr [p])
         | Some (before, after) \<Rightarrow>
             Inr (map (\<lambda>vm_id. rstrip_char (CHR ''/'') (before @ vm_id @ after) @ ''/stream'')
                    (filter (\<lambda>vm_id. vm_id \<noteq> []) netbox_vm_ids))))"

text \<open>\<open>_format_seconds\<close>; a finite float is a rational number.\<close>

definition pad2 :: "nat \<Rightarrow> string" where
  "pad2 n = (if n < 10 then CHR ''0'' # str_of_nat n else str_of_nat n)"

definition format_seconds :: "rat \<Rightarrow> string" where
  "format_seconds seconds =
     (let total = nat \<lfloor>seconds\<rfloor>;
          secs = total mod 60; mins = total div 60;
          hours = mins div 60; mins' = mins mod 60
      in if hours \<noteq> 0 then str_of_nat hours @ ''h'' @ pad2 mins' @ ''m'' @ pad2 secs @ ''s''
         else if mins' \<noteq> 0 then str_of_nat mins' @ ''m'' @ pad2 secs @ ''s''
         else str_of_nat secs @ ''s'')"

section \<open>Backend error bodies\<close>

definition detail_text ::
  "(pyval \<Rightarrow> string) \<Rightarrow> bool \<Rightarrow> pyval \<Rightarrow> string" where
  "detail_text dumps render_structured v =
     (case v of
        PStr s \<Rightarrow> strip s
      | PDict d \<Rightarrow> if render_structured \<and> d \<noteq> [] then dumps v else []
      | PList xs \<Rightarrow> if render_structured \<and> xs \<noteq> [] then dumps v else []
      | _ \<Rightarrow> [])"

definition combine_backend_message_and_detail ::
  "(pyval \<Rightarrow> string) \<Rightarrow> bool \<Rightarrow> (string \<times> pyval) list \<Rightarrow> string option" where
  "combine_backend_message_and_detail dumps render_structured payload =
     (let message = (case dget payload ''message'' of PStr s \<Rightarrow> strip s | _ \<Rightarrow> []);
          detail = detail_text dumps render_structured (dget payload ''detail'')
      in if detail = [] then (if message = [] then None else Some message)
         else if message = [] \<or> message = detail \<or> contains message detail then Some detail
         else if startswith [CHR 0x7B] detail \<or> startswith ''['' detail then Some detail
         else Some (message @ '': '' @ detail))"

definition coerce_backend_error_payload ::
  "(string \<Rightarrow> pyval option) \<Rightarrow> pyval \<Rightarrow> (string \<times> pyval) list option" where
  "coerce_backend_error_payload loads v =
     (case v of
        PDict d \<Rightarrow> Some d
      | PStr s \<Rightarrow>
          (let text = strip s in
           if \<not> startswith [CHR 0x7B] text then None
           else (case loads text of Some (PDict d) \<Rightarrow> Some d | _ \<Rightarrow> None))
      | _ \<Rightarrow> None)"

text \<open>The first nested error text of \<open>payload["errors"]\<close>.\<close>

fun first_nested_error :: "pyval list \<Rightarrow> string option" where
  "first_nested_error [] = None"
| "first_nested_error (item # rest) =
     (case item of
        PDict d \<Rightarrow>
          (case py_or (dget d ''detail'') (dget d ''message'') of
             PStr s \<Rightarrow> if strip s \<noteq> [] then Some (strip s) else first_nested_error rest
           | _ \<Rightarrow> first_nested_error rest)
      | _ \<Rightarrow> first_nested_error rest)"

definition extract_backend_error_text ::
  "(pyval \<Rightarrow> string) \<Rightarrow> (string \<times> pyval) list \<Rightarrow> string option" where
  "extract_backend_error_text dumps payload =
     (case combine_backend_message_and_detail dumps False payload of
        Some combined \<Rightarrow> Some combined
      | None \<Rightarrow>
          (case dget payload ''error'' of
             PStr s \<Rightarrow>
               if strip s \<noteq> [] then Some (strip s)
               else (case dget payload ''errors'' of
                       PList xs \<Rightarrow> first_nested_error xs | _ \<Rightarrow> None)
           | _ \<Rightarrow> (case dget payload ''errors'' of
                    PList xs \<Rightarrow> first_nested_error xs | _ \<Rightarrow> None)))"

definition postgres_slot_marker :: string where
  "postgres_slot_marker =
     ''remaining connection slots are reserved for roles with the superuser attribute''"

definition format_stage_sync_error ::
  "(pyval \<Rightarrow> string) \<Rightarrow> (string \<Rightarrow> pyval option) \<Rightarrow> string \<Rightarrow> int \<Rightarrow> (string \<times> pyval) list
    \<Rightarrow> string" where
  "format_stage_sync_error dumps loads sync_type status payload =
     (let raw0 = (case extract_backend_error_text dumps payload of
                    Some t \<Rightarrow> t | None \<Rightarrow> ''HTTP '' @ str_of_int status);
          source = (case coerce_backend_error_payload loads (PStr raw0) of
                      Some d \<Rightarrow> if d \<noteq> [] then d else payload
                    | None \<Rightarrow> payload);
          raw1 = (case dget source ''error'' of
                    PStr s \<Rightarrow> if strip s \<noteq> [] then strip s else raw0 | _ \<Rightarrow> raw0);
          heading = ''Stage '' @ [CHR 0x27] @ sync_type @ [CHR 0x27] @ '' failed (HTTP ''
                      @ str_of_int status @ ''): ''
      in if contains postgres_slot_marker (str_lower raw1) then
           heading
           @ ''NetBox database is overloaded and has no free PostgreSQL connections for this sync. ''
           @ ''Wait for running jobs to finish, then retry. ''
           @ ''If this keeps happening, increase PostgreSQL connection capacity or reduce concurrent sync jobs.''
         else
           heading @
           (case dget source ''exception'' of
              PStr s \<Rightarrow> if strip s \<noteq> [] then raw1 @ '' ('' @ strip s @ '')'' else raw1
            | _ \<Rightarrow> raw1))"

section \<open>Failed attempts\<close>

datatype failure_class = Transport | Application

record stage_failure_attempt =
  attempt_index :: nat
  att_status :: int
  att_detail :: string
  classification :: failure_class
  elapsed :: rat
  att_payload :: "(string \<times> pyval) list"

definition primary_stage_failure_attempt ::
  "stage_failure_attempt list \<Rightarrow> stage_failure_attempt result" where
  "primary_stage_failure_attempt attempts =
     (if attempts = [] then Inl (ValueError ''At least one failed stage attempt is required'')
      else Inr (case find (\<lambda>a. classification a = Application) attempts of
                  Some a \<Rightarrow> a | None \<Rightarrow> last attempts))"

text \<open>Python's \<open>detail[: limit - 3]\<close>; a negative bound counts from the end.\<close>

definition py_take :: "int \<Rightarrow> 'a list \<Rightarrow> 'a list" where
  "py_take n xs = (if n < 0 then take (nat (int (length xs) + n)) xs else take (nat n) xs)"

definition truncate_stage_attempt_detail :: "string \<Rightarrow> int \<Rightarrow> string" where
  "truncate_stage_attempt_detail detail limit =
     (if int (length detail) \<le> limit then detail else py_take (limit - 3) detail @ ''...'')"

text \<open>The em dash of the attempt summaries, one character outside ASCII.\<close>

definition em_dash :: char where "em_dash = CHR 0x97"

definition attempt_summary :: "stage_failure_attempt \<Rightarrow> string" where
  "attempt_summary a =
     ''Attempt '' @ str_of_nat (attempt_index a) @ '': HTTP '' @ str_of_int (att_status a)
       @ '' '' @ [em_dash] @ '' '' @ truncate_stage_attempt_detail (att_detail a) 200"

definition signature_of :: "stage_failure_attempt \<Rightarrow> int \<times> string \<times> failure_class" where
  "signature_of a = (att_status a, att_detail a, classification a)"

definition compose_stage_failure_message ::
  "(pyval \<Rightarrow> string) \<Rightarrow> (string \<Rightarrow> pyval option) \<Rightarrow> string \<Rightarrow> stage_failure_attempt list
    \<Rightarrow> string result" where
  "compose_stage_failure_message dumps loads sync_type attempts =
     rbind (primary_stage_failure_attempt attempts) (\<lambda>primary.
       let message = format_stage_sync_error dumps loads sync_type
                       (att_status primary) (att_payload primary)
       in if card (set (map signature_of attempts)) = 1 then Inr message
          else Inr (str_join [CHR 0x0A]
            (message # map attempt_summary
               (filter (\<lambda>a. attempt_index a \<noteq> attempt_index primary) attempts))))"

section \<open>Order of the stages\<close>

lemma stage_index_known:
  "stage_order_index DEVICES = 0" "stage_order_index STORAGE = 1"
  "stage_order_index VIRTUAL_MACHINES = 2" "stage_order_index TASK_HISTORY = 3"
  "stage_order_index VM_DISKS = 4" "stage_order_index VM_BACKUPS = 5"
  "stage_order_index VM_SNAPSHOTS = 6" "stage_order_index NETWORK_INTERFACES = 7"
  "stage_order_index VM_INTERFACES = 8" "stage_order_index IP_ADDRESSES = 9"
  "stage_order_index SDN = 10" "stage_order_index REPLICATIONS = 11"
  "stage_order_index BACKUP_ROUTINES = 12" "stage_order_index ALL_STAGES = 99"
  by (simp_all add: stage_order_index_def sync_stage_order_def upt_rec)

lemma sorted_dedup: "sorted (map f xs) \<Longrightarrow> sorted (map f (dedup xs))"
  by (auto simp: sorted_map intro: sorted_wrt_subseq[OF subseq_dedup])

interpretation stages: ranked_order stage_order_index arrange_stages
  by unfold_locales (simp_all add: arrange_stages_def sorted_dedup)

lemma arrange_order: "arrange_stages sync_stage_order = sync_stage_order"
proof -
  have "distinct sync_stage_order" by (simp add: sync_stage_order_def)
  moreover have "sorted (map stage_order_index sync_stage_order)"
    by (simp add: sync_stage_order_def stage_index_known)
  ultimately show ?thesis by (simp add: arrange_stages_def sort_key_id_if_sorted dedup_distinct)
qed

lemma expanded_is_arranged: "\<exists>ys. expanded_sync_stages types = arrange_stages ys"
  using arrange_order[symmetric] by (auto simp: expanded_sync_stages_def Let_def)

lemma set_expanded:
  "set (expanded_sync_stages types) =
     (if types = [ALL_STAGES] then set sync_stage_order
      else set types \<union> (if NETWORK_INTERFACES \<in> set types \<or> IP_ADDRESSES \<in> set types
                        then {VM_INTERFACES} else {}))"
  by (auto simp: expanded_sync_stages_def Let_def stages.set_arrange)

lemma expanded_arranged:
  "distinct (expanded_sync_stages types) \<and> sorted (map stage_order_index (expanded_sync_stages types))"
  using expanded_is_arranged[of types] stages.distinct_arrange stages.sorted_arrange by metis

text \<open>C26. For every selection, \<open>expanded_sync_stages\<close> runs each stage once, in dependency order,
  and runs exactly the selected stages plus the VM interface stage that a network-interface or
  IP-address selection needs; the selection \<open>[all]\<close> runs every stage.\<close>

theorem expanded_sync_stages_plan:
  "distinct (expanded_sync_stages types)
   \<and> sorted (map stage_order_index (expanded_sync_stages types))
   \<and> set (expanded_sync_stages types) =
       (if types = [ALL_STAGES] then set sync_stage_order
        else set types \<union> (if NETWORK_INTERFACES \<in> set types \<or> IP_ADDRESSES \<in> set types
                          then {VM_INTERFACES} else {}))"
  using expanded_arranged set_expanded by auto

text \<open>Whenever IP addresses are synchronised, the VM interfaces they attach to are synchronised
  in the same run, earlier.\<close>

theorem interfaces_before_addresses:
  assumes "IP_ADDRESSES \<in> set (expanded_sync_stages types)"
  shows "\<exists>us vs ws. expanded_sync_stages types = us @ VM_INTERFACES # vs @ IP_ADDRESSES # ws"
proof -
  obtain ys where ys: "expanded_sync_stages types = arrange_stages ys"
    using expanded_is_arranged by blast
  have "VM_INTERFACES \<in> set (expanded_sync_stages types)"
    using assms set_expanded[of types] by (auto simp: sync_stage_order_def split: if_splits)
  with assms ys have "VM_INTERFACES \<in> set ys" and "IP_ADDRESSES \<in> set ys"
    by (simp_all add: stages.set_arrange)
  then show ?thesis unfolding ys by (rule stages.arrange_before) (simp add: stage_index_known)
qed

theorem interfaces_before_addresses_witness:
  "IP_ADDRESSES \<in> set (expanded_sync_stages [IP_ADDRESSES])
   \<and> (\<exists>us vs ws. expanded_sync_stages [IP_ADDRESSES] = us @ VM_INTERFACES # vs @ IP_ADDRESSES # ws)"
proof -
  have "IP_ADDRESSES \<in> set (expanded_sync_stages [IP_ADDRESSES])" by (simp add: set_expanded)
  with interfaces_before_addresses show ?thesis by blast
qed

section \<open>Normalisation of a selection\<close>

lemma allowed_iff: "t \<in> set allowed_sync_slugs \<longleftrightarrow> t = ALL_STAGES \<or> t \<in> set sync_stage_order"
  by (auto simp: allowed_sync_slugs_def sync_type_path_def sync_stage_order_def)

definition canonical_types :: "string list \<Rightarrow> bool" where
  "canonical_types ts \<longleftrightarrow> ts \<noteq> [] \<and> distinct ts \<and> sorted (map stage_order_index ts) \<and>
     list_all (\<lambda>t. t \<in> set sync_stage_order) ts"

lemma if_split_disj: "(if P then x else if Q then x else y) = (if P \<or> Q then x else y)"
  by simp

lemma canonical_sort:
  assumes "xs \<noteq> []" and "distinct xs" and "set xs \<subseteq> set sync_stage_order"
  shows "canonical_types (sort_key stage_order_index xs)"
proof -
  have "sort_key stage_order_index xs \<noteq> []" using assms(1) by (metis length_0_conv length_sort)
  moreover have "list_all (\<lambda>t. t \<in> set sync_stage_order) (sort_key stage_order_index xs)"
    using assms(3) unfolding list_all_iff set_sort by blast
  ultimately show ?thesis using assms(2) by (simp add: canonical_types_def)
qed

lemma normalize_cases:
  "normalize_sync_types xs = [ALL_STAGES] \<or> canonical_types (normalize_sync_types xs)"
proof -
  define uniq where "uniq = dedup (filter (\<lambda>s. s \<in> set allowed_sync_slugs) (map strip xs))"
  have eq: "normalize_sync_types xs =
      (if uniq = [] \<or> ALL_STAGES \<in> set uniq then [ALL_STAGES]
       else sort_key stage_order_index uniq)"
    unfolding normalize_sync_types_def uniq_def Let_def by (simp only: if_split_disj)
  show ?thesis
  proof (cases "uniq = [] \<or> ALL_STAGES \<in> set uniq")
    case True
    with eq have "normalize_sync_types xs = [ALL_STAGES]" by (rule trans[OF _ if_P])
    then show ?thesis ..
  next
    case False
    have "set uniq \<subseteq> set allowed_sync_slugs" unfolding uniq_def set_dedup set_filter by blast
    then have known: "set uniq \<subseteq> set sync_stage_order"
      using False by (metis allowed_iff subset_code(1))
    have "distinct uniq" unfolding uniq_def by (rule distinct_dedup)
    with False known have "canonical_types (sort_key stage_order_index uniq)"
      by (intro canonical_sort) simp_all
    moreover from eq False have "normalize_sync_types xs = sort_key stage_order_index uniq"
      by (rule trans[OF _ if_not_P])
    ultimately show ?thesis by (simp only: simp_thms)
  qed
qed

lemma strip_known: "t \<in> set sync_stage_order \<Longrightarrow> strip t = t"
  by (auto simp: sync_stage_order_def slug_defs strip_def lstrip_def rstrip_def is_space_def)

lemma all_not_known: "ALL_STAGES \<notin> set sync_stage_order"
  by (simp add: sync_stage_order_def)

lemma normalize_fixed:
  assumes "canonical_types xs"
  shows "normalize_sync_types xs = xs"
proof -
  have known: "set xs \<subseteq> set sync_stage_order"
    using assms unfolding canonical_types_def list_all_iff by blast
  then have "map strip xs = xs" by (intro map_idI strip_known) auto
  moreover have "filter (\<lambda>s. s \<in> set allowed_sync_slugs) xs = xs"
    using known by (auto simp: filter_id_conv allowed_iff)
  moreover have "ALL_STAGES \<notin> set xs" using known all_not_known by blast
  ultimately show ?thesis
    using assms
    by (simp add: normalize_sync_types_def canonical_types_def Let_def dedup_distinct
        sort_key_id_if_sorted)
qed

lemma normalize_all: "normalize_sync_types [ALL_STAGES] = [ALL_STAGES]"
proof -
  have "strip ALL_STAGES = ALL_STAGES"
    by (simp add: slug_defs strip_def lstrip_def rstrip_def is_space_def)
  then show ?thesis by (simp add: normalize_sync_types_def allowed_iff dedup_def)
qed

text \<open>\<open>normalize_sync_types\<close> is idempotent, and its result is \<open>[all]\<close> or a non-empty list of
  known stages without duplicates in dependency order: whatever text the caller submits.\<close>

theorem normalize_sync_types_canonical:
  "normalize_sync_types (normalize_sync_types xs) = normalize_sync_types xs
   \<and> (normalize_sync_types xs = [ALL_STAGES] \<or> canonical_types (normalize_sync_types xs))"
  using normalize_cases[of xs] normalize_all normalize_fixed by metis

section \<open>Paths\<close>

lemma known_path: "t \<in> set sync_stage_order \<Longrightarrow> \<exists>p. sync_stream_path t = Inr p"
  by (auto simp: sync_stage_order_def sync_stream_path_def sync_type_path_def)

lemma known_paths:
  "t \<in> set sync_stage_order \<Longrightarrow> \<exists>ps. sync_stream_paths_for_stage t ids = Inr ps"
  using known_path[of t] by (auto simp: sync_stream_paths_for_stage_def split: option.splits)

lemma interfaces_known: "VM_INTERFACES \<in> set sync_stage_order"
  by (simp add: sync_stage_order_def)

lemma expanded_known:
  assumes "t \<in> set (expanded_sync_stages (normalize_sync_types xs))"
  shows "t \<in> set sync_stage_order"
proof (cases "normalize_sync_types xs = [ALL_STAGES]")
  case True
  with assms show ?thesis by (simp add: set_expanded)
next
  case False
  with normalize_cases[of xs] have "canonical_types (normalize_sync_types xs)" by (simp only: simp_thms)
  then have known: "set (normalize_sync_types xs) \<subseteq> set sync_stage_order"
    by (simp add: canonical_types_def list_all_iff subset_iff)
  have "set (expanded_sync_stages types) \<subseteq> insert VM_INTERFACES (set types)"
    if "types \<noteq> [ALL_STAGES]" for types
    using that by (simp add: set_expanded subset_insertI)
  from this[OF False] known interfaces_known assms show ?thesis by blast
qed

text \<open>No stage of a normalised selection can raise the unknown-stage error: every stage that
  \<open>expanded_sync_stages\<close> schedules for it has a backend path, for every list of target VMs.\<close>

theorem scheduled_stages_have_paths:
  "list_all (\<lambda>t. \<exists>ps. sync_stream_paths_for_stage t ids = Inr ps)
     (expanded_sync_stages (normalize_sync_types selected))"
  using expanded_known known_paths by (simp add: list_all_iff)

section \<open>Failure messages\<close>

lemma length_truncate:
  assumes "3 \<le> limit"
  shows "int (length (truncate_stage_attempt_detail d limit)) \<le> limit"
  using assms by (simp add: truncate_stage_attempt_detail_def py_take_def)

lemma primary_props:
  assumes "attempts \<noteq> []"
  obtains p where "primary_stage_failure_attempt attempts = Inr p" and "p \<in> set attempts"
    and "classification p = Application \<or> list_all (\<lambda>a. classification a = Transport) attempts"
proof (cases "find (\<lambda>a. classification a = Application) attempts")
  case None
  then have "list_all (\<lambda>a. classification a = Transport) attempts"
    by (auto simp: find_None_iff list_all_iff) (metis failure_class.exhaust)
  with that[of "last attempts"] None assms show ?thesis
    by (simp add: primary_stage_failure_attempt_def)
next
  case (Some p)
  then have "p \<in> set attempts" and "classification p = Application"
    by (auto simp: find_Some_iff)
  with that[of p] Some assms show ?thesis by (simp add: primary_stage_failure_attempt_def)
qed

lemma join_head: "\<exists>rest. str_join sep (x # xs) = x @ rest"
  by (cases xs) auto

text \<open>For at least one failed attempt the composed stage message exists and begins with the
  formatted error of a recorded attempt, an application failure whenever one was recorded; a
  transport failure is named only when every attempt was one.\<close>

theorem stage_failure_names_application_cause:
  assumes "attempts \<noteq> []"
  shows "\<exists>p rest. p \<in> set attempts
     \<and> (classification p = Application \<or> list_all (\<lambda>a. classification a = Transport) attempts)
     \<and> compose_stage_failure_message dumps loads sync_type attempts =
         Inr (format_stage_sync_error dumps loads sync_type (att_status p) (att_payload p) @ rest)"
proof -
  obtain p where p: "primary_stage_failure_attempt attempts = Inr p" "p \<in> set attempts"
    "classification p = Application \<or> list_all (\<lambda>a. classification a = Transport) attempts"
    using primary_props[OF assms] .
  let ?m = "format_stage_sync_error dumps loads sync_type (att_status p) (att_payload p)"
  have "\<exists>rest. compose_stage_failure_message dumps loads sync_type attempts = Inr (?m @ rest)"
    using join_head[of "[CHR 0x0A]" ?m] p(1)
    by (auto simp: compose_stage_failure_message_def Let_def)
  with p show ?thesis by blast
qed

theorem stage_failure_names_application_cause_witness:
  "\<exists>p rest. p \<in> set [\<lparr>attempt_index = 1, att_status = 503, att_detail = ''x'',
        classification = Transport, elapsed = 0, att_payload = []\<rparr>]
     \<and> compose_stage_failure_message (\<lambda>_. []) (\<lambda>_. None) DEVICES
         [\<lparr>attempt_index = 1, att_status = 503, att_detail = ''x'',
           classification = Transport, elapsed = 0, att_payload = []\<rparr>] =
       Inr (format_stage_sync_error (\<lambda>_. []) (\<lambda>_. None) DEVICES (att_status p) (att_payload p) @ rest)"
  using stage_failure_names_application_cause
    [of "[\<lparr>attempt_index = 1, att_status = 503, att_detail = ''x'',
        classification = Transport, elapsed = 0, att_payload = []\<rparr>]" "\<lambda>_. []" "\<lambda>_. None" DEVICES]
  by blast

end
