(* ===== verification/Vm_Identity.thy ===== *)
theory Vm_Identity
  imports Py_Base
begin

text \<open>
  \<open>netbox_proxbox/vm_identity.py\<close>: the Proxmox identity of a NetBox virtual machine, read from
  its typed sync-state row. Model instances and serialised mappings are both read by name, so an
  object is a \<open>PDict\<close> of its attributes. \<open>tracked\<close> is the query for the Proxmox cluster row
  of a NetBox cluster.
\<close>

section \<open>Reading objects\<close>

text \<open>\<open>_value\<close>: an attribute of an object or a key of a mapping, \<open>None\<close> when absent.\<close>

definition attr_value :: "pyval \<Rightarrow> string \<Rightarrow> pyval" where
  "attr_value source nm = (case source of PDict d \<Rightarrow> dget d nm | _ \<Rightarrow> PNone)"

text \<open>\<open>getattr(obj, name, default)\<close>.\<close>

definition getattr_or :: "pyval \<Rightarrow> string \<Rightarrow> pyval \<Rightarrow> pyval" where
  "getattr_or obj nm dflt =
     (case obj of PDict d \<Rightarrow> (case map_of d nm of None \<Rightarrow> dflt | Some v \<Rightarrow> v) | _ \<Rightarrow> dflt)"

text \<open>\<open>str(value or "")\<close>.\<close>

definition text_or_empty :: "pyval \<Rightarrow> string" where
  "text_or_empty v = (if truthy v then py_str v else [])"

lemma attr_value_simps [simp]:
  "attr_value PNone k = PNone"
  "attr_value (PDict d) k = dget d k"
  by (simp_all add: attr_value_def)

lemma getattr_or_None: "getattr_or obj k PNone = attr_value obj k"
  by (cases obj) (simp_all add: getattr_or_def attr_value_def dget_def)

section \<open>Identity\<close>

definition sync_state :: "pyval \<Rightarrow> pyval" where
  "sync_state vm = attr_value vm ''proxbox_sync_state''"

definition resolve_vm_cluster_name :: "(pyval \<Rightarrow> pyval option) \<Rightarrow> pyval \<Rightarrow> string" where
  "resolve_vm_cluster_name tracked vm =
     (let st = sync_state vm;
          typed_name = py_or (attr_value (attr_value st ''proxmox_cluster'') ''name'')
                             (attr_value st ''proxmox_cluster_name'')
      in if truthy typed_name then py_str typed_name
         else
           let cluster = attr_value vm ''cluster'' in
           if cluster = PNone then []
           else (case tracked cluster of
                   Some tracked_cluster \<Rightarrow> py_str (attr_value tracked_cluster ''name'')
                 | None \<Rightarrow> text_or_empty (attr_value cluster ''name'')))"

definition resolve_vm_node :: "pyval \<Rightarrow> string" where
  "resolve_vm_node vm =
     (let st = sync_state vm;
          node_name = py_or (attr_value (attr_value st ''proxmox_node'') ''name'')
                            (attr_value st ''proxmox_node_name'')
      in if truthy node_name then py_str node_name
         else text_or_empty (attr_value (attr_value vm ''device'') ''name''))"

definition known_vm_types :: "string list" where
  "known_vm_types = [''qemu'', ''lxc'']"

definition resolve_known_vm_type :: "pyval \<Rightarrow> string" where
  "resolve_known_vm_type vm =
     (let typed_type = str_lower (strip (text_or_empty (attr_value (sync_state vm) ''proxmox_vm_type'')))
      in if typed_type \<in> set known_vm_types then typed_type
         else
           let slug = str_lower (strip (text_or_empty
                        (attr_value (attr_value vm ''virtual_machine_type'') ''slug'')))
           in if contains ''lxc'' slug then ''lxc''
              else if contains ''qemu'' slug then ''qemu''
              else [])"

definition resolve_vm_type :: "pyval \<Rightarrow> string" where
  "resolve_vm_type vm =
     (let t = resolve_known_vm_type vm in if t \<noteq> [] then t else ''qemu'')"

definition positive_int :: "pyval \<Rightarrow> int option" where
  "positive_int v =
     (case v of
        PBool _ \<Rightarrow> None
      | _ \<Rightarrow> (case int_of_pyval v of
                Some parsed \<Rightarrow> if 0 < parsed then Some parsed else None
              | None \<Rightarrow> None))"

definition linked_endpoint_matches :: "pyval \<Rightarrow> int \<Rightarrow> bool" where
  "linked_endpoint_matches linked endpoint_id \<longleftrightarrow>
     linked = PNone \<or> positive_int (attr_value linked ''endpoint_id'') = Some endpoint_id"

definition resolve_vm_endpoint_context :: "pyval \<Rightarrow> (int \<times> int \<times> string) option" where
  "resolve_vm_endpoint_context vm =
     (let st = sync_state vm;
          vm_id = positive_int (attr_value vm ''pk'');
          state_vm_id = positive_int (attr_value st ''virtual_machine_id'')
      in if vm_id = None \<or> state_vm_id \<noteq> vm_id then None
         else
           let endpoint = attr_value st ''endpoint'' in
           case positive_int (attr_value st ''endpoint_id'') of
             None \<Rightarrow> None
           | Some endpoint_id \<Rightarrow>
               if endpoint = PNone then None
               else if positive_int (attr_value endpoint ''pk'') \<noteq> Some endpoint_id then None
               else if attr_value endpoint ''enabled'' \<noteq> PBool True then None
               else if \<not> linked_endpoint_matches (attr_value st ''proxmox_cluster'') endpoint_id
                 then None
               else if \<not> linked_endpoint_matches (attr_value st ''proxmox_node'') endpoint_id
                 then None
               else
                 (case positive_int (attr_value st ''proxmox_vm_id'') of
                    None \<Rightarrow> None
                  | Some vmid \<Rightarrow> Some (endpoint_id, vmid, resolve_vm_type vm)))"

definition resolve_vm_vmid :: "pyval \<Rightarrow> string" where
  "resolve_vm_vmid vm =
     (let vmid = attr_value (sync_state vm) ''proxmox_vm_id''
      in if none_or_empty vmid then [] else py_str vmid)"

section \<open>Properties\<close>

lemma known_type_cases: "resolve_known_vm_type vm \<in> {''qemu'', ''lxc'', []}"
  by (auto simp: resolve_known_vm_type_def known_vm_types_def Let_def)

lemma vm_type_cases: "resolve_vm_type vm \<in> set known_vm_types"
  using known_type_cases[of vm] by (auto simp: resolve_vm_type_def known_vm_types_def Let_def)

lemma vm_type_ne: "resolve_vm_type vm \<noteq> []"
  using vm_type_cases[of vm] by (auto simp: known_vm_types_def)

lemma positive_int_pos: "positive_int v = Some i \<Longrightarrow> 0 < i"
  by (auto simp: positive_int_def split: pyval.splits option.splits if_splits)

text \<open>An endpoint context is returned only for a virtual machine whose sync state belongs to
  it, is bound to an enabled endpoint under one consistent key, and whose linked cluster and node
  belong to that same endpoint; the identifiers are positive and the type is a supported one.\<close>

theorem endpoint_context_consistent:
  assumes "resolve_vm_endpoint_context vm = Some (endpoint_id, vmid, vm_type)"
  shows "0 < endpoint_id \<and> 0 < vmid \<and> vm_type \<in> set known_vm_types
    \<and> positive_int (attr_value (sync_state vm) ''virtual_machine_id'') = positive_int (attr_value vm ''pk'')
    \<and> positive_int (attr_value (sync_state vm) ''endpoint_id'') = Some endpoint_id
    \<and> positive_int (attr_value (attr_value (sync_state vm) ''endpoint'') ''pk'') = Some endpoint_id
    \<and> attr_value (attr_value (sync_state vm) ''endpoint'') ''enabled'' = PBool True
    \<and> linked_endpoint_matches (attr_value (sync_state vm) ''proxmox_cluster'') endpoint_id
    \<and> linked_endpoint_matches (attr_value (sync_state vm) ''proxmox_node'') endpoint_id
    \<and> positive_int (attr_value (sync_state vm) ''proxmox_vm_id'') = Some vmid"
  using assms positive_int_pos[of "attr_value (sync_state vm) ''endpoint_id''" endpoint_id]
    positive_int_pos[of "attr_value (sync_state vm) ''proxmox_vm_id''" vmid] vm_type_cases[of vm]
  by (simp add: resolve_vm_endpoint_context_def Let_def split: option.splits if_splits)

definition demo_vm :: pyval where
  "demo_vm = PDict [(''pk'', PInt 7), (''proxbox_sync_state'', PDict [
     (''virtual_machine_id'', PInt 7), (''endpoint_id'', PInt 3),
     (''endpoint'', PDict [(''pk'', PInt 3), (''enabled'', PBool True)]),
     (''proxmox_vm_id'', PInt 101), (''proxmox_vm_type'', PStr ''lxc''),
     (''proxmox_cluster_name'', PStr ''c1''), (''proxmox_node_name'', PStr ''n1'')])]"

theorem endpoint_context_consistent_witness:
  "resolve_vm_endpoint_context demo_vm = Some (3, 101, ''lxc'')
   \<and> positive_int (attr_value (sync_state demo_vm) ''proxmox_vm_id'') = Some 101"
proof -
  have "resolve_vm_endpoint_context demo_vm = Some (3, 101, ''lxc'')" by code_simp
  with endpoint_context_consistent[of demo_vm 3 101 "''lxc''"] show ?thesis by blast
qed

end
