(* ===== verification/Sync_Params.thy ===== *)
theory Sync_Params
  imports Sync_Types Vm_Identity
begin

text \<open>
  \<open>netbox_proxbox/sync_params.py\<close>, the field tables of \<open>constants.py\<close> and the resolving
  methods of \<open>models/proxmox_endpoint.py\<close>: plugin-wide settings, endpoint overrides, the
  parameter block of a job and the request of an individual sync. \<open>solo\<close> is the result of
  \<open>ProxboxPluginSettings.get_solo()\<close>, None where the import or the query raises
  \<open>ImportError\<close> or \<open>RuntimeError\<close>; \<open>find_endpoint\<close> is the query for an endpoint by
  primary key.
\<close>

section \<open>Field tables\<close>

definition SYNC_MODE_FIELD_GROUPS :: "(string \<times> string list) list" where
  "SYNC_MODE_FIELD_GROUPS =
     [(''Virtual Machine'', [''sync_mode_vm'', ''sync_mode_vm_template'']),
      (''VM Interface'', [''sync_mode_vm_interface'', ''sync_mode_mac'', ''sync_mode_ip_address'']),
      (''Infrastructure'', [''sync_mode_cluster'', ''sync_mode_node'', ''sync_mode_storage'',
        ''sync_mode_sdn'', ''sync_mode_sdn_bgp''])]"

definition SYNC_MODE_FIELDS :: "string list" where
  "SYNC_MODE_FIELDS = concat (map snd SYNC_MODE_FIELD_GROUPS)"

definition SYNC_MODE_RESOURCE_TYPES :: "string list" where
  "SYNC_MODE_RESOURCE_TYPES = map (removeprefix ''sync_mode_'') SYNC_MODE_FIELDS"

definition OVERWRITE_FIELD_GROUPS :: "(string \<times> string list) list" where
  "OVERWRITE_FIELD_GROUPS =
     [(''Device'', [''overwrite_device_role'', ''overwrite_device_type'', ''overwrite_device_tags'',
        ''overwrite_device_status'', ''overwrite_device_description'',
        ''overwrite_device_custom_fields'']),
      (''Virtual Machine'', [''overwrite_vm_role'', ''overwrite_vm_type'', ''overwrite_vm_platform'',
        ''overwrite_vm_tags'', ''overwrite_vm_proxmox_tags'', ''overwrite_vm_description'',
        ''overwrite_vm_custom_fields'', ''overwrite_vm_cloudinit'']),
      (''Cluster'', [''overwrite_cluster_tags'', ''overwrite_cluster_description'',
        ''overwrite_cluster_custom_fields'']),
      (''Node Interface'', [''overwrite_node_interface_tags'',
        ''overwrite_node_interface_custom_fields'']),
      (''Storage'', [''overwrite_storage_tags'']),
      (''VM Interface'', [''overwrite_vm_interface_tags'', ''overwrite_vm_interface_custom_fields'']),
      (''IP Address'', [''overwrite_ip_status'', ''overwrite_ip_tags'', ''overwrite_ip_custom_fields'',
        ''overwrite_ip_address_dns_name''])]"

definition OVERWRITE_FIELDS :: "string list" where
  "OVERWRITE_FIELDS = concat (map snd OVERWRITE_FIELD_GROUPS)"

definition overwrite_default :: "string \<Rightarrow> bool" where
  "overwrite_default nm \<longleftrightarrow> nm \<noteq> ''overwrite_vm_platform''"

section \<open>Plugin settings\<close>

definition getattr_strict :: "pyval \<Rightarrow> string \<Rightarrow> pyval result" where
  "getattr_strict obj nm =
     (case obj of
        PDict d \<Rightarrow> (case map_of d nm of None \<Rightarrow> Inl (AttributeError nm) | Some v \<Rightarrow> Inr v)
      | _ \<Rightarrow> Inl (AttributeError nm))"

text \<open>A flag read under \<open>except (ImportError, RuntimeError)\<close>, and one that also catches
  \<open>AttributeError\<close>.\<close>

definition flag_setting :: "string \<Rightarrow> bool \<Rightarrow> pyval option \<Rightarrow> bool result" where
  "flag_setting nm dflt solo =
     (case solo of
        None \<Rightarrow> Inr dflt
      | Some settings \<Rightarrow> rbind (getattr_strict settings nm) (\<lambda>v. Inr (truthy v)))"

definition safe_flag_setting :: "string \<Rightarrow> bool \<Rightarrow> pyval option \<Rightarrow> bool" where
  "safe_flag_setting nm dflt solo =
     (case flag_setting nm dflt solo of Inl _ \<Rightarrow> dflt | Inr b \<Rightarrow> b)"

definition use_guest_agent_interface_name_setting :: "pyval option \<Rightarrow> bool result" where
  "use_guest_agent_interface_name_setting = flag_setting ''use_guest_agent_interface_name'' True"

definition vm_interface_sync_strategy_setting :: "pyval option \<Rightarrow> string" where
  "vm_interface_sync_strategy_setting solo =
     (case solo of
        None \<Rightarrow> ''guest_os_model''
      | Some settings \<Rightarrow>
          (let v = getattr_or settings ''vm_interface_sync_strategy'' (PStr ''guest_os_model'');
               text = (if truthy v then py_str v else ''guest_os_model'')
           in if text \<in> {''guest_os_model'', ''legacy_rename''} then text else ''guest_os_model''))"

definition proxbox_fetch_max_concurrency_setting :: "pyval option \<Rightarrow> int result" where
  "proxbox_fetch_max_concurrency_setting solo =
     (case solo of
        None \<Rightarrow> Inr 8
      | Some settings \<Rightarrow>
          rbind (getattr_strict settings ''proxbox_fetch_max_concurrency'') (\<lambda>v.
            (case int_of_pyval v of
               Some n \<Rightarrow> Inr (max 1 n)
             | None \<Rightarrow> (case v of PStr _ \<Rightarrow> Inr 8
                         | _ \<Rightarrow> Inl (TypeError ''int() argument must be a string or a number'')))))"

definition ignore_ipv6_link_local_addresses_setting :: "pyval option \<Rightarrow> bool result" where
  "ignore_ipv6_link_local_addresses_setting = flag_setting ''ignore_ipv6_link_local_addresses'' True"

definition primary_ip_preference_setting :: "pyval option \<Rightarrow> string result" where
  "primary_ip_preference_setting solo =
     (case solo of
        None \<Rightarrow> Inr ''ipv4''
      | Some settings \<Rightarrow>
          rbind (getattr_strict settings ''primary_ip_preference'') (\<lambda>v.
            let text = str_lower (strip (if truthy v then py_str v else ''ipv4''))
            in Inr (if text = ''ipv6'' then ''ipv6'' else ''ipv4'')))"

definition parse_description_metadata_setting :: "pyval option \<Rightarrow> bool" where
  "parse_description_metadata_setting = safe_flag_setting ''parse_description_metadata'' False"

definition overwrite_device_role_setting :: "pyval option \<Rightarrow> bool" where
  "overwrite_device_role_setting = safe_flag_setting ''overwrite_device_role'' True"

definition overwrite_device_type_setting :: "pyval option \<Rightarrow> bool" where
  "overwrite_device_type_setting = safe_flag_setting ''overwrite_device_type'' True"

definition overwrite_device_tags_setting :: "pyval option \<Rightarrow> bool" where
  "overwrite_device_tags_setting = safe_flag_setting ''overwrite_device_tags'' True"

definition overwrite_vm_role_setting :: "pyval option \<Rightarrow> bool" where
  "overwrite_vm_role_setting = safe_flag_setting ''overwrite_vm_role'' True"

definition overwrite_vm_tags_setting :: "pyval option \<Rightarrow> bool" where
  "overwrite_vm_tags_setting = safe_flag_setting ''overwrite_vm_tags'' True"

definition global_overwrites :: "pyval option \<Rightarrow> (string \<times> bool) list" where
  "global_overwrites solo =
     (case solo of
        Some settings \<Rightarrow>
          map (\<lambda>nm. (nm, truthy (getattr_or settings nm (PBool (overwrite_default nm)))))
            OVERWRITE_FIELDS
      | None \<Rightarrow> map (\<lambda>nm. (nm, overwrite_default nm)) OVERWRITE_FIELDS)"

definition default_sync_mode :: "string \<Rightarrow> string" where
  "default_sync_mode nm =
     (if nm \<in> {''sync_mode_sdn'', ''sync_mode_sdn_bgp''} then ''disabled'' else ''always'')"

definition global_sync_modes :: "pyval option \<Rightarrow> (string \<times> string) list" where
  "global_sync_modes solo =
     (case solo of
        Some settings \<Rightarrow>
          map (\<lambda>nm. let v = getattr_or settings nm (PStr (default_sync_mode nm))
                     in (nm, if truthy v then py_str v else default_sync_mode nm)) SYNC_MODE_FIELDS
      | None \<Rightarrow> map (\<lambda>nm. (nm, default_sync_mode nm)) SYNC_MODE_FIELDS)"

section \<open>Endpoint overrides\<close>

text \<open>\<open>ProxmoxEndpoint.effective_overwrites\<close> and \<open>effective_sync_mode\<close>.\<close>

definition solo_or_raise :: "pyval option \<Rightarrow> pyval result" where
  "solo_or_raise solo =
     (case solo of None \<Rightarrow> Inl (RuntimeError ''settings unavailable'') | Some s \<Rightarrow> Inr s)"

definition effective_overwrites :: "pyval option \<Rightarrow> pyval \<Rightarrow> (string \<times> pyval) list result" where
  "effective_overwrites solo endpoint =
     rbind (solo_or_raise solo) (\<lambda>settings.
       rmap (\<lambda>nm. rbind (getattr_strict endpoint nm) (\<lambda>v.
               if v \<noteq> PNone then Inr (nm, v)
               else rbind (getattr_strict settings nm) (\<lambda>g. Inr (nm, g)))) OVERWRITE_FIELDS)"

definition dash_to_underscore :: "string \<Rightarrow> string" where
  "dash_to_underscore = map (\<lambda>c. if c = CHR ''-'' then CHR ''_'' else c)"

definition effective_sync_mode :: "pyval option \<Rightarrow> pyval \<Rightarrow> string \<Rightarrow> string result" where
  "effective_sync_mode solo endpoint resource_type =
     (let normalized = removeprefix ''sync_mode_''
                         (dash_to_underscore (str_lower (strip resource_type)))
      in if normalized \<notin> set SYNC_MODE_RESOURCE_TYPES
         then Inl (ValueError (''Unsupported sync mode resource type: '' @ repr_str resource_type))
         else
           let field_name = ''sync_mode_'' @ normalized;
               endpoint_value = attr_value endpoint field_name
           in if truthy endpoint_value then Inr (py_str endpoint_value)
              else rbind (solo_or_raise solo) (\<lambda>settings.
                let v = getattr_or settings field_name (PStr (default_sync_mode field_name))
                in Inr (if truthy v then py_str v else default_sync_mode field_name)))"

text \<open>\<open>value in (None, "", 0, "0")\<close>.\<close>

definition no_endpoint_id :: "pyval \<Rightarrow> bool" where
  "no_endpoint_id v \<longleftrightarrow> v \<in> {PNone, PStr [], PInt 0, PBool False, PStr ''0''}"

text \<open>The endpoint the callers work on; None for an absent, malformed or unknown key.\<close>

definition lookup_endpoint :: "(int \<Rightarrow> pyval option) \<Rightarrow> pyval \<Rightarrow> pyval option" where
  "lookup_endpoint find_endpoint endpoint_id =
     (if no_endpoint_id endpoint_id then None
      else Option.bind (int_of_pyval endpoint_id) find_endpoint)"

definition effective_overwrites_for_endpoint ::
  "pyval option \<Rightarrow> (int \<Rightarrow> pyval option) \<Rightarrow> pyval \<Rightarrow> (string \<times> bool) list result" where
  "effective_overwrites_for_endpoint solo find_endpoint endpoint_id =
     (case lookup_endpoint find_endpoint endpoint_id of
        None \<Rightarrow> Inr (global_overwrites solo)
      | Some endpoint \<Rightarrow>
          rbind (effective_overwrites solo endpoint) (\<lambda>items.
            Inr (map (\<lambda>(nm, v). (nm, truthy v)) items)))"

definition effective_sync_modes_for_endpoint ::
  "pyval option \<Rightarrow> (int \<Rightarrow> pyval option) \<Rightarrow> pyval \<Rightarrow> (string \<times> string) list result" where
  "effective_sync_modes_for_endpoint solo find_endpoint endpoint_id =
     (let global_modes = global_sync_modes solo in
      case lookup_endpoint find_endpoint endpoint_id of
        None \<Rightarrow> Inr global_modes
      | Some endpoint \<Rightarrow>
          rmap (\<lambda>field_name.
            (case effective_sync_mode solo endpoint (removeprefix ''sync_mode_'' field_name) of
               Inr m \<Rightarrow> Inr (field_name, m)
             | Inl (AttributeError e) \<Rightarrow> Inr (field_name, the (map_of global_modes field_name))
             | Inl (ValueError e) \<Rightarrow> Inr (field_name, the (map_of global_modes field_name))
             | Inl e \<Rightarrow> Inl e)) SYNC_MODE_FIELDS)"

definition list_or_empty :: "pyval \<Rightarrow> pyval list" where
  "list_or_empty v = (case v of PList xs \<Rightarrow> xs | _ \<Rightarrow> [])"

definition effective_tenant_regex_for_endpoint ::
  "pyval option \<Rightarrow> (int \<Rightarrow> pyval option) \<Rightarrow> pyval \<Rightarrow> bool \<times> pyval list" where
  "effective_tenant_regex_for_endpoint solo find_endpoint endpoint_id =
     (case solo of
        None \<Rightarrow> (False, [])
      | Some settings \<Rightarrow>
          (let enabled = truthy (getattr_or settings ''enable_tenant_name_regex'' (PBool False));
               rules = list_or_empty (attr_value settings ''tenant_name_regex_rules'')
           in case lookup_endpoint find_endpoint endpoint_id of
                None \<Rightarrow> (enabled, rules)
              | Some endpoint \<Rightarrow>
                  (let ep_enabled = attr_value endpoint ''enable_tenant_name_regex'';
                       ep_rules = attr_value endpoint ''tenant_name_regex_rules''
                   in (if ep_enabled \<noteq> PNone then truthy ep_enabled else enabled,
                       if ep_rules \<noteq> PNone then list_or_empty ep_rules else rules))))"

definition tenant_flag_for_endpoint ::
  "string \<Rightarrow> pyval option \<Rightarrow> (int \<Rightarrow> pyval option) \<Rightarrow> pyval \<Rightarrow> bool" where
  "tenant_flag_for_endpoint nm solo find_endpoint endpoint_id =
     (case solo of
        None \<Rightarrow> False
      | Some settings \<Rightarrow>
          (let enabled = truthy (getattr_or settings nm (PBool False))
           in case lookup_endpoint find_endpoint endpoint_id of
                None \<Rightarrow> enabled
              | Some endpoint \<Rightarrow>
                  (let ep_enabled = attr_value endpoint nm
                   in if ep_enabled \<noteq> PNone then truthy ep_enabled else enabled)))"

definition effective_tenant_tag_assignment_for_endpoint ::
  "pyval option \<Rightarrow> (int \<Rightarrow> pyval option) \<Rightarrow> pyval \<Rightarrow> bool" where
  "effective_tenant_tag_assignment_for_endpoint =
     tenant_flag_for_endpoint ''enable_tenant_tag_assignment''"

definition effective_tenant_from_cluster_for_endpoint ::
  "pyval option \<Rightarrow> (int \<Rightarrow> pyval option) \<Rightarrow> pyval \<Rightarrow> bool" where
  "effective_tenant_from_cluster_for_endpoint =
     tenant_flag_for_endpoint ''enable_tenant_from_cluster''"

section \<open>The parameter block of a job\<close>

definition targeted_vm_sync_types :: "string list" where
  "targeted_vm_sync_types = [VIRTUAL_MACHINES, VM_BACKUPS, VM_SNAPSHOTS]"

definition serialize_sync_params ::
  "string list \<Rightarrow> string list \<Rightarrow> string list \<Rightarrow> string list \<Rightarrow> string option \<Rightarrow> string list
    \<Rightarrow> int option \<Rightarrow> string option \<Rightarrow> (string \<times> pyval) list" where
  "serialize_sync_params sync_types proxmox_ids netbox_ids vm_ids batch_type batch_ids fastapi run_id =
     (let sync_type = (case sync_types of
                         [t] \<Rightarrow> t
                       | _ \<Rightarrow> if vm_ids \<noteq> [] then VIRTUAL_MACHINES else ALL_STAGES);
          texts = (\<lambda>xs. PList (map PStr xs))
      in [(''sync_types'', texts sync_types), (''sync_type'', PStr sync_type),
          (''proxmox_endpoint_ids'', texts proxmox_ids), (''netbox_endpoint_ids'', texts netbox_ids),
          (''netbox_vm_ids'', texts vm_ids),
          (''batch_object_type'', (case batch_type of None \<Rightarrow> PNone | Some t \<Rightarrow> PStr t)),
          (''batch_object_ids'', texts batch_ids)]
         @ (case fastapi of None \<Rightarrow> [] | Some i \<Rightarrow> [(''fastapi_endpoint_id'', PInt i)])
         @ (case run_id of None \<Rightarrow> [] | Some r \<Rightarrow> if r = [] then [] else [(''run_id'', PStr r)]))"

text \<open>The pattern \<open>^Proxbox Sync: Virtual machine (\d+)$\<close> on stripped text.\<close>

definition targeted_vm_job_prefix :: string where
  "targeted_vm_job_prefix = ''Proxbox Sync: Virtual machine ''"

definition infer_targeted_vm_job_params :: "pyval \<Rightarrow> (string \<times> pyval) list option" where
  "infer_targeted_vm_job_params job_name =
     (let nm = strip (text_or_empty job_name);
          vm_id = drop (length targeted_vm_job_prefix) nm
      in if startswith targeted_vm_job_prefix nm \<and> all_digits vm_id
         then Some [(''sync_types'', PList (map PStr targeted_vm_sync_types)),
                    (''proxmox_endpoint_ids'', PList []), (''netbox_endpoint_ids'', PList []),
                    (''netbox_vm_ids'', PList [PStr vm_id])]
         else None)"

definition normalize_batch_object_ids :: "pyval list \<Rightarrow> string list" where
  "normalize_batch_object_ids object_ids = filter (\<lambda>s. s \<noteq> []) (map py_str object_ids)"

definition coerce_fastapi_endpoint_id :: "pyval \<Rightarrow> int option" where
  "coerce_fastapi_endpoint_id v =
     (case v of PNone \<Rightarrow> None | PBool _ \<Rightarrow> None | _ \<Rightarrow> int_of_pyval v)"

section \<open>Requests of an individual sync\<close>

definition resolve_storage_nodes :: "pyval \<Rightarrow> string" where
  "resolve_storage_nodes storage =
     (let nodes = attr_value storage ''nodes''
      in if \<not> truthy nodes then []
         else strip (fst (partition_char (CHR '','') (py_str nodes))))"

definition batch_error :: "string \<Rightarrow> (string \<times> pyval) list" where
  "batch_error msg = [(''error'', PStr msg), (''status'', PInt 422)]"

definition batch_request :: "string \<Rightarrow> (string \<times> string) list \<Rightarrow> (string \<times> pyval) list" where
  "batch_request path params =
     [(''path'', PStr path), (''query_params'', PDict (map (\<lambda>(k, v). (k, PStr v)) params))]"

definition resolve_vm_batch_params :: "(pyval \<Rightarrow> pyval option) \<Rightarrow> pyval \<Rightarrow> (string \<times> pyval) list" where
  "resolve_vm_batch_params tracked vm =
     (let cluster_name = resolve_vm_cluster_name tracked vm; node = resolve_vm_node vm;
          vm_type = resolve_vm_type vm; vmid = resolve_vm_vmid vm
      in if cluster_name = [] \<or> node = [] \<or> vmid = [] then batch_error ''Missing VM sync context.''
         else batch_request ''sync/individual/vm''
           [(''cluster_name'', cluster_name), (''node'', node), (''type'', vm_type), (''vmid'', vmid)])"

definition resolve_vm_backup_batch_params :: "pyval \<Rightarrow> (string \<times> pyval) list" where
  "resolve_vm_backup_batch_params backup =
     (let storage_obj = attr_value backup ''proxmox_storage'';
          vm_obj = attr_value backup ''virtual_machine''
      in if storage_obj = PNone \<or> vm_obj = PNone then batch_error ''Missing backup sync context.''
         else
           let cluster_name = text_or_empty (attr_value (attr_value storage_obj ''cluster'') ''name'');
               storage_nodes = resolve_storage_nodes storage_obj;
               node = (if storage_nodes \<noteq> [] then storage_nodes else resolve_vm_node vm_obj);
               vmid = text_or_empty (py_or (attr_value backup ''vmid'') (PStr (resolve_vm_vmid vm_obj)));
               volume_id = text_or_empty (attr_value backup ''volume_id'');
               storage_name = text_or_empty
                 (py_or (attr_value backup ''storage'') (attr_value storage_obj ''name''))
           in if cluster_name = [] \<or> node = [] \<or> vmid = [] \<or> storage_name = [] \<or> volume_id = []
              then batch_error ''Missing backup sync context.''
              else batch_request ''sync/individual/backup''
                [(''cluster_name'', cluster_name), (''node'', node), (''storage'', storage_name),
                 (''vmid'', vmid), (''volid'', volume_id)])"

definition typed_or_known :: "pyval \<Rightarrow> pyval \<Rightarrow> string" where
  "typed_or_known stored vm_obj =
     (let t = str_lower (strip (text_or_empty stored))
      in if t \<in> set known_vm_types then t else resolve_known_vm_type vm_obj)"

definition resolve_vm_snapshot_batch_params ::
  "(pyval \<Rightarrow> pyval option) \<Rightarrow> pyval \<Rightarrow> (string \<times> pyval) list" where
  "resolve_vm_snapshot_batch_params tracked snapshot =
     (let vm_obj = attr_value snapshot ''virtual_machine'' in
      if vm_obj = PNone then batch_error ''Missing snapshot sync context.''
      else
        let cluster_name = resolve_vm_cluster_name tracked vm_obj;
            node = text_or_empty (py_or (attr_value snapshot ''node'') (PStr (resolve_vm_node vm_obj)));
            vm_type = typed_or_known (attr_value snapshot ''subtype'') vm_obj;
            vmid = text_or_empty (py_or (attr_value snapshot ''vmid'') (PStr (resolve_vm_vmid vm_obj)));
            snapshot_name = text_or_empty (attr_value snapshot ''name'');
            storage_name = attr_value (attr_value snapshot ''proxmox_storage'') ''name''
        in if cluster_name = [] \<or> node = [] \<or> vm_type = [] \<or> vmid = [] \<or> snapshot_name = []
           then batch_error ''Missing snapshot sync context.''
           else batch_request ''sync/individual/snapshot''
             ([(''cluster_name'', cluster_name), (''node'', node), (''type'', vm_type),
               (''vmid'', vmid), (''snapshot_name'', snapshot_name)]
              @ (if truthy storage_name then [(''storage_name'', py_str storage_name)] else [])))"

definition resolve_storage_batch_params :: "pyval \<Rightarrow> (string \<times> pyval) list" where
  "resolve_storage_batch_params storage =
     (let cluster_name = text_or_empty (attr_value (attr_value storage ''cluster'') ''name'');
          storage_name = text_or_empty (attr_value storage ''name'')
      in if cluster_name = [] \<or> storage_name = [] then batch_error ''Missing storage sync context.''
         else batch_request ''sync/individual/storage''
           [(''cluster_name'', cluster_name), (''storage_name'', storage_name)])"

definition resolve_task_history_batch_params ::
  "(pyval \<Rightarrow> pyval option) \<Rightarrow> pyval \<Rightarrow> (string \<times> pyval) list" where
  "resolve_task_history_batch_params tracked task_history =
     (let vm_obj = attr_value task_history ''virtual_machine'' in
      if vm_obj = PNone then batch_error ''Missing task-history sync context.''
      else
        let node = text_or_empty (py_or (attr_value task_history ''node'') (PStr (resolve_vm_node vm_obj)));
            vm_type = typed_or_known (attr_value task_history ''vm_type'') vm_obj;
            vmid = resolve_vm_vmid vm_obj;
            upid = text_or_empty (attr_value task_history ''upid'');
            cluster_name = resolve_vm_cluster_name tracked vm_obj
        in if vm_type = [] then
             let pk = attr_value task_history ''pk'';
                 task_context = (if upid \<noteq> [] then upid
                                 else if truthy pk then py_str pk else ''unknown'')
             in batch_error (''Task history '' @ [CHR 0x27] @ task_context @ [CHR 0x27]
                  @ '' has unsupported stored VM type '' @ py_repr (attr_value task_history ''vm_type'')
                  @ ''; expected qemu or lxc, and no valid type could ''
                  @ ''be derived from its linked virtual machine.'')
           else if node = [] \<or> vmid = [] then batch_error ''Missing task-history sync context.''
           else batch_request ''sync/individual/task-history''
             ([(''node'', node), (''type'', vm_type), (''vmid'', vmid)]
              @ (if upid \<noteq> [] then [(''upid'', upid)] else [])
              @ (if cluster_name \<noteq> [] then [(''cluster_name'', cluster_name)] else [])))"

section \<open>Properties\<close>

text \<open>A request is a 422 error, or a path whose query values are all non-empty text and whose
  \<open>type\<close>, where it has one, is a supported VM type.\<close>

definition complete_value :: "string \<Rightarrow> string \<Rightarrow> bool" where
  "complete_value k v \<longleftrightarrow> v \<noteq> [] \<and> (if k = ''type'' then v \<in> set known_vm_types else True)"

definition complete_request :: "(string \<times> pyval) list \<Rightarrow> bool" where
  "complete_request r \<longleftrightarrow>
     (\<exists>msg. r = batch_error msg) \<or>
     (\<exists>path params. r = batch_request path params \<and> list_all (\<lambda>(k, v). complete_value k v) params)"

lemma complete_batch_error [simp]: "complete_request (batch_error msg)"
  by (auto simp: complete_request_def)

lemma complete_batch_request:
  "list_all (\<lambda>(k, v). complete_value k v) params \<Longrightarrow> complete_request (batch_request path params)"
  by (auto simp: complete_request_def)

lemma typed_or_known_cases: "typed_or_known v vm \<noteq> [] \<Longrightarrow> typed_or_known v vm \<in> set known_vm_types"
  using known_type_cases[of vm] by (auto simp: typed_or_known_def known_vm_types_def Let_def)

lemma str_of_int_ne [simp]: "str_of_int i \<noteq> []"
  by (simp add: str_of_int_def)

lemma py_str_ne: "truthy v \<Longrightarrow> py_str v \<noteq> []"
  by (cases v) (simp_all add: py_str_def)

lemmas complete_simps =
  complete_value_def vm_type_cases vm_type_ne typed_or_known_cases py_str_ne Let_def

text \<open>No individual sync request is sent with missing context: for every virtual machine,
  backup, snapshot, storage or task record the request is a 422 error or carries only non-empty
  query values and a supported VM type.\<close>

theorem batch_requests_complete:
  "complete_request (resolve_vm_batch_params tracked vm)
   \<and> complete_request (resolve_vm_backup_batch_params backup)
   \<and> complete_request (resolve_vm_snapshot_batch_params tracked snapshot)
   \<and> complete_request (resolve_storage_batch_params storage)
   \<and> complete_request (resolve_task_history_batch_params tracked task_history)"
proof (intro conjI)
  show "complete_request (resolve_vm_batch_params tracked vm)"
    by (auto simp: resolve_vm_batch_params_def complete_simps intro!: complete_batch_request)
  show "complete_request (resolve_vm_backup_batch_params backup)"
    by (auto simp: resolve_vm_backup_batch_params_def complete_simps intro!: complete_batch_request)
  show "complete_request (resolve_vm_snapshot_batch_params tracked snapshot)"
    by (auto simp: resolve_vm_snapshot_batch_params_def complete_simps intro!: complete_batch_request)
  show "complete_request (resolve_storage_batch_params storage)"
    by (auto simp: resolve_storage_batch_params_def complete_simps intro!: complete_batch_request)
  show "complete_request (resolve_task_history_batch_params tracked task_history)"
    by (auto simp: resolve_task_history_batch_params_def complete_simps
        intro!: complete_batch_request)
qed

lemma mode_field_cases:
  assumes "f \<in> set SYNC_MODE_FIELDS"
  shows "''sync_mode_'' @ removeprefix ''sync_mode_''
      (dash_to_underscore (str_lower (strip (removeprefix ''sync_mode_'' f)))) = f
    \<and> removeprefix ''sync_mode_'' (dash_to_underscore (str_lower (strip (removeprefix ''sync_mode_'' f))))
        \<in> set SYNC_MODE_RESOURCE_TYPES"
proof -
  have "list_all (\<lambda>f. ''sync_mode_'' @ removeprefix ''sync_mode_''
      (dash_to_underscore (str_lower (strip (removeprefix ''sync_mode_'' f)))) = f
    \<and> removeprefix ''sync_mode_'' (dash_to_underscore (str_lower (strip (removeprefix ''sync_mode_'' f))))
        \<in> set SYNC_MODE_RESOURCE_TYPES) SYNC_MODE_FIELDS"
    by code_simp
  with assms show ?thesis by (simp only: list_all_iff)
qed

lemma global_mode_of:
  "map_of (map (\<lambda>nm. (nm, h nm)) xs) f = (if f \<in> set xs then Some (h f) else None)"
  by (induction xs) auto

definition global_mode :: "pyval \<Rightarrow> string \<Rightarrow> string" where
  "global_mode settings f =
     (let v = getattr_or settings f (PStr (default_sync_mode f))
      in if truthy v then py_str v else default_sync_mode f)"

lemma effective_mode_of:
  assumes "f \<in> set SYNC_MODE_FIELDS"
  shows "effective_sync_mode (Some settings) endpoint (removeprefix ''sync_mode_'' f) =
     Inr (if truthy (attr_value endpoint f) then py_str (attr_value endpoint f) else global_mode settings f)"
  using mode_field_cases[OF assms]
  by (simp add: effective_sync_mode_def solo_or_raise_def global_mode_def Let_def)

lemma sync_modes_eq:
  "effective_sync_modes_for_endpoint (Some settings) find_endpoint endpoint_id =
     Inr (map (\<lambda>f. (f,
            (case lookup_endpoint find_endpoint endpoint_id of
               None \<Rightarrow> global_mode settings f
             | Some endpoint \<Rightarrow>
                 if truthy (attr_value endpoint f) then py_str (attr_value endpoint f)
                 else global_mode settings f))) SYNC_MODE_FIELDS)"
proof (cases "lookup_endpoint find_endpoint endpoint_id")
  case None
  then show ?thesis
    by (simp add: effective_sync_modes_for_endpoint_def global_sync_modes_def global_mode_def Let_def)
next
  case (Some endpoint)
  then show ?thesis
    unfolding effective_sync_modes_for_endpoint_def Let_def
    by (simp, intro rmap_Inr) (simp add: effective_mode_of)
qed

text \<open>With the plugin settings available, the modes resolved for an endpoint cover exactly the
  sync-mode fields, in order, and each is the endpoint's own value when it has one and the
  plugin-wide value otherwise; an absent or unknown endpoint gets the plugin-wide modes.\<close>

theorem sync_modes_override_then_global:
  "effective_sync_modes_for_endpoint (Some settings) find_endpoint endpoint_id =
     Inr (map (\<lambda>f. (f,
            (case lookup_endpoint find_endpoint endpoint_id of
               None \<Rightarrow> global_mode settings f
             | Some endpoint \<Rightarrow>
                 if truthy (attr_value endpoint f) then py_str (attr_value endpoint f)
                 else global_mode settings f))) SYNC_MODE_FIELDS)"
  by (rule sync_modes_eq)

text \<open>The parameters inferred from a targeted VM job name name exactly the VM in it, for every
  VM number, and drive the three VM stages.\<close>

theorem targeted_job_name_roundtrip:
  "infer_targeted_vm_job_params (PStr (targeted_vm_job_prefix @ str_of_nat n)) =
     Some [(''sync_types'', PList [PStr VIRTUAL_MACHINES, PStr VM_BACKUPS, PStr VM_SNAPSHOTS]),
           (''proxmox_endpoint_ids'', PList []), (''netbox_endpoint_ids'', PList []),
           (''netbox_vm_ids'', PList [PStr (str_of_nat n)])]"
proof -
  have last: "\<not> is_space (last (targeted_vm_job_prefix @ str_of_nat n))"
    using str_of_nat_digits[of n] str_of_nat_ne[of n]
    by (metis digit_not_space last_appendR last_in_set list_all_iff)
  have "strip (targeted_vm_job_prefix @ str_of_nat n) = targeted_vm_job_prefix @ str_of_nat n"
    unfolding strip_def
    by (subst lstrip_no_space)
      (use last in \<open>simp_all add: rstrip_no_space targeted_vm_job_prefix_def is_space_def\<close>)
  moreover have "all_digits (str_of_nat n)"
    using str_of_nat_digits[of n] by (simp add: all_digits_def)
  ultimately show ?thesis
    by (simp add: infer_targeted_vm_job_params_def text_or_empty_def targeted_vm_sync_types_def)
qed

end
