(* ===== verification/Sync_Modes.thy ===== *)
theory Sync_Modes
  imports Sync_Params
begin

text \<open>
  The per-resource sync modes of \<open>netbox_proxbox/sync_stages.py\<close>: the parent-child cascade of
  disabled modes and the stages it skips. The module-level variables \<open>sync_mode_*\<close> are the
  state \<open>mode_vars\<close>, an association list by field name.
\<close>

section \<open>The cascade\<close>

type_synonym mode_vars = "(string \<times> string) list"

definition DISABLED :: string where "DISABLED = ''disabled''"
definition ALWAYS :: string where "ALWAYS = ''always''"
definition BOOTSTRAP_ONLY :: string where "BOOTSTRAP_ONLY = ''bootstrap_only''"

lemmas mode_defs = DISABLED_def ALWAYS_def BOOTSTRAP_ONLY_def

definition SYNC_MODE_HIERARCHY :: "(string \<times> string) list" where
  "SYNC_MODE_HIERARCHY =
     [(''node'', ''cluster''), (''vm_interface'', ''vm''), (''ip_address'', ''vm_interface''),
      (''mac'', ''vm_interface''), (''sdn_bgp'', ''sdn'')]"

definition initial_mode_vars :: mode_vars where
  "initial_mode_vars =
     [(''sync_mode_vm'', ALWAYS), (''sync_mode_vm_template'', ALWAYS),
      (''sync_mode_vm_interface'', ALWAYS), (''sync_mode_mac'', ALWAYS),
      (''sync_mode_cluster'', ALWAYS), (''sync_mode_node'', ALWAYS),
      (''sync_mode_storage'', ALWAYS), (''sync_mode_ip_address'', ALWAYS),
      (''sync_mode_sdn'', DISABLED), (''sync_mode_sdn_bgp'', DISABLED)]"

text \<open>\<open>modes.get(field) or default\<close>.\<close>

definition mode_or_default :: "mode_vars \<Rightarrow> string \<Rightarrow> string" where
  "mode_or_default modes field_name =
     (case map_of modes field_name of
        None \<Rightarrow> default_sync_mode field_name
      | Some m \<Rightarrow> if m = [] then default_sync_mode field_name else m)"

definition set_sync_mode_vars :: "mode_vars \<Rightarrow> mode_vars \<Rightarrow> mode_vars" where
  "set_sync_mode_vars modes vars =
     fold (\<lambda>f. AList.update f (mode_or_default modes f)) SYNC_MODE_FIELDS vars"

definition resource_mode :: "mode_vars \<Rightarrow> string \<Rightarrow> string" where
  "resource_mode raw_modes resource_type = mode_or_default raw_modes (''sync_mode_'' @ resource_type)"

definition vm_parent_disabled :: "mode_vars \<Rightarrow> bool" where
  "vm_parent_disabled raw_modes \<longleftrightarrow>
     resource_mode raw_modes ''vm'' = DISABLED \<and> resource_mode raw_modes ''vm_template'' = DISABLED"

function effective_resource_mode :: "mode_vars \<Rightarrow> string \<Rightarrow> string set \<Rightarrow> string" where
  "effective_resource_mode raw_modes resource_type seen =
     (let raw_mode = resource_mode raw_modes resource_type in
      if raw_mode = DISABLED then DISABLED
      else if resource_type \<in> seen then raw_mode
      else
        (case map_of SYNC_MODE_HIERARCHY resource_type of
           None \<Rightarrow> raw_mode
         | Some parent \<Rightarrow>
             if parent = ''vm'' then (if vm_parent_disabled raw_modes then DISABLED else raw_mode)
             else if effective_resource_mode raw_modes parent (insert resource_type seen) = DISABLED
               then DISABLED
             else raw_mode))"
  by pat_completeness auto
termination
proof (relation "measure (\<lambda>(raw, rt, seen). card (set (map fst SYNC_MODE_HIERARCHY) - seen))", goal_cases)
  case 1
  then show ?case by simp
next
  case (2 raw_modes resource_type seen raw_mode parent)
  then have "resource_type \<in> set (map fst SYNC_MODE_HIERARCHY)" and "resource_type \<notin> seen"
    by (auto simp: map_of_eq_Some_iff dest!: map_of_SomeD intro: rev_image_eqI)
  then have "set (map fst SYNC_MODE_HIERARCHY) - insert resource_type seen
      \<subset> set (map fst SYNC_MODE_HIERARCHY) - seen" by blast
  then show ?case by (simp add: psubset_card_mono)
qed

declare effective_resource_mode.simps [simp del]

definition effective_sync_modes :: "mode_vars \<Rightarrow> mode_vars" where
  "effective_sync_modes raw_modes =
     map (\<lambda>f. (f, effective_resource_mode raw_modes (removeprefix ''sync_mode_'' f) {})) SYNC_MODE_FIELDS"

definition active_sync_modes :: "mode_vars \<Rightarrow> mode_vars" where
  "active_sync_modes vars =
     effective_sync_modes (map (\<lambda>f. (f, mode_or_default vars f)) SYNC_MODE_FIELDS)"

definition sync_mode_for_resource :: "mode_vars \<Rightarrow> string \<Rightarrow> string" where
  "sync_mode_for_resource vars resource_type =
     (case map_of (active_sync_modes vars) (''sync_mode_'' @ resource_type) of
        None \<Rightarrow> ALWAYS | Some m \<Rightarrow> m)"

text \<open>The tag slugs of an object; None for an object without tags or whose tag query fails.\<close>

definition has_bootstrap_only_tag :: "string list option \<Rightarrow> bool" where
  "has_bootstrap_only_tag tags = (case tags of None \<Rightarrow> False | Some slugs \<Rightarrow> ''bootstrap-only'' \<in> set slugs)"

definition bootstrap_only_should_skip_existing :: "string list option \<Rightarrow> string \<Rightarrow> bool" where
  "bootstrap_only_should_skip_existing tags m \<longleftrightarrow> m = BOOTSTRAP_ONLY \<and> has_bootstrap_only_tag tags"

definition stage_resource_map :: "(string \<times> string) list" where
  "stage_resource_map =
     [(DEVICES, ''node''), (NETWORK_INTERFACES, ''node''), (STORAGE, ''storage''),
      (VM_INTERFACES, ''vm_interface''), (IP_ADDRESSES, ''ip_address''), (SDN, ''sdn'')]"

definition stage_skip_reason :: "mode_vars \<Rightarrow> string \<Rightarrow> string option" where
  "stage_skip_reason vars sync_type =
     (let vm_disabled = sync_mode_for_resource vars ''vm'' = DISABLED;
          template_disabled = sync_mode_for_resource vars ''vm_template'' = DISABLED;
          by_vm =
            (if sync_type = VIRTUAL_MACHINES \<and> vm_disabled \<and> template_disabled
             then Some ''sync_mode_vm=disabled and sync_mode_vm_template=disabled''
             else if sync_type \<in> {VM_DISKS, VM_BACKUPS, VM_SNAPSHOTS} \<and> vm_disabled \<and> template_disabled
             then Some ''VM and VM template sync modes are disabled''
             else None)
      in case map_of stage_resource_map sync_type of
           Some resource_type \<Rightarrow>
             if sync_mode_for_resource vars resource_type = DISABLED
             then Some (''sync_mode_'' @ resource_type @ ''=disabled'') else by_vm
         | None \<Rightarrow> by_vm)"

section \<open>The cascade is the closure of disabled ancestors\<close>

text \<open>The specification: a resource is blocked when it is disabled itself, when its parent is
  blocked, or when it hangs off virtual machines and both VM modes are disabled.\<close>

inductive blocked :: "mode_vars \<Rightarrow> string \<Rightarrow> bool" for raw where
  own: "resource_mode raw rt = DISABLED \<Longrightarrow> blocked raw rt"
| vms: "map_of SYNC_MODE_HIERARCHY rt = Some ''vm'' \<Longrightarrow> vm_parent_disabled raw \<Longrightarrow> blocked raw rt"
| parent: "map_of SYNC_MODE_HIERARCHY rt = Some p \<Longrightarrow> p \<noteq> ''vm'' \<Longrightarrow> blocked raw p \<Longrightarrow> blocked raw rt"

inductive_simps blocked_iff: "blocked raw rt"

lemma hierarchy_parent:
  "map_of SYNC_MODE_HIERARCHY rt = Some p \<Longrightarrow> p \<noteq> ''vm'' \<Longrightarrow>
     p = ''cluster'' \<or> p = ''sdn'' \<or> p = ''vm_interface''"
  by (auto simp: SYNC_MODE_HIERARCHY_def split: if_splits)

lemma hierarchy_roots:
  "map_of SYNC_MODE_HIERARCHY ''cluster'' = None" "map_of SYNC_MODE_HIERARCHY ''sdn'' = None"
  "map_of SYNC_MODE_HIERARCHY ''vm'' = None" "map_of SYNC_MODE_HIERARCHY ''vm_template'' = None"
  "map_of SYNC_MODE_HIERARCHY ''storage'' = None"
  "map_of SYNC_MODE_HIERARCHY ''vm_interface'' = Some ''vm''"
  "map_of SYNC_MODE_HIERARCHY ''ip_address'' = Some ''vm_interface''"
  "map_of SYNC_MODE_HIERARCHY ''node'' = Some ''cluster''"
  by (simp_all add: SYNC_MODE_HIERARCHY_def)

lemma effective_parent:
  assumes "map_of SYNC_MODE_HIERARCHY rt = Some p" and "p \<noteq> ''vm''"
  shows "effective_resource_mode raw p {rt} = DISABLED \<longleftrightarrow> blocked raw p"
proof -
  have "p \<noteq> rt" using assms hierarchy_parent[OF assms] hierarchy_roots by auto
  with hierarchy_parent[OF assms] show ?thesis
    unfolding effective_resource_mode.simps[of raw p] blocked_iff[of raw p]
    by (elim disjE) (simp_all add: hierarchy_roots Let_def)
qed

lemma effective_eq_blocked:
  "effective_resource_mode raw rt {} = (if blocked raw rt then DISABLED else resource_mode raw rt)"
proof (cases "map_of SYNC_MODE_HIERARCHY rt")
  case None
  then show ?thesis by (simp add: effective_resource_mode.simps blocked_iff[of raw rt] Let_def)
next
  case (Some p)
  show ?thesis
  proof (cases "p = ''vm''")
    case True
    with Some show ?thesis
      by (simp add: effective_resource_mode.simps blocked_iff[of raw rt] Let_def)
  next
    case False
    with Some effective_parent[OF Some False] show ?thesis
      by (simp add: effective_resource_mode.simps[of raw rt] blocked_iff[of raw rt] Let_def)
  qed
qed


section \<open>Skipped stages\<close>

lemma field_of_resource:
  "rt \<in> {''vm'', ''vm_template'', ''vm_interface'', ''ip_address'', ''node'', ''cluster'', ''storage'', ''sdn''}
     \<Longrightarrow> ''sync_mode_'' @ rt \<in> set SYNC_MODE_FIELDS \<and> removeprefix ''sync_mode_'' (''sync_mode_'' @ rt) = rt"
  by (auto simp: SYNC_MODE_FIELDS_def SYNC_MODE_FIELD_GROUPS_def removeprefix_def startswith_def)

abbreviation raw_of :: "mode_vars \<Rightarrow> mode_vars" where
  "raw_of vars \<equiv> map (\<lambda>f. (f, mode_or_default vars f)) SYNC_MODE_FIELDS"

lemma sync_mode_for_resource_eq:
  assumes "rt \<in> {''vm'', ''vm_template'', ''vm_interface'', ''ip_address'', ''node'', ''cluster'',
             ''storage'', ''sdn''}"
  shows "sync_mode_for_resource vars rt = effective_resource_mode (raw_of vars) rt {}"
  using field_of_resource[OF assms]
  by (simp add: sync_mode_for_resource_def active_sync_modes_def effective_sync_modes_def global_mode_of)

lemma mode_disabled_iff:
  assumes "rt \<in> {''vm'', ''vm_template'', ''vm_interface'', ''ip_address'', ''node'', ''cluster'',
             ''storage'', ''sdn''}"
  shows "sync_mode_for_resource vars rt = DISABLED \<longleftrightarrow> blocked (raw_of vars) rt"
  using blocked.own[of "raw_of vars" rt]
  unfolding sync_mode_for_resource_eq[OF assms] effective_eq_blocked by auto

lemma both_vms_blocked:
  "blocked raw ''vm'' \<Longrightarrow> blocked raw ''vm_template'' \<Longrightarrow> vm_parent_disabled raw"
  unfolding blocked_iff[of raw "''vm''"] blocked_iff[of raw "''vm_template''"]
  by (simp add: hierarchy_roots vm_parent_disabled_def)

text \<open>No dependent stage runs below a skipped one: when the sync modes skip the virtual machine
  stage they also skip disks, backups, snapshots, VM interfaces and IP addresses, when they skip VM
  interfaces they skip IP addresses, and devices and node interfaces are skipped together.\<close>

theorem skipped_stage_skips_dependents:
  "(stage_skip_reason vars VIRTUAL_MACHINES \<noteq> None \<longrightarrow>
      stage_skip_reason vars VM_DISKS \<noteq> None \<and> stage_skip_reason vars VM_BACKUPS \<noteq> None
      \<and> stage_skip_reason vars VM_SNAPSHOTS \<noteq> None \<and> stage_skip_reason vars VM_INTERFACES \<noteq> None)
   \<and> (stage_skip_reason vars VM_INTERFACES \<noteq> None \<longrightarrow> stage_skip_reason vars IP_ADDRESSES \<noteq> None)
   \<and> (stage_skip_reason vars DEVICES \<noteq> None \<longleftrightarrow> stage_skip_reason vars NETWORK_INTERFACES \<noteq> None)"
proof -
  have vmi: "blocked (raw_of vars) ''vm_interface''"
    if "blocked (raw_of vars) ''vm''" "blocked (raw_of vars) ''vm_template''"
    using both_vms_blocked[OF that] by (intro blocked.vms) (simp_all add: hierarchy_roots)
  have ip: "blocked (raw_of vars) ''ip_address''" if "blocked (raw_of vars) ''vm_interface''"
    by (rule blocked.parent[of _ "''vm_interface''"]) (simp_all add: hierarchy_roots that)
  show ?thesis
    using vmi ip by (simp add: stage_skip_reason_def stage_resource_map_def mode_disabled_iff Let_def)
qed

theorem skipped_stage_skips_dependents_witness:
  "stage_skip_reason [(''sync_mode_vm'', ''disabled''), (''sync_mode_vm_template'', ''disabled'')]
      VIRTUAL_MACHINES \<noteq> None
   \<and> stage_skip_reason [(''sync_mode_vm'', ''disabled''), (''sync_mode_vm_template'', ''disabled'')]
      IP_ADDRESSES \<noteq> None"
proof -
  let ?v = "[(''sync_mode_vm'', ''disabled''), (''sync_mode_vm_template'', ''disabled'')]"
  have "stage_skip_reason ?v VIRTUAL_MACHINES \<noteq> None" by code_simp
  with skipped_stage_skips_dependents[of ?v] show ?thesis by blast
qed

end
