(* ===== verification/Endpoint_Resolution.thy ===== *)
theory Endpoint_Resolution
  imports Vm_Identity
begin

text \<open>
  The identity checks of \<open>netbox_proxbox/views/backend_sync.py\<close> and
  \<open>services/endpoint_enabled.py\<close>: which backend row may stand for a plugin endpoint. A row is
  located by the immutable \<open>(nb:<pk>)\<close> suffix of its name and used only when the host and port
  it dials are the endpoint's own. \<open>listing\<close> is the answer of the backend's list call: the
  decoded JSON, or an error text. \<open>approved\<close> is the connection-approval decision of
  \<open>services/connection_authority.py\<close>.
\<close>

section \<open>Names and targets\<close>

definition endswith :: "string \<Rightarrow> string \<Rightarrow> bool" where
  "endswith p s \<longleftrightarrow> length p \<le> length s \<and> drop (length s - length p) s = p"

text \<open>\<open>getattr(endpoint, "pk", getattr(endpoint, "id", None))\<close>.\<close>

definition endpoint_pk :: "pyval \<Rightarrow> pyval" where
  "endpoint_pk endpoint = getattr_or endpoint ''pk'' (attr_value endpoint ''id'')"

definition endpoint_is_enabled :: "pyval \<Rightarrow> bool" where
  "endpoint_is_enabled endpoint = truthy (getattr_or endpoint ''enabled'' (PBool True))"

definition pk_suffix :: "pyval \<Rightarrow> string" where
  "pk_suffix pk = ''(nb:'' @ py_str pk @ '')''"

definition proxmox_backend_name :: "pyval \<Rightarrow> string" where
  "proxmox_backend_name endpoint =
     (let nm = getattr_or endpoint ''name'' (PStr []);
          s = strip (if truthy nm then py_str nm else ''Proxmox Endpoint'');
          base_name = (if s \<noteq> [] then s else ''Proxmox Endpoint'');
          endpoint_id = endpoint_pk endpoint
      in if endpoint_id \<noteq> PNone then base_name @ '' '' @ pk_suffix endpoint_id else base_name)"

definition connection_target :: "string \<times> string \<Rightarrow> string" where
  "connection_target di = (if fst di \<noteq> [] then fst di else snd di)"

definition normal_domain :: "pyval \<Rightarrow> string" where
  "normal_domain v = str_lower (rstrip_char (CHR ''.'') (strip (text_or_empty v)))"

definition normal_address :: "string \<Rightarrow> string" where
  "normal_address s = str_lower (strip (fst (partition_char (CHR ''/'') s)))"

definition proxmox_identity_host :: "(string \<times> pyval) list \<Rightarrow> string \<times> string" where
  "proxmox_identity_host row =
     (normal_domain (dget row ''domain''), normal_address (text_or_empty (dget row ''ip_address'')))"

definition proxmox_endpoint_identity :: "pyval \<Rightarrow> string \<times> string" where
  "proxmox_endpoint_identity endpoint =
     (let domain = normal_domain (attr_value endpoint ''domain'');
          ip_obj = attr_value endpoint ''ip_address''
      in if ip_obj = PNone then (domain, [])
         else
           let raw_address = attr_value ip_obj ''address'';
               ip_text = py_str (if raw_address \<noteq> PNone then raw_address else ip_obj)
           in (domain, normal_address ip_text))"

definition proxmox_endpoint_target :: "pyval \<Rightarrow> (string \<times> int) option" where
  "proxmox_endpoint_target endpoint =
     (let host = connection_target (proxmox_endpoint_identity endpoint) in
      if host = [] then None
      else
        let port = getattr_or endpoint ''port'' (PInt 8006)
        in map_option (Pair host) (int_of_pyval (if truthy port then port else PInt 8006)))"

definition proxmox_row_target :: "(string \<times> pyval) list \<Rightarrow> (string \<times> int) option" where
  "proxmox_row_target row =
     (let host = connection_target (proxmox_identity_host row) in
      if host = [] then None
      else (case map_of row ''port'' of None \<Rightarrow> None | Some p \<Rightarrow> map_option (Pair host) (int_of_pyval p)))"

definition describe_target :: "string \<times> int \<Rightarrow> string" where
  "describe_target t = fst t @ '':'' @ str_of_int (snd t)"

definition proxmox_targets_match :: "pyval \<Rightarrow> (string \<times> pyval) list \<Rightarrow> bool" where
  "proxmox_targets_match endpoint row \<longleftrightarrow>
     (let want = proxmox_endpoint_target endpoint in want \<noteq> None \<and> want = proxmox_row_target row)"

section \<open>Resolving a row\<close>

definition backend_rows_for_endpoint ::
  "(string \<times> pyval) list list \<Rightarrow> pyval \<Rightarrow> (string \<times> pyval) list list" where
  "backend_rows_for_endpoint rows endpoint =
     (let endpoint_id = endpoint_pk endpoint in
      if endpoint_id = PNone then []
      else filter (\<lambda>item. endswith (pk_suffix endpoint_id) (strip (text_or_empty (dget item ''name'')))) rows)"

definition backend_row_for_endpoint ::
  "(string \<times> pyval) list list \<Rightarrow> pyval \<Rightarrow> (string \<times> pyval) list option" where
  "backend_row_for_endpoint rows endpoint =
     (case backend_rows_for_endpoint rows endpoint of [row] \<Rightarrow> Some row | _ \<Rightarrow> None)"

definition int_or_none :: "pyval \<Rightarrow> int option" where
  "int_or_none v = (if v = PNone then None else int_of_pyval v)"

definition quoted :: "string \<Rightarrow> string" where
  "quoted s = [CHR 0x27] @ s @ [CHR 0x27]"

text \<open>\<open>_resolve_backend_row_id\<close>: \<open>Inr\<close> the backend id, or \<open>Inl\<close> why it must not be used.\<close>

definition resolve_backend_row_id :: "(string \<times> pyval) list list \<Rightarrow> pyval \<Rightarrow> string + int" where
  "resolve_backend_row_id rows endpoint =
     (let target_name = proxmox_backend_name endpoint;
          subject = ''Proxmox endpoint '' @ quoted target_name
      in case backend_rows_for_endpoint rows endpoint of
           _ # _ # _ \<Rightarrow> Inl (''Multiple ProxBox backend rows claim immutable identity nb:''
                        @ py_str (attr_value endpoint ''pk'') @ ''; refusing to choose one.'')
         | [] \<Rightarrow> Inl (subject @ '' is not registered on the ProxBox ''
                        @ ''backend yet; cannot scope sync to a single endpoint.'')
         | [row] \<Rightarrow>
             (case proxmox_endpoint_target endpoint of
                None \<Rightarrow> Inl (subject @ '' resolves no host or port in ''
                          @ ''NetBox, so its ProxBox backend row cannot be confirmed to point at ''
                          @ ''it; set a domain or IP address on the endpoint.'')
              | Some want \<Rightarrow>
                  (case proxmox_row_target row of
                     None \<Rightarrow> Inl (subject @ '' is registered on the ProxBox ''
                        @ ''backend, but the stored row resolves no host or port, so it cannot ''
                        @ ''be confirmed to still point at '' @ describe_target want @ ''. Refusing ''
                        @ ''to use it so this endpoint is not synced from the wrong Proxmox ''
                        @ ''host.'')
                   | Some got \<Rightarrow>
                       if want \<noteq> got then Inl (subject @ '' is registered on the ProxBox ''
                        @ ''backend, but the backend'' @ [CHR 0x27] @ ''s stored copy points at ''
                        @ describe_target got @ '' instead of '' @ describe_target want @ ''. ''
                        @ ''Refusing to use it so this endpoint is not synced from the wrong ''
                        @ ''Proxmox host; re-run once the endpoint push to the backend ''
                        @ ''succeeds.'')
                       else
                         (case int_or_none (dget row ''id'') of
                            None \<Rightarrow> Inl (subject @ '' is registered on the ProxBox ''
                               @ ''backend but carries no usable id; cannot scope sync to a single ''
                               @ ''endpoint.'')
                          | Some backend_id \<Rightarrow> Inr backend_id))))"

definition list_backend_proxmox_endpoints :: "string + pyval \<Rightarrow> string + (string \<times> pyval) list list" where
  "list_backend_proxmox_endpoints listing =
     (case listing of
        Inl err \<Rightarrow> Inl err
      | Inr (PList items) \<Rightarrow>
          Inr (concat (map (\<lambda>i. case i of PDict d \<Rightarrow> [d] | _ \<Rightarrow> []) items))
      | Inr _ \<Rightarrow> Inl ''ProxBox backend returned invalid endpoint list payload.'')"

text \<open>\<open>resolve_backend_endpoint_ids\<close>: the map from plugin keys to backend ids, or the error
  of the list call; a key that occurs twice keeps its last id.\<close>

fun resolve_rows ::
  "(string \<times> pyval) list list \<Rightarrow> pyval list \<Rightarrow> (int \<times> int) list \<Rightarrow> (int \<times> int) list result" where
  "resolve_rows rows [] mapping = Inr mapping"
| "resolve_rows rows (endpoint # endpoints) mapping =
     (let pk = endpoint_pk endpoint in
      if pk = PNone then resolve_rows rows endpoints mapping
      else
        (case resolve_backend_row_id rows endpoint of
           Inl skip_reason \<Rightarrow> resolve_rows rows endpoints mapping
         | Inr backend_id \<Rightarrow>
             (case int_of_pyval pk of
                None \<Rightarrow> Inl (ValueError ''invalid literal for int()'')
              | Some i \<Rightarrow> resolve_rows rows endpoints (AList.update i backend_id mapping))))"

definition resolve_backend_endpoint_ids ::
  "string + pyval \<Rightarrow> pyval list \<Rightarrow> ((int \<times> int) list \<times> string option) result" where
  "resolve_backend_endpoint_ids listing endpoints =
     (let enabled = filter endpoint_is_enabled endpoints in
      if enabled = [] then Inr ([], None)
      else (case list_backend_proxmox_endpoints listing of
              Inl list_error \<Rightarrow> Inr ([], Some list_error)
            | Inr rows \<Rightarrow> rbind (resolve_rows rows enabled []) (\<lambda>m. Inr (m, None))))"

section \<open>The NetBox endpoint\<close>

definition netbox_endpoint_identity :: "pyval \<Rightarrow> string \<times> string" where
  "netbox_endpoint_identity endpoint =
     (let ip_obj = attr_value endpoint ''ip_address''
      in (normal_domain (attr_value endpoint ''domain''),
          if ip_obj = PNone then [] else normal_address (text_or_empty (attr_value ip_obj ''address''))))"

definition netbox_row_is_current :: "pyval \<Rightarrow> (string \<times> pyval) list \<Rightarrow> bool" where
  "netbox_row_is_current endpoint row \<longleftrightarrow>
     (let want_verify_ssl = truthy (getattr_or endpoint ''verify_ssl'' (PBool True));
          tv = getattr_or endpoint ''effective_token_version'' (PStr ''v1'');
          want_token_version = strip (if truthy tv then py_str tv else ''v1'')
      in if map_of row ''verify_ssl'' = None \<or> map_of row ''token_version'' = None then False
         else if truthy (dget row ''verify_ssl'') \<noteq> want_verify_ssl then False
         else strip (text_or_empty (dget row ''token_version'')) = want_token_version)"

definition netbox_row_matches :: "pyval \<Rightarrow> string \<Rightarrow> int \<Rightarrow> pyval \<Rightarrow> bool" where
  "netbox_row_matches endpoint want_target want_port item \<longleftrightarrow>
     (case item of
        PDict row \<Rightarrow>
          (let got_target = connection_target (proxmox_identity_host row)
           in got_target \<noteq> [] \<and> got_target = want_target
              \<and> (case map_of row ''port'' of None \<Rightarrow> False | Some p \<Rightarrow> int_of_pyval p = Some want_port)
              \<and> netbox_row_is_current endpoint row)
      | _ \<Rightarrow> False)"

definition backend_holds_netbox_endpoint :: "bool \<Rightarrow> pyval \<Rightarrow> pyval list option \<Rightarrow> bool" where
  "backend_holds_netbox_endpoint approved endpoint existing \<longleftrightarrow>
     (case existing of
        None \<Rightarrow> False
      | Some items \<Rightarrow>
          (if \<not> approved \<or> items = [] then False
           else if length items > 1 then False
           else
             let want_target = connection_target (netbox_endpoint_identity endpoint);
                 port = getattr_or endpoint ''port'' (PInt 443)
             in if want_target = [] then False
                else (case int_of_pyval (if truthy port then port else PInt 443) of
                        None \<Rightarrow> False
                      | Some want_port \<Rightarrow>
                          list_ex (netbox_row_matches endpoint want_target want_port) items)))"

section \<open>Properties\<close>

lemma endswith_iff: "endswith p s \<longleftrightarrow> (\<exists>t. s = t @ p)"
proof
  assume "endswith p s"
  then have "s = take (length s - length p) s @ p"
    by (metis append_take_drop_id endswith_def)
  then show "\<exists>t. s = t @ p" ..
qed (auto simp: endswith_def)

lemma paren_split:
  assumes "CHR ''('' \<notin> set a" and "CHR ''('' \<notin> set b" and "t @ CHR ''('' # a = u @ CHR ''('' # b"
  shows "a = b"
proof -
  have "takeWhile (\<lambda>c. c \<noteq> CHR ''('') (rev a @ CHR ''('' # rev t) = rev a"
    using assms(1) by (subst takeWhile_append2) auto
  moreover have "takeWhile (\<lambda>c. c \<noteq> CHR ''('') (rev b @ CHR ''('' # rev u) = rev b"
    using assms(2) by (subst takeWhile_append2) auto
  moreover have "rev a @ CHR ''('' # rev t = rev b @ CHR ''('' # rev u"
    using arg_cong[OF assms(3), of rev] by simp
  ultimately show ?thesis by (metis rev_rev_ident)
qed

lemma str_of_int_inj: "str_of_int i = str_of_int j \<Longrightarrow> i = j"
proof -
  have hd: "hd (str_of_nat n) \<noteq> CHR ''-''" for n
    using str_of_nat_digits[of n] hd_digit_not_sign by (cases "str_of_nat n") auto
  assume "str_of_int i = str_of_int j"
  then show "i = j"
    using hd[of "nat i"] hd[of "nat j"] str_of_nat_inj[of "nat i" "nat j"]
      str_of_nat_inj[of "nat (- i)" "nat (- j)"]
    by (auto simp: str_of_int_def split: if_splits) (metis list.sel(1))+
qed

lemma paren_not_in_int: "CHR ''('' \<notin> set (str_of_int i @ '')'')"
proof -
  have "\<not> is_digit (CHR ''('')" by (simp add: is_digit_def)
  then have "CHR ''('' \<notin> set (str_of_nat n)" for n
    using str_of_nat_digits[of n] by (auto simp: list_all_iff)
  then show ?thesis by (auto simp: str_of_int_def)
qed

lemma suffix_identifies:
  assumes "endswith (pk_suffix (PInt i)) s" and "endswith (pk_suffix (PInt j)) s"
  shows "i = j"
proof -
  from assms obtain t u where
    "t @ ''(nb:'' @ str_of_int i @ '')'' = u @ ''(nb:'' @ str_of_int j @ '')''"
    by (auto simp: endswith_iff pk_suffix_def py_str_def)
  then have "''nb:'' @ str_of_int i @ '')'' = ''nb:'' @ str_of_int j @ '')''"
    using paren_split[of "''nb:'' @ str_of_int i @ '')''" "''nb:'' @ str_of_int j @ '')''" t u]
      paren_not_in_int[of i] paren_not_in_int[of j] by auto
  then show ?thesis using str_of_int_inj by simp
qed

lemma resolve_row_Inr:
  assumes "resolve_backend_row_id rows endpoint = Inr backend_id"
  obtains row where "backend_rows_for_endpoint rows endpoint = [row]"
    and "proxmox_endpoint_target endpoint \<noteq> None"
    and "proxmox_row_target row = proxmox_endpoint_target endpoint"
    and "int_or_none (dget row ''id'') = Some backend_id"
  using assms
  by (auto simp: resolve_backend_row_id_def Let_def split: list.splits option.splits if_splits)

text \<open>C8. A plugin endpoint is resolved to a backend id only through the one backend row whose name
  carries the endpoint's key, and only when that row dials exactly the endpoint's own host and
  port; a missing, duplicated, retargeted or unreadable row is refused.\<close>

theorem resolved_row_is_the_endpoint:
  assumes "resolve_backend_row_id rows endpoint = Inr backend_id"
  shows "\<exists>row. row \<in> set rows
     \<and> filter (\<lambda>r. endswith (pk_suffix (endpoint_pk endpoint)) (strip (text_or_empty (dget r ''name'')))) rows = [row]
     \<and> proxmox_targets_match endpoint row
     \<and> int_of_pyval (dget row ''id'') = Some backend_id"
proof -
  obtain row where row: "backend_rows_for_endpoint rows endpoint = [row]"
    "proxmox_endpoint_target endpoint \<noteq> None"
    "proxmox_row_target row = proxmox_endpoint_target endpoint"
    "int_or_none (dget row ''id'') = Some backend_id"
    using resolve_row_Inr[OF assms] .
  from row(1) have f: "filter (\<lambda>r. endswith (pk_suffix (endpoint_pk endpoint))
      (strip (text_or_empty (dget r ''name'')))) rows = [row]"
    by (auto simp: backend_rows_for_endpoint_def Let_def split: if_splits)
  have "set [row] \<subseteq> set rows" unfolding f[symmetric] by (rule filter_is_subset)
  then have "row \<in> set rows" by simp
  with f row show ?thesis
    by (auto simp: proxmox_targets_match_def int_or_none_def Let_def split: if_splits)
qed

definition demo_endpoint :: pyval where
  "demo_endpoint = PDict [(''pk'', PInt 4), (''name'', PStr ''lab''), (''domain'', PStr ''pve.example.''),
     (''port'', PInt 8006), (''enabled'', PBool True)]"

definition demo_row :: "(string \<times> pyval) list" where
  "demo_row = [(''id'', PInt 9), (''name'', PStr ''lab (nb:4)''), (''domain'', PStr ''PVE.example''),
     (''port'', PInt 8006)]"

theorem resolved_row_is_the_endpoint_witness:
  "resolve_backend_row_id [demo_row] demo_endpoint = Inr 9
   \<and> (\<exists>row. row \<in> set [demo_row] \<and> proxmox_targets_match demo_endpoint row)"
proof -
  have "resolve_backend_row_id [demo_row] demo_endpoint = Inr 9" by code_simp
  with resolved_row_is_the_endpoint[of "[demo_row]" demo_endpoint 9] show ?thesis by blast
qed

text \<open>C9. Two endpoints with different keys never resolve through the same backend row, so no row
  of the backend can be synchronised under two endpoints of NetBox.\<close>

theorem no_row_serves_two_endpoints:
  assumes "endpoint_pk e1 = PInt i" and "endpoint_pk e2 = PInt j" and "i \<noteq> j"
    and "row \<in> set (backend_rows_for_endpoint rows e1)"
  shows "row \<notin> set (backend_rows_for_endpoint rows e2)"
  using assms suffix_identifies[of i _ j] by (auto simp: backend_rows_for_endpoint_def)

theorem no_row_serves_two_endpoints_witness:
  "demo_row \<notin> set (backend_rows_for_endpoint [demo_row] (PDict [(''pk'', PInt 44)]))"
proof -
  have "demo_row \<in> set (backend_rows_for_endpoint [demo_row] demo_endpoint)" by code_simp
  moreover have "endpoint_pk demo_endpoint = PInt 4" by code_simp
  moreover have "endpoint_pk (PDict [(''pk'', PInt 44)]) = PInt 44" by code_simp
  ultimately show ?thesis
    using no_row_serves_two_endpoints[of demo_endpoint 4 "PDict [(''pk'', PInt 44)]" 44 demo_row "[demo_row]"]
    by simp
qed



end
