(* ===== verification/Sync_Stage_Exec.thy ===== *)
theory Sync_Stage_Exec
  imports Sync_Types
begin

text \<open>
  Execution of one sync stage (\<open>netbox_proxbox/sync_stages.py\<close>, \<open>services/retry_after.py\<close>,
  \<open>services/sync_deadline.py\<close>): which failures are transport failures, which are retried, after
  what delay, within which deadline, and what the stage reports. The backend stream is a list of
  replies with the monotonic clock readings around them; \<open>to_float\<close> is \<open>float(text)\<close> and
  \<open>parse_date\<close> the instant of an HTTP date, both None where Python raises. Log lines are not
  modelled.
\<close>

section \<open>Cause of a failure\<close>

definition transport_failure_markers :: "string list" where
  "transport_failure_markers =
     [''timed out'', ''timeout error'', ''timeouterror'', ''read timeout'', ''readtimeout'',
      ''connecttimeout'', ''connectiontimeout'', ''pooltimeout'', ''writetimeout'',
      ''gateway timeout'', ''gateway time-out'', ''connection refused'', ''connection reset'',
      ''connection aborted'', ''connection error'', ''cannot connect'', ''bad gateway'',
      ''server disconnected'', ''temporarily unavailable'', ''service unavailable'',
      ''network is unreachable'', ''name or service not known'',
      ''temporary failure in name resolution'', ''nodename nor servname provided'',
      ''failed to resolve'', ''max retries exceeded'', ''eof occurred in violation of protocol'',
      ''remote end closed connection'']"

definition error_cause_keys :: "string list" where
  "error_cause_keys = [''python_exception'', ''exception'', ''detail'', ''message'', ''error'']"

definition nested_cause_keys :: "string list" where
  "nested_cause_keys = error_cause_keys @ [''msg'']"

text \<open>\<open>_iter_cause_strings\<close>; \<open>levels\<close> is how many levels remain below the recursion limit,
  so depth \<open>n\<close> of the code is \<open>5 - n\<close> levels.\<close>

fun iter_cause_strings :: "nat \<Rightarrow> pyval \<Rightarrow> string list" where
  "iter_cause_strings 0 v = []"
| "iter_cause_strings (Suc levels) v =
     (case v of
        PStr s \<Rightarrow> [s]
      | PList xs \<Rightarrow> concat (map (iter_cause_strings levels) xs)
      | PDict d \<Rightarrow>
          concat (map (\<lambda>k. case map_of d k of None \<Rightarrow> [] | Some x \<Rightarrow> iter_cause_strings levels x)
            nested_cause_keys)
      | _ \<Rightarrow> [])"

definition cause_levels :: nat where "cause_levels = 5"

definition any_marker :: "string list \<Rightarrow> string \<Rightarrow> bool" where
  "any_marker markers haystack \<longleftrightarrow>
     list_ex (\<lambda>m. contains m (str_lower haystack)) markers"

definition names_transport_failure :: "(pyval \<Rightarrow> string) \<Rightarrow> pyval \<Rightarrow> bool" where
  "names_transport_failure dumps payload \<longleftrightarrow>
     any_marker transport_failure_markers
       (case payload of
          PDict d \<Rightarrow>
            str_join '' ''
              ((case extract_backend_error_text dumps d of Some t \<Rightarrow> t | None \<Rightarrow> [])
               # concat (map (\<lambda>k. case map_of d k of None \<Rightarrow> []
                                   | Some x \<Rightarrow> iter_cause_strings cause_levels x) error_cause_keys))
        | _ \<Rightarrow> py_str payload)"

definition is_retryable_stage_failure :: "(pyval \<Rightarrow> string) \<Rightarrow> int \<Rightarrow> pyval \<Rightarrow> bool" where
  "is_retryable_stage_failure dumps status payload \<longleftrightarrow>
     (if status \<ge> 500 \<or> status = 429 then True
      else if status \<noteq> 400 then False
      else names_transport_failure dumps payload)"

definition transport_attribution_markers :: "string list" where
  "transport_attribution_markers =
     [''tls error'', ''tls stream open failure'', ''ssl error'', ''sslerror'',
      ''certificate verify failed'', ''eof occurred in violation of protocol'',
      ''ended without a complete event'']"

definition names_transport_attribution :: "(pyval \<Rightarrow> string) \<Rightarrow> pyval \<Rightarrow> bool" where
  "names_transport_attribution dumps payload \<longleftrightarrow>
     any_marker transport_attribution_markers
       (case payload of
          PDict d \<Rightarrow> (case extract_backend_error_text dumps d of Some t \<Rightarrow> t | None \<Rightarrow> [])
        | _ \<Rightarrow> py_str payload)"

definition classify_by_cause :: "(pyval \<Rightarrow> string) \<Rightarrow> int \<Rightarrow> pyval \<Rightarrow> failure_class" where
  "classify_by_cause dumps status payload =
     (if names_transport_failure dumps payload \<or> names_transport_attribution dumps payload
      then Transport
      else if status \<in> {502, 503, 504} then Transport
      else Application)"

definition classify_stage_failure :: "(pyval \<Rightarrow> string) \<Rightarrow> int \<Rightarrow> pyval \<Rightarrow> failure_class" where
  "classify_stage_failure dumps status payload =
     (case payload of
        PDict d \<Rightarrow>
          (if dget d ''failure_kind'' = PStr ''transport'' then Transport
           else if dget d ''failure_kind'' = PStr ''application'' then Application
           else if map_of d ''response'' \<noteq> None then Application
           else classify_by_cause dumps status payload)
      | _ \<Rightarrow> classify_by_cause dumps status payload)"

section \<open>Retry delay and deadline\<close>

datatype pyfloat = Finite rat | Not_finite

definition parse_retry_after ::
  "(string \<Rightarrow> pyfloat option) \<Rightarrow> (string \<Rightarrow> rat option) \<Rightarrow> rat \<Rightarrow> pyval \<Rightarrow> rat \<Rightarrow> rat option" where
  "parse_retry_after to_float parse_date now v maximum =
     (let text = strip (py_str v) in
      case to_float text of
        Some Not_finite \<Rightarrow> None
      | Some (Finite seconds) \<Rightarrow> Some (min (max seconds 0) maximum)
      | None \<Rightarrow>
          (case parse_date text of
             None \<Rightarrow> None
           | Some retry_at \<Rightarrow> Some (min (max (retry_at - now) 0) maximum)))"

definition STAGE_RETRY_MAX :: nat where "STAGE_RETRY_MAX = 2"
definition STAGE_RETRY_INITIAL_DELAY :: rat where "STAGE_RETRY_INITIAL_DELAY = 8"
definition STAGE_RETRY_MAX_DELAY :: rat where "STAGE_RETRY_MAX_DELAY = 60"

record clock_env =
  to_float :: "string \<Rightarrow> pyfloat option"
  parse_date :: "string \<Rightarrow> rat option"
  wall_now :: rat

definition stage_retry_after :: "clock_env \<Rightarrow> pyval \<Rightarrow> rat option" where
  "stage_retry_after env payload =
     (case payload of
        PDict d \<Rightarrow>
          (let v = dget d ''retry_after'';
               v' = (if v = PNone then
                       (case dget d ''headers'' of
                          PDict h \<Rightarrow> py_or (dget h ''Retry-After'') (dget h ''retry-after'')
                        | _ \<Rightarrow> v)
                     else v)
           in parse_retry_after (to_float env) (parse_date env) (wall_now env) v' STAGE_RETRY_MAX_DELAY)
      | _ \<Rightarrow> None)"

definition stage_retry_delay :: "clock_env \<Rightarrow> pyval \<Rightarrow> nat \<Rightarrow> rat" where
  "stage_retry_delay env payload retry_index =
     (case stage_retry_after env payload of
        Some d \<Rightarrow> d
      | None \<Rightarrow> min (STAGE_RETRY_INITIAL_DELAY * 2 ^ retry_index) STAGE_RETRY_MAX_DELAY)"

record sync_job_deadline =
  expires_at :: rat
  reserve_seconds :: rat

definition deadline_remaining :: "sync_job_deadline \<Rightarrow> rat \<Rightarrow> rat" where
  "deadline_remaining d now = max (expires_at d - reserve_seconds d - now) 0"

definition deadline_cap :: "sync_job_deadline \<Rightarrow> rat \<Rightarrow> rat \<Rightarrow> rat" where
  "deadline_cap d seconds now = min (max seconds 0) (deadline_remaining d now)"

definition executable_expires_at :: "sync_job_deadline \<Rightarrow> rat" where
  "executable_expires_at d = expires_at d - reserve_seconds d"

definition deadline_timeout :: "sync_job_deadline \<Rightarrow> rat \<Rightarrow> rat \<Rightarrow> rat result" where
  "deadline_timeout d seconds now =
     (let remaining = deadline_remaining d now
      in if remaining \<le> 0 then Inl (RuntimeError ''Job deadline reached.'')
         else Inr (min (max seconds (1 / 1000)) remaining))"

definition remaining_timeout :: "rat option \<Rightarrow> rat \<Rightarrow> rat \<Rightarrow> rat result" where
  "remaining_timeout deadline ceil now =
     (case deadline of
        None \<Rightarrow> Inr ceil
      | Some t \<Rightarrow> if t - now \<le> 0 then Inl (RuntimeError ''Job deadline reached.'')
                  else Inr (min ceil (t - now)))"

section \<open>One stage\<close>

text \<open>\<open>round(x, 3)\<close>: to the nearest multiple of a thousandth, ties to even.\<close>

definition round3 :: "rat \<Rightarrow> rat" where
  "round3 x =
     (let y = 1000 * x; n = \<lfloor>y\<rfloor>; f = y - of_int n;
          m = (if f < 1 / 2 then n else if f > 1 / 2 then n + 1 else if even n then n else n + 1)
      in of_int m / 1000)"

text \<open>A reply of the stream with the clock readings before the attempt, at its start, at its end
  and before a retry.\<close>

record stage_reply =
  reply_payload :: "(string \<times> pyval) list"
  reply_status :: int
  at_check :: rat
  at_start :: rat
  at_end :: rat
  at_retry :: rat

text \<open>What a stage did: its outcome, the timeout of every request and the length of every sleep.\<close>

record stage_run =
  outcome :: "((string \<times> pyval) list \<times> rat) result"
  timeouts :: "rat list"
  sleeps :: "rat list"
  failed_attempts :: "stage_failure_attempt list"

definition stage_failure_of ::
  "(pyval \<Rightarrow> string) \<Rightarrow> nat \<Rightarrow> stage_reply \<Rightarrow> stage_failure_attempt" where
  "stage_failure_of dumps i r =
     \<lparr>attempt_index = i + 1, att_status = reply_status r,
      att_detail = (case extract_backend_error_text dumps (reply_payload r) of
                      Some t \<Rightarrow> t | None \<Rightarrow> py_str (PDict (reply_payload r))),
      classification = classify_stage_failure dumps (reply_status r) (PDict (reply_payload r)),
      elapsed = round3 (at_end r - at_start r), att_payload = reply_payload r\<rparr>"

definition backend_not_ready_attempt ::
  "stage_failure_attempt list \<Rightarrow> stage_failure_attempt option" where
  "backend_not_ready_attempt attempts =
     find (\<lambda>a. (att_status a = 503 \<or> att_status a = 404) \<and> contains ''init_ok'' (att_detail a)) attempts"

definition stage_failure_outcome ::
  "(pyval \<Rightarrow> string) \<Rightarrow> (string \<Rightarrow> pyval option) \<Rightarrow> string \<Rightarrow> string option
    \<Rightarrow> stage_failure_attempt list \<Rightarrow> ((string \<times> pyval) list \<times> rat) result" where
  "stage_failure_outcome dumps loads sync_type hint attempts =
     rbind (compose_stage_failure_message dumps loads sync_type attempts) (\<lambda>user_detail.
       Inl (RuntimeError
         (case hint of
            None \<Rightarrow> user_detail
          | Some h \<Rightarrow> if h = [] then user_detail else user_detail @ '' '' @ h)))"

text \<open>
  The attempt loop of \<open>_execute_stage_sync\<close> from attempt \<open>i\<close>, with \<open>left\<close> attempts left;
  \<open>replies i\<close> is what attempt \<open>i\<close> receives.
\<close>

fun stage_attempts ::
  "(pyval \<Rightarrow> string) \<Rightarrow> (string \<Rightarrow> pyval option) \<Rightarrow> clock_env \<Rightarrow> string \<Rightarrow> string option
    \<Rightarrow> sync_job_deadline option \<Rightarrow> rat \<Rightarrow> (nat \<Rightarrow> stage_reply) \<Rightarrow> nat \<Rightarrow> nat
    \<Rightarrow> stage_failure_attempt list \<Rightarrow> stage_run" where
  "stage_attempts dumps loads env sync_type hint dl started replies i 0 attempts =
     \<lparr>outcome = stage_failure_outcome dumps loads sync_type hint attempts,
      timeouts = [], sleeps = [], failed_attempts = attempts\<rparr>"
| "stage_attempts dumps loads env sync_type hint dl started replies i (Suc left) attempts =
     (let r = replies i;
          remaining = (case dl of None \<Rightarrow> 3600 | Some d \<Rightarrow> deadline_remaining d (at_check r))
      in if remaining \<le> 0
         then \<lparr>outcome = Inl (RuntimeError ''Job deadline reached before the stage could finish.''),
               timeouts = [], sleeps = [], failed_attempts = attempts\<rparr>
         else if reply_status r < 400
         then \<lparr>outcome = Inr (reply_payload r, round3 (at_end r - started)),
               timeouts = [min 3600 remaining], sleeps = [], failed_attempts = attempts\<rparr>
         else
           let attempts' = attempts @ [stage_failure_of dumps i r] in
           if is_retryable_stage_failure dumps (reply_status r) (PDict (reply_payload r))
              \<and> i < STAGE_RETRY_MAX
           then
             let delay0 = stage_retry_delay env (PDict (reply_payload r)) i;
                 delay = (case dl of None \<Rightarrow> delay0 | Some d \<Rightarrow> deadline_cap d delay0 (at_retry r))
             in if dl \<noteq> None \<and> delay \<le> 0
                then \<lparr>outcome = Inl (RuntimeError
                        ''Job deadline reached before the stage could be retried.''),
                      timeouts = [min 3600 remaining], sleeps = [], failed_attempts = attempts'\<rparr>
                else
                  let rest = stage_attempts dumps loads env sync_type hint dl started replies
                               (Suc i) left attempts'
                  in rest\<lparr>timeouts := min 3600 remaining # timeouts rest,
                          sleeps := delay # sleeps rest\<rparr>
           else \<lparr>outcome = stage_failure_outcome dumps loads sync_type hint attempts',
                 timeouts = [min 3600 remaining], sleeps = [], failed_attempts = attempts'\<rparr>)"

definition execute_stage_sync ::
  "(pyval \<Rightarrow> string) \<Rightarrow> (string \<Rightarrow> pyval option) \<Rightarrow> clock_env \<Rightarrow> string \<Rightarrow> string option
    \<Rightarrow> sync_job_deadline option \<Rightarrow> rat \<Rightarrow> (nat \<Rightarrow> stage_reply) \<Rightarrow> stage_run" where
  "execute_stage_sync dumps loads env sync_type hint dl started replies =
     stage_attempts dumps loads env sync_type hint dl started replies 0 (STAGE_RETRY_MAX + 1) []"

section \<open>Bounds\<close>

lemma parse_retry_after_bounds:
  "0 \<le> maximum \<Longrightarrow> parse_retry_after tf pd now v maximum = Some s \<Longrightarrow> 0 \<le> s \<and> s \<le> maximum"
  by (auto simp: parse_retry_after_def Let_def split: option.splits pyfloat.splits)

lemma stage_retry_delay_bounds:
  "0 \<le> stage_retry_delay env payload i \<and> stage_retry_delay env payload i \<le> STAGE_RETRY_MAX_DELAY"
proof (cases "stage_retry_after env payload")
  case None
  then show ?thesis
    by (simp add: stage_retry_delay_def STAGE_RETRY_INITIAL_DELAY_def STAGE_RETRY_MAX_DELAY_def)
next
  case (Some s)
  have "0 \<le> s \<and> s \<le> STAGE_RETRY_MAX_DELAY"
    using Some parse_retry_after_bounds[of STAGE_RETRY_MAX_DELAY]
    by (auto simp: stage_retry_after_def Let_def STAGE_RETRY_MAX_DELAY_def split: pyval.splits)
  with Some show ?thesis by (simp add: stage_retry_delay_def)
qed

lemma deadline_cap_bounds: "0 \<le> s \<Longrightarrow> 0 \<le> deadline_cap d s t \<and> deadline_cap d s t \<le> s"
  by (simp add: deadline_cap_def deadline_remaining_def)

definition sleep_ok :: "rat \<Rightarrow> bool" where
  "sleep_ok s \<longleftrightarrow> 0 \<le> s \<and> s \<le> STAGE_RETRY_MAX_DELAY"

definition timeout_ok :: "rat \<Rightarrow> bool" where
  "timeout_ok t \<longleftrightarrow> 0 < t \<and> t \<le> 3600"

lemma delay_ok:
  "sleep_ok (case dl of None \<Rightarrow> stage_retry_delay env p i
             | Some d \<Rightarrow> deadline_cap d (stage_retry_delay env p i) t)"
  using stage_retry_delay_bounds[of env p i] deadline_cap_bounds[of "stage_retry_delay env p i" _ t]
  by (auto simp: sleep_ok_def split: option.splits intro: order_trans)

lemma stage_attempts_bounds:
  "length (timeouts (stage_attempts dumps loads env st hint dl t0 replies i left atts)) \<le> left
   \<and> length (sleeps (stage_attempts dumps loads env st hint dl t0 replies i left atts)) \<le> STAGE_RETRY_MAX - i
   \<and> list_all timeout_ok (timeouts (stage_attempts dumps loads env st hint dl t0 replies i left atts))
   \<and> list_all sleep_ok (sleeps (stage_attempts dumps loads env st hint dl t0 replies i left atts))"
proof (induction left arbitrary: i atts)
  case 0
  then show ?case by simp
next
  case (Suc left)
  note IH = Suc.IH[of "Suc i" "atts @ [stage_failure_of dumps i (replies i)]"]
  show ?case
    using IH delay_ok[where dl = dl and env = env and p = "PDict (reply_payload (replies i))" and i = i
        and t = "at_retry (replies i)"]
    by (auto simp: Let_def timeout_ok_def split: option.splits)
qed

text \<open>C22. One stage makes at most three requests, each with a positive timeout of at most an hour,
  and sleeps at most twice, each time between zero and sixty seconds, whatever the backend replies
  and whatever \<open>Retry-After\<close> it asks for.\<close>

theorem stage_execution_bounded:
  "length (timeouts (execute_stage_sync dumps loads env st hint dl t0 replies)) \<le> 3
   \<and> length (sleeps (execute_stage_sync dumps loads env st hint dl t0 replies)) \<le> 2
   \<and> list_all timeout_ok (timeouts (execute_stage_sync dumps loads env st hint dl t0 replies))
   \<and> list_all sleep_ok (sleeps (execute_stage_sync dumps loads env st hint dl t0 replies))"
  using stage_attempts_bounds[of dumps loads env st hint dl t0 replies 0 "STAGE_RETRY_MAX + 1" "[]"]
  by (simp add: execute_stage_sync_def STAGE_RETRY_MAX_def)

section \<open>Outcome\<close>

definition retryable :: "(pyval \<Rightarrow> string) \<Rightarrow> stage_reply \<Rightarrow> bool" where
  "retryable dumps r \<longleftrightarrow> reply_status r \<ge> 400 \<and>
     is_retryable_stage_failure dumps (reply_status r) (PDict (reply_payload r))"

lemma failure_outcome_Inl: "\<exists>m. stage_failure_outcome dumps loads st hint atts = Inl m"
  by (cases "compose_stage_failure_message dumps loads st atts")
    (auto simp: stage_failure_outcome_def)

lemma failure_outcome_not_Inr: "stage_failure_outcome dumps loads st hint atts \<noteq> Inr x"
  using failure_outcome_Inl[of dumps loads st hint atts] by auto

text \<open>The first reply that the loop does not retry, among the attempts \<open>i\<close>, \<open>Suc i\<close>, \<dots>\<close>

fun settling_reply :: "(pyval \<Rightarrow> string) \<Rightarrow> (nat \<Rightarrow> stage_reply) \<Rightarrow> nat \<Rightarrow> nat \<Rightarrow> stage_reply" where
  "settling_reply dumps replies i 0 = replies i"
| "settling_reply dumps replies i (Suc left) =
     (if retryable dumps (replies i) then settling_reply dumps replies (Suc i) left else replies i)"

lemma stage_attempts_step:
  "outcome (stage_attempts dumps loads env st hint None t0 replies i (Suc left) atts) =
     (let r = replies i; atts' = atts @ [stage_failure_of dumps i r]
      in if retryable dumps r \<and> i < STAGE_RETRY_MAX
         then outcome (stage_attempts dumps loads env st hint None t0 replies (Suc i) left atts')
         else if reply_status r < 400 then Inr (reply_payload r, round3 (at_end r - t0))
         else stage_failure_outcome dumps loads st hint atts')"
  by (auto simp: Let_def retryable_def)

lemma stage_attempts_outcome:
  assumes "i + left = STAGE_RETRY_MAX"
  shows "\<exists>m. outcome (stage_attempts dumps loads env st hint None t0 replies i (Suc left) atts) =
     (let r = settling_reply dumps replies i left
      in if reply_status r < 400 then Inr (reply_payload r, round3 (at_end r - t0)) else Inl m)"
  using assms
proof (induction left arbitrary: i atts)
  case 0
  then show ?case using failure_outcome_Inl by (simp add: stage_attempts_step Let_def del: stage_attempts.simps)
next
  case (Suc left)
  let ?atts = "atts @ [stage_failure_of dumps i (replies i)]"
  from Suc.prems have i: "i < STAGE_RETRY_MAX" and "Suc i + left = STAGE_RETRY_MAX" by simp_all
  from Suc.IH[OF this(2), of ?atts] i show ?case
    using failure_outcome_Inl[of dumps loads st hint ?atts]
    by (subst stage_attempts_step) (simp add: Let_def retryable_def del: stage_attempts.simps)
qed

text \<open>Without a job deadline the stage's outcome is decided by the first reply that is not a
  retryable failure, or by the third reply: the stage succeeds exactly when that reply's status is
  below 400, with its payload; otherwise it raises.\<close>

theorem stage_outcome_of_settling_reply:
  "\<exists>m. outcome (execute_stage_sync dumps loads env st hint None t0 replies) =
     (let r = settling_reply dumps replies 0 2
      in if reply_status r < 400 then Inr (reply_payload r, round3 (at_end r - t0)) else Inl m)"
  using stage_attempts_outcome[of 0 2 dumps loads env st hint t0 replies "[]"]
  by (simp add: execute_stage_sync_def STAGE_RETRY_MAX_def numeral_2_eq_2 del: stage_attempts.simps)

text \<open>A genuine client rejection is never retried: a 4xx reply that is neither 429 nor a 400
  naming a transport failure ends the stage after one request without sleeping, and the raised
  error begins with that reply's formatted error.\<close>

theorem client_rejection_not_retried:
  assumes "400 \<le> reply_status (replies 0)" and "reply_status (replies 0) < 500"
    and "reply_status (replies 0) \<noteq> 429"
    and "\<not> names_transport_failure dumps (PDict (reply_payload (replies 0)))"
  shows "length (timeouts (execute_stage_sync dumps loads env st hint None t0 replies)) = 1
    \<and> sleeps (execute_stage_sync dumps loads env st hint None t0 replies) = []
    \<and> (\<exists>rest. outcome (execute_stage_sync dumps loads env st hint None t0 replies) =
         Inl (RuntimeError (format_stage_sync_error dumps loads st (reply_status (replies 0))
                (reply_payload (replies 0)) @ rest)))"
proof -
  have one: "execute_stage_sync dumps loads env st hint None t0 replies =
     \<lparr>outcome = stage_failure_outcome dumps loads st hint [stage_failure_of dumps 0 (replies 0)],
      timeouts = [3600], sleeps = [], failed_attempts = [stage_failure_of dumps 0 (replies 0)]\<rparr>"
    using assms by (simp add: execute_stage_sync_def is_retryable_stage_failure_def Let_def)
  have "compose_stage_failure_message dumps loads st [stage_failure_of dumps 0 (replies 0)] =
     Inr (format_stage_sync_error dumps loads st (reply_status (replies 0)) (reply_payload (replies 0)))"
    by (auto simp: compose_stage_failure_message_def primary_stage_failure_attempt_def
        stage_failure_of_def Let_def)
  then show ?thesis unfolding one by (auto simp: stage_failure_outcome_def split: option.splits)
qed

definition demo_reply :: stage_reply where
  "demo_reply = \<lparr>reply_payload = [(''detail'', PStr ''bad name'')], reply_status = 422,
     at_check = 0, at_start = 0, at_end = 1, at_retry = 1\<rparr>"

definition demo_clock :: clock_env where
  "demo_clock = \<lparr>to_float = (\<lambda>_. None), parse_date = (\<lambda>_. None), wall_now = 0\<rparr>"

theorem client_rejection_not_retried_witness:
  "length (timeouts (execute_stage_sync (\<lambda>_. []) (\<lambda>_. None) demo_clock DEVICES None None 0 (\<lambda>_. demo_reply))) = 1"
proof -
  have "\<not> names_transport_failure (\<lambda>_. []) (PDict (reply_payload demo_reply))" by code_simp
  moreover have "reply_status demo_reply = 422" by (simp add: demo_reply_def)
  ultimately show ?thesis
    using client_rejection_not_retried[of "\<lambda>_. demo_reply" "\<lambda>_. []" "\<lambda>_. None" demo_clock DEVICES None 0]
    by simp
qed

section \<open>Only the cause is scanned\<close>

lemma extract_ignores:
  assumes "k \<notin> {''message'', ''detail'', ''error'', ''errors''}"
  shows "extract_backend_error_text dumps ((k, v) # d) = extract_backend_error_text dumps d"
proof -
  have "dget ((k, v) # d) ''message'' = dget d ''message''" "dget ((k, v) # d) ''detail'' = dget d ''detail''"
    "dget ((k, v) # d) ''error'' = dget d ''error''" "dget ((k, v) # d) ''errors'' = dget d ''errors''"
    using assms by (auto simp: dget_Cons)
  then show ?thesis
    unfolding extract_backend_error_text_def combine_backend_message_and_detail_def by (simp only:)
qed

text \<open>Retry eligibility depends only on the fields that describe the cause: adding any other
  field to an error body, such as the echoed request or a \<open>timeout\<close> setting, with any content,
  never turns a rejection into a retryable transport failure or back.\<close>

theorem retry_ignores_unrelated_fields:
  assumes "k \<notin> {''python_exception'', ''exception'', ''detail'', ''message'', ''error'', ''errors''}"
  shows "is_retryable_stage_failure dumps status (PDict ((k, v) # d)) =
         is_retryable_stage_failure dumps status (PDict d)"
proof -
  have "map (\<lambda>k'. case map_of ((k, v) # d) k' of None \<Rightarrow> []
               | Some x \<Rightarrow> iter_cause_strings cause_levels x) error_cause_keys =
        map (\<lambda>k'. case map_of d k' of None \<Rightarrow> []
               | Some x \<Rightarrow> iter_cause_strings cause_levels x) error_cause_keys"
    using assms by (intro map_cong refl) (auto simp: error_cause_keys_def)
  moreover have "extract_backend_error_text dumps ((k, v) # d) = extract_backend_error_text dumps d"
    using assms by (intro extract_ignores) simp
  ultimately show ?thesis
    unfolding is_retryable_stage_failure_def names_transport_failure_def pyval.case by (simp only:)
qed

theorem retry_ignores_unrelated_fields_witness:
  "is_retryable_stage_failure (\<lambda>_. []) 400
     (PDict [(''input'', PStr ''connection refused''), (''detail'', PStr ''bad name'')]) =
   is_retryable_stage_failure (\<lambda>_. []) 400 (PDict [(''detail'', PStr ''bad name'')])"
  by (rule retry_ignores_unrelated_fields) simp

end
