(* ===== verification/Sync_Run.thy ===== *)
theory Sync_Run
  imports Sync_Modes Endpoint_Resolution Sync_Stage_Exec
begin

text \<open>
  The staged run of \<open>netbox_proxbox/sync_stages.py\<close>: the endpoint scopes, the query parameters
  of every stage and the loop over endpoints and stages. \<open>endpoint_rows\<close> are the stored
  \<open>ProxmoxEndpoint\<close> rows (None where the query raises), \<open>listing\<close> the backend's answer to the
  list call, and \<open>exec\<close> the outcome of one stage request, which \<open>Sync_Stage_Exec\<close> models. The
  run returns its stage records and the requests it sent.
\<close>

section \<open>Endpoint scopes\<close>

definition requested_ids :: "pyval list \<Rightarrow> string list" where
  "requested_ids ids =
     filter (\<lambda>t. t \<noteq> [] \<and> int_of_string t \<noteq> None) (map (\<lambda>v. strip (py_str v)) ids)"

definition row_pk :: "pyval \<Rightarrow> int" where
  "row_pk row = (case attr_value row ''pk'' of PInt i \<Rightarrow> i | _ \<Rightarrow> 0)"

definition enabled_rows :: "pyval list \<Rightarrow> pyval list" where
  "enabled_rows rows = filter (\<lambda>r. attr_value r ''enabled'' = PBool True) rows"

definition proxmox_endpoint_scopes :: "pyval list option \<Rightarrow> pyval list \<Rightarrow> string list list" where
  "proxmox_endpoint_scopes endpoint_rows ids =
     (let requested = requested_ids ids in
      if requested \<noteq> [] then
        (let enabled_ids =
               (case endpoint_rows of
                  None \<Rightarrow> set requested
                | Some rows \<Rightarrow>
                    set (map (\<lambda>r. str_of_int (row_pk r))
                      (filter (\<lambda>r. row_pk r \<in> set (map (\<lambda>t. the (int_of_string t)) requested))
                        (enabled_rows rows))))
         in map (\<lambda>e. [e]) (filter (\<lambda>e. e \<in> enabled_ids) requested))
      else
        (case endpoint_rows of
           None \<Rightarrow> []
         | Some rows \<Rightarrow> map (\<lambda>r. [str_of_int (row_pk r)]) (enabled_rows rows)))"

definition endpoint_display_name :: "pyval list option \<Rightarrow> string \<Rightarrow> string" where
  "endpoint_display_name endpoint_rows endpoint_id =
     (case find (\<lambda>r. Some (row_pk r) = int_of_string endpoint_id)
             (case endpoint_rows of None \<Rightarrow> [] | Some rows \<Rightarrow> rows) of
        None \<Rightarrow> []
      | Some row \<Rightarrow> text_or_empty (attr_value row ''name''))"

text \<open>\<open>_resolve_wire_endpoint_ids\<close>. \<open>ctx_url\<close> is the backend's URL, None when no backend is
  configured.\<close>

definition resolve_wire_endpoint_ids ::
  "pyval list option \<Rightarrow> string option \<Rightarrow> string + pyval \<Rightarrow> string list list
    \<Rightarrow> ((string \<times> string) list \<times> string option) result" where
  "resolve_wire_endpoint_ids endpoint_rows ctx_url listing scopes =
     (let plugin_pks = concat (map (\<lambda>sc. case sc of [] \<Rightarrow> [] | e # _ \<Rightarrow> if strip e \<noteq> [] then [e] else []) scopes)
      in if plugin_pks = [] then Inr ([], None)
         else if ctx_url = None \<or> ctx_url = Some [] then
           Inr ([], Some ''FastAPI endpoint not configured; cannot resolve backend endpoint ids'')
         else
           let endpoints = filter (\<lambda>r. Some (row_pk r) \<in> set (map int_of_string plugin_pks))
                 (enabled_rows (case endpoint_rows of None \<Rightarrow> [] | Some rows \<Rightarrow> rows))
           in if endpoints = [] then Inr ([], None)
              else rbind (resolve_backend_endpoint_ids listing endpoints) (\<lambda>(mapping, error).
                (case error of
                   Some e \<Rightarrow> if e \<noteq> [] then Inr ([], Some e)
                     else Inr (map (\<lambda>(pk, b). (str_of_int pk, str_of_int b)) mapping, None)
                 | None \<Rightarrow> Inr (map (\<lambda>(pk, b). (str_of_int pk, str_of_int b)) mapping, None))))"

definition no_endpoint_scope_reason :: "pyval list \<Rightarrow> string" where
  "no_endpoint_scope_reason requested =
     (if requested \<noteq> [] then
        ''every Proxmox endpoint selected for this run is disabled or no ''
        @ ''longer exists, so there was nothing to sync''
      else
        ''no enabled Proxmox endpoint exists in NetBox, so there was ''
        @ ''nothing to sync. Syncing without an endpoint filter is not a ''
        @ ''fallback: the backend would sync every endpoint it still holds, ''
        @ ''including ones disabled here'')"

section \<open>Query parameters\<close>

definition flag_text :: "bool \<Rightarrow> string" where
  "flag_text b = (if b then ''true'' else ''false'')"

definition put_all :: "(string \<times> string) list \<Rightarrow> (string \<times> string) list \<Rightarrow> (string \<times> string) list" where
  "put_all kvs q = fold (\<lambda>(k, v). AList.update k v) kvs q"

text \<open>\<open>_build_base_query_params\<close>: the query and the new sync-mode variables.\<close>

definition build_base_query_params ::
  "pyval option \<Rightarrow> (int \<Rightarrow> pyval option) \<Rightarrow> mode_vars \<Rightarrow> string list \<Rightarrow> string list
    \<Rightarrow> string list option \<Rightarrow> ((string \<times> string) list \<times> mode_vars) result" where
  "build_base_query_params solo find_endpoint vars proxmox_ids netbox_ids wire_ids =
     rbind (use_guest_agent_interface_name_setting solo) (\<lambda>agent.
     rbind (proxbox_fetch_max_concurrency_setting solo) (\<lambda>conc.
     rbind (ignore_ipv6_link_local_addresses_setting solo) (\<lambda>ipv6.
     rbind (primary_ip_preference_setting solo) (\<lambda>pref.
       let q1 = [(''use_guest_agent_interface_name'', flag_text agent),
                 (''vm_interface_sync_strategy'', vm_interface_sync_strategy_setting solo),
                 (''fetch_max_concurrency'', str_of_int conc),
                 (''ignore_ipv6_link_local_addresses'', flag_text ipv6),
                 (''primary_ip_preference'', pref),
                 (''parse_description_metadata'', flag_text (parse_description_metadata_setting solo))];
           single = (case proxmox_ids of [e] \<Rightarrow> PStr e | _ \<Rightarrow> PNone)
       in rbind (effective_overwrites_for_endpoint solo find_endpoint single) (\<lambda>overwrites.
          rbind (effective_sync_modes_for_endpoint solo find_endpoint single) (\<lambda>modes.
            let q2 = put_all (map (\<lambda>(k, b). (k, flag_text b)) overwrites) q1;
                vars' = set_sync_mode_vars modes vars;
                q3 = put_all (active_sync_modes vars') q2;
                wire = (case wire_ids of Some w \<Rightarrow> w | None \<Rightarrow> proxmox_ids);
                q4 = (if wire \<noteq> [] then AList.update ''proxmox_endpoint_ids'' (str_join '','' wire) q3 else q3);
                q5 = (if netbox_ids \<noteq> [] then AList.update ''netbox_endpoint_ids'' (str_join '','' netbox_ids) q4
                      else q4)
            in Inr (q5, vars')))))))"

definition build_stage_query_params ::
  "(string \<times> string) list \<Rightarrow> string \<Rightarrow> string list \<Rightarrow> bool \<Rightarrow> bool \<Rightarrow> bool \<Rightarrow> string option
    \<Rightarrow> (string \<times> string) list" where
  "build_stage_query_params base_query sync_type vm_ids no_vm_network ip_disabled mac_disabled run_id =
     put_all
       ((if sync_type = VM_BACKUPS then [(''delete_nonexistent_backup'', ''true'')] else [])
        @ (if sync_type = VM_SNAPSHOTS then [(''delete_nonexistent_snapshot'', ''true'')] else [])
        @ (if sync_type = VIRTUAL_MACHINES then
             (''sync_task_history'', ''false'')
             # (if no_vm_network then [(''sync_vm_network'', ''false'')]
                else (if ip_disabled then [(''assign_vm_interface_ips'', ''false'')] else [])
                  @ (if mac_disabled then [(''sync_vm_interface_macs'', ''false'')] else []))
           else [])
        @ (if sync_type = VM_INTERFACES \<and> mac_disabled then [(''sync_vm_interface_macs'', ''false'')] else [])
        @ (if sync_type = VIRTUAL_MACHINES
           then (case run_id of None \<Rightarrow> [] | Some r \<Rightarrow> if r \<noteq> [] then [(''run_id'', r)] else [])
           else [])
        @ (if vm_ids \<noteq> [] then [(''netbox_vm_ids'', str_join '','' vm_ids)] else []))
       base_query"

definition network_stage_options :: "mode_vars \<Rightarrow> string list \<Rightarrow> bool \<times> bool \<times> bool \<times> bool" where
  "network_stage_options vars stages =
     (let iface_disabled = sync_mode_for_resource vars ''vm_interface'' = DISABLED;
          ip_disabled = sync_mode_for_resource vars ''ip_address'' = DISABLED;
          mac_disabled = sync_mode_for_resource vars ''mac'' = DISABLED;
          dedicated = VM_INTERFACES \<in> set stages \<or> IP_ADDRESSES \<in> set stages;
          disable_on_vm = VIRTUAL_MACHINES \<in> set stages \<and> (dedicated \<or> iface_disabled)
      in (iface_disabled, ip_disabled, mac_disabled, disable_on_vm))"

section \<open>Stage records\<close>

datatype stage_summary =
    Stage_ok pyval pyval
  | Stage_skipped string
  | Scope_failed "string option" string

record stage_record =
  rec_sync_type :: string
  rec_endpoint :: "string option"
  rec_name :: "string option"
  rec_path :: "string option"
  rec_runtime :: rat
  rec_summary :: stage_summary

definition ENDPOINT_SCOPE :: string where "ENDPOINT_SCOPE = ''endpoint-scope''"

definition skipped_stage_result :: "string \<Rightarrow> string option \<Rightarrow> string \<Rightarrow> stage_record" where
  "skipped_stage_result sync_type endpoint_id reason =
     \<lparr>rec_sync_type = sync_type, rec_endpoint = endpoint_id, rec_name = None, rec_path = None,
      rec_runtime = 0, rec_summary = Stage_skipped reason\<rparr>"

definition empty_endpoint_scope_result :: "pyval list \<Rightarrow> stage_record list" where
  "empty_endpoint_scope_result requested =
     [\<lparr>rec_sync_type = ENDPOINT_SCOPE, rec_endpoint = None, rec_name = None, rec_path = None,
       rec_runtime = 0, rec_summary = Scope_failed None (no_endpoint_scope_reason requested)\<rparr>]"

definition deadline_cause :: string where
  "deadline_cause = ''Job deadline reached; no time remains before the persistence reserve.''"

section \<open>The loop over endpoints and stages\<close>

record run_request =
  req_endpoint :: string
  req_stage :: string
  req_path :: string
  req_query :: "(string \<times> string) list"

text \<open>The surroundings of a run. \<open>run_elapsed\<close> is the rounded time since the start at which a
  failure of an endpoint is recorded, and \<open>expired i\<close> says that the deadline has no time left
  when scope \<open>i\<close> is reached.\<close>

record run_env =
  env_solo :: "pyval option"
  env_rows :: "pyval list option"
  env_ctx_url :: "string option"
  env_listing :: "string + pyval"
  env_exec :: "run_request \<Rightarrow> ((string \<times> pyval) list \<times> rat) result"
  env_elapsed :: "string \<Rightarrow> rat"
  env_expired :: "nat \<Rightarrow> bool"

record run_params =
  par_endpoints :: "pyval list"
  par_netbox :: "string list"
  par_vm_ids :: "pyval list"
  par_branch :: pyval
  par_run_id :: pyval

definition target_vm_ids :: "run_params \<Rightarrow> string list" where
  "target_vm_ids params = filter (\<lambda>s. s \<noteq> []) (map py_str (par_vm_ids params))"

definition sync_run_id :: "run_params \<Rightarrow> string option" where
  "sync_run_id params =
     (let r = strip (text_or_empty (par_run_id params)) in if r = [] then None else Some r)"

definition find_row :: "run_env \<Rightarrow> int \<Rightarrow> pyval option" where
  "find_row env pk =
     find (\<lambda>r. row_pk r = pk) (case env_rows env of None \<Rightarrow> [] | Some rows \<Rightarrow> rows)"

definition skippable_stages :: "string list" where
  "skippable_stages = [VM_BACKUPS, VM_SNAPSHOTS, TASK_HISTORY, SDN]"

definition optional_stage_can_skip :: "string \<Rightarrow> string \<Rightarrow> bool" where
  "optional_stage_can_skip sync_type exc \<longleftrightarrow>
     sync_type \<in> set skippable_stages \<and> \<not> contains ''Job deadline reached'' exc"

definition record_unresolved_endpoint ::
  "run_env \<Rightarrow> mode_vars \<Rightarrow> string \<Rightarrow> string list \<Rightarrow> string option
    \<Rightarrow> (stage_record list \<times> mode_vars) result" where
  "record_unresolved_endpoint env vars endpoint_id stages wire_error =
     rbind (effective_sync_modes_for_endpoint (env_solo env) (find_row env) (PStr endpoint_id)) (\<lambda>modes.
       let vars' = set_sync_mode_vars modes vars in
       if list_all (\<lambda>st. stage_skip_reason vars' st \<noteq> None) stages
       then Inr (map (\<lambda>st. skipped_stage_result st (Some endpoint_id) (the (stage_skip_reason vars' st)))
              (dedup stages), vars')
       else
         let reason = (case wire_error of
               Some e \<Rightarrow> if e \<noteq> [] then e else [] | None \<Rightarrow> []);
             reason' = (if reason \<noteq> [] then reason
               else ''Proxmox endpoint '' @ endpoint_id @ '' could not be resolved to a current ''
                 @ ''ProxBox backend endpoint (not registered, or the backend'' @ [CHR 0x27] @ ''s stored copy ''
                 @ ''points at a different host or port); skipping to avoid syncing the ''
                 @ ''wrong endpoint'')
         in Inr ([\<lparr>rec_sync_type = ENDPOINT_SCOPE, rec_endpoint = Some endpoint_id, rec_name = None,
                  rec_path = None, rec_runtime = 0, rec_summary = Scope_failed None reason'\<rparr>], vars'))"

text \<open>The paths of one stage; the flag says that the endpoint failed.\<close>

fun run_paths ::
  "run_env \<Rightarrow> string \<Rightarrow> string \<Rightarrow> (string \<times> string) list \<Rightarrow> string list
    \<Rightarrow> (stage_record list \<times> run_request list \<times> bool) result" where
  "run_paths env endpoint_id st query [] = Inr ([], [], False)"
| "run_paths env endpoint_id st query (path # paths) =
     (let req = \<lparr>req_endpoint = endpoint_id, req_stage = st, req_path = path, req_query = query\<rparr> in
      case env_exec env req of
        Inl (RuntimeError cause) \<Rightarrow>
          (if optional_stage_can_skip st cause then
             rbind (run_paths env endpoint_id st query paths) (\<lambda>(recs, reqs, failed).
               Inr (recs, req # reqs, failed))
           else
             Inr ([\<lparr>rec_sync_type = ENDPOINT_SCOPE, rec_endpoint = Some endpoint_id,
                    rec_name = Some (endpoint_display_name (env_rows env) endpoint_id),
                    rec_path = Some path, rec_runtime = env_elapsed env endpoint_id,
                    rec_summary = Scope_failed (Some st) cause\<rparr>], [req], True))
      | Inl e \<Rightarrow> Inl e
      | Inr (payload, runtime) \<Rightarrow>
          (case py_or (dget payload ''response'') (PDict []) of
             PDict response \<Rightarrow>
               rbind (run_paths env endpoint_id st query paths) (\<lambda>(recs, reqs, failed).
                 Inr (\<lparr>rec_sync_type = st, rec_endpoint = Some endpoint_id, rec_name = None,
                       rec_path = Some path, rec_runtime = runtime,
                       rec_summary = Stage_ok (dget payload ''path'') (dget response ''ok'')\<rparr> # recs,
                      req # reqs, failed))
           | _ \<Rightarrow> Inl (AttributeError ''get'')))"

fun run_stages ::
  "run_env \<Rightarrow> mode_vars \<Rightarrow> run_params \<Rightarrow> bool \<times> bool \<times> bool \<times> bool \<Rightarrow> (string \<times> string) list
    \<Rightarrow> string \<Rightarrow> string list \<Rightarrow> (stage_record list \<times> run_request list) result" where
  "run_stages env vars params opts base_query endpoint_id [] = Inr ([], [])"
| "run_stages env vars params opts base_query endpoint_id (st # stages) =
     (case stage_skip_reason vars st of
        Some reason \<Rightarrow>
          rbind (run_stages env vars params opts base_query endpoint_id stages) (\<lambda>(recs, reqs).
            Inr (skipped_stage_result st (Some endpoint_id) reason # recs, reqs))
      | None \<Rightarrow>
          (case opts of (iface_disabled, ip_disabled, mac_disabled, no_vm_network) \<Rightarrow>
             let query = build_stage_query_params base_query st (target_vm_ids params) no_vm_network
                           ip_disabled mac_disabled (sync_run_id params)
             in rbind (sync_stream_paths_for_stage st (target_vm_ids params)) (\<lambda>paths.
                rbind (run_paths env endpoint_id st query paths) (\<lambda>(recs, reqs, failed).
                  if failed then Inr (recs, reqs)
                  else rbind (run_stages env vars params opts base_query endpoint_id stages)
                    (\<lambda>(recs', reqs'). Inr (recs @ recs', reqs @ reqs'))))))"

definition run_endpoint ::
  "run_env \<Rightarrow> mode_vars \<Rightarrow> run_params \<Rightarrow> (string \<times> string) list \<Rightarrow> string option \<Rightarrow> string list
    \<Rightarrow> string \<Rightarrow> (stage_record list \<times> run_request list \<times> mode_vars) result" where
  "run_endpoint env vars params wire wire_error stages endpoint_id =
     (case map_of wire endpoint_id of
        None \<Rightarrow> rbind (record_unresolved_endpoint env vars endpoint_id stages wire_error)
          (\<lambda>(recs, vars'). Inr (recs, [], vars'))
      | Some backend_id \<Rightarrow>
          rbind (build_base_query_params (env_solo env) (find_row env) vars [endpoint_id]
                   (par_netbox params) (Some [backend_id])) (\<lambda>(base, vars').
            let base' = (if truthy (par_branch params)
                 then AList.update ''netbox_branch_schema_id'' (py_str (par_branch params)) base else base)
            in rbind (run_stages env vars' params (network_stage_options vars' stages) base'
                   endpoint_id stages) (\<lambda>(recs, reqs). Inr (recs, reqs, vars'))))"

definition deadline_record :: "run_env \<Rightarrow> string \<Rightarrow> stage_record" where
  "deadline_record env endpoint_id =
     \<lparr>rec_sync_type = ENDPOINT_SCOPE, rec_endpoint = Some endpoint_id,
      rec_name = Some (endpoint_display_name (env_rows env) endpoint_id), rec_path = None,
      rec_runtime = env_elapsed env endpoint_id, rec_summary = Scope_failed None deadline_cause\<rparr>"

fun run_scopes ::
  "run_env \<Rightarrow> mode_vars \<Rightarrow> run_params \<Rightarrow> (string \<times> string) list \<Rightarrow> string option \<Rightarrow> string list
    \<Rightarrow> nat \<Rightarrow> string list \<Rightarrow> (stage_record list \<times> run_request list) result" where
  "run_scopes env vars params wire wire_error stages i [] = Inr ([], [])"
| "run_scopes env vars params wire wire_error stages i (endpoint_id # rest) =
     (if env_expired env i then Inr (map (deadline_record env) (endpoint_id # rest), [])
      else
        rbind (run_endpoint env vars params wire wire_error stages endpoint_id) (\<lambda>(recs, reqs, vars').
        rbind (run_scopes env vars' params wire wire_error stages (Suc i) rest) (\<lambda>(recs', reqs').
          Inr (recs @ recs', reqs @ reqs'))))"

definition run_all_stages_sync ::
  "run_env \<Rightarrow> mode_vars \<Rightarrow> run_params \<Rightarrow> string list \<Rightarrow> (stage_record list \<times> run_request list) result" where
  "run_all_stages_sync env vars params stages =
     (let scopes = proxmox_endpoint_scopes (env_rows env) (par_endpoints params) in
      if scopes = [] then Inr (empty_endpoint_scope_result (par_endpoints params), [])
      else rbind (resolve_wire_endpoint_ids (env_rows env) (env_ctx_url env) (env_listing env) scopes)
        (\<lambda>(wire, wire_error). run_scopes env vars params wire wire_error stages 0 (map hd scopes)))"

section \<open>Every request is scoped\<close>

lemma put_all_simps:
  "put_all [] q = q"
  "put_all (x # kvs) q = put_all kvs (AList.update (fst x) (snd x) q)"
  "put_all (kvs @ kvs') q = put_all kvs' (put_all kvs q)"
  "put_all (if b then kvs else kvs') q = (if b then put_all kvs q else put_all kvs' q)"
  by (simp_all add: put_all_def split_beta)

lemma base_query_scoped:
  assumes "build_base_query_params solo fe vars ids nb (Some [b]) = Inr (q, vars')"
  shows "map_of q ''proxmox_endpoint_ids'' = Some b"
  using assms by (auto simp: build_base_query_params_def rbind_Inr_iff Let_def map_of_update split: if_splits)

lemma stage_query_scoped:
  "map_of (build_stage_query_params q st ids nvn ipd macd rid) ''proxmox_endpoint_ids'' =
   map_of q ''proxmox_endpoint_ids''"
  "map_of (build_stage_query_params q st ids nvn ipd macd rid) ''netbox_branch_schema_id'' =
   map_of q ''netbox_branch_schema_id''"
  unfolding build_stage_query_params_def
  by (cases rid; simp add: put_all_simps map_of_update)+

lemma run_paths_ConsE:
  assumes "run_paths env e st q (path # paths) = Inr (recs, reqs, failed)"
  obtains
    (optional) cause reqs' where "optional_stage_can_skip st cause"
      "run_paths env e st q paths = Inr (recs, reqs', failed)"
      "reqs = \<lparr>req_endpoint = e, req_stage = st, req_path = path, req_query = q\<rparr> # reqs'"
  | (required) r cause where "recs = [r]" "failed" "rec_endpoint r = Some e"
      "rec_summary r = Scope_failed (Some st) cause"
      "reqs = [\<lparr>req_endpoint = e, req_stage = st, req_path = path, req_query = q\<rparr>]"
  | (ok) r recs' reqs' a b where "recs = r # recs'" "rec_endpoint r = Some e"
      "rec_summary r = Stage_ok a b" "run_paths env e st q paths = Inr (recs', reqs', failed)"
      "reqs = \<lparr>req_endpoint = e, req_stage = st, req_path = path, req_query = q\<rparr> # reqs'"
proof (cases "env_exec env \<lparr>req_endpoint = e, req_stage = st, req_path = path, req_query = q\<rparr>")
  case (Inl exc)
  with assms obtain cause where "exc = RuntimeError cause" by (cases exc) (simp_all add: Let_def)
  with Inl assms optional required show ?thesis
    by (auto simp: Let_def rbind_Inr_iff split: if_splits)
next
  case (Inr pr)
  obtain payload runtime where pr: "pr = (payload, runtime)" by (cases pr)
  with Inr assms obtain response where "py_or (dget payload ''response'') (PDict []) = PDict response"
    by (cases "py_or (dget payload ''response'') (PDict [])") (simp_all add: Let_def)
  with Inr pr assms ok show ?thesis by (auto simp: Let_def rbind_Inr_iff)
qed

lemma run_paths_requests:
  "run_paths env e st q paths = Inr (recs, reqs, failed) \<Longrightarrow> r \<in> set reqs \<Longrightarrow>
     req_endpoint r = e \<and> req_stage r = st \<and> req_query r = q"
proof (induction paths arbitrary: recs reqs)
  case Nil
  then show ?case by simp
next
  case (Cons path paths)
  from Cons.prems(1) show ?case by (cases rule: run_paths_ConsE) (use Cons in auto)
qed

lemma run_stages_requests:
  assumes "run_stages env vars params opts base e stages = Inr (recs, reqs)" and "r \<in> set reqs"
  shows "req_endpoint r = e \<and>
     map_of (req_query r) ''proxmox_endpoint_ids'' = map_of base ''proxmox_endpoint_ids'' \<and>
     map_of (req_query r) ''netbox_branch_schema_id'' = map_of base ''netbox_branch_schema_id''"
  using assms
proof (induction stages arbitrary: recs reqs)
  case Nil
  then show ?case by simp
next
  case (Cons st stages)
  show ?case
  proof (cases "stage_skip_reason vars st")
    case (Some reason)
    with Cons show ?thesis by (auto simp: rbind_Inr_iff)
  next
    case None
    obtain i ip mac nvn where opts: "opts = (i, ip, mac, nvn)" by (cases opts) auto
    let ?q = "build_stage_query_params base st (target_vm_ids params) nvn ip mac (sync_run_id params)"
    from Cons.prems(1) None opts obtain paths recs1 reqs1 failed where
      p: "run_paths env e st ?q paths = Inr (recs1, reqs1, failed)"
      and rest: "(failed \<and> reqs = reqs1) \<or>
        (\<exists>recs2 reqs2. run_stages env vars params opts base e stages = Inr (recs2, reqs2)
           \<and> reqs = reqs1 @ reqs2)"
      by (auto simp: rbind_Inr_iff Let_def split: if_splits)
    from rest Cons.prems(2) consider "r \<in> set reqs1"
      | recs2 reqs2 where "run_stages env vars params opts base e stages = Inr (recs2, reqs2)"
          "r \<in> set reqs2" by auto
    then show ?thesis
    proof cases
      case 1
      with run_paths_requests[OF p] show ?thesis by (simp add: stage_query_scoped)
    next
      case 2
      with Cons.IH show ?thesis by blast
    qed
  qed
qed

definition scoped_request :: "(string \<times> string) list \<Rightarrow> string list \<Rightarrow> run_request \<Rightarrow> bool" where
  "scoped_request wire endpoints r \<longleftrightarrow>
     req_endpoint r \<in> set endpoints \<and> map_of wire (req_endpoint r) \<noteq> None
     \<and> map_of (req_query r) ''proxmox_endpoint_ids'' = map_of wire (req_endpoint r)"

lemma run_endpointE:
  assumes "run_endpoint env vars params wire we stages e = Inr (recs, reqs, vars')"
  obtains
    (unresolved) "map_of wire e = None"
      "record_unresolved_endpoint env vars e stages we = Inr (recs, vars')" "reqs = []"
  | (resolved) b base where "map_of wire e = Some b" "map_of base ''proxmox_endpoint_ids'' = Some b"
      "run_stages env vars' params (network_stage_options vars' stages) base e stages = Inr (recs, reqs)"
      "truthy (par_branch params) \<Longrightarrow> map_of base ''netbox_branch_schema_id'' = Some (py_str (par_branch params))"
proof (cases "map_of wire e")
  case None
  with assms unresolved show ?thesis by (auto simp: run_endpoint_def rbind_Inr_iff)
next
  case (Some b)
  with assms obtain q where
    q: "build_base_query_params (env_solo env) (find_row env) vars [e] (par_netbox params) (Some [b]) = Inr (q, vars')"
    and run: "run_stages env vars' params (network_stage_options vars' stages)
        (if truthy (par_branch params)
         then AList.update ''netbox_branch_schema_id'' (py_str (par_branch params)) q else q)
        e stages = Inr (recs, reqs)"
    by (auto simp: run_endpoint_def rbind_Inr_iff Let_def)
  show ?thesis
    by (rule resolved[OF Some _ run]) (use base_query_scoped[OF q] in \<open>simp_all add: map_of_update\<close>)
qed

lemma run_endpoint_scoped:
  assumes "run_endpoint env vars params wire we stages e = Inr (recs, reqs, vars')" and "r \<in> set reqs"
  shows "scoped_request wire [e] r"
  using assms(1)
proof (cases rule: run_endpointE)
  case unresolved
  with assms(2) show ?thesis by simp
next
  case (resolved b base)
  with run_stages_requests[OF resolved(3) assms(2)] show ?thesis by (simp add: scoped_request_def)
qed

lemma run_scopes_scoped:
  "run_scopes env vars params wire we stages i es = Inr (recs, reqs) \<Longrightarrow>
     list_all (scoped_request wire es) reqs"
proof (induction es arbitrary: i vars recs reqs)
  case Nil
  then show ?case by simp
next
  case (Cons e es)
  show ?case
  proof (cases "env_expired env i")
    case True
    with Cons.prems show ?thesis by simp
  next
    case False
    with Cons.prems obtain recs1 reqs1 vars1 recs2 reqs2 where
      1: "run_endpoint env vars params wire we stages e = Inr (recs1, reqs1, vars1)"
      and 2: "run_scopes env vars1 params wire we stages (Suc i) es = Inr (recs2, reqs2)"
      and eq: "reqs = reqs1 @ reqs2" by (auto simp: rbind_Inr_iff)
    have "list_all (scoped_request wire (e # es)) reqs1"
      using run_endpoint_scoped[OF 1] by (auto simp: list_all_iff scoped_request_def)
    moreover have "list_all (scoped_request wire (e # es)) reqs2"
      using Cons.IH[OF 2] by (auto simp: list_all_iff scoped_request_def)
    ultimately show ?thesis using eq by simp
  qed
qed

text \<open>A run on a branch names the branch in every request.\<close>

lemma run_scopes_branch:
  assumes "truthy (par_branch params)"
  shows "run_scopes env vars params wire we stages i es = Inr (recs, reqs) \<Longrightarrow> r \<in> set reqs \<Longrightarrow>
    map_of (req_query r) ''netbox_branch_schema_id'' = Some (py_str (par_branch params))"
proof (induction es arbitrary: i vars recs reqs)
  case Nil
  then show ?case by simp
next
  case (Cons e es)
  show ?case
  proof (cases "env_expired env i")
    case True
    with Cons.prems show ?thesis by simp
  next
    case False
    with Cons.prems(1) obtain recs1 reqs1 vars1 recs2 reqs2 where
      1: "run_endpoint env vars params wire we stages e = Inr (recs1, reqs1, vars1)"
      and 2: "run_scopes env vars1 params wire we stages (Suc i) es = Inr (recs2, reqs2)"
      and eq: "reqs = reqs1 @ reqs2" by (auto simp: rbind_Inr_iff)
    show ?thesis
    proof (cases "r \<in> set reqs1")
      case True
      from 1 show ?thesis
      proof (cases rule: run_endpointE)
        case unresolved
        with True show ?thesis by simp
      next
        case (resolved b base)
        with run_stages_requests[OF resolved(3) True] assms show ?thesis by simp
      qed
    next
      case False
      with Cons.prems(2) eq Cons.IH[OF 2] show ?thesis by simp
    qed
  qed
qed

lemma staged_requests_name_branch:
  assumes "run_all_stages_sync env vars params stages = Inr (recs, reqs)" and "truthy (par_branch params)"
    and "r \<in> set reqs"
  shows "map_of (req_query r) ''netbox_branch_schema_id'' = Some (py_str (par_branch params))"
  using assms run_scopes_branch[OF assms(2)]
  by (auto simp: run_all_stages_sync_def Let_def rbind_Inr_iff split: if_splits)

text \<open>C4. Every request of a staged run is confined to one endpoint: it carries the backend id that
  was resolved for an enabled endpoint of the run's scope, and the run never sends a request without
  an endpoint filter.\<close>

theorem staged_requests_are_scoped:
  assumes "run_all_stages_sync env vars params stages = Inr (recs, reqs)"
  shows "reqs = [] \<or> (\<exists>wire wire_error.
     resolve_wire_endpoint_ids (env_rows env) (env_ctx_url env) (env_listing env)
       (proxmox_endpoint_scopes (env_rows env) (par_endpoints params)) = Inr (wire, wire_error)
     \<and> list_all (scoped_request wire
         (map hd (proxmox_endpoint_scopes (env_rows env) (par_endpoints params)))) reqs)"
  using assms run_scopes_scoped
  by (auto simp: run_all_stages_sync_def Let_def rbind_Inr_iff split: if_splits)

text \<open>C7. When NetBox has no enabled Proxmox endpoint the run contacts nothing and reports exactly
  one failure record, whatever endpoints were requested: it neither widens to every endpoint of the
  backend nor finishes without a trace.\<close>

theorem no_enabled_endpoint_fails_loud:
  assumes "env_rows env = Some rows" and "enabled_rows rows = []"
  shows "\<exists>reason. run_all_stages_sync env vars params stages =
     Inr ([\<lparr>rec_sync_type = ENDPOINT_SCOPE, rec_endpoint = None, rec_name = None, rec_path = None,
           rec_runtime = 0, rec_summary = Scope_failed None reason\<rparr>], [])"
  using assms
  by (simp add: run_all_stages_sync_def proxmox_endpoint_scopes_def empty_endpoint_scope_result_def Let_def)

section \<open>A failed endpoint stops, and every endpoint is accounted for\<close>

definition is_failure :: "stage_record \<Rightarrow> bool" where
  "is_failure r = (case rec_summary r of Scope_failed _ _ \<Rightarrow> True | _ \<Rightarrow> False)"

lemma is_failure_simps [simp]:
  "rec_summary r = Stage_ok a b \<Longrightarrow> \<not> is_failure r"
  "rec_summary r = Scope_failed s c \<Longrightarrow> is_failure r"
  "\<not> is_failure (skipped_stage_result st e reason)"
  by (simp_all add: is_failure_def skipped_stage_result_def)

text \<open>The shape of an endpoint's result: a failure can only be the last record, it names the stage
  of the last request, and \<open>failed\<close> says that there is one.\<close>

definition stops_at_failure :: "stage_record list \<Rightarrow> run_request list \<Rightarrow> bool \<Rightarrow> bool" where
  "stops_at_failure recs reqs failed \<longleftrightarrow>
     (if failed
      then recs \<noteq> [] \<and> reqs \<noteq> [] \<and> list_all (Not \<circ> is_failure) (butlast recs)
           \<and> (\<exists>c. rec_summary (last recs) = Scope_failed (Some (req_stage (last reqs))) c)
      else list_all (Not \<circ> is_failure) recs)"

lemma stops_prepend:
  "list_all (Not \<circ> is_failure) pre \<Longrightarrow> stops_at_failure recs reqs failed \<Longrightarrow>
     stops_at_failure (pre @ recs) (qs @ reqs) failed"
  by (auto simp: stops_at_failure_def butlast_append)

lemma run_paths_stops:
  "run_paths env e st q paths = Inr (recs, reqs, failed) \<Longrightarrow> stops_at_failure recs reqs failed"
proof (induction paths arbitrary: recs reqs)
  case Nil
  then show ?case by (simp add: stops_at_failure_def)
next
  case (Cons path paths)
  from Cons.prems show ?case
  proof (cases rule: run_paths_ConsE)
    case (optional cause reqs')
    with Cons.IH stops_prepend[of "[]" recs reqs' failed "[_]"] show ?thesis by auto
  next
    case (required r cause)
    then show ?thesis by (simp add: stops_at_failure_def)
  next
    case (ok r recs' reqs' a b)
    with Cons.IH stops_prepend[of "[r]" recs' reqs' failed "[_]"] show ?thesis by auto
  qed
qed

lemma run_stages_ConsE:
  assumes "run_stages env vars params opts base e (st # stages) = Inr (recs, reqs)"
  obtains
    (skip) reason recs' where "stage_skip_reason vars st = Some reason"
      "run_stages env vars params opts base e stages = Inr (recs', reqs)"
      "recs = skipped_stage_result st (Some e) reason # recs'"
  | (fail) q paths where "sync_stream_paths_for_stage st (target_vm_ids params) = Inr paths"
      "run_paths env e st q paths = Inr (recs, reqs, True)"
  | (go) q paths recs1 reqs1 recs2 reqs2 where
      "sync_stream_paths_for_stage st (target_vm_ids params) = Inr paths"
      "run_paths env e st q paths = Inr (recs1, reqs1, False)"
      "run_stages env vars params opts base e stages = Inr (recs2, reqs2)"
      "recs = recs1 @ recs2" "reqs = reqs1 @ reqs2"
proof (cases "stage_skip_reason vars st")
  case (Some reason)
  with assms skip show ?thesis by (auto simp: rbind_Inr_iff)
next
  case None
  obtain i ip mac nvn where opts: "opts = (i, ip, mac, nvn)" by (cases opts) auto
  let ?q = "build_stage_query_params base st (target_vm_ids params) nvn ip mac (sync_run_id params)"
  from assms None opts obtain paths recs1 reqs1 failed where
    "sync_stream_paths_for_stage st (target_vm_ids params) = Inr paths"
    "run_paths env e st ?q paths = Inr (recs1, reqs1, failed)"
    "if failed then (recs, reqs) = (recs1, reqs1)
     else \<exists>recs2 reqs2. run_stages env vars params opts base e stages = Inr (recs2, reqs2)
       \<and> recs = recs1 @ recs2 \<and> reqs = reqs1 @ reqs2"
    by (auto simp: rbind_Inr_iff Let_def split: if_splits)
  with fail go show ?thesis by (cases failed) auto
qed

lemma run_stages_stops:
  "run_stages env vars params opts base e stages = Inr (recs, reqs) \<Longrightarrow>
     \<exists>failed. stops_at_failure recs reqs failed"
proof (induction stages arbitrary: recs reqs)
  case Nil
  then show ?case by (auto simp: stops_at_failure_def intro: exI[of _ False])
next
  case (Cons st stages)
  from Cons.prems show ?case
  proof (cases rule: run_stages_ConsE)
    case (skip reason recs')
    with Cons.IH obtain failed where "stops_at_failure recs' reqs failed" by blast
    with stops_prepend[of "[skipped_stage_result st (Some e) reason]" recs' reqs failed "[]"] skip
    show ?thesis by auto
  next
    case (fail q paths)
    with run_paths_stops show ?thesis by blast
  next
    case (go q paths recs1 reqs1 recs2 reqs2)
    from run_paths_stops[OF go(2)] have "list_all (Not \<circ> is_failure) recs1"
      by (simp add: stops_at_failure_def)
    with Cons.IH[OF go(3)] stops_prepend go(4,5) show ?thesis by blast
  qed
qed


lemma paths_ne:
  "sync_stream_paths_for_stage st (target_vm_ids params) = Inr paths \<Longrightarrow> paths \<noteq> []"
  by (auto simp: sync_stream_paths_for_stage_def target_vm_ids_def rbind_Inr_iff filter_empty_conv
      split: if_splits option.splits)

lemma run_paths_recorded:
  assumes "run_paths env e st q paths = Inr (recs, reqs, failed)"
  shows "list_all (\<lambda>r. rec_endpoint r = Some e) recs
    \<and> (paths \<noteq> [] \<and> st \<notin> set skippable_stages \<longrightarrow> recs \<noteq> [])"
  using assms
proof (induction paths arbitrary: recs reqs)
  case Nil
  then show ?case by simp
next
  case (Cons path paths)
  from Cons.prems show ?case
    by (cases rule: run_paths_ConsE) (use Cons.IH in \<open>auto simp: optional_stage_can_skip_def\<close>)
qed

lemma run_stages_recorded:
  assumes "run_stages env vars params opts base e stages = Inr (recs, reqs)"
    and "st \<in> set stages" and "st \<notin> set skippable_stages"
  shows "\<exists>r \<in> set recs. rec_endpoint r = Some e"
  using assms(1,2)
proof (induction stages arbitrary: recs reqs)
  case Nil
  then show ?case by simp
next
  case (Cons s stages)
  from Cons.prems(1) show ?case
  proof (cases rule: run_stages_ConsE)
    case (skip reason recs')
    then show ?thesis by (auto simp: skipped_stage_result_def)
  next
    case (fail q paths)
    from run_paths_stops[OF fail(2)] have "recs \<noteq> []" by (simp add: stops_at_failure_def)
    with run_paths_recorded[OF fail(2)] show ?thesis by (cases recs) auto
  next
    case (go q paths recs1 reqs1 recs2 reqs2)
    show ?thesis
    proof (cases "s = st")
      case True
      with run_paths_recorded[OF go(2)] paths_ne[OF go(1)] assms(3) go(4) show ?thesis
        by (cases recs1) auto
    next
      case False
      with Cons.prems(2) Cons.IH[OF go(3)] go(4) show ?thesis by auto
    qed
  qed
qed

lemma unresolved_recorded:
  assumes "record_unresolved_endpoint env vars e stages we = Inr (recs, vars')" and "stages \<noteq> []"
  shows "\<exists>r \<in> set recs. rec_endpoint r = Some e"
proof -
  obtain st rest where "dedup stages = st # rest"
    using assms(2) by (metis list.exhaust set_dedup set_empty)
  with assms(1) show ?thesis
    by (auto simp: record_unresolved_endpoint_def rbind_Inr_iff Let_def skipped_stage_result_def
        split: if_splits)
qed

lemma run_scopes_recorded:
  assumes "run_scopes env vars params wire we stages i es = Inr (recs, reqs)"
    and "st \<in> set stages" and "st \<notin> set skippable_stages" and "e \<in> set es"
  shows "\<exists>r \<in> set recs. rec_endpoint r = Some e"
  using assms(1,4)
proof (induction es arbitrary: i vars recs reqs)
  case Nil
  then show ?case by simp
next
  case (Cons f es)
  show ?case
  proof (cases "env_expired env i")
    case True
    with Cons.prems show ?thesis by (auto simp: deadline_record_def)
  next
    case False
    with Cons.prems(1) obtain recs1 reqs1 vars1 recs2 reqs2 where
      1: "run_endpoint env vars params wire we stages f = Inr (recs1, reqs1, vars1)"
      and 2: "run_scopes env vars1 params wire we stages (Suc i) es = Inr (recs2, reqs2)"
      and eq: "recs = recs1 @ recs2" by (auto simp: rbind_Inr_iff)
    from assms(2) have ne: "stages \<noteq> []" by auto
    from 1 have "\<exists>r \<in> set recs1. rec_endpoint r = Some f"
      by (cases rule: run_endpointE)
        (use unresolved_recorded[OF _ ne] run_stages_recorded assms(2,3) in blast)+
    with Cons.IH[OF 2] Cons.prems(2) eq show ?thesis by auto
  qed
qed

text \<open>C5. A run that selects at least one required stage leaves a record for every endpoint of its
  scope, whether the endpoint was synchronised, skipped, unresolved, failed or out of time: no
  endpoint is dropped silently.\<close>

theorem every_endpoint_accounted_for:
  assumes "run_all_stages_sync env vars params stages = Inr (recs, reqs)"
    and "st \<in> set stages" and "st \<notin> set skippable_stages"
    and "scope \<in> set (proxmox_endpoint_scopes (env_rows env) (par_endpoints params))"
  shows "\<exists>r \<in> set recs. rec_endpoint r = Some (hd scope)"
proof -
  let ?sc = "proxmox_endpoint_scopes (env_rows env) (par_endpoints params)"
  from assms(4) have "?sc \<noteq> []" by auto
  with assms(1) obtain wire we where
    "run_scopes env vars params wire we stages 0 (map hd ?sc) = Inr (recs, reqs)"
    by (auto simp: run_all_stages_sync_def Let_def rbind_Inr_iff)
  from run_scopes_recorded[OF this assms(2,3)] assms(4) show ?thesis by simp
qed

section \<open>Witnesses\<close>

definition demo_settings :: pyval where
  "demo_settings = PDict (map (\<lambda>f. (f, PBool True)) OVERWRITE_FIELDS
     @ [(''use_guest_agent_interface_name'', PBool True), (''proxbox_fetch_max_concurrency'', PInt 4),
        (''ignore_ipv6_link_local_addresses'', PBool True), (''primary_ip_preference'', PStr ''ipv4'')])"

definition demo_db_row :: pyval where
  "demo_db_row = PDict (map (\<lambda>f. (f, PNone)) OVERWRITE_FIELDS
     @ [(''pk'', PInt 4), (''name'', PStr ''lab''), (''domain'', PStr ''pve.example''),
        (''port'', PInt 8006), (''enabled'', PBool True)])"

definition demo_env :: run_env where
  "demo_env = \<lparr>env_solo = Some demo_settings, env_rows = Some [demo_db_row],
     env_ctx_url = Some ''http://b'', env_listing = Inr (PList [PDict demo_row]),
     env_exec = (\<lambda>_. Inr ([(''response'', PDict [(''ok'', PBool True)])], 1)),
     env_elapsed = (\<lambda>_. 0), env_expired = (\<lambda>_. False)\<rparr>"

definition demo_params :: run_params where
  "demo_params = \<lparr>par_endpoints = [PInt 4], par_netbox = [], par_vm_ids = [], par_branch = PNone,
     par_run_id = PNone\<rparr>"

lemma demo_row_found: "row_pk demo_db_row = 4" "find_row demo_env 4 = Some demo_db_row"
proof -
  show pk: "row_pk demo_db_row = 4" by code_simp
  show "find_row demo_env 4 = Some demo_db_row" by (simp add: find_row_def demo_env_def pk)
qed

lemma demo_overwrites:
  "\<exists>ov. effective_overwrites_for_endpoint (env_solo demo_env) (find_row demo_env) (PStr ''4'') = Inr ov"
proof -
  have "effective_overwrites (Some demo_settings) demo_db_row =
      Inr (map (\<lambda>f. (f, PBool True)) OVERWRITE_FIELDS)"
    unfolding effective_overwrites_def solo_or_raise_def
    by (simp, intro rmap_Inr)
      (simp add: getattr_strict_def demo_db_row_def demo_settings_def global_mode_of)
  moreover have "int_of_string ''4'' = Some 4" by code_simp
  ultimately show ?thesis
    by (simp add: effective_overwrites_for_endpoint_def lookup_endpoint_def no_endpoint_id_def
        demo_row_found) (simp add: demo_env_def)
qed

lemma demo_base_query:
  "\<exists>q v. build_base_query_params (env_solo demo_env) (find_row demo_env) vars [''4''] [] w = Inr (q, v)"
proof -
  have solo: "env_solo demo_env = Some demo_settings" by (simp add: demo_env_def)
  have flags: "use_guest_agent_interface_name_setting (Some demo_settings) = Inr True"
    "proxbox_fetch_max_concurrency_setting (Some demo_settings) = Inr 4"
    "ignore_ipv6_link_local_addresses_setting (Some demo_settings) = Inr True"
    "primary_ip_preference_setting (Some demo_settings) = Inr ''ipv4''"
    by code_simp+
  from demo_overwrites obtain ov where
    "effective_overwrites_for_endpoint (Some demo_settings) (find_row demo_env) (PStr ''4'') = Inr ov"
    unfolding solo ..
  then show ?thesis
    unfolding solo by (simp add: build_base_query_params_def flags sync_modes_eq Let_def)
qed

lemma demo_stage:
  "stage_skip_reason vars REPLICATIONS = None"
  "sync_stream_paths_for_stage REPLICATIONS [] = Inr [''proxmox/replication/stream'']"
  by (simp add: stage_skip_reason_def stage_resource_map_def Let_def) code_simp

lemma demo_run:
  obtains recs reqs where "run_all_stages_sync demo_env [] demo_params [REPLICATIONS] = Inr (recs, reqs)"
    and "reqs \<noteq> []"
proof -
  have sc: "proxmox_endpoint_scopes (env_rows demo_env) (par_endpoints demo_params) = [[''4'']]"
    by code_simp
  have wire: "resolve_wire_endpoint_ids (env_rows demo_env) (env_ctx_url demo_env) (env_listing demo_env) [[''4'']]
      = Inr ([(''4'', ''9'')], None)" by code_simp
  obtain q v where
    q: "build_base_query_params (env_solo demo_env) (find_row demo_env) [] [''4''] [] (Some [''9'']) = Inr (q, v)"
    using demo_base_query by blast
  have par: "par_netbox demo_params = []" "par_branch demo_params = PNone" "target_vm_ids demo_params = []"
    by (simp_all add: demo_params_def target_vm_ids_def)
  have env: "env_expired demo_env i = False"
    "env_exec demo_env r = Inr ([(''response'', PDict [(''ok'', PBool True)])], 1)" for i r
    by (simp_all add: demo_env_def)
  have "\<exists>recs reqs. run_all_stages_sync demo_env [] demo_params [REPLICATIONS] = Inr (recs, reqs) \<and> reqs \<noteq> []"
    by (simp add: run_all_stages_sync_def sc wire run_endpoint_def par q env demo_stage py_or_def
        dget_def Let_def split: prod.split)
  with that show ?thesis by blast
qed

theorem staged_requests_are_scoped_witness:
  "\<exists>recs reqs wire. run_all_stages_sync demo_env [] demo_params [REPLICATIONS] = Inr (recs, reqs)
     \<and> reqs \<noteq> [] \<and> list_all (scoped_request wire (map hd
         (proxmox_endpoint_scopes (env_rows demo_env) (par_endpoints demo_params)))) reqs"
proof -
  obtain recs reqs where
    run: "run_all_stages_sync demo_env [] demo_params [REPLICATIONS] = Inr (recs, reqs)" "reqs \<noteq> []"
    by (rule demo_run)
  from staged_requests_are_scoped[OF run(1)] run show ?thesis by blast
qed

theorem no_enabled_endpoint_fails_loud_witness:
  "\<exists>reason. run_all_stages_sync (demo_env\<lparr>env_rows := Some []\<rparr>) [] demo_params [DEVICES] =
     Inr ([\<lparr>rec_sync_type = ENDPOINT_SCOPE, rec_endpoint = None, rec_name = None, rec_path = None,
           rec_runtime = 0, rec_summary = Scope_failed None reason\<rparr>], [])"
  by (rule no_enabled_endpoint_fails_loud[of _ "[]"]) (simp_all add: enabled_rows_def)

theorem every_endpoint_accounted_for_witness:
  "\<exists>recs reqs. run_all_stages_sync demo_env [] demo_params [REPLICATIONS] = Inr (recs, reqs)
     \<and> (\<exists>r \<in> set recs. rec_endpoint r = Some ''4'')"
proof -
  obtain recs reqs where
    run: "run_all_stages_sync demo_env [] demo_params [REPLICATIONS] = Inr (recs, reqs)"
    by (rule demo_run)
  have "[''4''] \<in> set (proxmox_endpoint_scopes (env_rows demo_env) (par_endpoints demo_params))"
    by code_simp
  from every_endpoint_accounted_for[OF run _ _ this, of REPLICATIONS] run show ?thesis
    by (auto simp: skippable_stages_def)
qed


end
