(* ===== verification/Sync_Batch.thy ===== *)
theory Sync_Batch
  imports Sync_Run "HOL-Library.List_Lexorder" "HOL-Library.Char_ord"
begin

text \<open>
  The selected-object run of \<open>netbox_proxbox/sync_stages.py\<close>: every selected object is pinned
  to the one backend endpoint that owns its cluster. \<open>claims\<close> are the reflected clusters as pairs
  of a core cluster id and the endpoint that claims it; \<open>fetch\<close> is the query for the selected
  objects; \<open>call\<close> is the individual sync call of \<open>Individual_Sync\<close>. A run returns the result of
  every object and the requests that were sent.
\<close>

section \<open>Scope of the run\<close>

definition batch_wire_endpoint_scope ::
  "pyval list option \<Rightarrow> string option \<Rightarrow> string + pyval \<Rightarrow> pyval list
    \<Rightarrow> (string \<times> string list \<times> string option \<times> (string \<times> string) list) result" where
  "batch_wire_endpoint_scope endpoint_rows ctx_url listing requested =
     (let scopes = proxmox_endpoint_scopes endpoint_rows requested in
      if scopes = [] then Inr ([], [], Some (no_endpoint_scope_reason requested), [])
      else rbind (resolve_wire_endpoint_ids endpoint_rows ctx_url listing scopes) (\<lambda>(wire, error).
        case error of
          Some e \<Rightarrow> Inr ([], [], Some (
              ''the enabled Proxmox endpoints could not be resolved to ProxBox ''
              @ ''backend ids, so this sync would not have been scoped to them: '' @ e), [])
        | None \<Rightarrow>
            (let plugin_pks = concat (map (\<lambda>sc. case sc of [] \<Rightarrow> [] | pk # _ \<Rightarrow> [pk]) scopes);
                 known = filter (\<lambda>pk. map_of wire pk \<noteq> None) plugin_pks;
                 scope_ids = map (\<lambda>pk. the (map_of wire pk)) known;
                 resolved = fold (\<lambda>pk. AList.update pk (the (map_of wire pk))) known [];
                 skipped = filter (\<lambda>pk. map_of wire pk = None) plugin_pks
             in if scope_ids = [] then
                  Inr ([], skipped, Some (
                    ''none of the enabled Proxmox endpoints is registered with this ''
                    @ ''ProxBox backend under a matching connection target, so this ''
                    @ ''sync would not have been scoped to them''), [])
                else Inr (str_join '','' scope_ids, skipped, None, resolved))))"

section \<open>Owner of an object\<close>

definition cluster_id_of :: "pyval \<Rightarrow> int option" where
  "cluster_id_of candidate =
     (let v = attr_value candidate ''cluster_id'' in if truthy v then int_of_pyval v else None)"

text \<open>\<open>a or b\<close> on optional integers: 0 counts as absent.\<close>

definition id_or :: "int option \<Rightarrow> int option \<Rightarrow> int option" where
  "id_or a b = (if a = None \<or> a = Some 0 then b else a)"

definition batch_object_core_cluster_id :: "pyval \<Rightarrow> string \<Rightarrow> int option" where
  "batch_object_core_cluster_id obj typ =
     (let storage = cluster_id_of (attr_value obj ''proxmox_storage'');
          vm = cluster_id_of (attr_value obj ''virtual_machine'')
      in if typ \<in> {''virtual-machine'', ''proxmox-storage''} then cluster_id_of obj
         else if typ = ''vm-backup'' then id_or storage vm
         else if typ \<in> {''vm-snapshot'', ''vm-task-history''} then id_or vm storage
         else None)"

type_synonym cluster_claims = "(int \<times> int option) list"

definition claimants :: "cluster_claims \<Rightarrow> int \<Rightarrow> string list" where
  "claimants claims cid =
     dedup (concat (map (\<lambda>(c, e). case e of Some pk \<Rightarrow> if c = cid then [str_of_int pk] else [] | None \<Rightarrow> [])
       claims))"

definition owner_endpoint_pks_by_cluster_id ::
  "cluster_claims \<Rightarrow> int list \<Rightarrow> (int \<times> string list) list" where
  "owner_endpoint_pks_by_cluster_id claims cluster_ids =
     map (\<lambda>c. (c, claimants claims c)) (filter (\<lambda>c. claimants claims c \<noteq> []) (dedup cluster_ids))"

definition batch_object_owner_endpoint_pks :: "cluster_claims \<Rightarrow> pyval \<Rightarrow> string \<Rightarrow> string list" where
  "batch_object_owner_endpoint_pks claims obj typ =
     (case batch_object_core_cluster_id obj typ of
        None \<Rightarrow> []
      | Some cid \<Rightarrow>
          if cid = 0 then []
          else (case map_of (owner_endpoint_pks_by_cluster_id claims [cid]) cid of
                  None \<Rightarrow> [] | Some pks \<Rightarrow> pks))"

section \<open>One object\<close>

record batch_request_sent =
  sent_path :: string
  sent_query :: "(string \<times> pyval) list"
  sent_branch :: "string option"
  sent_scope :: "string option"

text \<open>The result of one object: a refusal, or what the individual sync returned.\<close>

datatype object_result =
    Object_error int string
  | Object_synced int pyval "pyval list"

primrec result_status :: "object_result \<Rightarrow> int" where
  "result_status (Object_error s e) = s"
| "result_status (Object_synced s r d) = s"

text \<open>The endpoint scope decision of \<open>run_one\<close>: the scope to send, or the refusal.\<close>

definition object_wire_scope ::
  "string list \<Rightarrow> (string \<times> string) list \<Rightarrow> string option \<Rightarrow> object_result + string option" where
  "object_wire_scope owner_pks wire_by_pk job_scope =
     (let job_ids = filter (\<lambda>w. w \<noteq> []) (map strip (split_on (CHR '','')
                      (case job_scope of None \<Rightarrow> [] | Some s \<Rightarrow> s)))
      in case owner_pks of
           _ # _ # _ \<Rightarrow>
             Inl (Object_error 424 (
               ''This object'' @ [CHR 0x27] @ ''s Proxmox cluster is claimed by more than ''
               @ ''one Proxmox endpoint (ids '' @ str_join '', '' (sort owner_pks) @ ''), so the ''
               @ ''endpoint that owns it cannot be determined and it was ''
               @ ''not synced. Syncing it against every claimant could ''
               @ ''match another cluster/node/VMID with the same name. ''
               @ ''Remove the duplicate reflected cluster, then retry.''))
         | [owner_pk] \<Rightarrow>
             (case map_of wire_by_pk owner_pk of
                None \<Rightarrow> Inl (Object_error 424 (
                  ''The Proxmox endpoint this object belongs to ''
                  @ ''(id '' @ owner_pk @ '') is not in this run'' @ [CHR 0x27] @ ''s endpoint ''
                  @ ''scope, so it was not synced. Syncing it against ''
                  @ ''the remaining endpoints could match another ''
                  @ ''cluster/node/VMID with the same name.''))
              | Some pinned \<Rightarrow>
                  if pinned = [] then Inl (Object_error 424 (
                    ''The Proxmox endpoint this object belongs to ''
                    @ ''(id '' @ owner_pk @ '') is not in this run'' @ [CHR 0x27] @ ''s endpoint ''
                    @ ''scope, so it was not synced. Syncing it against ''
                    @ ''the remaining endpoints could match another ''
                    @ ''cluster/node/VMID with the same name.''))
                  else Inr (Some pinned))
         | [] \<Rightarrow>
             if length job_ids > 1 then
               Inl (Object_error 424 (
                 ''The Proxmox endpoint this object belongs to could not ''
                 @ ''be determined '' @ [em_dash] @ '' no reflected cluster names an owner '' @ [em_dash] @ '' ''
                 @ ''and this run spans '' @ str_of_nat (length job_ids) @ '' Proxmox ''
                 @ ''endpoints, so it was not synced. Syncing it against ''
                 @ ''all of them could match another cluster/node/VMID ''
                 @ ''with the same name. Run a staged sync first so the ''
                 @ ''cluster is reflected, or retry with a single endpoint ''
                 @ ''selected.''))
             else Inr job_scope)"

definition batch_params_of ::
  "(pyval \<Rightarrow> pyval option) \<Rightarrow> string \<Rightarrow> pyval \<Rightarrow> (string \<times> pyval) list option" where
  "batch_params_of tracked typ obj =
     (if typ = ''virtual-machine'' then Some (resolve_vm_batch_params tracked obj)
      else if typ = ''vm-backup'' then Some (resolve_vm_backup_batch_params obj)
      else if typ = ''vm-snapshot'' then Some (resolve_vm_snapshot_batch_params tracked obj)
      else if typ = ''proxmox-storage'' then Some (resolve_storage_batch_params obj)
      else if typ = ''vm-task-history'' then Some (resolve_task_history_batch_params tracked obj)
      else None)"

record batch_env =
  be_tracked :: "pyval \<Rightarrow> pyval option"
  be_claims :: cluster_claims
  be_fetch :: "string \<Rightarrow> string list \<Rightarrow> pyval list"
  be_call :: "batch_request_sent \<Rightarrow> pyval \<times> int \<times> pyval list"

definition object_request ::
  "string option \<Rightarrow> string option \<Rightarrow> (string \<times> pyval) list \<Rightarrow> batch_request_sent" where
  "object_request branch scope params =
     (let q0 = (case dget params ''query_params'' of PDict d \<Rightarrow> d | _ \<Rightarrow> []);
          branch' = (if branch = Some [] then None else branch);
          q1 = (case branch' of None \<Rightarrow> q0
                | Some b \<Rightarrow> AList.update ''netbox_branch_schema_id'' (PStr b) q0);
          q2 = (case scope of None \<Rightarrow> q1
                | Some s \<Rightarrow> if s = [] then q1 else AList.update ''proxmox_endpoint_ids'' (PStr s) q1)
      in \<lparr>sent_path = py_str (dget params ''path''), sent_query = q2, sent_branch = branch',
          sent_scope = scope\<rparr>)"

definition run_one ::
  "batch_env \<Rightarrow> string \<Rightarrow> (string \<times> pyval) list \<Rightarrow> (string \<times> string list) list \<Rightarrow> string option
    \<Rightarrow> (string \<times> string) list \<Rightarrow> string option \<Rightarrow> string \<Rightarrow> object_result \<times> batch_request_sent list" where
  "run_one env typ objects owners job_scope wire_by_pk branch object_id =
     (case map_of objects object_id of
        None \<Rightarrow> (Object_error 404 ''Selected object was not found.'', [])
      | Some obj \<Rightarrow>
          (case object_wire_scope (case map_of owners object_id of None \<Rightarrow> [] | Some pks \<Rightarrow> pks)
                  wire_by_pk job_scope of
             Inl refusal \<Rightarrow> (refusal, [])
           | Inr scope \<Rightarrow>
               (case batch_params_of (be_tracked env) typ obj of
                  None \<Rightarrow> (Object_error 422 (''Unsupported batch object type: '' @ typ), [])
                | Some params \<Rightarrow>
                    if truthy (dget params ''error'') then
                      (Object_error (the (int_of_pyval (py_or (dget params ''status'') (PInt 422))))
                         (py_str (dget params ''error'')), [])
                    else
                      let req = object_request branch scope params in
                      case be_call env req of (response, status, deps) \<Rightarrow>
                        (Object_synced status response deps, [req]))))"

section \<open>The batch\<close>

definition batch_model_types :: "string list" where
  "batch_model_types =
     [''virtual-machine'', ''vm-backup'', ''vm-snapshot'', ''proxmox-storage'', ''vm-task-history'']"

text \<open>Object id to claimants, for the objects whose cluster has one.\<close>

definition owners_by_object ::
  "cluster_claims \<Rightarrow> string \<Rightarrow> (string \<times> pyval) list \<Rightarrow> (string \<times> string) list
    \<Rightarrow> (string \<times> string list) list" where
  "owners_by_object claims typ objects wire_by_pk =
     (if wire_by_pk = [] then []
      else
        let clusters = map (\<lambda>(oid, obj). (oid, batch_object_core_cluster_id obj typ)) objects;
            by_cluster = owner_endpoint_pks_by_cluster_id claims
              (concat (map (\<lambda>(oid, c). case c of Some i \<Rightarrow> if i = 0 then [] else [i] | None \<Rightarrow> []) clusters))
        in concat (map (\<lambda>(oid, c).
             case c of
               None \<Rightarrow> []
             | Some i \<Rightarrow> if i = 0 then []
                 else (case map_of by_cluster i of None \<Rightarrow> [] | Some pks \<Rightarrow> [(oid, pks)])) clusters))"

record batch_summary =
  bs_type :: string
  bs_total :: nat
  bs_succeeded :: nat
  bs_failed :: nat
  bs_results :: "(string \<times> object_result) list"
  bs_tenant_assigned :: "string list"

text \<open>After a 2xx sync of a virtual machine its tenant assignment runs.\<close>

definition triggers_assignment :: "string \<Rightarrow> object_result \<Rightarrow> bool" where
  "triggers_assignment typ r =
     (case r of
        Object_synced status _ _ \<Rightarrow> typ = ''virtual-machine'' \<and> 200 \<le> status \<and> status < 300
      | Object_error _ _ \<Rightarrow> False)"

definition run_batch_selected_sync ::
  "batch_env \<Rightarrow> string \<Rightarrow> pyval list \<Rightarrow> string option \<Rightarrow> string option \<Rightarrow> (string \<times> string) list
    \<Rightarrow> (batch_summary \<times> batch_request_sent list) result" where
  "run_batch_selected_sync env typ ids branch job_scope wire_by_pk =
     (if typ \<notin> set batch_model_types
      then Inl (ValueError (''Unsupported batch object type: '' @ repr_str typ))
      else
        let object_ids = normalize_batch_object_ids ids;
            objects = map (\<lambda>obj. (py_str (attr_value obj ''pk''), obj)) (be_fetch env typ object_ids);
            owners = owners_by_object (be_claims env) typ objects wire_by_pk;
            runs = map (\<lambda>oid. (oid, run_one env typ objects owners job_scope wire_by_pk branch oid)) object_ids;
            succeeded = length (filter (\<lambda>(oid, r, qs). result_status r < 400) runs)
        in Inr (\<lparr>bs_type = typ, bs_total = length runs, bs_succeeded = succeeded,
                 bs_failed = length runs - succeeded,
                 bs_results = map (\<lambda>(oid, r, qs). (oid, r)) runs,
                 bs_tenant_assigned = map fst (filter (\<lambda>(oid, r, qs). triggers_assignment typ r) runs)\<rparr>,
                concat (map (\<lambda>(oid, r, qs). qs) runs)))"

section \<open>Every request goes to one endpoint\<close>

definition single_id :: "string \<Rightarrow> bool" where
  "single_id s \<longleftrightarrow> s \<noteq> [] \<and> CHR '','' \<notin> set s \<and> strip s = s"

lemma digits_clean: "list_all is_digit s \<Longrightarrow> c \<in> set s \<Longrightarrow> c \<noteq> CHR '','' \<and> \<not> is_space c"
  using digit_not_space by (auto simp: list_all_iff is_digit_def)

lemma single_id_int: "single_id (str_of_int i)"
proof -
  have "c \<noteq> CHR '','' \<and> \<not> is_space c" if "c \<in> set (str_of_int i)" for c
    using that digits_clean[OF str_of_nat_digits] by (auto simp: str_of_int_def is_space_def split: if_splits)
  then show ?thesis by (auto simp: single_id_def intro: strip_no_space)
qed

lemma wire_values:
  assumes "resolve_wire_endpoint_ids rows url listing scopes = Inr (wire, err)" and "map_of wire pk = Some v"
  shows "single_id v"
proof -
  from assms(1) have "\<exists>mapping. wire = map (\<lambda>(pk, b). (str_of_int pk, str_of_int b)) mapping"
    by (auto simp: resolve_wire_endpoint_ids_def Let_def rbind_Inr_iff split: if_splits option.splits)
  with assms(2) show ?thesis by (auto dest!: map_of_SomeD simp: single_id_int)
qed

lemma map_of_fold_update:
  "map_of (fold (\<lambda>k. AList.update k (f k)) ks d) k = (if k \<in> set ks then Some (f k) else map_of d k)"
  by (induction ks arbitrary: d) (auto simp: map_of_update)

lemma batch_scope_shape:
  assumes "batch_wire_endpoint_scope rows url listing requested = Inr (scope, skipped, None, by_pk)"
  obtains ids where "scope = str_join '','' ids" and "ids \<noteq> []" and "list_all single_id ids"
    and "set ids \<subseteq> ran (map_of by_pk)" and "\<forall>pk v. map_of by_pk pk = Some v \<longrightarrow> single_id v"
proof -
  let ?sc = "proxmox_endpoint_scopes rows requested"
  from assms obtain wire where
    wire: "resolve_wire_endpoint_ids rows url listing ?sc = Inr (wire, None)"
    by (auto simp: batch_wire_endpoint_scope_def Let_def rbind_Inr_iff split: if_splits option.splits)
  define known where "known = filter (\<lambda>pk. map_of wire pk \<noteq> None)
      (concat (map (\<lambda>sc. case sc of [] \<Rightarrow> [] | pk # _ \<Rightarrow> [pk]) ?sc))"
  define ids where "ids = map (\<lambda>pk. the (map_of wire pk)) known"
  have "scope = str_join '','' ids" "ids \<noteq> []"
    and by_pk: "by_pk = fold (\<lambda>pk. AList.update pk (the (map_of wire pk))) known []"
    using assms wire
    by (auto simp: batch_wire_endpoint_scope_def Let_def known_def ids_def split: if_splits)
  moreover have kn: "single_id (the (map_of wire pk))" if "pk \<in> set known" for pk
    using that wire_values[OF wire] by (auto simp: known_def)
  moreover have m: "map_of by_pk k = (if k \<in> set known then Some (the (map_of wire k)) else None)" for k
    by (simp add: by_pk map_of_fold_update)
  ultimately show ?thesis
    by (intro that[of ids]) (auto simp: ids_def list_all_iff ran_def split: if_splits)
qed

lemma job_ids_of_join:
  assumes "ids \<noteq> []" and "list_all single_id ids"
  shows "filter (\<lambda>w. w \<noteq> []) (map strip (split_on (CHR '','') (str_join '','' ids))) = ids"
proof -
  have "split_on (CHR '','') (str_join '','' ids) = ids"
    using assms by (intro split_on_join) (auto simp: list_all_iff single_id_def)
  moreover have "map strip ids = ids" "filter (\<lambda>w. w \<noteq> []) ids = ids"
    using assms(2) by (auto simp: list_all_iff single_id_def intro: map_idI)
  ultimately show ?thesis by simp
qed

lemma object_scope_pinned:
  assumes "batch_wire_endpoint_scope rows url listing requested = Inr (scope, skipped, None, by_pk)"
    and "object_wire_scope owners by_pk (Some scope) = Inr sc"
  shows "\<exists>s. sc = Some s \<and> single_id s \<and> s \<in> ran (map_of by_pk)"
proof -
  obtain ids where ids: "scope = str_join '','' ids" "ids \<noteq> []" "list_all single_id ids"
    "set ids \<subseteq> ran (map_of by_pk)" "\<forall>pk v. map_of by_pk pk = Some v \<longrightarrow> single_id v"
    using batch_scope_shape[OF assms(1)] .
  show ?thesis
  proof (cases owners)
    case Nil
    with assms(2) job_ids_of_join[OF ids(2,3)] ids(1) have "\<not> length ids > 1" "sc = Some scope"
      by (auto simp: object_wire_scope_def Let_def split: if_splits)
    with ids(2) obtain x where "ids = [x]" by (cases ids) auto
    with ids \<open>sc = Some scope\<close> show ?thesis by auto
  next
    case (Cons owner rest)
    with assms(2) obtain s where "map_of by_pk owner = Some s" "sc = Some s"
      by (cases "map_of by_pk owner")
        (auto simp: object_wire_scope_def Let_def split: list.splits if_splits)
    with ids(5) show ?thesis by (auto simp: ran_def)
  qed
qed

definition pinned_request :: "(string \<times> string) list \<Rightarrow> batch_request_sent \<Rightarrow> bool" where
  "pinned_request by_pk r \<longleftrightarrow>
     (\<exists>s. sent_scope r = Some s \<and> single_id s \<and> s \<in> ran (map_of by_pk)
        \<and> dget (sent_query r) ''proxmox_endpoint_ids'' = PStr s)"

lemma object_request_scoped:
  "single_id s \<Longrightarrow> dget (sent_query (object_request branch (Some s) params)) ''proxmox_endpoint_ids'' = PStr s
     \<and> sent_scope (object_request branch (Some s) params) = Some s"
  by (simp add: object_request_def Let_def single_id_def dget_update)

lemma run_one_pinned:
  assumes "batch_wire_endpoint_scope rows url listing requested = Inr (scope, skipped, None, by_pk)"
    and "r \<in> set (snd (run_one env typ objects owners (Some scope) by_pk branch oid))"
  shows "pinned_request by_pk r"
proof -
  from assms(2) obtain os sc params where
    sc: "object_wire_scope os by_pk (Some scope) = Inr sc"
    and r: "r = object_request branch sc params"
    by (auto simp: run_one_def Let_def split: option.splits sum.splits if_splits prod.splits)
  from object_scope_pinned[OF assms(1) sc] r object_request_scoped show ?thesis
    by (auto simp: pinned_request_def)
qed

lemma batch_requests_of_run_one:
  assumes "run_batch_selected_sync env typ ids branch scope by_pk = Inr (summary, reqs)" and "r \<in> set reqs"
  shows "\<exists>objects owners oid. r \<in> set (snd (run_one env typ objects owners scope by_pk branch oid))"
proof -
  define objects where "objects = map (\<lambda>obj. (py_str (attr_value obj ''pk''), obj))
      (be_fetch env typ (normalize_batch_object_ids ids))"
  define owners where "owners = owners_by_object (be_claims env) typ objects by_pk"
  have "reqs = concat (map (\<lambda>oid. snd (run_one env typ objects owners scope by_pk branch oid))
      (normalize_batch_object_ids ids))"
    using assms(1)
    by (auto simp: run_batch_selected_sync_def Let_def objects_def owners_def comp_def split_beta
        split: if_splits)
  with assms(2) show ?thesis by auto
qed

text \<open>C27. Every request of a selected-object run is sent to exactly one backend endpoint: under the
  scope resolved for the run, its endpoint filter is one backend id of that scope, never a list and
  never absent.\<close>

theorem batch_requests_pinned:
  assumes "batch_wire_endpoint_scope rows url listing requested = Inr (scope, skipped, None, by_pk)"
    and "run_batch_selected_sync env typ ids branch (Some scope) by_pk = Inr (summary, reqs)"
  shows "list_all (pinned_request by_pk) reqs"
  using batch_requests_of_run_one[OF assms(2)] run_one_pinned[OF assms(1)]
  unfolding list_all_iff by blast

lemma map_of_concat_distinct:
  assumes "distinct (map fst xs)" and "(k, v) \<in> set xs" and "f (k, v) = [(k, w)]"
    and "\<And>k v. map fst (f (k, v)) \<in> {[], [k]}"
  shows "map_of (concat (map f xs)) k = Some w"
  using assms(1,2)
proof (induction xs)
  case Nil
  then show ?case by simp
next
  case (Cons x xs)
  obtain k' v' where x: "x = (k', v')" by (cases x)
  show ?case
  proof (cases "k' = k")
    case True
    with Cons.prems x have "v' = v" by (auto simp: image_iff)
    with True x assms(3) show ?thesis by simp
  next
    case False
    with assms(4)[of k' v'] have "map_of (f (k', v')) k = None"
      by (cases "f (k', v')") auto
    with Cons False x show ?thesis by (simp add: map_add_def)
  qed
qed

lemma owners_lookup:
  assumes "by_pk \<noteq> []" and "distinct (map fst objects)" and "(oid, obj) \<in> set objects"
    and "batch_object_core_cluster_id obj typ = Some c" and "c \<noteq> 0" and "claimants claims c \<noteq> []"
  shows "map_of (owners_by_object claims typ objects by_pk) oid = Some (claimants claims c)"
proof -
  define cl where "cl = map (\<lambda>(oid, obj). (oid, batch_object_core_cluster_id obj typ)) objects"
  define cids where "cids = concat (map (\<lambda>(oid, c). case c of Some i \<Rightarrow> if i = (0::int) then [] else [i] | None \<Rightarrow> []) cl)"
  have "distinct (map fst cl)" using assms(2) by (simp add: cl_def comp_def split_beta)
  moreover have mem: "(oid, Some c) \<in> set cl" using assms(3,4) by (force simp: cl_def)
  moreover have "c \<in> set cids" using mem assms(5) by (force simp: cids_def)
  then have "map_of (owner_endpoint_pks_by_cluster_id claims cids) c = Some (claimants claims c)"
    using assms(6) by (simp add: owner_endpoint_pks_by_cluster_id_def global_mode_of)
  ultimately show ?thesis
    using assms(1,5)
    by (auto simp: owners_by_object_def Let_def simp flip: cl_def cids_def
        intro!: map_of_concat_distinct[of cl oid "Some c"] split: option.splits)
qed

text \<open>An object whose cluster two different endpoints claim is refused with status 424 and
  nothing is sent for it, whatever the scope of the run.\<close>

theorem ambiguous_owner_refused:
  assumes "(c, Some e1) \<in> set claims" and "(c, Some e2) \<in> set claims" and "e1 \<noteq> e2" and "c \<noteq> 0"
    and "batch_object_core_cluster_id obj typ = Some c" and "by_pk \<noteq> []"
    and "distinct (map fst objects)" and "(oid, obj) \<in> set objects"
  shows "\<exists>msg. run_one env typ objects (owners_by_object claims typ objects by_pk) scope by_pk branch oid
            = (Object_error 424 msg, [])"
proof -
  have two: "{str_of_int e1, str_of_int e2} \<subseteq> set (claimants claims c)"
    using assms(1,2) by (force simp: claimants_def)
  moreover have "str_of_int e1 \<noteq> str_of_int e2" using assms(3) str_of_int_inj by blast
  ultimately obtain a b cs where abc: "claimants claims c = a # b # cs"
    by (cases "claimants claims c" rule: remdups_adj.cases) auto
  have "map_of (owners_by_object claims typ objects by_pk) oid = Some (a # b # cs)"
    using owners_lookup[OF assms(6,7,8,5,4), of claims] abc by simp
  moreover have "map_of objects oid = Some obj" using assms(7,8) by simp
  ultimately show ?thesis by (simp add: run_one_def object_wire_scope_def Let_def)
qed

section \<open>Witnesses\<close>

definition demo_batch_env :: batch_env where
  "demo_batch_env = \<lparr>be_tracked = (\<lambda>_. None), be_claims = [(5, Some 4), (5, Some 6)],
     be_fetch = (\<lambda>_ _. [demo_vm]), be_call = (\<lambda>_. (PNone, 200, []))\<rparr>"

theorem batch_requests_pinned_witness:
  "\<exists>summary reqs. run_batch_selected_sync demo_batch_env ''virtual-machine'' [PInt 7] None (Some ''9'')
       [(''4'', ''9'')] = Inr (summary, reqs)
     \<and> reqs \<noteq> [] \<and> list_all (pinned_request [(''4'', ''9'')]) reqs"
proof -
  let ?run = "run_batch_selected_sync demo_batch_env ''virtual-machine'' [PInt 7] None (Some ''9'') [(''4'', ''9'')]"
  have scope: "batch_wire_endpoint_scope (Some [demo_db_row]) (Some ''http://b'') (Inr (PList [PDict demo_row]))
      [PInt 4] = Inr (''9'', [], None, [(''4'', ''9'')])" by code_simp
  have "case ?run of Inl _ \<Rightarrow> False | Inr (summary, reqs) \<Rightarrow> reqs \<noteq> []" by code_simp
  then obtain summary reqs where run: "?run = Inr (summary, reqs)" "reqs \<noteq> []" by (cases ?run) auto
  from batch_requests_pinned[OF scope run(1)] run show ?thesis by blast
qed

theorem ambiguous_owner_refused_witness:
  "\<exists>msg. run_one demo_batch_env ''virtual-machine'' [(''7'', PDict [(''cluster_id'', PInt 5)])]
      (owners_by_object [(5, Some 4), (5, Some 6)] ''virtual-machine'' [(''7'', PDict [(''cluster_id'', PInt 5)])]
         [(''4'', ''9'')]) (Some ''9'') [(''4'', ''9'')] None ''7'' = (Object_error 424 msg, [])"
proof (rule ambiguous_owner_refused[of 5 4 _ 6])
  show "batch_object_core_cluster_id (PDict [(''cluster_id'', PInt 5)]) ''virtual-machine'' = Some 5"
    by code_simp
qed auto

end
