(* ===== verification/Individual_Sync.thy ===== *)
theory Individual_Sync
  imports Vm_Identity "HOL-Library.List_Lexorder" "HOL-Library.Char_ord" "HOL-Library.Product_Lexorder"
begin

text \<open>
  \<open>netbox_proxbox/services/individual_sync.py\<close>: one individual sync call and the recursive sync
  of the dependencies the backend reports. \<open>http\<close> is the outcome of one GET request. The
  recursion is unbounded in the code (it ends when every reported dependency has been visited), so
  the model takes fuel; it always returns the requests sent so far, and its outcome is None exactly
  when the fuel ran out.
\<close>

section \<open>One call\<close>

record fastapi_context =
  ctx_http_url :: string
  ctx_fallback_url :: "string option"

datatype http_reply =
    Http_json int pyval
  | Http_json_error string
  | Http_rejected string "int option" bool
  | Http_invalid
  | Http_unexpected string

record http_request =
  get_url :: string
  get_params :: "(string \<times> pyval) list"

type_synonym http = "http_request \<Rightarrow> http_reply"

definition CONTEXT_KEYS :: "string list" where
  "CONTEXT_KEYS =
     [''cluster_name'', ''node'', ''type'', ''vmid'', ''storage_name'', ''storage'', ''volid'',
      ''snapshot_name'', ''interface_name'', ''ip_address'', ''disk_name'', ''replication_id'']"

text \<open>The pinned surroundings of a call tree: branch, backend and endpoint scope.\<close>

record pins =
  pin_branch :: "string option"
  pin_backend :: "int option"
  pin_scope :: "string option"

definition present :: "string option \<Rightarrow> bool" where
  "present s \<longleftrightarrow> s \<noteq> None \<and> s \<noteq> Some []"

definition merged_params :: "pins \<Rightarrow> (string \<times> pyval) list \<Rightarrow> (string \<times> pyval) list" where
  "merged_params p params =
     (let q = (if present (pin_branch p)
               then AList.update ''netbox_branch_schema_id'' (PStr (the (pin_branch p))) params else params)
      in if present (pin_scope p)
         then AList.update ''proxmox_endpoint_ids'' (PStr (the (pin_scope p))) q else q)"

definition error_dict :: "string \<Rightarrow> (string \<times> pyval) list" where
  "error_dict msg = [(''error'', PStr msg)]"

fun try_candidates ::
  "http \<Rightarrow> (string \<times> pyval) list \<Rightarrow> string list \<Rightarrow> string \<Rightarrow> int
    \<Rightarrow> ((string \<times> pyval) list \<times> int) \<times> http_request list" where
  "try_candidates http params [] last_error last_status =
     ((error_dict (if last_error \<noteq> [] then last_error else ''Unable to reach the ProxBox backend.''),
       last_status), [])"
| "try_candidates http params (url # urls) last_error last_status =
     (let req = \<lparr>get_url = url, get_params = params\<rparr> in
      case http req of
        Http_json status payload \<Rightarrow>
          ((case payload of PDict d \<Rightarrow> d | _ \<Rightarrow> [(''response'', payload)], status), [req])
      | Http_json_error err \<Rightarrow> ((error_dict err, 502), [req])
      | Http_rejected detail http_status has_response \<Rightarrow>
          (let status = (case http_status of None \<Rightarrow> 503 | Some s \<Rightarrow> if s = 0 then 503 else s)
           in if has_response
              then (case try_candidates http params [] detail status of (r, qs) \<Rightarrow> (r, req # qs))
              else (case try_candidates http params urls detail status of (r, qs) \<Rightarrow> (r, req # qs)))
      | Http_invalid \<Rightarrow>
          (case try_candidates http params urls
             (''ProxBox backend returned a response that is not valid JSON. ''
              @ ''Check that the FastAPI URL points to proxbox-api, not another service.'') 502 of
             (r, qs) \<Rightarrow> (r, req # qs))
      | Http_unexpected msg \<Rightarrow>
          (case try_candidates http params urls msg 500 of (r, qs) \<Rightarrow> (r, req # qs)))"

definition sync_individual ::
  "(int option \<Rightarrow> fastapi_context option) \<Rightarrow> http \<Rightarrow> pins \<Rightarrow> string \<Rightarrow> (string \<times> pyval) list
    \<Rightarrow> ((string \<times> pyval) list \<times> int) \<times> http_request list" where
  "sync_individual context_of http p path params =
     (let no_backend =
            (case pin_backend p of
               Some i \<Rightarrow> ''The FastAPI endpoint selected for this run ''
                 @ ''(id '' @ str_of_int i @ '') is not configured or not enabled.''
             | None \<Rightarrow> ''No FastAPI endpoint configured.'')
      in case context_of (pin_backend p) of
           None \<Rightarrow> ((error_dict no_backend, 503), [])
         | Some ctx \<Rightarrow>
             if ctx_http_url ctx = [] then ((error_dict no_backend, 503), [])
             else
               let url = ctx_http_url ctx @ ''/'' @ path;
                   candidates =
                     (case ctx_fallback_url ctx of
                        None \<Rightarrow> [url]
                      | Some fb \<Rightarrow>
                          if fb = [] \<or> fb @ ''/'' @ path = url then [url] else [url, fb @ ''/'' @ path])
               in try_candidates http (merged_params p params) candidates [] 503)"

section \<open>Dependencies\<close>

text \<open>\<open>str\<close> of the sorted tuple of string pairs.\<close>

definition pair_repr :: "string \<times> string \<Rightarrow> string" where
  "pair_repr kv = ''('' @ repr_str (fst kv) @ '', '' @ repr_str (snd kv) @ '')''"

definition tuple_repr :: "(string \<times> string) list \<Rightarrow> string" where
  "tuple_repr kvs =
     (case kvs of
        [] \<Rightarrow> ''()''
      | [kv] \<Rightarrow> ''('' @ pair_repr kv @ '',)''
      | _ \<Rightarrow> ''('' @ str_join '', '' (map pair_repr kvs) @ '')'')"

definition build_cache_key :: "string \<Rightarrow> (string \<times> pyval) list \<Rightarrow> string" where
  "build_cache_key path params =
     path @ '':'' @ tuple_repr (sort (map (\<lambda>(k, v). (k, py_str v)) params))"

definition merge_context ::
  "(string \<times> pyval) list \<Rightarrow> (string \<times> pyval) list \<Rightarrow> (string \<times> pyval) list" where
  "merge_context base upd =
     fold (\<lambda>key m. let v = dget upd key in if none_or_empty v then m else AList.update key v m)
       CONTEXT_KEYS base"

definition DEPENDENCY_CONFIG :: "(string \<times> string \<times> string list) list" where
  "DEPENDENCY_CONFIG =
     [(''cluster'', ''sync/individual/cluster'', [''cluster_name'']),
      (''node'', ''sync/individual/node'', [''cluster_name'', ''node_name'']),
      (''vm'', ''sync/individual/vm'', [''cluster_name'', ''node'', ''type'', ''vmid'']),
      (''storage'', ''sync/individual/storage'', [''cluster_name'', ''storage_name'']),
      (''interface'', ''sync/individual/interface'',
        [''cluster_name'', ''node'', ''type'', ''vmid'', ''interface_name'']),
      (''ip'', ''sync/individual/ip'', [''cluster_name'', ''node'', ''type'', ''vmid'', ''ip_address'']),
      (''disk'', ''sync/individual/disk'', [''cluster_name'', ''node'', ''type'', ''vmid'', ''disk_name'']),
      (''replication'', ''sync/individual/replication'', [''cluster_name'', ''replication_id'']),
      (''backup'', ''sync/individual/backup'', [''cluster_name'', ''node'', ''storage'', ''vmid'', ''volid'']),
      (''snapshot'', ''sync/individual/snapshot'',
        [''cluster_name'', ''node'', ''type'', ''vmid'', ''snapshot_name'']),
      (''task-history'', ''sync/individual/task-history'', [''node'', ''type'', ''vmid''])]"

definition get_dependency_config :: "pyval \<Rightarrow> (string \<times> string list) option result" where
  "get_dependency_config dep_type =
     (case dep_type of
        PStr t \<Rightarrow> Inr (map_of DEPENDENCY_CONFIG t)
      | PList _ \<Rightarrow> Inl (TypeError ''unhashable type: list'')
      | PDict _ \<Rightarrow> Inl (TypeError ''unhashable type: dict'')
      | _ \<Rightarrow> Inr None)"

text \<open>\<open>context.get(key, default)\<close>.\<close>

definition ctx_get :: "(string \<times> pyval) list \<Rightarrow> string \<Rightarrow> pyval \<Rightarrow> pyval" where
  "ctx_get context key dflt = (case map_of context key of None \<Rightarrow> dflt | Some v \<Rightarrow> v)"

definition dependency_param ::
  "(string \<times> pyval) list \<Rightarrow> (string \<times> pyval) list \<Rightarrow> string \<Rightarrow> pyval" where
  "dependency_param dep context key =
     (let d = dget dep; nm = dget dep ''name''; c = (\<lambda>dflt. ctx_get context key dflt) in
      if key = ''cluster_name'' then
        py_or (py_or (d key) (c (PStr [])))
          (if dget dep ''object_type'' = PStr ''cluster'' then nm else PStr [])
      else if key = ''node_name'' then py_or (py_or nm (d ''node_name'')) (PStr [])
      else if key = ''node'' \<or> key = ''storage'' \<or> key = ''volid'' then py_or (d key) (c (PStr []))
      else if key = ''type'' then py_or (d key) (c (PStr ''qemu''))
      else if key = ''vmid'' then py_or (d key) (c PNone)
      else py_or (py_or (d key) nm) (c (PStr [])))"

record dep_run =
  run_outcome :: "((string \<times> pyval) list \<times> int \<times> pyval list) result option"
  run_visited :: "string list"
  run_requests :: "http_request list"
  run_keys :: "string list"

definition finished :: "string list \<Rightarrow> (string \<times> pyval) list \<Rightarrow> int \<Rightarrow> dep_run" where
  "finished visited response status =
     \<lparr>run_outcome = Some (Inr (response, status, [])), run_visited = visited, run_requests = [],
      run_keys = []\<rparr>"

definition fill_context ::
  "(string \<times> pyval) list \<Rightarrow> (string \<times> pyval) list \<Rightarrow> (string \<times> pyval) list" where
  "fill_context context params =
     fold (\<lambda>key p. if map_of p key = None
                   then (case map_of context key of None \<Rightarrow> p | Some v \<Rightarrow> p @ [(key, v)]) else p)
       CONTEXT_KEYS params"

text \<open>What a \<open>for\<close> loop over a value visits: the items of a list, the keys of a dict, the
  characters of a text.\<close>

definition iter_items :: "pyval \<Rightarrow> pyval list result" where
  "iter_items v =
     (case v of
        PList xs \<Rightarrow> Inr xs
      | PDict d \<Rightarrow> Inr (map (PStr \<circ> fst) d)
      | PStr s \<Rightarrow> Inr (map (\<lambda>c. PStr [c]) s)
      | _ \<Rightarrow> Inl (TypeError ''object is not iterable''))"

text \<open>One call up to its dependencies: a finished run, or the dependencies still to sync.\<close>

record call_made =
  made_key :: string
  made_response :: "(string \<times> pyval) list"
  made_status :: int
  made_requests :: "http_request list"
  made_context :: "(string \<times> pyval) list"

definition call_step ::
  "(int option \<Rightarrow> fastapi_context option) \<Rightarrow> http \<Rightarrow> pins \<Rightarrow> string \<Rightarrow> (string \<times> pyval) list
    \<Rightarrow> string list \<Rightarrow> (string \<times> pyval) list \<Rightarrow> dep_run + call_made \<times> pyval list" where
  "call_step context_of http p path query visited outer =
     (let context = merge_context outer query;
          params = fill_context context query;
          key = build_cache_key path params
      in if key \<in> set visited then Inl (finished visited [] 200)
         else
           case sync_individual context_of http p path params of ((response, status), reqs) \<Rightarrow>
             if status \<noteq> 200 then
               Inl \<lparr>run_outcome = Some (Inr (response, status, [])), run_visited = key # visited,
                    run_requests = reqs, run_keys = [key]\<rparr>
             else
               (case iter_items (ctx_get response ''dependencies_synced'' (PList [])) of
                  Inr deps \<Rightarrow>
                    Inr (\<lparr>made_key = key, made_response = response, made_status = status,
                          made_requests = reqs, made_context = context\<rparr>, deps)
                | Inl e \<Rightarrow> Inl \<lparr>run_outcome = Some (Inl e), run_visited = key # visited,
                               run_requests = reqs, run_keys = [key]\<rparr>))"

definition after_dependencies :: "call_made \<Rightarrow> dep_run \<Rightarrow> dep_run" where
  "after_dependencies made rest =
     rest\<lparr>run_outcome :=
            map_option (map_sum id (\<lambda>(r, s, synced). (made_response made, made_status made, synced)))
              (run_outcome rest),
          run_requests := made_requests made @ run_requests rest,
          run_keys := made_key made # run_keys rest\<rparr>"

text \<open>\<open>_sync_dependency\<close> up to its call: the call to make, or None when there is none.\<close>

definition dependency_call ::
  "pyval \<Rightarrow> (string \<times> pyval) list
    \<Rightarrow> (string \<times> (string \<times> pyval) list \<times> (string \<times> pyval) list \<times> pyval) option result" where
  "dependency_call item context =
     (case item of
        PDict dep \<Rightarrow>
          (let dep_type = dget dep ''object_type'';
               action = dget dep ''action''
           in if (action = PStr ''created'' \<or> action = PStr ''updated'') \<and> truthy dep_type
              then (case get_dependency_config dep_type of
                      Inl e \<Rightarrow> Inl e
                    | Inr None \<Rightarrow> Inr None
                    | Inr (Some (path, keys)) \<Rightarrow>
                        (let ctx = merge_context context dep
                         in Inr (Some (path, map (\<lambda>k. (k, dependency_param dep ctx k)) keys, ctx, dep_type))))
              else Inr None)
      | _ \<Rightarrow> Inl (AttributeError ''get''))"

definition after_dependency :: "pyval \<Rightarrow> dep_run \<Rightarrow> dep_run \<Rightarrow> dep_run" where
  "after_dependency dep_type one rest =
     (case run_outcome one of
        Some (Inr (response, status, synced)) \<Rightarrow>
          (let entry = (if response = [] then []
                        else [PDict [(''object_type'', dep_type), (''response'', PDict response),
                                     (''status'', PInt status)]])
           in rest\<lparr>run_outcome :=
                     map_option (map_sum id (\<lambda>(r, s, more). (r, s, synced @ entry @ more)))
                       (run_outcome rest),
                   run_requests := run_requests one @ run_requests rest,
                   run_keys := run_keys one @ run_keys rest\<rparr>)
      | _ \<Rightarrow> one)"

definition run_ok :: "dep_run \<Rightarrow> bool" where
  "run_ok r = (case run_outcome r of Some (Inr _) \<Rightarrow> True | _ \<Rightarrow> False)"

text \<open>
  \<open>sync_individual_with_dependencies\<close> and the loop over its dependencies. \<open>run_keys\<close> lists the
  cache keys of the calls that were made.
\<close>

fun sync_with_dependencies ::
  "(int option \<Rightarrow> fastapi_context option) \<Rightarrow> http \<Rightarrow> pins \<Rightarrow> nat \<Rightarrow> string \<Rightarrow> (string \<times> pyval) list
    \<Rightarrow> string list \<Rightarrow> (string \<times> pyval) list \<Rightarrow> dep_run"
and sync_dependencies ::
  "(int option \<Rightarrow> fastapi_context option) \<Rightarrow> http \<Rightarrow> pins \<Rightarrow> nat \<Rightarrow> pyval list
    \<Rightarrow> string list \<Rightarrow> (string \<times> pyval) list \<Rightarrow> dep_run" where
  "sync_with_dependencies context_of http p 0 path query visited outer =
     \<lparr>run_outcome = None, run_visited = visited, run_requests = [], run_keys = []\<rparr>"
| "sync_with_dependencies context_of http p (Suc fuel) path query visited outer =
     (case call_step context_of http p path query visited outer of
        Inl run \<Rightarrow> run
      | Inr (made, deps) \<Rightarrow>
          after_dependencies made
            (sync_dependencies context_of http p fuel deps (made_key made # visited) (made_context made)))"
| "sync_dependencies context_of http p fuel [] visited context = finished visited [] 200"
| "sync_dependencies context_of http p fuel (item # deps) visited context =
     (case dependency_call item context of
        Inl e \<Rightarrow> \<lparr>run_outcome = Some (Inl e), run_visited = visited, run_requests = [], run_keys = []\<rparr>
      | Inr None \<Rightarrow> sync_dependencies context_of http p fuel deps visited context
      | Inr (Some (path, params, ctx, dep_type)) \<Rightarrow>
          (let one = sync_with_dependencies context_of http p fuel path params visited ctx
           in if run_ok one
              then after_dependency dep_type one
                (sync_dependencies context_of http p fuel deps (run_visited one) context)
              else one))"

section \<open>Requests carry the pins\<close>

definition pinned :: "pins \<Rightarrow> http_request \<Rightarrow> bool" where
  "pinned p r \<longleftrightarrow>
     (if present (pin_scope p)
      then dget (get_params r) ''proxmox_endpoint_ids'' = PStr (the (pin_scope p)) else True)
     \<and> (if present (pin_branch p)
        then dget (get_params r) ''netbox_branch_schema_id'' = PStr (the (pin_branch p)) else True)"

lemma try_candidates_params:
  "r \<in> set (snd (try_candidates http params urls err st)) \<Longrightarrow> get_params r = params"
  by (induction http params urls err st rule: try_candidates.induct)
    (auto simp: Let_def split: http_reply.splits prod.splits option.splits if_splits)

lemma sync_individual_pinned:
  "list_all (pinned p) (snd (sync_individual context_of http p path params))"
proof -
  have "get_params r = merged_params p params"
    if "r \<in> set (snd (sync_individual context_of http p path params))" for r
    using that
    by (auto simp: sync_individual_def Let_def simp del: try_candidates.simps
        dest!: try_candidates_params split: option.splits if_splits)
  then show ?thesis
    by (auto simp: list_all_iff pinned_def merged_params_def Let_def dget_update)
qed

lemma call_step_requests:
  "call_step context_of http p path query visited outer = Inl run \<Longrightarrow> list_all (pinned p) (run_requests run)"
  "call_step context_of http p path query visited outer = Inr (made, deps) \<Longrightarrow>
     list_all (pinned p) (made_requests made)"
  using sync_individual_pinned[of p context_of http path "fill_context (merge_context outer query) query"]
  by (auto simp: call_step_def Let_def finished_def split: if_splits prod.splits sum.splits)

lemma run_ok_outcome: "run_ok one \<Longrightarrow> \<exists>r s l. run_outcome one = Some (Inr (r, s, l))"
  by (auto simp: run_ok_def split: option.splits sum.splits)

lemma after_dependency_simps:
  assumes "run_ok one"
  shows "run_requests (after_dependency t one rest) = run_requests one @ run_requests rest"
    "run_keys (after_dependency t one rest) = run_keys one @ run_keys rest"
    "run_visited (after_dependency t one rest) = run_visited rest"
    "run_outcome (after_dependency t one rest) = None \<longleftrightarrow> run_outcome rest = None"
  using run_ok_outcome[OF assms] by (auto simp: after_dependency_def Let_def)

lemma after_dependencies_simps:
  "run_requests (after_dependencies made rest) = made_requests made @ run_requests rest"
  "run_keys (after_dependencies made rest) = made_key made # run_keys rest"
  "run_visited (after_dependencies made rest) = run_visited rest"
  "run_outcome (after_dependencies made rest) = None \<longleftrightarrow> run_outcome rest = None"
  by (simp_all add: after_dependencies_def)

text \<open>The induction behind every property of a call tree: \<open>Q fuel visited run\<close> is shown for each
  way a run is composed.\<close>

lemma call_tree_rule:
  assumes zero: "\<And>v. Q 0 v \<lparr>run_outcome = None, run_visited = v, run_requests = [], run_keys = []\<rparr>"
    and call_done: "\<And>fuel v run path q outer. call_step context_of http p path q v outer = Inl run \<Longrightarrow> Q (Suc fuel) v run"
    and call_deps: "\<And>fuel v made deps rest path q outer.
      call_step context_of http p path q v outer = Inr (made, deps) \<Longrightarrow> Q fuel (made_key made # v) rest \<Longrightarrow>
      Q (Suc fuel) v (after_dependencies made rest)"
    and no_deps: "\<And>fuel v. Q fuel v (finished v [] 200)"
    and raised: "\<And>fuel v e. Q fuel v
      \<lparr>run_outcome = Some (Inl e), run_visited = v, run_requests = [], run_keys = []\<rparr>"
    and dep: "\<And>fuel v t one rest. Q fuel v one \<Longrightarrow> run_ok one \<Longrightarrow> Q fuel (run_visited one) rest \<Longrightarrow>
      Q fuel v (after_dependency t one rest)"
  shows "Q fuel v (sync_with_dependencies context_of http p fuel path q v outer)"
proof -
  have deps: "Q fuel v (sync_dependencies context_of http p fuel ds v c)"
    if one: "\<And>path q v outer. Q fuel v (sync_with_dependencies context_of http p fuel path q v outer)"
    for fuel ds v c
  proof (induction ds arbitrary: v)
    case Nil
    show ?case by (simp add: no_deps)
  next
    case (Cons item ds)
    show ?case
    proof (cases "dependency_call item c")
      case (Inl e)
      then show ?thesis by (simp add: raised)
    next
      case (Inr k)
      show ?thesis
      proof (cases k)
        case None
        with Inr Cons show ?thesis by simp
      next
        case (Some t)
        obtain path params ctx dep_type where "t = (path, params, ctx, dep_type)" by (cases t)
        with Inr Some Cons one dep show ?thesis by (simp add: Let_def)
      qed
    qed
  qed
  show ?thesis
  proof (induction fuel arbitrary: path q v outer)
    case 0
    show ?case by (simp add: zero)
  next
    case (Suc fuel)
    show ?case
    proof (cases "call_step context_of http p path q v outer")
      case (Inl run)
      with call_done show ?thesis by simp
    next
      case (Inr md)
      obtain made ds where "md = (made, ds)" by (cases md)
      with Inr call_deps[OF _ deps[OF Suc.IH]] show ?thesis by simp
    qed
  qed
qed

lemma tree_pinned:
  "list_all (pinned p) (run_requests (sync_with_dependencies context_of http p fuel path query visited outer))"
  by (rule call_tree_rule[where Q = "\<lambda>fuel v r. list_all (pinned p) (run_requests r)"])
    (simp_all add: call_step_requests after_dependencies_simps after_dependency_simps finished_def)

text \<open>C28. A dependency can neither leave the run's endpoint scope nor its branch: every request of a
  call tree, however deep the backend's reported dependencies lead, carries the endpoint scope and
  the branch of the object that was selected.\<close>

theorem dependency_requests_keep_scope:
  "list_all (pinned p) (run_requests (sync_with_dependencies context_of http p fuel path query visited outer))"
  by (rule tree_pinned)

section \<open>No call is repeated, and enough fuel finishes\<close>

definition fresh_keys :: "string list \<Rightarrow> dep_run \<Rightarrow> bool" where
  "fresh_keys visited r \<longleftrightarrow> distinct (run_keys r) \<and> set (run_keys r) \<inter> set visited = {}
     \<and> set (run_visited r) = set visited \<union> set (run_keys r)"

lemma call_step_keys:
  "call_step context_of http p path query visited outer = Inl run \<Longrightarrow> fresh_keys visited run \<and> run_outcome run \<noteq> None"
  "call_step context_of http p path query visited outer = Inr (made, deps) \<Longrightarrow> made_key made \<notin> set visited"
  by (auto simp: call_step_def Let_def finished_def fresh_keys_def split: if_splits prod.splits sum.splits)

lemma fresh_after_call:
  "made_key made \<notin> set v \<Longrightarrow> fresh_keys (made_key made # v) rest \<Longrightarrow> fresh_keys v (after_dependencies made rest)"
  by (auto simp: fresh_keys_def after_dependencies_simps)

lemma fresh_after_dependency:
  "fresh_keys v one \<Longrightarrow> run_ok one \<Longrightarrow> fresh_keys (run_visited one) rest \<Longrightarrow>
     fresh_keys v (after_dependency t one rest)"
  by (auto simp: fresh_keys_def after_dependency_simps)

lemma fresh_empty:
  "fresh_keys v (finished v r s)"
  "fresh_keys v \<lparr>run_outcome = x, run_visited = v, run_requests = [], run_keys = []\<rparr>"
  by (simp_all add: fresh_keys_def finished_def)

lemma tree_fresh:
  "fresh_keys visited (sync_with_dependencies context_of http p fuel path query visited outer)"
  by (rule call_tree_rule[where Q = "\<lambda>fuel. fresh_keys"])
    (auto dest: call_step_keys intro: fresh_after_call fresh_after_dependency
      simp: fresh_empty)

text \<open>The recursion never calls the backend twice for the same path and parameters, whatever
  cycle the reported dependencies form.\<close>

theorem dependency_calls_distinct:
  "distinct (run_keys (sync_with_dependencies context_of http p fuel path query [] outer))"
  using tree_fresh[of "[]" context_of http p fuel path query outer] by (simp add: fresh_keys_def)

lemma visited_grows: "fresh_keys visited r \<Longrightarrow> card (set visited) \<le> card (set (run_visited r))"
  by (auto simp: fresh_keys_def intro!: card_mono)

definition fuel_used :: "nat \<Rightarrow> string list \<Rightarrow> dep_run \<Rightarrow> bool" where
  "fuel_used fuel v r \<longleftrightarrow> card (set v) \<le> card (set (run_visited r))
     \<and> (run_outcome r = None \<longrightarrow> fuel + card (set v) \<le> card (set (run_visited r)))"

lemma out_of_fuel_visits:
  "fuel_used fuel visited (sync_with_dependencies context_of http p fuel path query visited outer)"
proof (rule call_tree_rule[where Q = fuel_used], goal_cases)
  case (2 fuel v run path q outer)
  with call_step_keys(1)[OF 2] visited_grows show ?case by (auto simp: fuel_used_def)
next
  case (3 fuel v made deps rest path q outer)
  with call_step_keys(2)[OF 3(1)] show ?case by (auto simp: fuel_used_def after_dependencies_simps)
next
  case (6 fuel v t one rest)
  then show ?case by (auto simp: fuel_used_def after_dependency_simps)
qed (simp_all add: fuel_used_def finished_def)

text \<open>C29. The recursion ends: when the cache keys a call tree reaches lie in a finite set, the run
  with one more unit of fuel than the set has elements finishes with a result or an exception.\<close>

theorem dependency_recursion_terminates:
  assumes "finite keys"
    and "set (run_visited (sync_with_dependencies context_of http p (Suc (card keys)) path query [] outer)) \<subseteq> keys"
  shows "run_outcome (sync_with_dependencies context_of http p (Suc (card keys)) path query [] outer) \<noteq> None"
proof
  let ?r = "sync_with_dependencies context_of http p (Suc (card keys)) path query [] outer"
  assume "run_outcome ?r = None"
  with out_of_fuel_visits[of "Suc (card keys)" "[]" context_of http p path query outer]
  have "Suc (card keys) \<le> card (set (run_visited ?r))"
    by (simp add: fuel_used_def del: sync_with_dependencies.simps)
  also have "\<dots> \<le> card keys" using assms by (rule card_mono)
  finally show False by simp
qed

definition demo_pins :: pins where
  "demo_pins = \<lparr>pin_branch = None, pin_backend = Some 1, pin_scope = Some ''9''\<rparr>"

definition demo_backend :: "int option \<Rightarrow> fastapi_context option" where
  "demo_backend i = Some \<lparr>ctx_http_url = ''http://b'', ctx_fallback_url = None\<rparr>"

definition demo_http :: http where
  "demo_http r = Http_json 200 (PDict [(''ok'', PBool True)])"

theorem dependency_recursion_terminates_witness:
  "run_outcome (sync_with_dependencies demo_backend demo_http demo_pins
     (Suc (card {build_cache_key ''sync/individual/vm'' []})) ''sync/individual/vm'' [] [] []) \<noteq> None"
proof (rule dependency_recursion_terminates)
  have "run_visited (sync_with_dependencies demo_backend demo_http demo_pins
     (Suc (Suc 0)) ''sync/individual/vm'' [] [] []) = [build_cache_key ''sync/individual/vm'' []]"
    by code_simp
  then show "set (run_visited (sync_with_dependencies demo_backend demo_http demo_pins
     (Suc (card {build_cache_key ''sync/individual/vm'' []})) ''sync/individual/vm'' [] [] []))
     \<subseteq> {build_cache_key ''sync/individual/vm'' []}" by simp
qed simp

end
