(* ===== verification/Deletion_Request.thy ===== *)
theory Deletion_Request
  imports Interfaces Complex_Main
begin

text \<open>
  The safe-delete flow: \<open>models/deletion_request.py\<close>, \<open>forms/deletion_request_approve.py\<close>,
  \<open>views/deletion_requests.py\<close>, \<open>intent/deletion_executor.py\<close> and
  \<open>intent/deletion_ttl_cron.py\<close>. A deletion request is approved or rejected by an operator,
  rejected when it expires, and executed by a queued job that sends one request to the backend.
  \<open>self_ok\<close> is the plugin setting that allows self-approval, users are primary keys, times are
  rational seconds. Each operation acts on the stored row.
\<close>

section \<open>The request\<close>

datatype del_state = PENDING | APPROVED | REJECTED | EXECUTING | SUCCEEDED | FAILED

record deletion_request =
  dr_pk :: int
  requested_by :: "int option"
  authorizer :: "int option"
  dr_state :: del_state
  dr_vmid :: "int option"
  dr_node :: string
  dr_kind :: string
  reject_reason :: string
  executor_run_uuid :: "string option"
  requested_at :: "rat option"
  approved_at :: "rat option"
  executed_at :: "rat option"

text \<open>\<open>DeletionRequest.clean\<close>: true when it does not raise.\<close>

definition clean_ok :: "bool \<Rightarrow> deletion_request \<Rightarrow> bool" where
  "clean_ok self_ok dr \<longleftrightarrow>
     authorizer dr = None \<or> authorizer dr \<noteq> requested_by dr \<or> self_ok"

section \<open>The views\<close>

datatype view_response =
    Forbidden string
  | Form_errors
  | Validation_error
  | Redirect

definition NON_PENDING_STATE_MESSAGE :: string where
  "NON_PENDING_STATE_MESSAGE =
     ''Deletion request is not pending; approve and reject are only valid in the pending state.''"

definition SELF_APPROVAL_BLOCKED_MESSAGE :: string where
  "SELF_APPROVAL_BLOCKED_MESSAGE =
     ''Self-approval blocked: a different authorized user must approve this request.''"

text \<open>\<open>DeletionRequestApproveForm\<close>: the typed VMID is an integer equal to the request's.\<close>

definition approve_form_valid :: "int option \<Rightarrow> deletion_request \<Rightarrow> bool" where
  "approve_form_valid typed dr \<longleftrightarrow> typed \<noteq> None \<and> typed = dr_vmid dr"

text \<open>\<open>DeletionRequestApproveView.post\<close>: the response, the stored row and whether the executor
  job is queued.\<close>

definition approve_post ::
  "bool \<Rightarrow> int \<Rightarrow> int option \<Rightarrow> rat \<Rightarrow> deletion_request \<Rightarrow> view_response \<times> deletion_request \<times> bool" where
  "approve_post self_ok user typed now dr =
     (if dr_state dr \<noteq> PENDING then (Forbidden NON_PENDING_STATE_MESSAGE, dr, False)
      else if requested_by dr \<noteq> None \<and> requested_by dr = Some user \<and> \<not> self_ok
        then (Forbidden SELF_APPROVAL_BLOCKED_MESSAGE, dr, False)
      else if \<not> approve_form_valid typed dr then (Form_errors, dr, False)
      else
        let dr' = dr\<lparr>authorizer := Some user, dr_state := APPROVED, approved_at := Some now\<rparr>
        in if clean_ok self_ok dr' then (Redirect, dr', True) else (Validation_error, dr, False))"

definition reject_post ::
  "int \<Rightarrow> string option \<Rightarrow> deletion_request \<Rightarrow> view_response \<times> deletion_request" where
  "reject_post user reason dr =
     (if dr_state dr \<noteq> PENDING then (Forbidden NON_PENDING_STATE_MESSAGE, dr)
      else (case reason of
              None \<Rightarrow> (Form_errors, dr)
            | Some r \<Rightarrow>
                (Redirect, dr\<lparr>authorizer := Some user, dr_state := REJECTED, reject_reason := r\<rparr>)))"

section \<open>Expiry\<close>

definition ttl_days :: "pyval option \<Rightarrow> int result" where
  "ttl_days setting =
     (let v = (case setting of None \<Rightarrow> PInt 7 | Some s \<Rightarrow> s)
      in case int_of_pyval (if truthy v then v else PInt 7) of
           Some n \<Rightarrow> Inr n | None \<Rightarrow> Inl (ValueError ''invalid literal for int()''))"

definition ttl_expired :: "rat \<Rightarrow> int \<Rightarrow> deletion_request \<Rightarrow> bool" where
  "ttl_expired now days dr \<longleftrightarrow> dr_state dr = PENDING
     \<and> (case requested_at dr of None \<Rightarrow> False | Some t \<Rightarrow> t < now - 86400 * of_int days)"

definition ttl_reject :: "deletion_request \<Rightarrow> deletion_request" where
  "ttl_reject dr = dr\<lparr>dr_state := REJECTED, reject_reason := ''TTL''\<rparr>"

text \<open>\<open>auto_reject_expired_deletion_requests\<close>: the rows after the pass, the count, and the requests
  whose tag is removed when a backend is configured.\<close>

definition auto_reject_expired_deletion_requests ::
  "bool \<Rightarrow> rat \<Rightarrow> int \<Rightarrow> deletion_request list \<Rightarrow> deletion_request list \<times> nat \<times> deletion_request list" where
  "auto_reject_expired_deletion_requests has_backend now days rows =
     (let expired = filter (ttl_expired now days) rows
      in (map (\<lambda>dr. if ttl_expired now days dr then ttl_reject dr else dr) rows,
          length expired, if has_backend then expired else []))"

section \<open>The executor\<close>

datatype backend_ctx =
    No_backend
  | No_url
  | Backend string
  | Backend_raises string

record delete_post =
  post_url :: string
  post_vmid :: "int option"
  post_node :: string
  post_kind :: string
  post_actor :: string

record exec_env =
  ex_ctx :: backend_ctx
  ex_post :: "delete_post \<Rightarrow> string + int \<times> pyval option"
  ex_username :: "int \<Rightarrow> string"
  ex_uuid :: "string \<Rightarrow> string option"

definition trim_reason :: "pyval \<Rightarrow> string" where
  "trim_reason reason =
     (let text = strip (if truthy reason then py_str reason else [])
      in if text \<noteq> [] then take 255 text else ''Deletion executor failed.'')"

definition response_body :: "pyval option \<Rightarrow> (string \<times> pyval) list" where
  "response_body body = (case body of Some (PDict d) \<Rightarrow> d | _ \<Rightarrow> [])"

definition stamp_executor_run_uuid ::
  "exec_env \<Rightarrow> deletion_request \<Rightarrow> (string \<times> pyval) list \<Rightarrow> deletion_request" where
  "stamp_executor_run_uuid env dr body =
     (let v = py_or (dget body ''executor_run_uuid'') (dget body ''run_uuid'')
      in if \<not> truthy v then dr
         else (case ex_uuid env (py_str v) of
                 None \<Rightarrow> dr | Some u \<Rightarrow> dr\<lparr>executor_run_uuid := Some u\<rparr>))"

definition fail_with :: "string \<Rightarrow> deletion_request \<Rightarrow> deletion_request" where
  "fail_with msg dr = dr\<lparr>dr_state := FAILED, reject_reason := trim_reason (PStr msg)\<rparr>"

definition executor_dispatch ::
  "exec_env \<Rightarrow> deletion_request \<Rightarrow> deletion_request \<times> delete_post list" where
  "executor_dispatch env dr =
     (case ex_ctx env of
        No_backend \<Rightarrow> (fail_with ''No FastAPIEndpoint is configured; cannot execute deletion request.'' dr, [])
      | No_url \<Rightarrow> (fail_with ''FastAPIEndpoint has no resolvable http_url.'' dr, [])
      | Backend_raises msg \<Rightarrow> (fail_with msg dr, [])
      | Backend url \<Rightarrow>
          (let post = \<lparr>post_url = rstrip_char (CHR ''/'') url @ ''/intent/deletion-requests/''
                         @ str_of_int (dr_pk dr) @ ''/execute'',
                       post_vmid = dr_vmid dr, post_node = dr_node dr, post_kind = dr_kind dr,
                       post_actor = (case authorizer dr of None \<Rightarrow> [] | Some a \<Rightarrow> ex_username env a)\<rparr>
           in case ex_post env post of
                Inl exc \<Rightarrow> (fail_with exc dr, [post])
              | Inr (status, json) \<Rightarrow>
                  (let body = response_body json;
                       dr' = stamp_executor_run_uuid env dr body;
                       detail = py_or (py_or (dget body ''detail'') (dget body ''message''))
                                  (PStr (''proxbox-api returned HTTP '' @ str_of_int status))
                   in (if 200 \<le> status \<and> status < 300 then dr'\<lparr>dr_state := SUCCEEDED\<rparr>
                       else dr'\<lparr>dr_state := FAILED, reject_reason := trim_reason detail\<rparr>, [post]))))"

text \<open>\<open>DeletionExecutorJob.run\<close>: the stored row and the backend requests that were sent.\<close>

definition executor_run ::
  "bool \<Rightarrow> exec_env \<Rightarrow> rat \<Rightarrow> deletion_request \<Rightarrow> deletion_request \<times> delete_post list" where
  "executor_run self_ok env now dr =
     (if dr_state dr \<noteq> APPROVED then (dr, [])
      else if authorizer dr \<noteq> None \<and> authorizer dr = requested_by dr \<and> \<not> self_ok
        then (dr\<lparr>dr_state := FAILED, reject_reason := ''self-approval blocked''\<rparr>, [])
      else executor_dispatch env (dr\<lparr>dr_state := EXECUTING, executed_at := Some now\<rparr>))"

section \<open>The state machine\<close>

text \<open>\<open>on_delete=SET_NULL\<close> of the two user columns.\<close>

definition forget_user :: "int \<Rightarrow> deletion_request \<Rightarrow> deletion_request" where
  "forget_user u dr =
     dr\<lparr>requested_by := (if requested_by dr = Some u then None else requested_by dr),
        authorizer := (if authorizer dr = Some u then None else authorizer dr)\<rparr>"

text \<open>The row with the dispatches it caused: requester and authorizer at the time, and the request.\<close>

type_synonym del_config = "deletion_request \<times> (int option \<times> int option \<times> delete_post) list"

inductive del_step :: "bool \<Rightarrow> del_config \<Rightarrow> del_config \<Rightarrow> bool" for self_ok where
  approve: "approve_post self_ok user typed now dr = (resp, dr', queued) \<Longrightarrow>
    del_step self_ok (dr, sent) (dr', sent)"
| reject: "reject_post user reason dr = (resp, dr') \<Longrightarrow> del_step self_ok (dr, sent) (dr', sent)"
| expire: "ttl_expired now days dr \<Longrightarrow> del_step self_ok (dr, sent) (ttl_reject dr, sent)"
| execute: "executor_run self_ok env now dr = (dr', posts) \<Longrightarrow>
    del_step self_ok (dr, sent) (dr', sent @ map (\<lambda>p. (requested_by dr, authorizer dr, p)) posts)"
| user_deleted: "del_step self_ok (dr, sent) (forget_user u dr, sent)"

definition fresh_request :: "del_config \<Rightarrow> bool" where
  "fresh_request s \<longleftrightarrow> dr_state (fst s) = PENDING \<and> authorizer (fst s) = None \<and> snd s = []"

definition terminal :: "del_config \<Rightarrow> bool" where
  "terminal s \<longleftrightarrow> dr_state (fst s) \<in> {REJECTED, SUCCEEDED, FAILED}"

definition four_eyes :: "bool \<Rightarrow> int option \<Rightarrow> int option \<Rightarrow> bool" where
  "four_eyes self_ok r a \<longleftrightarrow> self_ok \<or> a = None \<or> a \<noteq> r"

definition del_inv :: "bool \<Rightarrow> del_config \<Rightarrow> bool" where
  "del_inv self_ok s \<longleftrightarrow>
     length (snd s) \<le> 1
     \<and> (snd s \<noteq> [] \<longrightarrow> dr_state (fst s) \<in> {EXECUTING, SUCCEEDED, FAILED})
     \<and> list_all (\<lambda>(r, a, p). four_eyes self_ok r a \<and> post_vmid p = dr_vmid (fst s)) (snd s)"

section \<open>Properties\<close>

lemma approve_post_result:
  "approve_post self_ok user typed now dr = (resp, dr', queued) \<Longrightarrow>
     dr' = dr \<or> (dr_state dr = PENDING \<and> typed = dr_vmid dr \<and> typed \<noteq> None \<and> queued
       \<and> (requested_by dr = Some user \<longrightarrow> self_ok)
       \<and> dr' = dr\<lparr>authorizer := Some user, dr_state := APPROVED, approved_at := Some now\<rparr>)"
  by (auto simp: approve_post_def approve_form_valid_def Let_def split: if_splits)

lemma reject_post_result:
  "reject_post user reason dr = (resp, dr') \<Longrightarrow>
     dr' = dr \<or> (dr_state dr = PENDING \<and> dr_state dr' = REJECTED \<and> dr_vmid dr' = dr_vmid dr)"
  by (auto simp: reject_post_def split: if_splits option.splits)

lemma stamp_keeps [simp]:
  "dr_state (stamp_executor_run_uuid env dr body) = dr_state dr"
  "dr_vmid (stamp_executor_run_uuid env dr body) = dr_vmid dr"
  by (auto simp: stamp_executor_run_uuid_def Let_def split: option.splits)

lemma executor_dispatch_result:
  assumes "executor_dispatch env dr = (dr', posts)"
  shows "dr_state dr' \<in> {SUCCEEDED, FAILED} \<and> dr_vmid dr' = dr_vmid dr \<and> length posts \<le> 1
    \<and> list_all (\<lambda>p. post_vmid p = dr_vmid dr) posts"
  using assms
  by (auto simp: executor_dispatch_def fail_with_def Let_def
      split: backend_ctx.splits sum.splits prod.splits if_splits)

lemma executor_run_result:
  assumes "executor_run self_ok env now dr = (dr', posts)"
  shows "(dr' = dr \<and> posts = []) \<or>
    (dr_state dr = APPROVED \<and> dr_state dr' \<in> {SUCCEEDED, FAILED} \<and> dr_vmid dr' = dr_vmid dr
     \<and> length posts \<le> 1 \<and> list_all (\<lambda>p. post_vmid p = dr_vmid dr) posts
     \<and> (posts = [] \<or> four_eyes self_ok (requested_by dr) (authorizer dr)))"
  using assms executor_dispatch_result[of env "dr\<lparr>dr_state := EXECUTING, executed_at := Some now\<rparr>" dr' posts]
  by (auto simp: executor_run_def four_eyes_def split: if_splits)

lemma del_step_inv:
  assumes "del_inv self_ok s" and "del_step self_ok s t"
  shows "del_inv self_ok t"
  using assms(2)
proof (cases rule: del_step.cases)
  case (approve user typed now dr resp dr' queued sent)
  with approve_post_result[OF approve(3)] assms(1) show ?thesis by (auto simp: del_inv_def)
next
  case (reject user reason dr resp dr' sent)
  with reject_post_result[OF reject(3)] assms(1) show ?thesis by (auto simp: del_inv_def)
next
  case (expire now days dr sent)
  with assms(1) show ?thesis by (auto simp: del_inv_def ttl_expired_def ttl_reject_def)
next
  case (execute env now dr dr' posts sent)
  with executor_run_result[OF execute(3)] assms(1) show ?thesis
    by (auto simp: del_inv_def list_all_iff)
next
  case (user_deleted dr sent u)
  with assms(1) show ?thesis by (auto simp: del_inv_def forget_user_def)
qed

lemma fresh_inv: "fresh_request s \<Longrightarrow> del_inv self_ok s"
  by (simp add: fresh_request_def del_inv_def)

lemma del_step_terminal:
  assumes "terminal s" and "del_step self_ok s t"
  shows "terminal t \<and> dr_state (fst t) = dr_state (fst s) \<and> snd t = snd s"
  using assms(2,1)
  by (cases rule: del_step.cases)
    (auto simp: terminal_def ttl_expired_def forget_user_def
      dest!: approve_post_result reject_post_result executor_run_result)

lemma del_step_vmid:
  assumes "del_step self_ok s t"
  shows "dr_vmid (fst t) = dr_vmid (fst s)"
  using assms
  by (cases rule: del_step.cases)
    (auto simp: ttl_reject_def forget_user_def dest!: approve_post_result reject_post_result executor_run_result)

lemma del_run_vmid: "(del_step self_ok)\<^sup>*\<^sup>* s t \<Longrightarrow> dr_vmid (fst t) = dr_vmid (fst s)"
  by (induction rule: rtranclp_induct) (simp_all add: del_step_vmid)

interpretation deletion: one_way_machine fresh_request "del_step self_ok" "del_inv self_ok" terminal
  for self_ok
  by unfold_locales
    (simp_all add: fresh_inv del_step_inv del_step_terminal)

text \<open>C30. Four eyes and at most one execution: when self-approval is not allowed, a request that
  starts pending is sent to the backend at most once over any sequence of approvals, rejections,
  expiries, executor runs and user deletions; it is sent only for a request whose authorizer is not
  its requester, and for the VMID the request names.\<close>

theorem deletion_four_eyes_once:
  assumes "fresh_request s" and "(del_step False)\<^sup>*\<^sup>* s t"
  shows "length (snd t) \<le> 1
    \<and> list_all (\<lambda>(r, a, p). (a = None \<or> a \<noteq> r) \<and> post_vmid p = dr_vmid (fst t)) (snd t)"
  using deletion.reachable_good[OF assms] by (simp add: del_inv_def four_eyes_def)

definition demo_request :: deletion_request where
  "demo_request = \<lparr>dr_pk = 1, requested_by = Some 10, authorizer = None, dr_state = PENDING,
     dr_vmid = Some 100, dr_node = ''n1'', dr_kind = ''qemu'', reject_reason = [],
     executor_run_uuid = None, requested_at = Some 0, approved_at = None, executed_at = None\<rparr>"

definition demo_exec_env :: exec_env where
  "demo_exec_env = \<lparr>ex_ctx = Backend ''http://b'', ex_post = (\<lambda>_. Inr (200, None)),
     ex_username = (\<lambda>_. ''ops''), ex_uuid = (\<lambda>_. None)\<rparr>"

theorem deletion_four_eyes_once_witness:
  "\<exists>t. (del_step False)\<^sup>*\<^sup>* (demo_request, []) t \<and> length (snd t) = 1 \<and> length (snd t) \<le> 1
     \<and> list_all (\<lambda>(r, a, p). (a = None \<or> a \<noteq> r) \<and> post_vmid p = dr_vmid (fst t)) (snd t)"
proof -
  let ?dr = "demo_request\<lparr>authorizer := Some 20, dr_state := APPROVED, approved_at := Some 1\<rparr>"
  have "approve_post False 20 (Some 100) 1 demo_request = (Redirect, ?dr, True)"
    by (simp add: approve_post_def demo_request_def approve_form_valid_def clean_ok_def Let_def)
  then have 1: "del_step False (demo_request, []) (?dr, [])" by (rule del_step.approve)
  obtain dr' posts where e: "executor_run False demo_exec_env 2 ?dr = (dr', posts)" and p: "length posts = 1"
    by (simp add: executor_run_def executor_dispatch_def demo_request_def demo_exec_env_def Let_def)
  then have 2: "del_step False (?dr, []) (dr', [] @ map (\<lambda>p. (requested_by ?dr, authorizer ?dr, p)) posts)"
    by (intro del_step.execute)
  from 1 2 have run: "(del_step False)\<^sup>*\<^sup>* (demo_request, [])
      (dr', [] @ map (\<lambda>p. (requested_by ?dr, authorizer ?dr, p)) posts)" by simp
  have "fresh_request (demo_request, [])" by (simp add: fresh_request_def demo_request_def)
  from deletion_four_eyes_once[OF this run] run p show ?thesis by fastforce
qed

text \<open>A rejected, succeeded or failed request is final: no later approval, rejection, expiry or
  executor run changes its state.\<close>

theorem deletion_outcome_final:
  assumes "fresh_request s" and "(del_step self_ok)\<^sup>*\<^sup>* s t" and "terminal t" and "(del_step self_ok)\<^sup>*\<^sup>* t u"
  shows "terminal u \<and> dr_state (fst u) = dr_state (fst t)"
  using assms(4)
proof (induction rule: rtranclp_induct)
  case base
  with assms(3) show ?case by simp
next
  case (step y z)
  with deletion.run_closed[OF step(1) deletion.reachable_good[OF assms(1,2)] assms(3)]
  show ?case using del_step_terminal by metis
qed

theorem deletion_outcome_final_witness:
  "terminal (ttl_reject demo_request, []) \<and>
   dr_state (fst (forget_user 10 (ttl_reject demo_request), [])) = REJECTED"
proof -
  have 1: "del_step False (demo_request, []) (ttl_reject demo_request, [])"
    by (rule del_step.expire[of 1000000 7]) (simp add: ttl_expired_def demo_request_def)
  have 2: "del_step False (ttl_reject demo_request, []) (forget_user 10 (ttl_reject demo_request), [])"
    by (rule del_step.user_deleted)
  have f: "fresh_request (demo_request, [])" by (simp add: fresh_request_def demo_request_def)
  have t: "terminal (ttl_reject demo_request, [])" by (simp add: terminal_def ttl_reject_def)
  from deletion_outcome_final[OF f r_into_rtranclp[of "del_step False", OF 1] t r_into_rtranclp[of "del_step False", OF 2]] t
  show ?thesis by (simp add: ttl_reject_def)
qed

text \<open>A request can be approved only by confirming its own VMID while it is pending; every other
  submission leaves the row unchanged and queues nothing.\<close>

theorem approval_requires_confirmation:
  "(case approve_post self_ok user typed now dr of (resp, dr', queued) \<Rightarrow>
      if queued
      then resp = Redirect \<and> dr_state dr = PENDING \<and> typed \<noteq> None \<and> typed = dr_vmid dr
           \<and> four_eyes self_ok (requested_by dr) (Some user)
           \<and> dr' = dr\<lparr>authorizer := Some user, dr_state := APPROVED, approved_at := Some now\<rparr>
      else dr' = dr \<and> resp \<noteq> Redirect)"
  by (auto simp: approve_post_def approve_form_valid_def clean_ok_def four_eyes_def Let_def)

end
