(* ===== verification/Sync_Ownership.thy ===== *)
theory Sync_Ownership
  imports Interfaces
begin

text \<open>
  \<open>netbox_proxbox/sync_ownership.py\<close> and the ownership helpers of
  \<open>views/job_stream.py\<close>: which worker owns the sync of a job row. The owner is stored in the
  job's JSON column under \<open>proxbox_sync.sync_owner\<close>. A \<open>job\<close> is an in-memory handle;
  \<open>job_rows\<close> are the data columns of the stored rows, by primary key. \<open>loads\<close> is
  \<open>json.loads\<close> (None where it raises) and \<open>now\<close> the time stamp text.
\<close>

section \<open>Rows, handles and the owner record\<close>

record job =
  job_pk :: int
  job_name :: pyval
  job_status :: string
  job_data :: pyval
  log_entries :: pyval

type_synonym job_rows = "int \<rightharpoonup> pyval"
type_synonym json_loads = "string \<Rightarrow> pyval option"

definition SYNC_OWNER_RQ :: string where "SYNC_OWNER_RQ = ''rq_job''"

definition normalized_job_data :: "json_loads \<Rightarrow> pyval \<Rightarrow> (string \<times> pyval) list" where
  "normalized_job_data loads raw_data =
     (case raw_data of
        PNone \<Rightarrow> []
      | PDict d \<Rightarrow> d
      | PStr s \<Rightarrow> if s = [] then [] else (case loads s of Some (PDict d) \<Rightarrow> d | _ \<Rightarrow> [])
      | _ \<Rightarrow> [])"

text \<open>\<open>job.save(update_fields=["data"])\<close> raises when the row is gone.\<close>

definition save_job_data ::
  "job_rows \<Rightarrow> job \<Rightarrow> (string \<times> pyval) list \<Rightarrow> (job_rows \<times> job) result" where
  "save_job_data rows job data =
     (case rows (job_pk job) of
        None \<Rightarrow> Inl (DatabaseError ''Save with update_fields did not affect any rows.'')
      | Some _ \<Rightarrow> Inr (rows(job_pk job \<mapsto> PDict data), job\<lparr>job_data := PDict data\<rparr>))"

section \<open>The RQ worker's claim and release\<close>

definition claim_on_job_instance ::
  "json_loads \<Rightarrow> string \<Rightarrow> job_rows \<Rightarrow> job \<Rightarrow> (bool \<times> job_rows \<times> job) result" where
  "claim_on_job_instance loads now rows job =
     (let data = normalized_job_data loads (job_data job);
          proxbox_sync = (case map_of data ''proxbox_sync'' of Some (PDict d) \<Rightarrow> d | _ \<Rightarrow> []);
          current_owner = dget proxbox_sync ''sync_owner''
      in if truthy current_owner \<and> current_owner \<noteq> PStr SYNC_OWNER_RQ
         then Inr (False, rows, job)
         else
           let ps1 = AList.update ''sync_owner'' (PStr SYNC_OWNER_RQ) proxbox_sync;
               ps2 = AList.update ''sync_owner_claimed_at'' (PStr now) ps1;
               data' = AList.update ''proxbox_sync'' (PDict ps2) data
           in rbind (save_job_data rows job data') (\<lambda>(rows', job'). Inr (True, rows', job')))"

text \<open>
  \<open>_lock_job_for_update\<close> rereads the row; \<open>orm\<close> says that the handle has a key and a
  manager, and that the lock query is supported.
\<close>

definition lock_job_for_update :: "bool \<Rightarrow> job_rows \<Rightarrow> job \<Rightarrow> job option result" where
  "lock_job_for_update orm rows job =
     (if \<not> orm then Inr None
      else (case rows (job_pk job) of
              None \<Rightarrow> Inl (DoesNotExist ''Job matching query does not exist.'')
            | Some d \<Rightarrow> Inr (Some (job\<lparr>job_data := d\<rparr>))))"

definition claim_rq_sync_ownership ::
  "json_loads \<Rightarrow> string \<Rightarrow> bool \<Rightarrow> job_rows \<Rightarrow> job \<Rightarrow> (bool \<times> job_rows \<times> job) result" where
  "claim_rq_sync_ownership loads now orm rows job =
     rbind (lock_job_for_update orm rows job) (\<lambda>locked.
       (case locked of
          None \<Rightarrow> claim_on_job_instance loads now rows job
        | Some locked_job \<Rightarrow>
            rbind (claim_on_job_instance loads now rows locked_job) (\<lambda>(claimed, rows', locked').
              Inr (claimed, rows', if claimed then job\<lparr>job_data := job_data locked'\<rparr> else job))))"

definition release_rq_sync_ownership ::
  "json_loads \<Rightarrow> job_rows \<Rightarrow> job \<Rightarrow> (job_rows \<times> job) result" where
  "release_rq_sync_ownership loads rows job =
     (let data = normalized_job_data loads (job_data job) in
      case (case map_of data ''proxbox_sync'' of None \<Rightarrow> PDict [] | Some v \<Rightarrow> v) of
        PDict proxbox_sync \<Rightarrow>
          (if dget proxbox_sync ''sync_owner'' = PStr SYNC_OWNER_RQ then
             let ps1 = AList.delete ''sync_owner'' proxbox_sync;
                 ps2 = (if truthy (dget ps1 ''sync_owner_claimed_at'')
                        then AList.delete ''sync_owner_claimed_at'' ps1 else ps1)
             in save_job_data rows job (AList.update ''proxbox_sync'' (PDict ps2) data)
           else Inr (rows, job))
      | _ \<Rightarrow> Inr (rows, job))"

section \<open>The stream view's claim and release\<close>

definition job_data_mapping :: "json_loads \<Rightarrow> pyval \<Rightarrow> (string \<times> pyval) list" where
  "job_data_mapping loads raw =
     (case (case raw of PStr s \<Rightarrow> if s = [] then Some (PDict []) else loads s | v \<Rightarrow> Some v) of
        Some (PDict d) \<Rightarrow> d | _ \<Rightarrow> [])"

definition proxbox_sync_mapping :: "(string \<times> pyval) list \<Rightarrow> (string \<times> pyval) list" where
  "proxbox_sync_mapping data = (case dget data ''proxbox_sync'' of PDict d \<Rightarrow> d | _ \<Rightarrow> [])"

definition claim_sync_ownership ::
  "json_loads \<Rightarrow> string \<Rightarrow> job_rows \<Rightarrow> job \<Rightarrow> string \<Rightarrow> (bool \<times> job_rows \<times> job) result" where
  "claim_sync_ownership loads now rows job owner =
     (let data = job_data_mapping loads (job_data job);
          proxbox_sync = proxbox_sync_mapping data;
          current_owner = dget proxbox_sync ''sync_owner''
      in if truthy current_owner \<and> current_owner \<noteq> PStr owner
         then Inr (False, rows, job)
         else
           let ps1 = AList.update ''sync_owner'' (PStr owner) proxbox_sync;
               ps2 = AList.update ''sync_owner_claimed_at'' (PStr now) ps1;
               data' = AList.update ''proxbox_sync'' (PDict ps2) data
           in rbind (save_job_data rows job data') (\<lambda>(rows', job'). Inr (True, rows', job')))"

definition get_sync_ownership :: "json_loads \<Rightarrow> job \<Rightarrow> string option" where
  "get_sync_ownership loads job =
     (case dget (proxbox_sync_mapping (job_data_mapping loads (job_data job))) ''sync_owner'' of
        PStr owner \<Rightarrow> Some owner | _ \<Rightarrow> None)"

definition is_proxbox_apply_job :: "job \<Rightarrow> bool" where
  "is_proxbox_apply_job job =
     (case job_data job of
        PDict d \<Rightarrow> (case dget d ''proxbox_apply'' of PDict _ \<Rightarrow> True | _ \<Rightarrow> False)
      | _ \<Rightarrow> False)"

definition release_sync_ownership ::
  "json_loads \<Rightarrow> job_rows \<Rightarrow> job \<Rightarrow> string \<Rightarrow> (job_rows \<times> job) result" where
  "release_sync_ownership loads rows job owner =
     (let data = job_data_mapping loads (job_data job);
          proxbox_sync = proxbox_sync_mapping data
      in if dget proxbox_sync ''sync_owner'' = PStr owner then
           let ps1 = AList.delete ''sync_owner'' proxbox_sync;
               ps2 = (if truthy (dget ps1 ''sync_owner_claimed_at'')
                      then AList.delete ''sync_owner_claimed_at'' ps1 else ps1)
           in save_job_data rows job (AList.update ''proxbox_sync'' (PDict ps2) data)
         else Inr (rows, job))"

section \<open>The two implementations agree\<close>

definition owner_of :: "json_loads \<Rightarrow> pyval \<Rightarrow> pyval" where
  "owner_of loads raw = dget (proxbox_sync_mapping (job_data_mapping loads raw)) ''sync_owner''"

lemma data_mapping_same: "job_data_mapping loads raw = normalized_job_data loads raw"
  by (cases raw) (auto simp: job_data_mapping_def normalized_job_data_def
      split: option.splits pyval.splits)

lemma sync_block_same:
  "(case map_of data ''proxbox_sync'' of Some (PDict d) \<Rightarrow> d | _ \<Rightarrow> []) = proxbox_sync_mapping data"
  by (auto simp: proxbox_sync_mapping_def dget_def split: option.splits pyval.splits)

lemma claim_same:
  "claim_on_job_instance loads now rows job = claim_sync_ownership loads now rows job SYNC_OWNER_RQ"
  by (simp add: claim_on_job_instance_def claim_sync_ownership_def data_mapping_same sync_block_same)

lemma release_same:
  "release_rq_sync_ownership loads rows job = release_sync_ownership loads rows job SYNC_OWNER_RQ"
  unfolding release_rq_sync_ownership_def release_sync_ownership_def data_mapping_same Let_def
  by (cases "map_of (normalized_job_data loads (job_data job)) ''proxbox_sync''")
    (auto simp: proxbox_sync_mapping_def dget_def split: pyval.splits)

section \<open>Effect of one operation\<close>

lemma delete_other: "k \<noteq> k' \<Longrightarrow> dget (AList.delete k' d) k = dget d k"
  by (simp add: dget_def delete_conv)

lemma delete_same: "dget (AList.delete k d) k = PNone"
  by (simp add: dget_def delete_conv)

lemma owner_after_update:
  "owner_of loads (PDict (AList.update ''proxbox_sync'' (PDict ps) data)) = dget ps ''sync_owner''"
  by (simp add: owner_of_def job_data_mapping_def proxbox_sync_mapping_def dget_update)

lemma claim_cases:
  assumes "rows (job_pk job) \<noteq> None"
  shows "(truthy (owner_of loads (job_data job)) \<and> owner_of loads (job_data job) \<noteq> PStr owner
            \<and> claim_sync_ownership loads now rows job owner = Inr (False, rows, job))
       \<or> (\<exists>d. claim_sync_ownership loads now rows job owner =
               Inr (True, rows(job_pk job \<mapsto> PDict d), job\<lparr>job_data := PDict d\<rparr>)
            \<and> (owner_of loads (job_data job) = PStr owner \<or> \<not> truthy (owner_of loads (job_data job)))
            \<and> owner_of loads (PDict d) = PStr owner
            \<and> (\<forall>k. k \<noteq> ''proxbox_sync'' \<longrightarrow>
                 dget d k = dget (job_data_mapping loads (job_data job)) k))"
  using assms
  by (auto simp: claim_sync_ownership_def save_job_data_def Let_def owner_after_update dget_update
      owner_of_def[of loads "job_data job"])

lemma release_cases:
  assumes "rows (job_pk job) \<noteq> None"
  shows "(owner_of loads (job_data job) \<noteq> PStr owner
            \<and> release_sync_ownership loads rows job owner = Inr (rows, job))
       \<or> (\<exists>d. release_sync_ownership loads rows job owner =
               Inr (rows(job_pk job \<mapsto> PDict d), job\<lparr>job_data := PDict d\<rparr>)
            \<and> owner_of loads (job_data job) = PStr owner \<and> owner_of loads (PDict d) = PNone
            \<and> (\<forall>k. k \<noteq> ''proxbox_sync'' \<longrightarrow>
                 dget d k = dget (job_data_mapping loads (job_data job)) k))"
  using assms
  by (auto simp: release_sync_ownership_def save_job_data_def Let_def owner_after_update dget_update
      owner_of_def[of loads "job_data job"] delete_other delete_same)

lemma rq_claim_is_locked_claim:
  assumes "rows (job_pk job) = Some row"
  shows "claim_rq_sync_ownership loads now True rows job =
     rbind (claim_sync_ownership loads now rows (job\<lparr>job_data := row\<rparr>) SYNC_OWNER_RQ)
       (\<lambda>(claimed, rows', locked'). Inr (claimed, rows',
          if claimed then job\<lparr>job_data := job_data locked'\<rparr> else job))"
  using assms by (simp add: claim_rq_sync_ownership_def lock_job_for_update_def claim_same)

text \<open>The RQ worker's claim is decided on the stored row, whatever its own handle says: it
  succeeds exactly when the row has no owner or is already owned by the RQ worker. Success stores
  the new owner in the row and in the handle and keeps every other key of the job's data; refusal
  changes nothing.\<close>

theorem rq_claim_decides_on_stored_row:
  assumes "rows (job_pk job) = Some row"
  shows "\<exists>claimed rows' job'. claim_rq_sync_ownership loads now True rows job = Inr (claimed, rows', job')
     \<and> claimed = (\<not> truthy (owner_of loads row) \<or> owner_of loads row = PStr SYNC_OWNER_RQ)
     \<and> (if claimed
        then \<exists>d. rows' = rows(job_pk job \<mapsto> PDict d) \<and> job' = job\<lparr>job_data := PDict d\<rparr>
               \<and> owner_of loads (PDict d) = PStr SYNC_OWNER_RQ
               \<and> (\<forall>k. k \<noteq> ''proxbox_sync'' \<longrightarrow> dget d k = dget (job_data_mapping loads row) k)
        else rows' = rows \<and> job' = job)"
  using claim_cases[of rows "job\<lparr>job_data := row\<rparr>" loads SYNC_OWNER_RQ now] assms
  unfolding rq_claim_is_locked_claim[of rows job row, OF assms] by (auto split: prod.splits)

definition demo_job :: job where
  "demo_job = \<lparr>job_pk = 1, job_name = PNone, job_status = ''running'', job_data = PNone,
     log_entries = PNone\<rparr>"

theorem rq_claim_decides_on_stored_row_witness:
  "\<exists>claimed rows' job'.
     claim_rq_sync_ownership (\<lambda>_. None) ''t'' True [1 \<mapsto> PDict []] demo_job = Inr (claimed, rows', job')
     \<and> claimed"
  using rq_claim_decides_on_stored_row[of "[1 \<mapsto> PDict []]" demo_job "PDict []" "\<lambda>_. None" "''t''"]
  by (auto simp: demo_job_def owner_of_def job_data_mapping_def proxbox_sync_mapping_def)

section \<open>Mutual exclusion\<close>

text \<open>
  The stored rows with the claims that are held: pairs of a row key and an owner whose claim
  succeeded and who has not released. The stream view's operations act on a handle that agrees
  with its row; the RQ worker's claim rereads the row under its lock, from any handle.
\<close>

inductive own_step ::
  "json_loads \<Rightarrow> job_rows \<times> (int \<times> string) set \<Rightarrow> job_rows \<times> (int \<times> string) set \<Rightarrow> bool"
  for loads where
  claim: "rows (job_pk job) = Some (job_data job) \<Longrightarrow> owner \<noteq> [] \<Longrightarrow>
    claim_sync_ownership loads now rows job owner = Inr (claimed, rows', job') \<Longrightarrow>
    own_step loads (rows, held) (rows', if claimed then insert (job_pk job, owner) held else held)"
| claim_rq: "rows (job_pk job) \<noteq> None \<Longrightarrow>
    claim_rq_sync_ownership loads now True rows job = Inr (claimed, rows', job') \<Longrightarrow>
    own_step loads (rows, held)
      (rows', if claimed then insert (job_pk job, SYNC_OWNER_RQ) held else held)"
| release: "rows (job_pk job) = Some (job_data job) \<Longrightarrow>
    release_sync_ownership loads rows job owner = Inr (rows', job') \<Longrightarrow>
    own_step loads (rows, held) (rows', held - {(job_pk job, owner)})"

inductive_cases own_stepE: "own_step loads s t"

definition held_ok :: "json_loads \<Rightarrow> job_rows \<times> (int \<times> string) set \<Rightarrow> bool" where
  "held_ok loads s \<longleftrightarrow> (\<forall>pk owner. (pk, owner) \<in> snd s \<longrightarrow> owner \<noteq> [] \<and>
     (\<exists>row. fst s pk = Some row \<and> owner_of loads row = PStr owner))"

lemma held_owner:
  "held_ok loads (rows, held) \<Longrightarrow> (pk, owner) \<in> held \<Longrightarrow>
    \<exists>row. rows pk = Some row \<and> owner_of loads row = PStr owner"
  by (simp add: held_ok_def)

lemma held_ok_claim:
  assumes ok: "held_ok loads (rows, held)" and row: "rows (job_pk job) = Some (job_data job)"
    and "owner \<noteq> []"
    and cl: "claim_sync_ownership loads now rows job owner = Inr (claimed, rows', job')"
  shows "held_ok loads (rows', if claimed then insert (job_pk job, owner) held else held)"
proof (cases claimed)
  case False
  with claim_cases[of rows job loads owner now] row cl ok show ?thesis by auto
next
  case True
  with claim_cases[of rows job loads owner now] row cl obtain d where
    d: "rows' = rows(job_pk job \<mapsto> PDict d)" "owner_of loads (PDict d) = PStr owner"
      "owner_of loads (job_data job) = PStr owner \<or> \<not> truthy (owner_of loads (job_data job))"
    by auto
  have "o' = owner" if "(job_pk job, o') \<in> held" for o'
  proof -
    from that ok have "o' \<noteq> []" and "owner_of loads (job_data job) = PStr o'"
      using row unfolding held_ok_def fst_conv snd_conv by (blast, metis option.inject)
    with d(3) show ?thesis by auto
  qed
  then show ?thesis using True ok d(1,2) \<open>owner \<noteq> []\<close> by (auto simp: held_ok_def)
qed

lemma held_ok_release:
  assumes ok: "held_ok loads (rows, held)" and row: "rows (job_pk job) = Some (job_data job)"
    and rl: "release_sync_ownership loads rows job owner = Inr (rows', job')"
  shows "held_ok loads (rows', held - {(job_pk job, owner)})"
  using release_cases[of rows job loads owner] row rl ok by (fastforce simp: held_ok_def)

lemma held_ok_rq:
  assumes ok: "held_ok loads (rows, held)" and "rows (job_pk job) \<noteq> None"
    and cl: "claim_rq_sync_ownership loads now True rows job = Inr (claimed, rows', job')"
  shows "held_ok loads (rows', if claimed then insert (job_pk job, SYNC_OWNER_RQ) held else held)"
proof -
  from assms(2) obtain row where row: "rows (job_pk job) = Some row" by blast
  from cl obtain j' where
    "claim_sync_ownership loads now rows (job\<lparr>job_data := row\<rparr>) SYNC_OWNER_RQ = Inr (claimed, rows', j')"
    unfolding rq_claim_is_locked_claim[of rows job row, OF row] by (auto simp: rbind_def split: sum.splits)
  then have "held_ok loads (rows', if claimed
      then insert (job_pk (job\<lparr>job_data := row\<rparr>), SYNC_OWNER_RQ) held else held)"
    using row by (intro held_ok_claim[OF ok]) (simp_all add: SYNC_OWNER_RQ_def)
  then show ?thesis by (cases claimed) simp_all
qed

lemma own_step_ok: "held_ok loads s \<Longrightarrow> own_step loads s t \<Longrightarrow> held_ok loads t"
  by (erule own_stepE; hypsubst) (blast intro: held_ok_claim held_ok_rq held_ok_release)+

interpretation ownership: guarded_machine "\<lambda>s. snd s = {}" "own_step loads" "held_ok loads"
  for loads
  by unfold_locales (simp add: held_ok_def, rule own_step_ok)

text \<open>C23. However claims and releases of any owners on any jobs are ordered, when each acts on the
  current row a job never has two holders.\<close>

theorem sync_ownership_exclusive:
  assumes "(own_step loads)\<^sup>*\<^sup>* (rows, {}) (rows', held)"
    and "(pk, o1) \<in> held" and "(pk, o2) \<in> held"
  shows "o1 = o2"
proof -
  have "held_ok loads (rows', held)" using ownership.reachable_good[OF _ assms(1)] by simp
  from held_owner[OF this assms(2)] held_owner[OF this assms(3)] show ?thesis by auto
qed

theorem sync_ownership_exclusive_witness:
  "\<exists>rows' held. (own_step (\<lambda>_. None))\<^sup>*\<^sup>* ([1 \<mapsto> PDict []], {}) (rows', held) \<and> held \<noteq> {} \<and>
     (\<forall>o2. (1, o2) \<in> held \<longleftrightarrow> o2 = SYNC_OWNER_RQ)"
proof -
  obtain rows' job' where
    cl: "claim_rq_sync_ownership (\<lambda>_. None) ''t'' True [1 \<mapsto> PDict []] demo_job = Inr (True, rows', job')"
    using claim_cases[of "[1 \<mapsto> PDict []]" "demo_job\<lparr>job_data := PDict []\<rparr>" "\<lambda>_. None" SYNC_OWNER_RQ "''t''"]
      rq_claim_is_locked_claim[of "[1 \<mapsto> PDict []]" demo_job "PDict []" "\<lambda>_. None" "''t''"]
    by (auto simp: demo_job_def owner_of_def job_data_mapping_def proxbox_sync_mapping_def)
  have "own_step (\<lambda>_. None) ([1 \<mapsto> PDict []], {}) (rows', {(1, SYNC_OWNER_RQ)})"
    using own_step.claim_rq[OF _ cl, of "{}"] by (simp add: demo_job_def)
  then have run: "(own_step (\<lambda>_. None))\<^sup>*\<^sup>* ([1 \<mapsto> PDict []], {}) (rows', {(1, SYNC_OWNER_RQ)})" ..
  have "o2 = SYNC_OWNER_RQ" if "(1, o2) \<in> {(1::int, SYNC_OWNER_RQ)}" for o2
    using sync_ownership_exclusive[OF run that, of SYNC_OWNER_RQ] by simp
  with run show ?thesis by blast
qed

text \<open>C24. The stream view's claim is not atomic: it trusts its handle. Two views that read the same
  unowned row both succeed, each under its own name.\<close>

theorem stream_claim_trusts_stale_handle:
  assumes "rows pk = Some row" and "\<not> truthy (owner_of loads row)"
    and "job_pk j1 = pk" and "job_pk j2 = pk" and "job_data j1 = row" and "job_data j2 = row"
  shows "\<exists>rows1 rows2 j1' j2'.
     claim_sync_ownership loads t1 rows j1 o1 = Inr (True, rows1, j1')
     \<and> claim_sync_ownership loads t2 rows1 j2 o2 = Inr (True, rows2, j2')"
proof -
  obtain rows1 j1' where c1: "claim_sync_ownership loads t1 rows j1 o1 = Inr (True, rows1, j1')"
      and r1: "rows1 pk \<noteq> None"
    using claim_cases[of rows j1 loads o1 t1] assms by auto
  obtain rows2 j2' where "claim_sync_ownership loads t2 rows1 j2 o2 = Inr (True, rows2, j2')"
    using claim_cases[of rows1 j2 loads o2 t2] assms r1 by auto
  with c1 show ?thesis by blast
qed

theorem stream_claim_trusts_stale_handle_witness:
  "\<exists>rows1 rows2 j1' j2'.
     claim_sync_ownership (\<lambda>_. None) ''t1'' [1 \<mapsto> PNone] demo_job ''a'' = Inr (True, rows1, j1')
     \<and> claim_sync_ownership (\<lambda>_. None) ''t2'' rows1 demo_job ''b'' = Inr (True, rows2, j2')"
  using stream_claim_trusts_stale_handle
    [of "[1 \<mapsto> PNone]" 1 PNone "\<lambda>_. None" demo_job demo_job "''t1''" "''a''" "''t2''" "''b''"]
  by (simp add: demo_job_def owner_of_def job_data_mapping_def proxbox_sync_mapping_def)

end
