(* ===== verification/Json_Text.thy ===== *)
theory Json_Text
  imports Py_Base "HOL-Library.Multiset" "HOL-Library.List_Lexorder" "HOL-Library.Char_ord"
begin

text \<open>
  \<open>json.dumps(value, sort_keys=True, separators=(",", ":"))\<close>: the canonical text under the
  fingerprints of \<open>Connection_Authority\<close> and \<open>Endpoint_Push\<close>, and the length-prefixed text of
  \<open>_fingerprint_material\<close>. Both are shown to determine what they encode.
\<close>

section \<open>Canonical JSON\<close>

definition json_escape :: "char \<Rightarrow> char option" where
  "json_escape c =
     (if c = CHR 0x22 then Some (CHR 0x22)
      else if c = CHR 0x5C then Some (CHR 0x5C)
      else if c = CHR 0x0A then Some (CHR ''n'')
      else if c = CHR 0x0D then Some (CHR ''r'')
      else if c = CHR 0x09 then Some (CHR ''t'')
      else if c = CHR 0x0C then Some (CHR ''f'')
      else if c = CHR 0x08 then Some (CHR ''b'')
      else None)"

definition json_char :: "char \<Rightarrow> string" where
  "json_char c =
     (case json_escape c of
        Some e \<Rightarrow> [CHR 0x5C, e]
      | None \<Rightarrow>
          if 32 \<le> ord c \<and> ord c < 127 then [c]
          else [CHR 0x5C, CHR ''u'', CHR ''0'', CHR ''0'', hex_digit (ord c div 16), hex_digit (ord c mod 16)])"

definition json_str :: "string \<Rightarrow> string" where
  "json_str s = CHR 0x22 # concat (map json_char s) @ [CHR 0x22]"

fun json_text :: "pyval \<Rightarrow> string" where
  "json_text PNone = ''null''"
| "json_text (PBool b) = (if b then ''true'' else ''false'')"
| "json_text (PInt i) = str_of_int i"
| "json_text (PStr s) = json_str s"
| "json_text (PList xs) = CHR 0x5B # str_join '','' (map json_text xs) @ [CHR 0x5D]"
| "json_text (PDict d) =
     CHR 0x7B # str_join '','' (map (\<lambda>kt. json_str (fst kt) @ '':'' @ snd kt)
       (sort_key fst (map (\<lambda>kv. (fst kv, json_text (snd kv))) d))) @ [CHR 0x7D]"

section \<open>The text determines a flat dictionary\<close>

primrec scalar :: "pyval \<Rightarrow> bool" where
  "scalar PNone = True"
| "scalar (PBool b) = True"
| "scalar (PInt i) = True"
| "scalar (PStr s) = True"
| "scalar (PList xs) = False"
| "scalar (PDict d) = False"

lemma json_escape_inj: "json_escape c = Some e \<Longrightarrow> json_escape d = Some e \<Longrightarrow> c = d"
  by (auto simp: json_escape_def split: if_splits)

lemma json_escape_not_u: "json_escape c = Some e \<Longrightarrow> e \<noteq> CHR ''u''"
  by (auto simp: json_escape_def split: if_splits)

lemma json_escape_None: "json_escape c = None \<Longrightarrow> c \<noteq> CHR 0x22 \<and> c \<noteq> CHR 0x5C"
  by (auto simp: json_escape_def)

lemma ord_hex_digit: "n < 16 \<Longrightarrow> ord (hex_digit n) = (if n < 10 then 48 + n else 87 + n)"
  by (simp add: hex_digit_def of_char_of)

lemma hex_digit_inj:
  assumes "hex_digit m = hex_digit n" and "m < 16" and "n < 16"
  shows "m = n"
proof -
  have "ord (hex_digit m) = ord (hex_digit n)" by (simp only: assms(1))
  then show ?thesis
    unfolding ord_hex_digit[OF assms(2)] ord_hex_digit[OF assms(3)] by (simp split: if_splits)
qed

lemma hex_pair_inj:
  assumes "hex_digit (ord c div 16) = hex_digit (ord d div 16)"
    and "hex_digit (ord c mod 16) = hex_digit (ord d mod 16)"
  shows "c = d"
proof -
  have b: "ord x div 16 < 16" for x :: char
    using nat_of_char_less_256[of x] by (rule less_mult_imp_div_less[of _ 16 16, simplified])
  have "ord c div 16 = ord d div 16" using hex_digit_inj[OF assms(1) b b] .
  moreover have "ord c mod 16 = ord d mod 16" using hex_digit_inj[OF assms(2)] by simp
  ultimately have "ord c = ord d" by (metis div_mult_mod_eq)
  then show ?thesis by simp
qed

lemma json_char_prefix: "json_char c @ u = json_char d @ v \<Longrightarrow> c = d \<and> u = v"
  using json_escape_inj[of c _ d] json_escape_not_u[of c] json_escape_not_u[of d]
    json_escape_None[of c] json_escape_None[of d] hex_pair_inj[of c d]
  by (auto simp: json_char_def split: option.splits if_splits)

lemma json_char_hd: "\<exists>x xs. json_char c = x # xs \<and> x \<noteq> CHR 0x22"
  using json_escape_None[of c] by (auto simp: json_char_def split: option.splits)

lemma json_chars_prefix:
  "concat (map json_char s) @ CHR 0x22 # u = concat (map json_char t) @ CHR 0x22 # v \<Longrightarrow> s = t \<and> u = v"
proof (induction s arbitrary: t)
  case Nil
  show ?case
  proof (cases t)
    case Nil
    with Nil.prems show ?thesis by simp
  next
    case (Cons d t')
    with Nil.prems json_char_hd[of d] show ?thesis by auto
  qed
next
  case (Cons c s)
  show ?case
  proof (cases t)
    case Nil
    with Cons.prems json_char_hd[of c] show ?thesis by auto
  next
    case (Cons d t')
    with Cons.prems have "json_char c @ concat (map json_char s) @ CHR 0x22 # u
        = json_char d @ concat (map json_char t') @ CHR 0x22 # v" by simp
    from json_char_prefix[OF this] Cons.IH[of t'] Cons show ?thesis by simp
  qed
qed

lemma json_str_prefix: "json_str s @ u = json_str t @ v \<Longrightarrow> s = t \<and> u = v"
  using json_chars_prefix[of s u t v] by (simp add: json_str_def)

text \<open>Decimal numbers end where the digits end.\<close>

lemma digits_prefix:
  assumes "list_all is_digit a" and "list_all is_digit b" and "\<not> is_digit c" and "\<not> is_digit d"
    and "a @ c # u = b @ d # v"
  shows "a = b \<and> c = d \<and> u = v"
proof -
  have "takeWhile is_digit (a @ c # u) = a" "takeWhile is_digit (b @ d # v) = b"
    using assms(1-4) by (auto simp: list_all_iff takeWhile_append2)
  with assms(5) show ?thesis by simp
qed

lemma minus_not_digit: "\<not> is_digit (CHR ''-'')" by (simp add: is_digit_def)

lemma str_of_nat_hd: "\<exists>x xs. str_of_nat n = x # xs \<and> is_digit x"
  using str_of_nat_digits[of n] str_of_nat_ne[of n] by (metis list.exhaust list.pred_inject(2))

lemma int_prefix:
  assumes "\<not> is_digit c" and "\<not> is_digit d" and "str_of_int i @ c # u = str_of_int j @ d # v"
  shows "i = j \<and> c = d \<and> u = v"
proof -
  have neg: "\<not> (str_of_nat m @ x = CHR ''-'' # y)" for m x y
    using str_of_nat_hd[of m] minus_not_digit by auto
  have nats: "str_of_nat m @ c # u = str_of_nat n @ d # v \<Longrightarrow> m = n \<and> c = d \<and> u = v" for m n
    using digits_prefix[OF str_of_nat_digits str_of_nat_digits assms(1,2)] str_of_nat_inj by blast
  consider "i < 0" "j < 0" | "i < 0" "\<not> j < 0" | "\<not> i < 0" "j < 0" | "\<not> i < 0" "\<not> j < 0"
    by blast
  then show ?thesis
  proof cases
    case 1
    with assms(3) nats[of "nat (- i)" "nat (- j)"] show ?thesis by (auto simp: str_of_int_def)
  next
    case 2
    with assms(3) neg[of "nat j" "d # v" "str_of_nat (nat (- i)) @ c # u"] show ?thesis
      by (simp add: str_of_int_def)
  next
    case 3
    with assms(3) neg[of "nat i" "c # u" "str_of_nat (nat (- j)) @ d # v"] show ?thesis
      by (simp add: str_of_int_def)
  next
    case 4
    with assms(3) nats[of "nat i" "nat j"] show ?thesis by (auto simp: str_of_int_def)
  qed
qed

definition delimiter :: "char \<Rightarrow> bool" where
  "delimiter c \<longleftrightarrow> c = CHR '','' \<or> c = CHR 0x7D"

lemma delimiter_not_digit: "delimiter c \<Longrightarrow> \<not> is_digit c"
  by (auto simp: delimiter_def is_digit_def)

text \<open>The first character tells the kind of a scalar.\<close>

fun scalar_kind :: "pyval \<Rightarrow> char \<Rightarrow> bool" where
  "scalar_kind PNone c = (c = CHR ''n'')"
| "scalar_kind (PBool b) c = (c = (if b then CHR ''t'' else CHR ''f''))"
| "scalar_kind (PInt i) c = (is_digit c \<or> c = CHR ''-'')"
| "scalar_kind (PStr s) c = (c = CHR 0x22)"
| "scalar_kind _ c = False"

lemma json_scalar_hd: "scalar v \<Longrightarrow> \<exists>c s. json_text v = c # s \<and> scalar_kind v c"
proof (cases v)
  case (PInt i)
  then show ?thesis using str_of_nat_hd[of "nat i"] by (auto simp: str_of_int_def)
qed (auto simp: json_str_def)

lemma scalar_prefix:
  assumes "scalar v" and "scalar w" and "delimiter c" and "delimiter d"
    and eq: "json_text v @ c # x = json_text w @ d # y"
  shows "v = w \<and> c = d \<and> x = y"
proof -
  from json_scalar_hd[OF assms(1)] obtain a s where a: "json_text v = a # s" "scalar_kind v a" by blast
  from json_scalar_hd[OF assms(2)] obtain b t where b: "json_text w = b # t" "scalar_kind w b" by blast
  have "a = b" using eq a(1) b(1) by simp
  with a(2) b(2) consider "v = PNone" "w = PNone"
    | p q where "v = PBool p" "w = PBool q" "p = q"
    | i j where "v = PInt i" "w = PInt j"
    | p q where "v = PStr p" "w = PStr q"
    by (cases v; cases w) (auto simp: is_digit_def split: if_splits)
  then show ?thesis
  proof cases
    case 3
    with eq int_prefix[of c d _ x _ y] assms(3,4) show ?thesis by (auto simp: delimiter_not_digit)
  next
    case 4
    with eq json_str_prefix[of _ "c # x" _ "d # y"] show ?thesis by auto
  qed (use eq in \<open>auto split: if_splits\<close>)
qed

definition json_item :: "string \<times> pyval \<Rightarrow> string" where
  "json_item kv = json_str (fst kv) @ '':'' @ json_text (snd kv)"

lemma json_item_prefix:
  assumes "scalar (snd p)" and "scalar (snd q)" and "delimiter c" and "delimiter d"
    and "json_item p @ c # x = json_item q @ d # y"
  shows "p = q \<and> c = d \<and> x = y"
proof -
  have "json_str (fst p) @ (CHR '':'' # json_text (snd p) @ c # x)
      = json_str (fst q) @ (CHR '':'' # json_text (snd q) @ d # y)"
    using assms(5) by (simp add: json_item_def)
  from json_str_prefix[OF this] have "fst p = fst q" "json_text (snd p) @ c # x = json_text (snd q) @ d # y"
    by auto
  with scalar_prefix[OF assms(1-4)] show ?thesis by (simp add: prod_eq_iff)
qed

primrec items_tail :: "(string \<times> pyval) list \<Rightarrow> string" where
  "items_tail [] = [CHR 0x7D]"
| "items_tail (p # ps) = CHR '','' # json_item p @ items_tail ps"

lemma items_tail_hd: "\<exists>c s. items_tail ps = c # s \<and> delimiter c"
  by (cases ps) (auto simp: delimiter_def)

lemma str_join_tail:
  "str_join '','' (map json_item (p # ps)) @ [CHR 0x7D] = json_item p @ items_tail ps"
  by (induction ps arbitrary: p) auto

lemma items_tail_inj:
  "list_all (scalar \<circ> snd) ps \<Longrightarrow> list_all (scalar \<circ> snd) qs \<Longrightarrow> items_tail ps = items_tail qs \<Longrightarrow> ps = qs"
proof (induction ps arbitrary: qs)
  case Nil
  then show ?case by (cases qs) auto
next
  case (Cons p ps)
  then obtain q qs' where qs: "qs = q # qs'" by (cases qs) auto
  obtain c x d y where cd: "items_tail ps = c # x" "delimiter c" "items_tail qs' = d # y" "delimiter d"
    using items_tail_hd by metis
  have "p = q \<and> c = d \<and> x = y"
    by (rule json_item_prefix) (use Cons.prems qs cd in auto)
  with Cons.IH[of qs'] Cons.prems qs cd show ?case by auto
qed

lemma json_items_inj:
  assumes "list_all (scalar \<circ> snd) ps" and "list_all (scalar \<circ> snd) qs"
    and eq: "str_join '','' (map json_item ps) @ [CHR 0x7D] = str_join '','' (map json_item qs) @ [CHR 0x7D]"
  shows "ps = qs"
proof -
  have ne: "json_item q @ s \<noteq> [CHR 0x7D]" for q s by (auto simp: json_item_def json_str_def)
  show ?thesis
  proof (cases ps)
    case Nil
    show ?thesis
    proof (cases qs)
      case (Cons q qs')
      from eq Nil have "json_item q @ items_tail qs' = [CHR 0x7D]"
        unfolding Cons str_join_tail by simp
      with ne show ?thesis by blast
    qed (simp add: Nil)
  next
    case (Cons p ps')
    note ps = Cons
    show ?thesis
    proof (cases qs)
      case Nil
      from eq have "json_item p @ items_tail ps' = [CHR 0x7D]"
        unfolding ps str_join_tail Nil by simp
      with ne show ?thesis by blast
    next
      case (Cons q qs')
      from eq have "items_tail ps = items_tail qs" unfolding ps Cons str_join_tail by simp
      then show ?thesis using items_tail_inj assms(1,2) by blast
    qed
  qed
qed

lemma json_dict_items:
  "json_text (PDict d) = CHR 0x7B # str_join '','' (map json_item (sort_key fst d)) @ [CHR 0x7D]"
proof -
  have "sort_key fst (map (\<lambda>kv. (fst kv, json_text (snd kv))) d)
      = map (\<lambda>kv. (fst kv, json_text (snd kv))) (sort_key fst d)"
    (is "sort_key fst (map ?g d) = map ?g (sort_key fst d)")
  proof (rule properties_for_sort_key)
    fix k
    have "filter (\<lambda>x. fst k = fst x) (map ?g (sort_key fst d))
        = map ?g (filter (\<lambda>x. fst x = fst k) (sort_key fst d))"
      by (simp add: filter_map comp_def eq_commute)
    also have "\<dots> = filter (\<lambda>x. fst k = fst x) (map ?g d)"
      unfolding sort_key_stable by (simp add: filter_map comp_def eq_commute)
    finally show "filter (\<lambda>x. fst k = fst x) (map ?g (sort_key fst d)) = filter (\<lambda>x. fst k = fst x) (map ?g d)" .
  qed (simp_all add: comp_def)
  then show ?thesis by (simp add: json_item_def[abs_def] comp_def)
qed

text \<open>Two flat dictionaries with the same canonical text read the same.\<close>

lemma json_dict_inj:
  assumes "list_all (scalar \<circ> snd) d" and "list_all (scalar \<circ> snd) d'"
    and "distinct (map fst d)" and "distinct (map fst d')"
    and "json_text (PDict d) = json_text (PDict d')"
  shows "map_of d = map_of d'"
proof -
  have "sort_key fst d = sort_key fst d'"
    using assms(1,2) assms(5)[unfolded json_dict_items]
    by (intro json_items_inj) (auto simp: list_all_iff)
  then have "mset d = mset d'" by (metis mset_sort)
  then have "set d = set d'" by (metis set_mset_mset)
  then show ?thesis using assms(3,4) by (simp add: map_of_inject_set)
qed

declare json_text.simps(6) [simp del]

section \<open>Length-prefixed material\<close>

text \<open>\<open>_fingerprint_material\<close>.\<close>

definition fingerprint_material :: "string list \<Rightarrow> string" where
  "fingerprint_material values = concat (map (\<lambda>v. str_of_nat (length v) @ '':'' @ v) values)"

lemma colon_not_digit: "\<not> is_digit (CHR '':'')" by (simp add: is_digit_def)

text \<open>The text under a credential fingerprint determines the credential fields: no two distinct
  tuples of fields share one text, whatever characters they contain.\<close>

lemma fingerprint_material_inj:
  "fingerprint_material xs = fingerprint_material ys \<longleftrightarrow> xs = ys"
proof
  show "fingerprint_material xs = fingerprint_material ys \<Longrightarrow> xs = ys"
  proof (induction xs arbitrary: ys)
    case Nil
    then show ?case by (cases ys) (auto simp: fingerprint_material_def)
  next
    case (Cons x xs)
    then obtain y ys' where ys: "ys = y # ys'" by (cases ys) (auto simp: fingerprint_material_def)
    have "str_of_nat (length x) @ CHR '':'' # (x @ fingerprint_material xs)
        = str_of_nat (length y) @ CHR '':'' # (y @ fingerprint_material ys')"
      using Cons.prems ys by (simp add: fingerprint_material_def)
    from digits_prefix[OF str_of_nat_digits str_of_nat_digits colon_not_digit colon_not_digit this]
    have "length x = length y" "x @ fingerprint_material xs = y @ fingerprint_material ys'"
      using str_of_nat_inj by auto
    with Cons.IH[of ys'] ys show ?case by simp
  qed
qed simp

end
