(* ===== verification/Connection_Authority.thy ===== *)
theory Connection_Authority
  imports Json_Text Vm_Identity Interfaces
begin

text \<open>
  \<open>netbox_proxbox/services/connection_authority.py\<close> with \<open>sensitive_data.py\<close>, the host
  normalisation of \<open>cloud_image_ssh.py\<close> and the save hook of \<open>models/base.py\<close>: stored
  credentials are sent only to a connection target somebody reviewed and approved. An endpoint
  instance is a \<open>PDict\<close> of its attributes; \<open>rows\<close> are the stored rows of one endpoint model and
  \<open>ips\<close> the addresses of the IPAddress table. \<open>digest\<close> is SHA-256 in hexadecimal and
  \<open>host_ip\<close> is \<open>str(ip_interface(text).ip)\<close>, None where it raises; the two \<open>fastapi\<close> fields
  are the functions of \<open>backend_key_adoption.py\<close> that a FastAPI endpoint is delegated to.
\<close>

section \<open>Who may see secrets\<close>

record authority_env =
  digest :: "string \<Rightarrow> string"
  host_ip :: "string \<Rightarrow> string option"
  fastapi_fingerprint :: "pyval \<Rightarrow> string option"
  fastapi_trusted :: "pyval \<Rightarrow> bool"
  granted :: "pyval \<Rightarrow> bool"
  has_change_perm :: "pyval \<Rightarrow> bool"
  may_view_change :: "pyval \<Rightarrow> int \<Rightarrow> bool"

definition is_active_superuser :: "pyval \<Rightarrow> bool" where
  "is_active_superuser user \<longleftrightarrow>
     attr_value user ''is_authenticated'' = PBool True
     \<and> attr_value user ''is_active'' = PBool True
     \<and> attr_value user ''is_superuser'' = PBool True"

text \<open>\<open>granted\<close> is the query for an explicit grant row of the user.\<close>

definition can_access_sensitive_data :: "authority_env \<Rightarrow> pyval \<Rightarrow> bool" where
  "can_access_sensitive_data env user \<longleftrightarrow>
     (if attr_value user ''is_authenticated'' \<noteq> PBool True \<or> attr_value user ''is_active'' \<noteq> PBool True
      then False
      else if is_active_superuser user then True
      else if attr_value user ''pk'' = PNone then False
      else granted env (attr_value user ''pk''))"

section \<open>The connection target\<close>

definition BINDING_FIELD :: string where
  "BINDING_FIELD = ''approved_connection_target_fingerprint''"

definition has_meta :: "pyval \<Rightarrow> bool" where
  "has_meta ep \<longleftrightarrow> (case ep of PDict d \<Rightarrow> map_of d ''_meta'' \<noteq> None | _ \<Rightarrow> False)"

definition model_name :: "pyval \<Rightarrow> string" where
  "model_name ep =
     py_str (getattr_or (attr_value ep ''_meta'') ''model_name''
       (PStr (str_lower (text_or_empty (attr_value ep ''__class__'')))))"

definition before_slash :: "string \<Rightarrow> string" where
  "before_slash s = takeWhile (\<lambda>c. c \<noteq> CHR ''/'') s"

definition ip_value :: "pyval \<Rightarrow> string" where
  "ip_value ep =
     (let v = attr_value ep ''ip_address''
      in str_lower (strip (before_slash (text_or_empty (getattr_or v ''address'' v)))))"

definition effective_netbox_token_version :: "pyval \<Rightarrow> string" where
  "effective_netbox_token_version ep =
     str_lower (strip (text_or_empty
       (getattr_or ep ''effective_token_version'' (getattr_or ep ''token_version'' (PStr [])))))"

definition effective_netbox_token_key :: "pyval \<Rightarrow> string" where
  "effective_netbox_token_key ep =
     (let explicit_key = strip (text_or_empty (attr_value ep ''token_key''))
      in if explicit_key \<noteq> [] then explicit_key
         else strip (text_or_empty (attr_value (attr_value ep ''token'') ''key'')))"

definition netbox_token_identity :: "pyval \<Rightarrow> string \<Rightarrow> string" where
  "netbox_token_identity ep token_version =
     (if token_version = ''v2'' then effective_netbox_token_key ep
      else let token_id = attr_value ep ''token_id''
           in text_or_empty (if token_id = PNone then attr_value (attr_value ep ''token'') ''pk'' else token_id))"

definition normalize_host :: "(string \<Rightarrow> string option) \<Rightarrow> pyval \<Rightarrow> string" where
  "normalize_host canon v =
     (let text = rstrip_char (CHR ''.'') (strip (text_or_empty (getattr_or v ''address'' v)))
      in case canon text of Some ip \<Rightarrow> ip | None \<Rightarrow> str_lower text)"

definition stripped_attr :: "pyval \<Rightarrow> string \<Rightarrow> pyval" where
  "stripped_attr ep nm = PStr (strip (text_or_empty (attr_value ep nm)))"

definition int_attr :: "pyval \<Rightarrow> string \<Rightarrow> int option" where
  "int_attr ep nm = int_of_pyval (py_or (attr_value ep nm) (PInt 0))"

definition cloud_image_ssh_authority :: "authority_env \<Rightarrow> pyval \<Rightarrow> (string \<times> pyval) list option" where
  "cloud_image_ssh_authority env ep =
     map_option (\<lambda>port.
       [(''cloud_image_ssh_target_node'', stripped_attr ep ''cloud_image_ssh_target_node''),
        (''cloud_image_ssh_identity_file'', stripped_attr ep ''cloud_image_ssh_identity_file''),
        (''ssh_username'', stripped_attr ep ''effective_ssh_username''),
        (''ssh_host'', PStr (normalize_host (host_ip env) (attr_value ep ''ssh_host''))),
        (''ssh_port'', PInt port),
        (''ssh_known_host_fingerprint'', stripped_attr ep ''ssh_known_host_fingerprint'')])
       (int_attr ep ''ssh_port'')"

text \<open>\<open>connection_target_data\<close>; None where an integer conversion raises.\<close>

definition connection_target_data :: "authority_env \<Rightarrow> pyval \<Rightarrow> (string \<times> pyval) list option" where
  "connection_target_data env ep =
     (case int_attr ep ''port'' of
        None \<Rightarrow> None
      | Some port \<Rightarrow>
          (let kind = model_name ep;
               data =
                 [(''kind'', PStr kind),
                  (''domain'', PStr (str_lower (rstrip_char (CHR ''.'') (strip (text_or_empty (attr_value ep ''domain'')))))),
                  (''ip_address'', PStr (ip_value ep)),
                  (''port'', PInt port),
                  (''verify_ssl'', PBool (truthy (getattr_or ep ''verify_ssl'' (PBool True)))),
                  (''username'', stripped_attr ep ''username''),
                  (''token_name'', stripped_attr ep ''token_name''),
                  (''token_version'', PStr (text_or_empty (attr_value ep ''token_version'')))]
           in if kind = ''netboxendpoint'' then
                (let token_version = effective_netbox_token_version ep
                 in Some (AList.update ''token_version'' (PStr token_version) data
                      @ [(''token_identity'', PStr (netbox_token_identity ep token_version))]))
              else if kind = ''proxmoxendpoint'' then
                (case cloud_image_ssh_authority env ep of
                   None \<Rightarrow> None
                 | Some authority \<Rightarrow>
                     if truthy (dget authority ''cloud_image_ssh_target_node'')
                        \<or> truthy (dget authority ''cloud_image_ssh_identity_file'')
                     then Some (data @ authority) else Some data)
              else Some data))"

definition connection_target_fingerprint :: "authority_env \<Rightarrow> pyval \<Rightarrow> string option" where
  "connection_target_fingerprint env ep =
     (if model_name ep = ''fastapiendpoint'' then fastapi_fingerprint env ep
      else (case connection_target_data env ep of
              None \<Rightarrow> None
            | Some data \<Rightarrow>
                (case dget data ''port'' of
                   PInt port \<Rightarrow>
                     if \<not> (truthy (dget data ''domain'') \<or> truthy (dget data ''ip_address''))
                        \<or> \<not> (1 \<le> port \<and> port \<le> 65535) then None
                     else Some (digest env (json_text (PDict data)))
                 | _ \<Rightarrow> None)))"

section \<open>The stored rows\<close>

record authority_state =
  rows :: "int \<Rightarrow> pyval option"
  ips :: "int \<Rightarrow> string option"

definition set_attr :: "pyval \<Rightarrow> string \<Rightarrow> pyval \<Rightarrow> pyval" where
  "set_attr obj nm v = (case obj of PDict d \<Rightarrow> PDict (AList.update nm v d) | _ \<Rightarrow> obj)"

text \<open>A fetched row reads its address through the foreign key.\<close>

definition hydrate :: "authority_state \<Rightarrow> pyval \<Rightarrow> pyval" where
  "hydrate st row =
     set_attr row ''ip_address''
       (case attr_value row ''ip_address_id'' of
          PInt i \<Rightarrow> (case ips st i of None \<Rightarrow> PNone | Some a \<Rightarrow> PDict [(''address'', PStr a)])
        | _ \<Rightarrow> PNone)"

definition fetch_row :: "authority_state \<Rightarrow> pyval \<Rightarrow> pyval option" where
  "fetch_row st pk = (case pk of PInt i \<Rightarrow> map_option (hydrate st) (rows st i) | _ \<Rightarrow> None)"

definition live_ip_matches :: "authority_state \<Rightarrow> pyval \<Rightarrow> bool" where
  "live_ip_matches st ep \<longleftrightarrow>
     (case attr_value ep ''ip_address_id'' of
        PNone \<Rightarrow> True
      | PInt i \<Rightarrow> (case ips st i of None \<Rightarrow> False | Some a \<Rightarrow> str_lower (before_slash a) = ip_value ep)
      | _ \<Rightarrow> False)"

definition approved_connection_allows_secrets :: "authority_env \<Rightarrow> authority_state \<Rightarrow> pyval \<Rightarrow> bool" where
  "approved_connection_allows_secrets env st ep \<longleftrightarrow>
     (if model_name ep = ''fastapiendpoint'' then fastapi_trusted env ep
      else
        let stored = attr_value ep BINDING_FIELD in
        if stored = PNone \<and> \<not> has_meta ep then True
        else if \<not> truthy stored \<or> \<not> truthy (getattr_or ep ''enabled'' (PBool True)) then False
        else (case connection_target_fingerprint env ep of
                None \<Rightarrow> False
              | Some current \<Rightarrow>
                  if py_str stored \<noteq> current \<or> \<not> live_ip_matches st ep then False
                  else if has_meta ep then
                    (case fetch_row st (attr_value ep ''pk'') of
                       None \<Rightarrow> False
                     | Some persisted \<Rightarrow>
                         truthy (attr_value persisted ''enabled'')
                         \<and> py_str (attr_value persisted BINDING_FIELD) = current
                         \<and> connection_target_fingerprint env persisted = Some current)
                  else True))"

section \<open>Saving and approving\<close>

datatype authority_exc =
    Permission_denied string
  | Validation_failed string
  | Authority_error string
  | Row_missing

text \<open>\<open>require_approved_connection\<close>.\<close>

definition require_approved_connection ::
  "authority_env \<Rightarrow> authority_state \<Rightarrow> pyval \<Rightarrow> authority_exc + unit" where
  "require_approved_connection env st ep =
     (if approved_connection_allows_secrets env st ep then Inr ()
      else Inl (Authority_error (''Connection target approval is missing or stale. Review and approve ''
        @ ''the current target before sending credentials.'')))"

text \<open>\<open>_APPROVAL_WRITE\<close> holds a permit only while \<open>approve_connection_target\<close> saves; \<open>permit\<close> is
  the fingerprint of a permit for exactly this instance.\<close>

definition approval_write_is_exact ::
  "authority_env \<Rightarrow> string option \<Rightarrow> pyval \<Rightarrow> authority_exc + bool" where
  "approval_write_is_exact env permit ep =
     (case permit of
        None \<Rightarrow> Inr False
      | Some fp \<Rightarrow>
          if fp \<noteq> py_str (attr_value ep BINDING_FIELD) then Inr False
          else (case connection_target_fingerprint env ep of
                  None \<Rightarrow> Inl (Authority_error ''Configure a valid connection target before approval.'')
                | Some cur \<Rightarrow> Inr (fp = cur)))"

definition preserve_cluster_binding ::
  "pyval \<Rightarrow> pyval option \<Rightarrow> string list option \<Rightarrow> authority_exc + pyval" where
  "preserve_cluster_binding ep current update_fields =
     (if model_name ep \<noteq> ''proxmoxendpoint'' then Inr ep
      else case update_fields of
        Some fs \<Rightarrow>
          if ''netbox_cluster'' \<in> set fs \<or> ''netbox_cluster_id'' \<in> set fs
          then Inl (Validation_failed
            ''Native cluster ownership requires the protected synchronization action.'')
          else Inr ep
      | None \<Rightarrow>
          if current = None \<and> attr_value ep ''netbox_cluster_id'' \<noteq> PNone
          then Inl (Validation_failed
            ''A new endpoint cannot claim native cluster ownership through an ordinary save.'')
          else Inr (set_attr ep ''netbox_cluster_id''
                 (case current of None \<Rightarrow> PNone | Some c \<Rightarrow> attr_value c ''netbox_cluster_id'')))"

definition row_key :: "int \<Rightarrow> pyval \<Rightarrow> int" where
  "row_key fresh ep = (case attr_value ep ''pk'' of PInt i \<Rightarrow> i | _ \<Rightarrow> fresh)"

text \<open>Django's \<open>Model.save\<close>: a full save writes every column (\<open>fresh\<close> is the key of a new row),
  \<open>update_fields\<close> writes the named columns of an existing row.\<close>

definition persist ::
  "authority_state \<Rightarrow> int \<Rightarrow> pyval \<Rightarrow> string list option \<Rightarrow> authority_exc + authority_state" where
  "persist st fresh ep update_fields =
     (let pk = row_key fresh ep in
      case update_fields of
        None \<Rightarrow> Inr (st\<lparr>rows := (rows st)(pk := Some (set_attr ep ''pk'' (PInt pk)))\<rparr>)
      | Some fs \<Rightarrow>
          (case rows st pk of
             None \<Rightarrow> Inl Row_missing
           | Some row \<Rightarrow>
               Inr (st\<lparr>rows := (rows st)(pk :=
                 Some (fold (\<lambda>f r. set_attr r f (attr_value ep f)) fs row))\<rparr>)))"

definition save_bound_endpoint ::
  "authority_env \<Rightarrow> authority_state \<Rightarrow> int \<Rightarrow> string option \<Rightarrow> pyval \<Rightarrow> string list option
    \<Rightarrow> authority_exc + authority_state" where
  "save_bound_endpoint env st fresh permit ep update_fields =
     (let current = fetch_row st (attr_value ep ''pk'') in
      case preserve_cluster_binding ep current update_fields of
        Inl e \<Rightarrow> Inl e
      | Inr ep1 \<Rightarrow>
          (case approval_write_is_exact env permit ep1 of
             Inl e \<Rightarrow> Inl e
           | Inr True \<Rightarrow>
               if (case update_fields of None \<Rightarrow> True | Some fs \<Rightarrow> set fs \<noteq> {BINDING_FIELD})
               then Inl (Validation_failed ''An approval write may update only the approval field.'')
               else if (case current of
                          None \<Rightarrow> True
                        | Some c \<Rightarrow> connection_target_fingerprint env c \<noteq> connection_target_fingerprint env ep1)
               then Inl (Validation_failed
                 ''The reviewed connection target changed before approval was saved.'')
               else persist st fresh ep1 update_fields
           | Inr False \<Rightarrow>
               if (case update_fields of None \<Rightarrow> False | Some fs \<Rightarrow> BINDING_FIELD \<in> set fs)
               then Inl (Validation_failed ''Connection approval requires the protected approval action.'')
               else persist st fresh
                 (set_attr ep1 BINDING_FIELD
                   (case current of None \<Rightarrow> PStr [] | Some c \<Rightarrow> getattr_or c BINDING_FIELD (PStr [])))
                 update_fields))"

definition may_approve :: "authority_env \<Rightarrow> pyval \<Rightarrow> int \<Rightarrow> bool" where
  "may_approve env user pk \<longleftrightarrow>
     can_access_sensitive_data env user \<and> has_change_perm env user \<and> may_view_change env user pk"

definition approve_connection_target ::
  "authority_env \<Rightarrow> authority_state \<Rightarrow> pyval \<Rightarrow> int \<Rightarrow> pyval \<Rightarrow> authority_exc + authority_state" where
  "approve_connection_target env st user pk fingerprint =
     (if \<not> can_access_sensitive_data env user
        then Inl (Permission_denied ''Sensitive data access is not authorized.'')
      else if \<not> has_change_perm env user
        then Inl (Permission_denied ''Endpoint change permission is required for connection approval.'')
      else
        (case (if may_view_change env user pk then fetch_row st (PInt pk) else None) of
           None \<Rightarrow> Inl (Permission_denied ''Connection approval is not authorized for this endpoint.'')
         | Some current \<Rightarrow>
             (case connection_target_fingerprint env current of
                None \<Rightarrow> Inl (Authority_error ''Configure a valid connection target before approval.'')
              | Some expected \<Rightarrow>
                  if fingerprint \<noteq> PStr expected
                  then Inl (Validation_failed (''The reviewed connection target changed. Read its ''
                    @ ''current fingerprint and review it again.''))
                  else save_bound_endpoint env st pk (Some expected)
                         (set_attr (set_attr current ''pk'' (PInt pk)) BINDING_FIELD (PStr expected))
                         (Some [BINDING_FIELD]))))"

section \<open>Runs\<close>

definition is_instance :: "pyval \<Rightarrow> bool" where
  "is_instance ep \<longleftrightarrow> (case ep of PDict _ \<Rightarrow> True | _ \<Rightarrow> False)"

text \<open>
  What may happen to the rows: an approval, a save of any instance with any attribute values, a
  direct column update other than of the approval, a deletion, and an edit of an address. The log
  records every approval with the target its user reviewed, which is known to the code only through
  the fingerprint the user submits, and need not be the target the row has by then.
\<close>

type_synonym approval_log = "(int \<times> pyval \<times> (string \<times> pyval) list) list"

inductive authority_step ::
  "authority_env \<Rightarrow> authority_state \<times> approval_log \<Rightarrow> authority_state \<times> approval_log \<Rightarrow> bool"
  for env where
  approve: "\<lbrakk>approve_connection_target env st user pk (PStr (digest env (json_text (PDict reviewed)))) = Inr st';
      fetch_row st (PInt pk) = Some current; model_name current \<noteq> ''fastapiendpoint'';
      list_all (scalar \<circ> snd) reviewed; distinct (map fst reviewed)\<rbrakk> \<Longrightarrow>
    authority_step env (st, log) (st', log @ [(pk, user, reviewed)])"
| save: "\<lbrakk>save_bound_endpoint env st fresh None ep update_fields = Inr st'; is_instance ep; rows st fresh = None\<rbrakk> \<Longrightarrow>
    authority_step env (st, log) (st', log)"
| column: "\<lbrakk>rows st pk = Some row; f \<noteq> BINDING_FIELD\<rbrakk> \<Longrightarrow>
    authority_step env (st, log) (st\<lparr>rows := (rows st)(pk := Some (set_attr row f v))\<rparr>, log)"
| remove: "authority_step env (st, log) (st\<lparr>rows := (rows st)(pk := None)\<rparr>, log)"
| address: "authority_step env (st, log) (st\<lparr>ips := (ips st)(i := a)\<rparr>, log)"

definition no_approvals :: "authority_state \<times> approval_log \<Rightarrow> bool" where
  "no_approvals s \<longleftrightarrow> snd s = []
     \<and> (\<forall>pk row. rows (fst s) pk = Some row \<longrightarrow> is_instance row \<and> attr_value row BINDING_FIELD = PStr [])"

text \<open>Every stored approval was logged, by somebody who may approve that row.\<close>

definition stamp_logged :: "authority_env \<Rightarrow> approval_log \<Rightarrow> int \<Rightarrow> pyval \<Rightarrow> bool" where
  "stamp_logged env log pk stamp \<longleftrightarrow>
     stamp = PStr [] \<or>
     (\<exists>user data. (pk, user, data) \<in> set log \<and> stamp = PStr (digest env (json_text (PDict data))))"

definition row_ok :: "authority_env \<Rightarrow> approval_log \<Rightarrow> int \<Rightarrow> pyval \<Rightarrow> bool" where
  "row_ok env log pk row \<longleftrightarrow> is_instance row \<and> stamp_logged env log pk (attr_value row BINDING_FIELD)"

definition log_authorised :: "authority_env \<Rightarrow> approval_log \<Rightarrow> bool" where
  "log_authorised env log \<longleftrightarrow>
     list_all (\<lambda>(pk, user, data). may_approve env user pk
       \<and> list_all (scalar \<circ> snd) data \<and> distinct (map fst data)) log"

definition authority_inv :: "authority_env \<Rightarrow> authority_state \<times> approval_log \<Rightarrow> bool" where
  "authority_inv env s \<longleftrightarrow> log_authorised env (snd s)
     \<and> (\<forall>pk row. rows (fst s) pk = Some row \<longrightarrow> row_ok env (snd s) pk row)"

section \<open>Every stored approval was reviewed\<close>

lemma attr_set_other: "g \<noteq> f \<Longrightarrow> attr_value (set_attr obj f v) g = attr_value obj g"
  by (cases obj) (auto simp: set_attr_def dget_update)

lemma attr_set_same: "is_instance obj \<Longrightarrow> attr_value (set_attr obj f v) f = v"
  by (cases obj) (auto simp: set_attr_def dget_update is_instance_def)

lemma is_instance_set [simp]: "is_instance (set_attr obj f v) = is_instance obj"
  by (cases obj) (auto simp: set_attr_def is_instance_def)

lemma is_instance_fold [simp]:
  "is_instance (fold (\<lambda>f r. set_attr r f (attr_value ep f)) fs row) = is_instance row"
  by (induction fs arbitrary: row) auto

lemma is_instance_hydrate [simp]: "is_instance (hydrate st row) = is_instance row"
  by (simp add: hydrate_def)

lemma attr_set_fold:
  "g \<notin> set fs \<Longrightarrow> attr_value (fold (\<lambda>f r. set_attr r f (attr_value ep f)) fs row) g = attr_value row g"
  by (induction fs arbitrary: row) (auto simp: attr_set_other)

lemma binding_field_neq [simp]:
  "BINDING_FIELD \<noteq> ''ip_address''" "BINDING_FIELD \<noteq> ''pk''" "BINDING_FIELD \<noteq> ''netbox_cluster''"
  "BINDING_FIELD \<noteq> ''netbox_cluster_id''"
  by (simp_all add: BINDING_FIELD_def)

lemmas binding_field_neq_sym [simp] = binding_field_neq[symmetric]

lemma hydrate_stamp [simp]: "attr_value (hydrate st row) BINDING_FIELD = attr_value row BINDING_FIELD"
  by (simp add: hydrate_def attr_set_other)

lemma getattr_stamp:
  "getattr_or c BINDING_FIELD (PStr []) = attr_value c BINDING_FIELD \<or> getattr_or c BINDING_FIELD (PStr []) = PStr []"
  by (cases c) (auto simp: getattr_or_def attr_value_def dget_def split: option.splits)

lemma target_data_flat:
  "connection_target_data env ep = Some data \<Longrightarrow> list_all (scalar \<circ> snd) data \<and> distinct (map fst data)"
  by (auto simp: connection_target_data_def cloud_image_ssh_authority_def stripped_attr_def Let_def
      split: option.splits if_splits)

lemma fingerprint_of_data:
  assumes "connection_target_fingerprint env ep = Some fp" and "model_name ep \<noteq> ''fastapiendpoint''"
  shows "\<exists>data. connection_target_data env ep = Some data \<and> fp = digest env (json_text (PDict data))"
  using assms by (auto simp: connection_target_fingerprint_def split: option.splits pyval.splits if_splits)

lemma stamp_logged_mono: "stamp_logged env log pk v \<Longrightarrow> stamp_logged env (log @ log2) pk v"
  by (auto simp: stamp_logged_def)

lemma preserve_keeps_pk:
  "preserve_cluster_binding ep current fs = Inr ep1 \<Longrightarrow>
     attr_value ep1 ''pk'' = attr_value ep ''pk'' \<and> is_instance ep1 = is_instance ep"
  by (auto simp: preserve_cluster_binding_def attr_set_other split: if_splits option.splits)

lemma persist_rows:
  assumes "persist st fresh ep fs = Inr st'"
  shows "rows st' i =
    (if i = row_key fresh ep
     then (case fs of
             None \<Rightarrow> Some (set_attr ep ''pk'' (PInt i))
           | Some f \<Rightarrow> map_option (fold (\<lambda>f r. set_attr r f (attr_value ep f)) f) (rows st i))
     else rows st i)"
  using assms by (auto simp: persist_def Let_def split: option.splits)

lemma current_stamp:
  "(case fetch_row st (attr_value ep ''pk'') of
      None \<Rightarrow> PStr [] | Some c \<Rightarrow> getattr_or c BINDING_FIELD (PStr [])) = PStr []
   \<or> (\<exists>row. rows st (row_key fresh ep) = Some row
        \<and> (case fetch_row st (attr_value ep ''pk'') of
             None \<Rightarrow> PStr [] | Some c \<Rightarrow> getattr_or c BINDING_FIELD (PStr [])) = attr_value row BINDING_FIELD)"
proof (cases "fetch_row st (attr_value ep ''pk'')")
  case (Some c)
  then obtain i row where "attr_value ep ''pk'' = PInt i" "rows st i = Some row" "c = hydrate st row"
    by (auto simp: fetch_row_def split: pyval.splits)
  with Some getattr_stamp[of c] show ?thesis by (auto simp: row_key_def)
qed simp

text \<open>An ordinary save leaves a row with the approval it had.\<close>

lemma save_keeps_rows:
  assumes "save_bound_endpoint env st fresh None ep fs = Inr st'" and "is_instance ep"
    and ok: "\<And>i row. rows st i = Some row \<Longrightarrow> row_ok env log i row" and "rows st' i = Some row'"
  shows "row_ok env log i row'"
proof -
  let ?current = "fetch_row st (attr_value ep ''pk'')"
  let ?stamp = "case ?current of None \<Rightarrow> PStr [] | Some c \<Rightarrow> getattr_or c BINDING_FIELD (PStr [])"
  obtain ep1 where ep1: "preserve_cluster_binding ep ?current fs = Inr ep1"
    using assms(1) by (cases "preserve_cluster_binding ep ?current fs")
      (simp_all add: save_bound_endpoint_def Let_def)
  with assms(1) have nb: "\<not> (case fs of None \<Rightarrow> False | Some f \<Rightarrow> BINDING_FIELD \<in> set f)"
    and p: "persist st fresh (set_attr ep1 BINDING_FIELD ?stamp) fs = Inr st'"
    by (simp_all add: save_bound_endpoint_def approval_write_is_exact_def Let_def split: if_splits)
  have pk: "attr_value ep1 ''pk'' = attr_value ep ''pk''" and inst: "is_instance ep1"
    using preserve_keeps_pk[OF ep1] assms(2) by auto
  define k where "k = row_key fresh ep"
  then have key: "row_key fresh (set_attr ep1 BINDING_FIELD ?stamp) = k"
    using pk by (simp add: row_key_def attr_set_other)
  note rows' = persist_rows[OF p, of i, unfolded key]
  show ?thesis
  proof (cases "i = k \<and> fs = None")
    case True
    then have row': "row' = set_attr (set_attr ep1 BINDING_FIELD ?stamp) ''pk'' (PInt i)"
      using rows' assms(4) by simp
    then have stamp: "attr_value row' BINDING_FIELD = ?stamp" and inst': "is_instance row'"
      using inst by (simp_all add: attr_set_other attr_set_same)
    from current_stamp[of st ep fresh] True consider "?stamp = PStr []"
      | row where "rows st i = Some row" "?stamp = attr_value row BINDING_FIELD" unfolding k_def by blast
    then show ?thesis
    proof cases
      case 1
      with stamp inst' show ?thesis by (simp add: row_ok_def stamp_logged_def)
    next
      case 2
      with stamp inst' ok[OF 2(1)] show ?thesis by (simp add: row_ok_def)
    qed
  next
    case False
    show ?thesis
    proof (cases "i = k")
      case True
      with False obtain f where f: "fs = Some f" by auto
      with True rows' assms(4) obtain row where "rows st i = Some row"
        "row' = fold (\<lambda>g r. set_attr r g (attr_value (set_attr ep1 BINDING_FIELD ?stamp) g)) f row" by auto
      with ok[of i row] nb f show ?thesis by (simp add: row_ok_def attr_set_fold)
    next
      case False
      with rows' assms(4) ok show ?thesis by simp
    qed
  qed
qed

lemma approve_keeps_rows:
  assumes "approve_connection_target env st user pk (PStr (digest env (json_text (PDict reviewed)))) = Inr st'"
    and "fetch_row st (PInt pk) = Some current" and "model_name current \<noteq> ''fastapiendpoint''"
    and ok: "\<And>i row. rows st i = Some row \<Longrightarrow> row_ok env log i row" and "rows st' i = Some row'"
  shows "row_ok env (log @ [(pk, user, reviewed)]) i row'"
proof -
  from assms(1,2) obtain fp where dig: "fp = digest env (json_text (PDict reviewed))"
    and sv: "save_bound_endpoint env st pk (Some fp)
       (set_attr (set_attr current ''pk'' (PInt pk)) BINDING_FIELD (PStr fp)) (Some [BINDING_FIELD]) = Inr st'"
    (is "save_bound_endpoint _ _ _ _ ?ep _ = _")
    by (auto simp: approve_connection_target_def split: if_splits option.splits)
  have pre: "preserve_cluster_binding ?ep c (Some [BINDING_FIELD]) = Inr ?ep" for c
    by (simp add: preserve_cluster_binding_def)
  have p: "persist st pk ?ep (Some [BINDING_FIELD]) = Inr st'"
    using sv by (simp add: save_bound_endpoint_def pre Let_def split: sum.splits if_splits bool.splits)
  have inst: "is_instance current" using assms(2) ok by (auto simp: fetch_row_def row_ok_def)
  then have key: "row_key pk ?ep = pk" by (simp add: row_key_def attr_set_other attr_set_same)
  have stamp: "attr_value ?ep BINDING_FIELD = PStr fp" using inst by (simp add: attr_set_same)
  show ?thesis
  proof (cases "i = pk")
    case True
    with persist_rows[OF p, of i] assms(5) key obtain row where
      "rows st i = Some row" "row' = set_attr row BINDING_FIELD (PStr fp)" using stamp by auto
    with ok[of i row] True dig show ?thesis by (auto simp: row_ok_def stamp_logged_def attr_set_same)
  next
    case False
    with persist_rows[OF p, of i] assms(5) key ok show ?thesis by (auto simp: row_ok_def stamp_logged_def)
  qed
qed

lemma authority_start: "no_approvals s \<Longrightarrow> authority_inv env s"
  by (auto simp: no_approvals_def authority_inv_def log_authorised_def row_ok_def stamp_logged_def)

lemma authority_step_inv: "authority_inv env s \<Longrightarrow> authority_step env s t \<Longrightarrow> authority_inv env t"
proof -
  assume inv: "authority_inv env s" and step: "authority_step env s t"
  from step show "authority_inv env t"
  proof (cases rule: authority_step.cases)
    case (approve st user pk reviewed st' current log)
    have "may_approve env user pk"
      using approve(3,4) by (auto simp: approve_connection_target_def may_approve_def split: if_splits option.splits)
    with inv approve approve_keeps_rows[OF approve(3-5)] show ?thesis
      by (auto simp: authority_inv_def log_authorised_def)
  next
    case (save st fresh ep update_fields st' log)
    with inv save_keeps_rows[OF save(3,4)] show ?thesis by (auto simp: authority_inv_def)
  next
    case (column st pk row f log v)
    with inv show ?thesis by (auto simp: authority_inv_def row_ok_def attr_set_other)
  qed (use inv in \<open>auto simp: authority_inv_def split: if_splits\<close>)
qed

lemma truthy_text: "truthy v \<Longrightarrow> py_str v \<noteq> []"
  by (cases v) (auto simp: py_str_def str_of_int_def)

interpretation authority: guarded_machine no_approvals "authority_step env" "authority_inv env" for env
  by unfold_locales (simp_all add: authority_start authority_step_inv)


definition demo_authority :: authority_env where
  "demo_authority = \<lparr>digest = (\<lambda>s. s), host_ip = (\<lambda>_. None), fastapi_fingerprint = (\<lambda>_. None),
     fastapi_trusted = (\<lambda>_. False), granted = (\<lambda>_. False), has_change_perm = (\<lambda>_. True),
     may_view_change = (\<lambda>_ _. True)\<rparr>"

definition demo_admin :: pyval where
  "demo_admin = PDict [(''is_authenticated'', PBool True), (''is_active'', PBool True), (''is_superuser'', PBool True)]"

definition demo_target :: pyval where
  "demo_target = PDict [(''pk'', PInt 1), (''_meta'', PDict [(''model_name'', PStr ''proxmoxendpoint'')]),
     (''enabled'', PBool True), (''domain'', PStr ''pve.example''), (''port'', PInt 8006),
     (BINDING_FIELD, PStr [])]"

definition demo_rows :: authority_state where
  "demo_rows = \<lparr>rows = (\<lambda>i. if i = 1 then Some demo_target else None), ips = (\<lambda>_. None)\<rparr>"

definition demo_data :: "(string \<times> pyval) list" where
  "demo_data = [(''kind'', PStr ''proxmoxendpoint''), (''domain'', PStr ''pve.example''), (''ip_address'', PStr []),
     (''port'', PInt 8006), (''verify_ssl'', PBool True), (''username'', PStr []), (''token_name'', PStr []),
     (''token_version'', PStr [])]"

definition demo_stamp :: string where
  "demo_stamp = json_text (PDict demo_data)"

definition demo_approved :: authority_state where
  "demo_approved = demo_rows\<lparr>rows := (rows demo_rows)(1 := Some (set_attr demo_target BINDING_FIELD (PStr demo_stamp)))\<rparr>"

definition demo_attrs :: "pyval \<Rightarrow> (string \<times> pyval) list" where
  "demo_attrs v = [(''pk'', PInt 1), (''_meta'', PDict [(''model_name'', PStr ''proxmoxendpoint'')]),
     (''enabled'', PBool True), (''domain'', PStr ''pve.example''), (''port'', PInt 8006), (BINDING_FIELD, v)]"

lemma demo_domain: "str_lower (rstrip_char (CHR ''.'') (strip ''pve.example'')) = ''pve.example''"
  by code_simp

lemma demo_target_data:
  assumes "x = [] \<or> x = [(''ip_address'', PNone)]"
  shows "connection_target_data demo_authority (PDict (demo_attrs v @ x)) = Some demo_data"
    and "model_name (PDict (demo_attrs v @ x)) = ''proxmoxendpoint''"
proof -
  have r: "dget (demo_attrs v @ x) k =
      (if k = ''pk'' then PInt 1 else if k = ''_meta'' then PDict [(''model_name'', PStr ''proxmoxendpoint'')]
       else if k = ''enabled'' then PBool True else if k = ''domain'' then PStr ''pve.example''
       else if k = ''port'' then PInt 8006 else if k = BINDING_FIELD then v else PNone)" for k
    using assms by (auto simp: demo_attrs_def dget_def)
  have vs: "(map_of x ++ map_of (demo_attrs v)) ''verify_ssl'' = None"
    using assms by (auto simp: demo_attrs_def BINDING_FIELD_def)
  show m: "model_name (PDict (demo_attrs v @ x)) = ''proxmoxendpoint''"
    by (simp add: model_name_def r getattr_or_def)
  show "connection_target_data demo_authority (PDict (demo_attrs v @ x)) = Some demo_data"
    unfolding connection_target_data_def m
    by (simp add: r vs int_attr_def py_or_def ip_value_def stripped_attr_def text_or_empty_def getattr_or_def
      cloud_image_ssh_authority_def demo_data_def demo_domain before_slash_def dget_Cons BINDING_FIELD_def)
qed

lemma demo_fingerprint:
  assumes "x = [] \<or> x = [(''ip_address'', PNone)]"
  shows "connection_target_fingerprint demo_authority (PDict (demo_attrs v @ x)) = Some demo_stamp"
  using demo_target_data[OF assms, of v]
  by (simp add: connection_target_fingerprint_def demo_stamp_def demo_data_def dget_Cons)
    (simp add: demo_authority_def)

lemma demo_fetch_row:
  "hydrate st (set_attr demo_target BINDING_FIELD v) = PDict (demo_attrs v @ [(''ip_address'', PNone)])"
  "set_attr demo_target BINDING_FIELD v = PDict (demo_attrs v @ [])"
  "demo_target = set_attr demo_target BINDING_FIELD (PStr [])"
  by (simp_all add: hydrate_def set_attr_def demo_target_def demo_attrs_def BINDING_FIELD_def dget_Cons)

lemma demo_attr: "attr_value (PDict (demo_attrs v @ x)) ''pk'' = PInt 1"
  "attr_value (PDict (demo_attrs v @ x)) BINDING_FIELD = v"
  "attr_value (PDict (demo_attrs v @ [])) ''ip_address_id'' = PNone"
  "attr_value (PDict (demo_attrs v @ x)) ''enabled'' = PBool True"
  "getattr_or (PDict (demo_attrs v @ x)) ''enabled'' d = PBool True"
  by (simp_all add: demo_attrs_def dget_Cons BINDING_FIELD_def getattr_or_def)

lemma demo_stamp_ne: "demo_stamp \<noteq> []"
  by (simp add: demo_stamp_def json_dict_items)

lemma demo_approve:
  "approve_connection_target demo_authority demo_rows demo_admin 1 (PStr demo_stamp) = Inr demo_approved"
proof -
  let ?ip = "[(''ip_address'', PNone)]"
  let ?current = "PDict (demo_attrs (PStr []) @ ?ip)"
  let ?ep = "PDict (demo_attrs (PStr demo_stamp) @ ?ip)"
  have fetch: "fetch_row demo_rows (PInt 1) = Some ?current"
    using demo_fetch_row(1)[of demo_rows "PStr []"] demo_fetch_row(3)
    by (simp add: fetch_row_def demo_rows_def)
  have ep: "set_attr (set_attr ?current ''pk'' (PInt 1)) BINDING_FIELD (PStr demo_stamp) = ?ep"
    by (simp add: set_attr_def demo_attrs_def BINDING_FIELD_def)
  have may: "can_access_sensitive_data demo_authority demo_admin" by code_simp
  have perms: "has_change_perm demo_authority u" "may_view_change demo_authority u i" for u i
    by (simp_all add: demo_authority_def)
  have pre: "preserve_cluster_binding ?ep c (Some [BINDING_FIELD]) = Inr ?ep" for c
    by (simp add: preserve_cluster_binding_def)
  have fp: "connection_target_fingerprint demo_authority (PDict (demo_attrs v @ ?ip)) = Some demo_stamp" for v
    by (rule demo_fingerprint) simp
  have per: "persist demo_rows 1 ?ep (Some [BINDING_FIELD]) = Inr demo_approved"
    unfolding persist_def row_key_def demo_attr by (simp add: demo_rows_def demo_approved_def demo_attr[simplified])
  have "save_bound_endpoint demo_authority demo_rows 1 (Some demo_stamp) ?ep (Some [BINDING_FIELD]) = Inr demo_approved"
    unfolding save_bound_endpoint_def demo_attr(1) fetch pre Let_def approval_write_is_exact_def demo_attr(2) fp per
    by (simp add: fp[simplified] per demo_attr[simplified])
  then show ?thesis
    unfolding approve_connection_target_def by (simp only: may perms fetch fp ep option.case if_True simp_thms if_False)
qed


end
