(* ===== verification/Endpoint_Push.thy ===== *)
theory Endpoint_Push
  imports Endpoint_Resolution Connection_Authority
begin

text \<open>
  The endpoint push of \<open>netbox_proxbox/views/backend_sync.py\<close>: a Proxmox endpoint row is sent to
  the backend's own database with its credentials, a disabled or unapproved endpoint only has its
  backend copy revoked, and a row claimed twice is refused. A push returns its outcome and the
  events it caused: requests, stored columns and the push-cache entry. Everything outside is a field
  of \<open>push_env\<close>: the stored rows the \<open>n\<close>-th approval check reads (they may change between two
  checks), the resolved credentials, the effective request tuning (with \<open>retry_backoff\<close> an opaque
  value), the node inventory, the push cache, the receipt's database error, the keyed hash and the
  HTTP answers, which may depend on everything sent before. Headers, TLS verification and timeouts
  are the same for every request and are left out.
\<close>

section \<open>Surroundings\<close>

record push_request =
  rq_verb :: string
  rq_url :: string
  rq_body :: "(string \<times> pyval) list"

text \<open>\<open>Inl\<close> a transport error (no status) or an error status with its detail; \<open>Inr\<close> a status below
  400 with the decoded body or a JSON error.\<close>

type_synonym http_answer = "(string \<times> int option) + int \<times> (string + pyval)"

datatype push_event =
    Sent push_request
  | Stored string pyval
  | Erased string
  | Cached int
  | Invalidated

record push_env =
  pv_authority :: authority_env
  pv_states :: "nat \<Rightarrow> authority_state"
  pv_password :: string
  pv_token_value :: string
  pv_tuning :: "pyval \<Rightarrow> (string \<times> pyval) list"
  pv_nodes :: "pyval list"
  pv_cached :: "string \<Rightarrow> int option"
  pv_http :: "push_event list \<Rightarrow> push_request \<Rightarrow> http_answer"
  pv_receipt_error :: "string option"
  pv_hmac :: "string \<Rightarrow> string"

type_synonym push_outcome = "bool \<times> string option \<times> int option"

section \<open>The payload\<close>

text \<open>\<open>posixpath.normpath\<close>.\<close>

definition norm_step :: "nat \<Rightarrow> string \<Rightarrow> string list \<Rightarrow> string list" where
  "norm_step slashes part comps =
     (if part = [] \<or> part = ''.'' then comps
      else if part \<noteq> ''..'' \<or> (slashes = 0 \<and> comps = []) \<or> (comps \<noteq> [] \<and> last comps = ''..'')
        then comps @ [part]
      else if comps \<noteq> [] then butlast comps else comps)"

definition normpath :: "string \<Rightarrow> string" where
  "normpath path =
     (if path = [] then ''.''
      else
        let slashes = (if startswith ''/'' path
                       then (if startswith ''//'' path \<and> \<not> startswith ''///'' path then 2 else 1) else 0);
            comps = fold (norm_step slashes) (split_on (CHR ''/'') path) [];
            p = replicate slashes (CHR ''/'') @ str_join ''/'' comps
        in if p = [] then ''.'' else p)"

definition packer_template_builds_effectively_allowed :: "pyval \<Rightarrow> bool" where
  "packer_template_builds_effectively_allowed ep \<longleftrightarrow>
     truthy (getattr_or ep ''enabled'' (PBool True))
     \<and> truthy (attr_value ep ''allow_writes'')
     \<and> truthy (attr_value ep ''allow_packer_template_builds'')"

definition stripped_endpoint_value :: "pyval \<Rightarrow> string \<Rightarrow> string" where
  "stripped_endpoint_value ep f = strip (text_or_empty (attr_value ep f))"

definition CLOUD_IMAGE_SSH_CLEAR :: "(string \<times> pyval) list" where
  "CLOUD_IMAGE_SSH_CLEAR =
     [(''ssh_target_node'', PNone), (''ssh_host'', PNone), (''ssh_username'', PNone),
      (''ssh_identity_file'', PNone), (''ssh_known_host_fingerprint'', PNone)]"

definition cloud_image_ssh_target_matches_host :: "push_env \<Rightarrow> pyval \<Rightarrow> bool" where
  "cloud_image_ssh_target_matches_host env ep \<longleftrightarrow>
     (let canon = host_ip (pv_authority env);
          wanted_node = strip (py_str (getattr_or ep ''cloud_image_ssh_target_node'' (PStr [])));
          wanted_host = normalize_host canon (getattr_or ep ''ssh_host'' (PStr []))
      in if wanted_node = [] \<or> wanted_host = [] then False
         else
           let matching_names = set (map (\<lambda>n. str_lower (strip (text_or_empty (attr_value n ''name''))))
                 (filter (\<lambda>n. normalize_host canon (getattr_or n ''ip_address'' (PStr [])) = wanted_host)
                   (pv_nodes env)))
           in matching_names = {str_lower wanted_node})"

definition identity_file :: "pyval \<Rightarrow> string" where
  "identity_file ep =
     (let f = stripped_endpoint_value ep ''cloud_image_ssh_identity_file'' in if f \<noteq> [] then normpath f else f)"

definition full_binding :: "pyval \<Rightarrow> int \<Rightarrow> (string \<times> pyval) list" where
  "full_binding ep port =
     [(''ssh_target_node'', PStr (stripped_endpoint_value ep ''cloud_image_ssh_target_node'')),
      (''ssh_host'', PStr (stripped_endpoint_value ep ''ssh_host'')),
      (''ssh_username'', PStr (stripped_endpoint_value ep ''effective_ssh_username'')),
      (''ssh_port'', PInt port),
      (''ssh_identity_file'', PStr (identity_file ep)),
      (''ssh_known_host_fingerprint'', PStr (stripped_endpoint_value ep ''ssh_known_host_fingerprint''))]"

text \<open>The desired binding keys, and whether failed verification revokes the Packer grant; None
  where \<open>int(ssh_port)\<close> raises.\<close>

definition cloud_image_ssh_binding :: "push_env \<Rightarrow> pyval \<Rightarrow> ((string \<times> pyval) list \<times> bool) option" where
  "cloud_image_ssh_binding env ep =
     (let managed = stripped_endpoint_value ep ''cloud_image_ssh_binding_fingerprint'' \<noteq> [];
          clear = (if managed then CLOUD_IMAGE_SSH_CLEAR else []);
          gates_open = stripped_endpoint_value ep ''access_methods'' = ''api_ssh''
            \<and> packer_template_builds_effectively_allowed ep
      in if \<not> gates_open then Some (clear, False)
         else if stripped_endpoint_value ep ''cloud_image_ssh_target_node'' = [] \<and> identity_file ep = []
           then Some (clear, False)
         else (case int_attr ep ''ssh_port'' of
                 None \<Rightarrow> None
               | Some port \<Rightarrow>
                   if \<not> list_all (truthy \<circ> snd) (full_binding ep port) then Some (clear, True)
                   else if \<not> cloud_image_ssh_target_matches_host env ep then Some (clear, True)
                   else Some (full_binding ep port, False)))"

definition packer_payload_allowed :: "pyval \<Rightarrow> bool \<Rightarrow> bool" where
  "packer_payload_allowed ep revoke_packer \<longleftrightarrow>
     packer_template_builds_effectively_allowed ep \<and> \<not> revoke_packer"

text \<open>\<open>str(obj)\<close>: the text of the object's own \<open>__str__\<close>, where it has one.\<close>

definition obj_str :: "pyval \<Rightarrow> string" where
  "obj_str v = (case attr_value v ''__str__'' of PStr s \<Rightarrow> s | _ \<Rightarrow> py_str v)"

definition related_object_metadata :: "string \<Rightarrow> pyval \<Rightarrow> (string \<times> pyval) list" where
  "related_object_metadata p v =
     (if v = PNone
      then [(p @ ''_id'', PNone), (p @ ''_slug'', PNone), (p @ ''_name'', PNone)]
      else [(p @ ''_id'', endpoint_pk v), (p @ ''_slug'', attr_value v ''slug''),
            (p @ ''_name'', py_or (attr_value v ''name'') (PStr (obj_str v)))])"

text \<open>\<open>text.strip() or None\<close> and \<open>(value or default).strip() or default\<close>.\<close>

definition text_or_none :: "string \<Rightarrow> pyval" where
  "text_or_none s = (let t = strip s in if t = [] then PNone else PStr t)"

definition text_or :: "pyval \<Rightarrow> string \<Rightarrow> pyval" where
  "text_or v dflt = (let t = strip (if truthy v then py_str v else dflt) in PStr (if t = [] then dflt else t))"

definition get_ip_address_host :: "pyval \<Rightarrow> string" where
  "get_ip_address_host v =
     (if v = PNone then ''127.0.0.1'' else before_slash (py_str (getattr_or v ''address'' v)))"

text \<open>\<open>_proxmox_backend_payload\<close>: \<open>Inl\<close> is \<open>ConnectionAuthorityError\<close> or a conversion error. The
  approval is checked before the credentials are read and again before the payload is returned.\<close>

datatype payload_error = Unapproved | Bad_number

definition approved_at :: "push_env \<Rightarrow> nat \<Rightarrow> pyval \<Rightarrow> bool" where
  "approved_at env n ep \<longleftrightarrow> require_approved_connection (pv_authority env) (pv_states env n) ep = Inr ()"

definition proxmox_payload_fields :: "push_env \<Rightarrow> pyval \<Rightarrow> int \<Rightarrow> bool \<Rightarrow> (string \<times> pyval) list" where
  "proxmox_payload_fields env ep port revoke_packer =
     [(''name'', PStr (proxmox_backend_name ep)),
      (''node_device_name_template'', PStr (stripped_endpoint_value ep ''node_device_name_template'')),
      (''ip_address'', PStr (get_ip_address_host (attr_value ep ''ip_address''))),
      (''domain'', text_or_none (text_or_empty (attr_value ep ''domain''))),
      (''port'', PInt port),
      (''username'', text_or (attr_value ep ''username'') ''root@pam''),
      (''password'', text_or_none (pv_password env)),
      (''verify_ssl'', PBool (truthy (attr_value ep ''verify_ssl''))),
      (''timeout'', dget (pv_tuning env ep) ''timeout''),
      (''max_retries'', dget (pv_tuning env ep) ''max_retries''),
      (''retry_backoff'', dget (pv_tuning env ep) ''retry_backoff''),
      (''token_name'', text_or_none (text_or_empty (attr_value ep ''token_name''))),
      (''token_value'', text_or_none (pv_token_value env)),
      (''enabled'', PBool (truthy (getattr_or ep ''enabled'' (PBool True)))),
      (''allow_packer_template_builds'', PBool (packer_payload_allowed ep revoke_packer)),
      (''access_methods'', text_or (attr_value ep ''access_methods'') ''api'')]
     @ related_object_metadata ''site'' (attr_value ep ''site'')
     @ related_object_metadata ''tenant'' (attr_value ep ''tenant'')"

definition proxmox_backend_payload :: "push_env \<Rightarrow> pyval \<Rightarrow> payload_error + (string \<times> pyval) list" where
  "proxmox_backend_payload env ep =
     (if \<not> approved_at env 0 ep then Inl Unapproved
      else
        (case (cloud_image_ssh_binding env ep, int_of_pyval (py_or (getattr_or ep ''port'' (PInt 8006)) (PInt 8006))) of
           (Some (binding_keys, revoke_packer), Some port) \<Rightarrow>
             if approved_at env 1 ep then Inr (proxmox_payload_fields env ep port revoke_packer @ binding_keys)
             else Inl Unapproved
         | _ \<Rightarrow> Inl Bad_number))"

section \<open>Fingerprints\<close>

definition SECRET_KEYS :: "string list" where
  "SECRET_KEYS = [''password'', ''token_name'', ''token_value'']"

definition proxmox_payload_fingerprint :: "push_env \<Rightarrow> (string \<times> pyval) list \<Rightarrow> string" where
  "proxmox_payload_fingerprint env payload =
     digest (pv_authority env) (json_text (PDict
       (filter (\<lambda>(k, v). k \<notin> set SECRET_KEYS) payload
        @ map (\<lambda>f. (f @ ''_hash'', PStr (digest (pv_authority env) (text_or_empty (dget payload f)))))
            SECRET_KEYS)))"

text \<open>\<open>pv_hmac\<close> is \<open>salted_hmac\<close> under the Proxmox salt.\<close>

definition proxmox_credential_fingerprint :: "push_env \<Rightarrow> (string \<times> pyval) list \<Rightarrow> string" where
  "proxmox_credential_fingerprint env payload =
     pv_hmac env (fingerprint_material (map (\<lambda>k. text_or_empty (dget payload k)) SECRET_KEYS))"

definition BINDING_KEYS :: "string list" where
  "BINDING_KEYS = [''ssh_target_node'', ''ssh_host'', ''ssh_username'', ''ssh_port'', ''ssh_identity_file'',
     ''ssh_known_host_fingerprint'']"

text \<open>\<open>_cloud_image_ssh_binding_fingerprint\<close>: None no binding key is emitted, \<open>Some []\<close> a clear.\<close>

definition cloud_image_ssh_binding_fingerprint :: "push_env \<Rightarrow> (string \<times> pyval) list \<Rightarrow> string option" where
  "cloud_image_ssh_binding_fingerprint env payload =
     (let emitted = concat (map (\<lambda>k. case map_of payload k of None \<Rightarrow> [] | Some v \<Rightarrow> [(k, v)]) BINDING_KEYS)
      in if emitted = [] then None
         else if length emitted = length BINDING_KEYS \<and> list_all (\<lambda>(k, v). v \<noteq> PNone) emitted
           then Some (digest (pv_authority env) (json_text (PDict emitted)))
         else Some [])"

definition stored_credential_fingerprint :: "pyval \<Rightarrow> string" where
  "stored_credential_fingerprint ep = strip (text_or_empty (attr_value ep ''pushed_credential_fingerprint''))"

definition proxmox_push_credentials_unchanged :: "push_env \<Rightarrow> pyval \<Rightarrow> (string \<times> pyval) list \<Rightarrow> bool" where
  "proxmox_push_credentials_unchanged env ep payload \<longleftrightarrow>
     (let stored = stored_credential_fingerprint ep
      in if stored = [] then False else stored = proxmox_credential_fingerprint env payload)"

text \<open>\<open>Inl\<close> where the payload raises.\<close>

definition proxmox_endpoint_credentials_rotated_since_last_push ::
  "push_env \<Rightarrow> pyval \<Rightarrow> payload_error + bool" where
  "proxmox_endpoint_credentials_rotated_since_last_push env ep =
     (let stored = stored_credential_fingerprint ep in
      if stored = [] then Inr False
      else (case proxmox_backend_payload env ep of
              Inl e \<Rightarrow> Inl e
            | Inr payload \<Rightarrow> Inr (stored \<noteq> proxmox_credential_fingerprint env payload)))"

section \<open>Is a backend row current?\<close>

definition emitted_cloud_image_binding_matches ::
  "(string \<times> pyval) list \<Rightarrow> (string \<times> pyval) list \<Rightarrow> bool" where
  "emitted_cloud_image_binding_matches payload row \<longleftrightarrow>
     list_all (\<lambda>key.
       case map_of payload key of
         None \<Rightarrow> True
       | Some expected \<Rightarrow>
           (let actual = dget row key
            in (if key = ''ssh_identity_file'' \<and> actual \<noteq> PNone then PStr (normpath (py_str actual)) else actual)
               = expected)) BINDING_KEYS"

definition proxmox_row_is_current :: "push_env \<Rightarrow> pyval \<Rightarrow> (string \<times> pyval) list \<Rightarrow> payload_error + bool" where
  "proxmox_row_is_current env ep row =
     (if \<not> proxmox_targets_match ep row then Inr False
      else (case proxmox_backend_payload env ep of
        Inl e \<Rightarrow> Inl e
      | Inr payload \<Rightarrow> Inr
          (if map_of row ''enabled'' = None \<or> map_of row ''allow_packer_template_builds'' = None then False
           else if truthy (dget row ''enabled'') \<noteq> truthy (dget payload ''enabled'') then False
           else if \<not> list_all (\<lambda>key. strip (text_or_empty (dget row key)) = strip (text_or_empty (dget payload key)))
             [''username'', ''access_methods''] then False
           else if truthy (dget row ''allow_packer_template_builds'')
             \<noteq> truthy (dget payload ''allow_packer_template_builds'') then False
           else if truthy (dget row ''verify_ssl'') \<noteq> truthy (dget payload ''verify_ssl'') then False
           else if \<not> list_all (\<lambda>key. dget row key = dget payload key) [''timeout'', ''max_retries'', ''retry_backoff'']
             then False
           else if \<not> emitted_cloud_image_binding_matches payload row then False
           else proxmox_push_credentials_unchanged env ep payload)))"

text \<open>\<open>backend_holds_proxmox_endpoint\<close>; \<open>st\<close> is the database its own approval check reads.\<close>

definition backend_holds_proxmox_endpoint ::
  "push_env \<Rightarrow> authority_state \<Rightarrow> pyval \<Rightarrow> (string \<times> pyval) list list option \<Rightarrow> payload_error + bool" where
  "backend_holds_proxmox_endpoint env st ep existing =
     (case existing of
        None \<Rightarrow> Inr False
      | Some [] \<Rightarrow> Inr False
      | Some rs \<Rightarrow>
          if \<not> approved_connection_allows_secrets (pv_authority env) st ep then Inr False
          else (case backend_row_for_endpoint rs ep of
                  None \<Rightarrow> Inr False
                | Some row \<Rightarrow> proxmox_row_is_current env ep row))"

section \<open>Requests\<close>

definition send :: "push_env \<Rightarrow> string \<Rightarrow> string \<Rightarrow> (string \<times> pyval) list \<Rightarrow> push_event list
    \<Rightarrow> http_answer \<times> push_event list" where
  "send env verb url body evs =
     (let req = \<lparr>rq_verb = verb, rq_url = url, rq_body = body\<rparr> in (pv_http env evs req, evs @ [Sent req]))"

definition row_url :: "string \<Rightarrow> pyval \<Rightarrow> string" where
  "row_url list_url row_id = list_url @ ''/'' @ py_str row_id"

definition endpoint_label :: "pyval \<Rightarrow> string" where
  "endpoint_label ep =
     (let name = attr_value ep ''name'' in if \<not> none_or_empty name then py_str name else obj_str ep)"

definition disabled_endpoint_detail :: "pyval \<Rightarrow> string \<Rightarrow> string \<Rightarrow> string option" where
  "disabled_endpoint_detail ep kind action =
     (if endpoint_is_enabled ep then None
      else
        let subject = kind @ '' '' @ quoted (endpoint_label ep);
            endpoint_id = endpoint_pk ep;
            tail = '' is disabled; '' @ action @ ''.''
        in Some (if endpoint_id \<noteq> PNone then subject @ '' (id='' @ py_str endpoint_id @ '')'' @ tail
                 else subject @ tail))"

text \<open>\<open>_confirmed_cached_proxmox_row\<close>: \<open>Inl\<close> a transport error, \<open>Inr\<close> whether the cached row is
  still this endpoint's.\<close>

definition confirmed_cached_proxmox_row ::
  "push_env \<Rightarrow> pyval \<Rightarrow> string \<Rightarrow> int \<Rightarrow> push_event list \<Rightarrow> (string + bool) \<times> push_event list" where
  "confirmed_cached_proxmox_row env ep base_url backend_id evs =
     (let (answer, evs) = send env ''GET'' (row_url (base_url @ ''/proxmox/endpoints'') (PInt backend_id)) [] evs
      in case answer of
           Inl (detail, status) \<Rightarrow>
             if status = Some 404 then (Inr False, evs @ [Invalidated])
             else (Inl (''Failed to verify cached ProxBox backend endpoint: '' @ detail), evs)
         | Inr (status, body) \<Rightarrow>
             (let resolved = resolve_backend_row_id (case body of Inr (PDict row) \<Rightarrow> [row] | _ \<Rightarrow> []) ep
              in if isl body \<or> resolved \<noteq> Inr backend_id then (Inr False, evs @ [Invalidated])
                 else (Inr True, evs)))"

text \<open>The listing every push starts from: the given rows, or one GET; \<open>Inl\<close> is the early return.\<close>

definition listed_rows ::
  "push_env \<Rightarrow> string \<Rightarrow> string \<Rightarrow> (string \<times> pyval) list list option \<Rightarrow> push_event list
    \<Rightarrow> (push_outcome + (string \<times> pyval) list list) \<times> push_event list" where
  "listed_rows env failure list_url existing evs =
     (case existing of
        Some rs \<Rightarrow> (Inr rs, evs)
      | None \<Rightarrow>
          (let (answer, evs) = send env ''GET'' list_url [] evs
           in case answer of
                Inl (detail, status) \<Rightarrow> (Inl (False, Some (failure @ detail), status), evs)
              | Inr (status, Inl json_err) \<Rightarrow> (Inl (False, Some (failure @ json_err), None), evs)
              | Inr (status, Inr body) \<Rightarrow>
                  (case list_backend_proxmox_endpoints (Inr body) of
                     Inl err \<Rightarrow> (Inl (False, Some err, None), evs)
                   | Inr rs \<Rightarrow> (Inr rs, evs))))"

section \<open>Revoking\<close>

definition REVOCATION :: "(string \<times> pyval) list" where
  "REVOCATION = [(''enabled'', PBool False), (''allow_packer_template_builds'', PBool False)]"

fun revoke_rows ::
  "push_env \<Rightarrow> string \<Rightarrow> (string \<times> pyval) list list \<Rightarrow> push_event list \<Rightarrow> string list \<times> push_event list" where
  "revoke_rows env list_url [] evs = ([], evs)"
| "revoke_rows env list_url (row # rs) evs =
     (let row_id = dget row ''id'' in
      if row_id = PNone then revoke_rows env list_url rs evs
      else
        let (answer, evs) = send env ''PUT'' (row_url list_url row_id) REVOCATION evs;
            (failures, evs) = revoke_rows env list_url rs evs
        in (case answer of
              Inl (detail, status) \<Rightarrow> ((''backend row '' @ py_str row_id @ '': '' @ detail) # failures, evs)
            | Inr _ \<Rightarrow> (failures, evs)))"

definition revoke_duplicate_proxmox_rows ::
  "push_env \<Rightarrow> pyval \<Rightarrow> string \<Rightarrow> (string \<times> pyval) list list \<Rightarrow> push_event list
    \<Rightarrow> push_outcome \<times> push_event list" where
  "revoke_duplicate_proxmox_rows env ep list_url matching_rows evs =
     (let (failures, evs) = revoke_rows env list_url matching_rows evs;
          failure_detail =
            (if failures \<noteq> [] then '' Revocation failed for '' @ str_join ''; '' failures @ ''.''
             else '' All identifiable rows were disabled.'')
      in ((False, Some (''Multiple ProxBox backend rows claim immutable identity nb:''
             @ py_str (attr_value ep ''pk'') @ ''; every identifiable row was attempted and ''
             @ ''operator cleanup is required.'' @ failure_detail), None), evs))"

definition managed_binding_revocation_payload :: "(string \<times> pyval) list" where
  "managed_binding_revocation_payload =
     (''allow_packer_template_builds'', PBool False) # CLOUD_IMAGE_SSH_CLEAR"

definition erase_cloud_image_ssh_binding_fingerprint ::
  "pyval \<Rightarrow> string \<Rightarrow> push_event list \<Rightarrow> push_event list" where
  "erase_cloud_image_ssh_binding_fingerprint ep expected evs =
     (if attr_value ep ''pk'' = PNone then evs else evs @ [Erased expected])"

definition STALE_APPROVAL :: string where
  "STALE_APPROVAL = ''Connection target approval is missing or stale.''"

definition revoke_managed_cloud_image_binding ::
  "push_env \<Rightarrow> pyval \<Rightarrow> string \<Rightarrow> string \<Rightarrow> (string \<times> pyval) list list option \<Rightarrow> push_event list
    \<Rightarrow> push_outcome \<times> push_event list" where
  "revoke_managed_cloud_image_binding env ep receipt list_url existing evs =
     (if receipt = [] then ((False, Some STALE_APPROVAL, None), evs)
      else
        let failure = ''Failed to revoke managed SSH binding: '';
            (listing, evs) = listed_rows env failure list_url existing evs
        in case listing of
             Inl out \<Rightarrow> (out, evs)
           | Inr rs \<Rightarrow>
               (case backend_rows_for_endpoint rs ep of
                  r1 # r2 # rest \<Rightarrow> revoke_duplicate_proxmox_rows env ep list_url (r1 # r2 # rest) evs
                | [] \<Rightarrow> ((False, Some STALE_APPROVAL, None), evs)
                | [row] \<Rightarrow>
                    if dget row ''id'' = PNone then ((False, Some STALE_APPROVAL, None), evs)
                    else
                      let (answer, evs) = send env ''PUT'' (row_url list_url (dget row ''id''))
                            managed_binding_revocation_payload evs
                      in (case answer of
                            Inl (detail, status) \<Rightarrow> ((False, Some (failure @ detail), status), evs)
                          | Inr _ \<Rightarrow>
                              ((False, Some (''The managed SSH binding was revoked; the full update requires ''
                                 @ ''connection approval.''), None),
                               erase_cloud_image_ssh_binding_fingerprint ep receipt evs))))"

definition PACKER_AUTHORIZED :: string where
  "PACKER_AUTHORIZED = ''packer_template_builds_backend_authorized''"

definition SYNC_FAILURE :: string where
  "SYNC_FAILURE = ''Failed to sync Proxmox endpoint to ProxBox backend: ''"

text \<open>\<open>_update_disabled_proxmox_policy\<close>; the \<open>RequestException\<close> is answered by the caller's handler.\<close>

definition update_disabled_proxmox_policy ::
  "push_env \<Rightarrow> pyval \<Rightarrow> (string \<times> pyval) list option \<Rightarrow> string \<Rightarrow> string \<Rightarrow> push_event list
    \<Rightarrow> push_outcome \<times> push_event list" where
  "update_disabled_proxmox_policy env ep existing binding_receipt list_url evs =
     (case existing of
        Some row \<Rightarrow>
          if dget row ''id'' = PNone then ((True, None, None), evs @ [Stored PACKER_AUTHORIZED (PBool False)])
          else
            let (answer, evs) = send env ''PUT'' (row_url list_url (dget row ''id''))
                  (REVOCATION @ (if binding_receipt \<noteq> [] then CLOUD_IMAGE_SSH_CLEAR else [])) evs
            in (case answer of
                  Inl (detail, status) \<Rightarrow> ((False, Some (SYNC_FAILURE @ detail), status), evs)
                | Inr _ \<Rightarrow>
                    ((True, None, None),
                     (if binding_receipt \<noteq> []
                      then erase_cloud_image_ssh_binding_fingerprint ep binding_receipt evs else evs)
                     @ [Stored PACKER_AUTHORIZED (PBool False)]))
      | None \<Rightarrow> ((True, None, None), evs @ [Stored PACKER_AUTHORIZED (PBool False)]))"

section \<open>Pushing\<close>

definition BINDING_RECEIPT :: string where
  "BINDING_RECEIPT = ''cloud_image_ssh_binding_fingerprint''"

text \<open>\<open>_record_cloud_image_ssh_binding_fingerprint\<close>: \<open>Inl\<close> is \<open>CloudImageBindingReceiptError\<close>.\<close>

definition record_cloud_image_ssh_binding_fingerprint ::
  "push_env \<Rightarrow> pyval \<Rightarrow> (string \<times> pyval) list \<Rightarrow> push_event list \<Rightarrow> string + push_event list" where
  "record_cloud_image_ssh_binding_fingerprint env ep payload evs =
     (case cloud_image_ssh_binding_fingerprint env payload of
        None \<Rightarrow> Inr evs
      | Some fingerprint \<Rightarrow>
          if fingerprint = [] then Inr evs
          else if attr_value ep ''pk'' = PNone
            then Inl ''Cloud Image SSH binding was not sent: its endpoint must be saved first.''
          else (case pv_receipt_error env of
                  Some err \<Rightarrow> Inl err
                | None \<Rightarrow> Inr (evs @ [Stored BINDING_RECEIPT (PStr fingerprint)])))"

definition record_pushed_proxmox_credential_fingerprint ::
  "push_env \<Rightarrow> pyval \<Rightarrow> (string \<times> pyval) list \<Rightarrow> push_event list \<Rightarrow> push_event list" where
  "record_pushed_proxmox_credential_fingerprint env ep payload evs =
     (if attr_value ep ''pk'' = PNone then evs
      else evs @ [Stored ''pushed_credential_fingerprint'' (PStr (proxmox_credential_fingerprint env payload))])"

definition cache_successful_proxmox_push ::
  "push_env \<Rightarrow> pyval \<Rightarrow> (string \<times> pyval) list \<Rightarrow> (string \<times> pyval) list option \<Rightarrow> string + pyval
    \<Rightarrow> push_event list \<Rightarrow> push_event list" where
  "cache_successful_proxmox_push env ep payload existing body evs =
     (let listed_id = (case existing of None \<Rightarrow> PNone | Some row \<Rightarrow> dget row ''id'');
          backend_id = (if listed_id = PNone
                        then (case body of Inr (PDict d) \<Rightarrow> dget d ''id'' | _ \<Rightarrow> PNone) else listed_id)
      in record_pushed_proxmox_credential_fingerprint env ep payload
           (case int_or_none backend_id of None \<Rightarrow> evs | Some i \<Rightarrow> evs @ [Cached i]))"

text \<open>PUT on the listed row, or POST on the collection.\<close>

definition push_target :: "string \<Rightarrow> (string \<times> pyval) list option \<Rightarrow> string \<times> string" where
  "push_target list_url existing =
     (let existing_id = (case existing of None \<Rightarrow> PNone | Some row \<Rightarrow> dget row ''id'')
      in if existing_id \<noteq> PNone then (''PUT'', row_url list_url existing_id) else (''POST'', list_url))"

definition send_approved_proxmox_payload ::
  "push_env \<Rightarrow> pyval \<Rightarrow> (string \<times> pyval) list \<Rightarrow> (string \<times> pyval) list option \<Rightarrow> string \<Rightarrow> string
    \<Rightarrow> push_event list \<Rightarrow> push_outcome \<times> push_event list" where
  "send_approved_proxmox_payload env ep payload existing binding_receipt list_url evs =
     (let desired = cloud_image_ssh_binding_fingerprint env payload in
      case record_cloud_image_ssh_binding_fingerprint env ep payload evs of
        Inl err \<Rightarrow> ((False, Some err, None), evs)
      | Inr evs \<Rightarrow>
          (let (verb, url) = push_target list_url existing;
               (answer, evs) = send env verb url payload evs
           in case answer of
                Inl (detail, status) \<Rightarrow> ((False, Some (SYNC_FAILURE @ detail), status), evs)
              | Inr (status, body) \<Rightarrow>
                  (let evs = (if desired = Some [] \<and> binding_receipt \<noteq> []
                              then erase_cloud_image_ssh_binding_fingerprint ep binding_receipt evs else evs)
                   in ((True, None, None),
                       cache_successful_proxmox_push env ep payload existing body evs
                       @ [Stored PACKER_AUTHORIZED (PBool (truthy (dget payload ''enabled'')
                            \<and> truthy (dget payload ''allow_packer_template_builds'')))]))))"

text \<open>\<open>_prepare_proxmox_push\<close>: the payload and the id the push cache hints at; a zero id is none.\<close>

definition prepare_proxmox_push ::
  "push_env \<Rightarrow> pyval \<Rightarrow> (string \<times> pyval) list list option
    \<Rightarrow> payload_error + (string \<times> pyval) list \<times> int option" where
  "prepare_proxmox_push env ep existing =
     (case proxmox_backend_payload env ep of
        Inl e \<Rightarrow> Inl e
      | Inr payload \<Rightarrow>
          Inr (payload,
               (if existing \<noteq> None then None
                else (case pv_cached env (proxmox_payload_fingerprint env payload) of
                        Some i \<Rightarrow> if i = 0 then None else Some i
                      | None \<Rightarrow> None))))"

text \<open>The body of the second \<open>try\<close>: from the listing to the send. \<open>payload\<close> is None exactly for a
  disabled endpoint.\<close>

definition push_listed ::
  "push_env \<Rightarrow> pyval \<Rightarrow> (string \<times> pyval) list option \<Rightarrow> string \<Rightarrow> string
    \<Rightarrow> (string \<times> pyval) list list option \<Rightarrow> push_event list \<Rightarrow> push_outcome \<times> push_event list" where
  "push_listed env ep payload receipt list_url existing evs =
     (let (listing, evs) = listed_rows env SYNC_FAILURE list_url existing evs
      in case listing of
           Inl out \<Rightarrow> (out, evs)
         | Inr rs \<Rightarrow>
             (let matching = backend_rows_for_endpoint rs ep in
              if length matching > 1 then revoke_duplicate_proxmox_rows env ep list_url matching evs
              else
                let row = (case matching of [] \<Rightarrow> None | r # _ \<Rightarrow> Some r)
                in case payload of
                     None \<Rightarrow> update_disabled_proxmox_policy env ep row receipt list_url evs
                   | Some pl \<Rightarrow>
                       if approved_at env 2 ep
                       then send_approved_proxmox_payload env ep pl row receipt list_url evs
                       else revoke_managed_cloud_image_binding env ep receipt list_url existing evs))"

text \<open>\<open>sync_proxmox_endpoint_to_backend\<close>; \<open>Inl\<close> where a conversion of the payload raises.\<close>

definition sync_proxmox_endpoint_to_backend ::
  "push_env \<Rightarrow> pyval \<Rightarrow> string \<Rightarrow> (string \<times> pyval) list list option \<Rightarrow> bool
    \<Rightarrow> (payload_error + push_outcome) \<times> push_event list" where
  "sync_proxmox_endpoint_to_backend env ep base_url existing allow_disabled =
     (let disabled_detail = disabled_endpoint_detail ep ''Proxmox endpoint'' ''skipping'';
          list_url = base_url @ ''/proxmox/endpoints'';
          receipt = stripped_endpoint_value ep BINDING_RECEIPT
      in case disabled_detail of
           Some detail \<Rightarrow>
             if \<not> allow_disabled then (Inr (False, Some detail, None), [])
             else map_prod Inr id (push_listed env ep None receipt list_url existing [])
         | None \<Rightarrow>
             (case prepare_proxmox_push env ep existing of
                Inl Unapproved \<Rightarrow>
                  map_prod Inr id (revoke_managed_cloud_image_binding env ep receipt list_url existing [])
              | Inl Bad_number \<Rightarrow> (Inl Bad_number, [])
              | Inr (payload, cached_id) \<Rightarrow>
                  (case cached_id of
                     None \<Rightarrow> map_prod Inr id (push_listed env ep (Some payload) receipt list_url existing [])
                   | Some i \<Rightarrow>
                       (case confirmed_cached_proxmox_row env ep base_url i [] of
                          (Inl cache_error, evs) \<Rightarrow> (Inr (False, Some cache_error, None), evs)
                        | (Inr True, evs) \<Rightarrow> (Inr (True, None, None), evs)
                        | (Inr False, evs) \<Rightarrow>
                            map_prod Inr id (push_listed env ep (Some payload) receipt list_url existing evs)))))"

text \<open>\<open>_list_backend_proxmox_endpoints\<close> over HTTP.\<close>

definition list_proxmox_rows ::
  "push_env \<Rightarrow> string \<Rightarrow> push_event list \<Rightarrow> (string + (string \<times> pyval) list list) \<times> push_event list" where
  "list_proxmox_rows env base_url evs =
     (let (answer, evs) = send env ''GET'' (base_url @ ''/proxmox/endpoints'') [] evs
      in (list_backend_proxmox_endpoints
            (case answer of
               Inl (detail, status) \<Rightarrow> Inl (''Failed to list Proxmox endpoints on ProxBox backend: '' @ detail)
             | Inr (status, Inl json_err) \<Rightarrow> Inl (''Failed to read Proxmox endpoint list: '' @ json_err)
             | Inr (status, Inr body) \<Rightarrow> Inr body), evs))"

definition resolve_listed :: "push_env \<Rightarrow> pyval \<Rightarrow> string \<Rightarrow> push_event list \<Rightarrow> (string + int) \<times> push_event list" where
  "resolve_listed env ep base_url evs =
     (case list_proxmox_rows env base_url evs of
        (Inl list_error, evs) \<Rightarrow> (Inl list_error, evs)
      | (Inr rs, evs) \<Rightarrow> (resolve_backend_row_id rs ep, evs))"

text \<open>\<open>resolve_backend_endpoint_id\<close>; any exception of the payload only loses the cache hint.\<close>

definition resolve_backend_endpoint_id ::
  "push_env \<Rightarrow> pyval \<Rightarrow> string \<Rightarrow> (string + int) \<times> push_event list" where
  "resolve_backend_endpoint_id env ep base_url =
     (case disabled_endpoint_detail ep ''Proxmox endpoint'' ''skipping'' of
        Some detail \<Rightarrow> (Inl detail, [])
      | None \<Rightarrow>
          (case (case proxmox_backend_payload env ep of
                   Inl e \<Rightarrow> None
                 | Inr payload \<Rightarrow> pv_cached env (proxmox_payload_fingerprint env payload)) of
             None \<Rightarrow> resolve_listed env ep base_url []
           | Some cached_id \<Rightarrow>
               (case confirmed_cached_proxmox_row env ep base_url cached_id [] of
                  (Inl cache_error, evs) \<Rightarrow> (Inl cache_error, evs)
                | (Inr True, evs) \<Rightarrow> (Inr cached_id, evs)
                | (Inr False, evs) \<Rightarrow> resolve_listed env ep base_url evs)))"

section \<open>Every other request is credential-free\<close>

definition bindingless :: "(string \<times> pyval) list \<Rightarrow> bool" where
  "bindingless body \<longleftrightarrow> (\<forall>env. cloud_image_ssh_binding_fingerprint env body \<in> {None, Some []})"

definition harmless :: "push_event \<Rightarrow> bool" where
  "harmless ev \<longleftrightarrow>
     (case ev of
        Sent req \<Rightarrow> list_all (\<lambda>k. map_of (rq_body req) k = None) SECRET_KEYS \<and> bindingless (rq_body req)
      | _ \<Rightarrow> True)"

definition adds_harmless :: "push_event list \<Rightarrow> push_event list \<Rightarrow> bool" where
  "adds_harmless evs evs' \<longleftrightarrow> (\<exists>new. evs' = evs @ new \<and> list_all harmless new)"

lemma adds_harmless_refl [simp]: "adds_harmless evs evs"
  by (simp add: adds_harmless_def)

lemma adds_harmless_trans [trans]:
  "adds_harmless a b \<Longrightarrow> adds_harmless b c \<Longrightarrow> adds_harmless a c"
  by (auto simp: adds_harmless_def)

lemma adds_harmless_snoc: "adds_harmless a b \<Longrightarrow> harmless e \<Longrightarrow> adds_harmless a (b @ [e])"
  by (auto simp: adds_harmless_def)

lemma adds_harmless_nil: "adds_harmless [] evs \<Longrightarrow> e \<in> set evs \<Longrightarrow> harmless e"
  by (auto simp: adds_harmless_def list_all_iff)

lemma harmless_other [simp]:
  "harmless (Stored c v)" "harmless (Erased t)" "harmless (Cached i)" "harmless Invalidated"
  by (simp_all add: harmless_def)

lemma bindingless_clear:
  "bindingless []" "bindingless REVOCATION" "bindingless (REVOCATION @ CLOUD_IMAGE_SSH_CLEAR)"
  "bindingless managed_binding_revocation_payload"
  by (simp_all add: bindingless_def cloud_image_ssh_binding_fingerprint_def BINDING_KEYS_def REVOCATION_def
    CLOUD_IMAGE_SSH_CLEAR_def managed_binding_revocation_payload_def)

definition credential_free :: "(string \<times> pyval) list \<Rightarrow> bool" where
  "credential_free body \<longleftrightarrow> body = [] \<or> body = REVOCATION \<or> body = REVOCATION @ CLOUD_IMAGE_SSH_CLEAR
     \<or> body = managed_binding_revocation_payload"

lemma credential_free_harmless:
  "credential_free body \<Longrightarrow> harmless (Sent \<lparr>rq_verb = v, rq_url = u, rq_body = body\<rparr>)"
  using bindingless_clear
  by (auto simp: credential_free_def harmless_def SECRET_KEYS_def REVOCATION_def CLOUD_IMAGE_SSH_CLEAR_def
    managed_binding_revocation_payload_def)

lemma send_harmless:
  "send env v u body evs = (answer, evs') \<Longrightarrow> credential_free body \<Longrightarrow> adds_harmless evs evs'"
  by (auto simp: send_def Let_def intro: adds_harmless_snoc credential_free_harmless)

lemma credential_free_bodies [simp]:
  "credential_free []" "credential_free REVOCATION" "credential_free managed_binding_revocation_payload"
  "credential_free (REVOCATION @ CLOUD_IMAGE_SSH_CLEAR)"
  by (simp_all add: credential_free_def)

lemma confirmed_harmless:
  "confirmed_cached_proxmox_row env ep base i evs = (r, evs') \<Longrightarrow> adds_harmless evs evs'"
  by (auto simp: confirmed_cached_proxmox_row_def Let_def split: prod.splits sum.splits if_splits
    dest!: send_harmless intro: adds_harmless_snoc)

lemma listed_harmless: "listed_rows env f u existing evs = (r, evs') \<Longrightarrow> adds_harmless evs evs'"
  by (auto simp: listed_rows_def split: option.splits prod.splits sum.splits dest!: send_harmless)

lemma revoke_rows_harmless: "revoke_rows env u rs evs = (fs, evs') \<Longrightarrow> adds_harmless evs evs'"
proof (induction rs arbitrary: evs fs evs')
  case (Cons row rs)
  show ?case
  proof (cases "dget row ''id'' = PNone")
    case False
    obtain answer evs1 where sent: "send env ''PUT'' (row_url u (dget row ''id'')) REVOCATION evs = (answer, evs1)"
      by fastforce
    obtain failures evs2 where rest: "revoke_rows env u rs evs1 = (failures, evs2)"
      by fastforce
    have "evs' = evs2"
      using Cons.prems False sent rest by (auto simp: Let_def split: sum.splits)
    then show ?thesis
      using send_harmless[OF sent] Cons.IH[OF rest] adds_harmless_trans by simp
  qed (use Cons in simp)
qed simp

lemma revoke_duplicates_harmless:
  "revoke_duplicate_proxmox_rows env ep u rs evs = (out, evs') \<Longrightarrow> adds_harmless evs evs'"
  by (auto simp: revoke_duplicate_proxmox_rows_def Let_def split: prod.splits dest!: revoke_rows_harmless)

lemma erase_harmless: "adds_harmless a evs
    \<Longrightarrow> adds_harmless a (erase_cloud_image_ssh_binding_fingerprint ep t evs)"
  by (simp add: erase_cloud_image_ssh_binding_fingerprint_def adds_harmless_snoc)

lemma revoke_managed_harmless:
  assumes "revoke_managed_cloud_image_binding env ep receipt u existing evs = (out, evs')"
  shows "adds_harmless evs evs'"
proof (cases "receipt = []")
  case False
  obtain listing evs1 where
    l: "listed_rows env ''Failed to revoke managed SSH binding: '' u existing evs = (listing, evs1)"
    by fastforce
  have "adds_harmless evs1 evs'"
    using assms False l
    by (auto simp: revoke_managed_cloud_image_binding_def Let_def erase_harmless
      split: sum.splits list.splits prod.splits if_splits
      dest!: send_harmless revoke_duplicates_harmless)
  then show ?thesis
    using listed_harmless[OF l] adds_harmless_trans by blast
qed (use assms in \<open>simp add: revoke_managed_cloud_image_binding_def\<close>)

lemma update_disabled_harmless:
  "update_disabled_proxmox_policy env ep row receipt u evs = (out, evs') \<Longrightarrow> adds_harmless evs evs'"
  by (auto simp: update_disabled_proxmox_policy_def Let_def split: option.splits sum.splits prod.splits if_splits
    dest!: send_harmless intro!: adds_harmless_snoc erase_harmless)

section \<open>The one request with credentials\<close>

primrec is_sent :: "push_event \<Rightarrow> bool" where
  "is_sent (Sent r) = True"
| "is_sent (Stored c v) = False"
| "is_sent (Erased t) = False"
| "is_sent (Cached i) = False"
| "is_sent Invalidated = False"

text \<open>The events of a push that sends its payload: the receipt of a complete binding, the request,
  and bookkeeping.\<close>

definition payload_sent :: "push_env \<Rightarrow> (string \<times> pyval) list \<Rightarrow> push_event list \<Rightarrow> push_event list \<Rightarrow> bool" where
  "payload_sent env payload evs evs' \<longleftrightarrow>
     (\<exists>receipt v u tail.
        evs' = evs @ receipt @ Sent \<lparr>rq_verb = v, rq_url = u, rq_body = payload\<rparr> # tail
        \<and> list_all (\<lambda>e. \<not> is_sent e) (receipt @ tail)
        \<and> (\<forall>fp. cloud_image_ssh_binding_fingerprint env payload = Some fp \<longrightarrow> fp \<noteq> []
             \<longrightarrow> receipt = [Stored BINDING_RECEIPT (PStr fp)]))"

lemma not_sent: "list_all (\<lambda>e. \<not> is_sent e) evs \<Longrightarrow> Sent r \<notin> set evs"
  by (auto simp: list_all_iff)

lemma payload_sent_body:
  assumes "payload_sent env payload pre evs" and "Sent req \<in> set evs" and "Sent req \<notin> set pre"
  shows "rq_body req = payload"
proof -
  obtain rec v u tail where "evs = pre @ rec @ Sent \<lparr>rq_verb = v, rq_url = u, rq_body = payload\<rparr> # tail"
    and "list_all (\<lambda>e. \<not> is_sent e) (rec @ tail)"
    using assms(1) unfolding payload_sent_def by blast
  then show ?thesis
    using assms(2,3) not_sent[of "rec @ tail" req] by auto
qed

lemma record_receipt_events:
  "record_cloud_image_ssh_binding_fingerprint env ep payload evs = Inr evs' \<Longrightarrow>
     \<exists>receipt. evs' = evs @ receipt \<and> list_all (\<lambda>e. \<not> is_sent e) receipt
       \<and> (\<forall>fp. cloud_image_ssh_binding_fingerprint env payload = Some fp \<longrightarrow> fp \<noteq> []
             \<longrightarrow> receipt = [Stored BINDING_RECEIPT (PStr fp)])"
  by (auto simp: record_cloud_image_ssh_binding_fingerprint_def split: option.splits if_splits)

lemma bookkeeping_events:
  "\<exists>tail. erase_cloud_image_ssh_binding_fingerprint ep t evs = evs @ tail \<and> list_all (\<lambda>e. \<not> is_sent e) tail"
  "\<exists>tail. cache_successful_proxmox_push env ep payload row body evs = evs @ tail
     \<and> list_all (\<lambda>e. \<not> is_sent e) tail"
  by (auto simp: erase_cloud_image_ssh_binding_fingerprint_def cache_successful_proxmox_push_def Let_def
    record_pushed_proxmox_credential_fingerprint_def split: option.splits)

lemma send_approved_tail:
  "\<exists>tail. (cache_successful_proxmox_push env ep payload row body
       (if b then erase_cloud_image_ssh_binding_fingerprint ep t evs else evs)
      @ [Stored c v]) = evs @ tail \<and> list_all (\<lambda>e. \<not> is_sent e) tail"
proof -
  obtain t1 where t1: "(if b then erase_cloud_image_ssh_binding_fingerprint ep t evs else evs) = evs @ t1"
    and n1: "list_all (\<lambda>e. \<not> is_sent e) t1"
    using bookkeeping_events(1)[of ep t evs] by (cases b) auto
  obtain t2 where t2: "cache_successful_proxmox_push env ep payload row body (evs @ t1) = (evs @ t1) @ t2"
    and n2: "list_all (\<lambda>e. \<not> is_sent e) t2"
    using bookkeeping_events(2) by blast
  show ?thesis
    unfolding t1 t2 by (rule exI[of _ "t1 @ t2 @ [Stored c v]"]) (use n1 n2 in simp)
qed

lemma send_approved_events:
  assumes "send_approved_proxmox_payload env ep payload row receipt u evs = (out, evs')"
  shows "evs' = evs \<or> payload_sent env payload evs evs'"
proof (cases "record_cloud_image_ssh_binding_fingerprint env ep payload evs")
  case rec_ok: (Inr evs1)
  obtain rec where rec: "evs1 = evs @ rec" "list_all (\<lambda>e. \<not> is_sent e) rec"
    "\<forall>fp. cloud_image_ssh_binding_fingerprint env payload = Some fp \<longrightarrow> fp \<noteq> []
       \<longrightarrow> rec = [Stored BINDING_RECEIPT (PStr fp)]"
    using record_receipt_events[OF rec_ok] by blast
  obtain v w where target: "push_target u row = (v, w)" by fastforce
  let ?req = "\<lparr>rq_verb = v, rq_url = w, rq_body = payload\<rparr>"
  have "\<exists>tail. evs' = (evs1 @ [Sent ?req]) @ tail \<and> list_all (\<lambda>e. \<not> is_sent e) tail"
  proof (cases "pv_http env evs1 ?req")
    case (Inl e)
    then show ?thesis
      using assms by (cases e) (simp add: send_approved_proxmox_payload_def send_def target rec_ok)
  next
    case (Inr a)
    obtain status body where a: "a = (status, body)" by fastforce
    have e: "cache_successful_proxmox_push env ep payload row body
       (if cloud_image_ssh_binding_fingerprint env payload = Some [] \<and> receipt \<noteq> []
        then erase_cloud_image_ssh_binding_fingerprint ep receipt (evs1 @ [Sent ?req]) else evs1 @ [Sent ?req])
      @ [Stored PACKER_AUTHORIZED (PBool (truthy (dget payload ''enabled'')
           \<and> truthy (dget payload ''allow_packer_template_builds'')))] = evs'"
      using assms unfolding send_approved_proxmox_payload_def send_def Let_def rec_ok target sum.case prod.case Inr a
      by (simp only: prod.inject)
    show ?thesis
      unfolding e[symmetric] by (rule send_approved_tail)
  qed
  then obtain tail where tail: "evs' = (evs1 @ [Sent ?req]) @ tail" "list_all (\<lambda>e. \<not> is_sent e) tail"
    by blast
  have "payload_sent env payload evs evs'"
    unfolding payload_sent_def
    by (rule exI[of _ rec], rule exI[of _ v], rule exI[of _ w], rule exI[of _ tail]) (simp add: tail rec)
  then show ?thesis ..
qed (use assms in \<open>simp add: send_approved_proxmox_payload_def\<close>)

text \<open>Every push either adds only credential-free requests, or is enabled, approved at its three
  checks and ends by sending the payload once.\<close>

definition push_shape :: "push_env \<Rightarrow> pyval \<Rightarrow> push_event list \<Rightarrow> push_event list \<Rightarrow> bool" where
  "push_shape env ep evs evs' \<longleftrightarrow>
     adds_harmless evs evs'
     \<or> (\<exists>payload pre. endpoint_is_enabled ep \<and> (\<forall>n<3. approved_at env n ep)
          \<and> proxmox_backend_payload env ep = Inr payload
          \<and> adds_harmless evs pre \<and> payload_sent env payload pre evs')"

lemma payload_approved: "proxmox_backend_payload env ep = Inr payload \<Longrightarrow> approved_at env 0 ep \<and> approved_at env 1 ep"
  by (auto simp: proxmox_backend_payload_def Let_def split: if_splits option.splits prod.splits)

lemma push_listed_shape:
  assumes push: "push_listed env ep pl receipt u existing evs = (out, evs')"
    and pl: "\<And>payload. pl = Some payload \<Longrightarrow> proxmox_backend_payload env ep = Inr payload \<and> endpoint_is_enabled ep"
  shows "push_shape env ep evs evs'"
proof -
  obtain listing evs1 where l: "listed_rows env SYNC_FAILURE u existing evs = (listing, evs1)"
    by fastforce
  note h = listed_harmless[OF l]
  consider (harmless) "adds_harmless evs1 evs'"
    | (sent) payload row where "pl = Some payload" "approved_at env 2 ep"
        "send_approved_proxmox_payload env ep payload row receipt u evs1 = (out, evs')"
    using push l unfolding push_listed_def Let_def
    by (auto split: sum.splits if_splits option.splits
      dest: revoke_duplicates_harmless update_disabled_harmless revoke_managed_harmless)
  then show ?thesis
  proof cases
    case harmless
    then show ?thesis using h adds_harmless_trans unfolding push_shape_def by blast
  next
    case sent
    have "\<forall>n<3. approved_at env n ep"
      using payload_approved pl[OF sent(1)] sent(2) by (auto simp: numeral_3_eq_3 less_Suc_eq numeral_2_eq_2)
    then show ?thesis
      using send_approved_events[OF sent(3)] pl[OF sent(1)] h unfolding push_shape_def by blast
  qed
qed

lemma sync_shape: "push_shape env ep [] (snd (sync_proxmox_endpoint_to_backend env ep base existing allow))"
proof (cases "endpoint_is_enabled ep")
  case False
  then show ?thesis
    using push_listed_shape[of env ep None "stripped_endpoint_value ep BINDING_RECEIPT"
      "base @ ''/proxmox/endpoints''" existing "[]"]
    by (cases "push_listed env ep None (stripped_endpoint_value ep BINDING_RECEIPT)
      (base @ ''/proxmox/endpoints'') existing []")
      (simp add: sync_proxmox_endpoint_to_backend_def disabled_endpoint_detail_def push_shape_def Let_def)
next
  case True
  let ?u = "base @ ''/proxmox/endpoints''" and ?r = "stripped_endpoint_value ep BINDING_RECEIPT"
  note sync = sync_proxmox_endpoint_to_backend_def disabled_endpoint_detail_def True Let_def
  show ?thesis
  proof (cases "prepare_proxmox_push env ep existing")
    case (Inl e)
    show ?thesis
    proof (cases e)
      case Unapproved
      have "adds_harmless [] (snd (revoke_managed_cloud_image_binding env ep ?r ?u existing []))"
        by (metis revoke_managed_harmless prod.collapse)
      then show ?thesis by (simp add: sync Inl Unapproved push_shape_def)
    qed (simp add: sync Inl push_shape_def)
  next
    case (Inr a)
    obtain payload cached where a: "a = (payload, cached)" by fastforce
    have pl: "proxmox_backend_payload env ep = Inr payload"
      using Inr a by (simp add: prepare_proxmox_push_def split: sum.splits)
    have listed: "push_shape env ep evs (snd (push_listed env ep (Some payload) ?r ?u existing evs))" for evs
      by (rule push_listed_shape[of _ _ _ _ _ _ _ "fst (push_listed env ep (Some payload) ?r ?u existing evs)"])
        (use pl True in auto)
    show ?thesis
    proof (cases cached)
      case None
      then show ?thesis using listed by (simp add: sync Inr a)
    next
      case (Some i)
      obtain hit evs where c: "confirmed_cached_proxmox_row env ep base i [] = (hit, evs)" by fastforce
      have h: "adds_harmless [] evs" by (rule confirmed_harmless[OF c])
      have "push_shape env ep [] (snd (push_listed env ep (Some payload) ?r ?u existing evs))"
        using listed[of evs] h unfolding push_shape_def by (meson adds_harmless_trans)
      then show ?thesis
        using h by (auto simp: sync Inr a Some c push_shape_def split: sum.splits bool.splits)
    qed
  qed
qed

lemma approved_at_allows: "approved_at env n ep
    \<longleftrightarrow> approved_connection_allows_secrets (pv_authority env) (pv_states env n) ep"
  by (simp add: approved_at_def require_approved_connection_def)

text \<open>C11. Safety of the endpoint push: whatever the backend answers and however the stored rows
  change meanwhile, a request of \<open>sync_proxmox_endpoint_to_backend\<close> that carries a password or API
  token is sent only for an enabled endpoint whose connection target was approved at each of the three
  checks, before the secrets are read, after the payload is built and right before the send. Its
  body is exactly the payload built from the endpoint, and no other request of the push has one.\<close>

theorem secrets_pushed_only_when_approved:
  assumes "Sent req \<in> set (snd (sync_proxmox_endpoint_to_backend env ep base existing allow_disabled))"
    and "map_of (rq_body req) key \<noteq> None" and "key \<in> {''password'', ''token_name'', ''token_value''}"
  shows "endpoint_is_enabled ep
    \<and> (\<forall>n<3. approved_connection_allows_secrets (pv_authority env) (pv_states env n) ep)
    \<and> proxmox_backend_payload env ep = Inr (rq_body req)"
proof -
  let ?evs = "snd (sync_proxmox_endpoint_to_backend env ep base existing allow_disabled)"
  have dirty: "\<not> harmless (Sent req)"
    using assms by (auto simp: harmless_def SECRET_KEYS_def)
  then have "\<not> adds_harmless [] ?evs"
    using adds_harmless_nil assms(1) by blast
  then obtain payload pre where p: "endpoint_is_enabled ep" "\<forall>n<3. approved_at env n ep"
    "proxmox_backend_payload env ep = Inr payload" "adds_harmless [] pre" "payload_sent env payload pre ?evs"
    using sync_shape[of env ep base existing allow_disabled] unfolding push_shape_def by blast
  have "Sent req \<notin> set pre"
    using adds_harmless_nil dirty p(4) by blast
  then have "rq_body req = payload"
    using payload_sent_body[OF p(5) assms(1)] by simp
  then show ?thesis
    using p by (simp add: approved_at_allows)
qed

definition demo_push :: push_env where
  "demo_push = \<lparr>pv_authority = \<lparr>digest = (\<lambda>t. ''d''), host_ip = (\<lambda>t. Some t), fastapi_fingerprint = (\<lambda>e. None),
       fastapi_trusted = (\<lambda>e. False), granted = (\<lambda>k. False), has_change_perm = (\<lambda>u. False),
       may_view_change = (\<lambda>u i. False)\<rparr>,
     pv_states = (\<lambda>n. \<lparr>rows = (\<lambda>i. None), ips = (\<lambda>i. None)\<rparr>), pv_password = ''secret'', pv_token_value = [],
     pv_tuning = (\<lambda>e. []), pv_nodes = [PDict [(''name'', PStr ''pve1''), (''ip_address'', PStr ''pve1.lab'')]],
     pv_cached = (\<lambda>f. None), pv_http = (\<lambda>evs r. Inl (''down'', None)), pv_receipt_error = None,
     pv_hmac = (\<lambda>t. t)\<rparr>"

definition demo_payload :: "(string \<times> pyval) list" where
  "demo_payload = (case proxmox_backend_payload demo_push demo_endpoint of Inr p \<Rightarrow> p | Inl e \<Rightarrow> [])"

lemma demo_push_events:
  "snd (sync_proxmox_endpoint_to_backend demo_push demo_endpoint ''u'' (Some []) False)
   = [Sent \<lparr>rq_verb = ''POST'', rq_url = ''u/proxmox/endpoints'', rq_body = demo_payload\<rparr>]
   \<and> map_of demo_payload ''password'' = Some (PStr ''secret'')"
  by code_simp

theorem secrets_pushed_only_when_approved_witness:
  "endpoint_is_enabled demo_endpoint
   \<and> approved_connection_allows_secrets (pv_authority demo_push) (pv_states demo_push 2) demo_endpoint
   \<and> proxmox_backend_payload demo_push demo_endpoint = Inr demo_payload"
  using secrets_pushed_only_when_approved[of "\<lparr>rq_verb = ''POST'', rq_url = ''u/proxmox/endpoints'', rq_body = demo_payload\<rparr>"
      demo_push demo_endpoint "''u''" "Some []" False "''password''"] demo_push_events
  by simp

text \<open>Ordering: a request that gives the backend a complete Cloud Image SSH binding is preceded by
  the durable receipt of exactly that binding, so a binding is never left on the backend that NetBox
  does not know it owns.\<close>

theorem binding_receipt_precedes_request:
  assumes "snd (sync_proxmox_endpoint_to_backend env ep base existing allow_disabled) = pre @ Sent req # post"
    and "cloud_image_ssh_binding_fingerprint env (rq_body req) = Some fp" and "fp \<noteq> []"
  shows "Stored ''cloud_image_ssh_binding_fingerprint'' (PStr fp) \<in> set pre"
proof -
  let ?evs = "snd (sync_proxmox_endpoint_to_backend env ep base existing allow_disabled)"
  have dirty: "\<not> harmless (Sent req)"
    using assms(2,3) by (auto simp: harmless_def bindingless_def)
  then have "\<not> adds_harmless [] ?evs"
    using adds_harmless_nil assms(1) by fastforce
  then obtain payload evs where p: "adds_harmless [] evs" "payload_sent env payload evs ?evs"
    using sync_shape[of env ep base existing allow_disabled] unfolding push_shape_def by blast
  obtain rec v u tail where
    e: "?evs = evs @ rec @ Sent \<lparr>rq_verb = v, rq_url = u, rq_body = payload\<rparr> # tail"
    and ns: "list_all (\<lambda>e. \<not> is_sent e) (rec @ tail)"
    and r: "\<forall>fp. cloud_image_ssh_binding_fingerprint env payload = Some fp \<longrightarrow> fp \<noteq> []
             \<longrightarrow> rec = [Stored BINDING_RECEIPT (PStr fp)]"
    using p(2) unfolding payload_sent_def by blast
  let ?req = "\<lparr>rq_verb = v, rq_url = u, rq_body = payload\<rparr>"
  have no: "Sent req \<notin> set (evs @ rec)" "Sent req \<notin> set tail"
    using adds_harmless_nil p(1) dirty not_sent[OF ns] by auto
  have "(evs @ rec) @ Sent ?req # tail = pre @ Sent req # post"
    using e assms(1) by simp
  then have "pre = evs @ rec \<and> req = ?req"
    using no by (metis append_Cons_eq_iff in_set_conv_decomp push_event.inject(1) set_ConsD Un_iff set_append)
  then show ?thesis
    using r assms(2,3) by (auto simp: BINDING_RECEIPT_def)
qed

definition demo_ssh_endpoint :: pyval where
  "demo_ssh_endpoint = PDict [(''pk'', PInt 4), (''name'', PStr ''lab''), (''domain'', PStr ''pve.example''),
     (''enabled'', PBool True), (''allow_writes'', PBool True), (''allow_packer_template_builds'', PBool True),
     (''access_methods'', PStr ''api_ssh''), (''cloud_image_ssh_target_node'', PStr ''pve1''),
     (''cloud_image_ssh_identity_file'', PStr ''/k//id''), (''ssh_host'', PStr ''pve1.lab''), (''ssh_port'', PInt 22),
     (''effective_ssh_username'', PStr ''root''), (''ssh_known_host_fingerprint'', PStr ''SHA'')]"

definition demo_binding_request :: push_request where
  "demo_binding_request = \<lparr>rq_verb = ''POST'', rq_url = ''u/proxmox/endpoints'',
     rq_body = (case proxmox_backend_payload demo_push demo_ssh_endpoint of Inr p \<Rightarrow> p | Inl e \<Rightarrow> [])\<rparr>"

lemma demo_binding_events:
  "snd (sync_proxmox_endpoint_to_backend demo_push demo_ssh_endpoint ''u'' (Some []) False)
     = [Stored ''cloud_image_ssh_binding_fingerprint'' (PStr ''d'')] @ Sent demo_binding_request # []
   \<and> cloud_image_ssh_binding_fingerprint demo_push (rq_body demo_binding_request) = Some ''d''"
  by code_simp

theorem binding_receipt_precedes_request_witness:
  "Stored ''cloud_image_ssh_binding_fingerprint'' (PStr ''d'')
     \<in> set [Stored ''cloud_image_ssh_binding_fingerprint'' (PStr ''d'')]
   \<and> cloud_image_ssh_binding_fingerprint demo_push (rq_body demo_binding_request) = Some ''d''"
  using demo_binding_events
    binding_receipt_precedes_request[of demo_push demo_ssh_endpoint "''u''" "Some []" False
      "[Stored ''cloud_image_ssh_binding_fingerprint'' (PStr ''d'')]" demo_binding_request "[]" "''d''"]
  by blast

section \<open>Duplicates, grants and the resolver\<close>

lemma revoke_rows_events:
  "snd (revoke_rows env u rs evs) = evs @ map (\<lambda>row. Sent \<lparr>rq_verb = ''PUT'', rq_url = row_url u (dget row ''id''),
      rq_body = REVOCATION\<rparr>) (filter (\<lambda>row. dget row ''id'' \<noteq> PNone) rs)"
proof (induction rs arbitrary: evs)
  case (Cons row rs)
  then show ?case
    by (auto simp: send_def Let_def split: sum.splits prod.splits)
      (metis append.assoc append_Cons append_Nil snd_conv)+
qed simp

lemma revoke_duplicates_outcome:
  "\<exists>msg. revoke_duplicate_proxmox_rows env ep u rs evs
     = ((False, Some msg, None), snd (revoke_rows env u rs evs))"
  by (auto simp: revoke_duplicate_proxmox_rows_def Let_def split: prod.splits)

text \<open>An identity claimed by several backend rows: the push fails and its only requests disable
  every claiming row that has an id, in listing order, also when an earlier row refuses; no row is
  picked and no credential is sent.\<close>

theorem ambiguous_identity_is_revoked:
  assumes "1 < length (backend_rows_for_endpoint rs ep)"
    and "if endpoint_is_enabled ep then \<exists>payload. proxmox_backend_payload env ep = Inr payload else allow_disabled"
  shows "\<exists>msg. sync_proxmox_endpoint_to_backend env ep base (Some rs) allow_disabled
     = (Inr (False, Some msg, None),
        map (\<lambda>row. Sent \<lparr>rq_verb = ''PUT'', rq_url = base @ ''/proxmox/endpoints/'' @ py_str (dget row ''id''),
            rq_body = [(''enabled'', PBool False), (''allow_packer_template_builds'', PBool False)]\<rparr>)
          (filter (\<lambda>row. dget row ''id'' \<noteq> PNone) (backend_rows_for_endpoint rs ep)))"
proof -
  let ?u = "base @ ''/proxmox/endpoints''" and ?m = "backend_rows_for_endpoint rs ep"
  obtain msg where msg: "revoke_duplicate_proxmox_rows env ep ?u ?m []
      = ((False, Some msg, None), snd (revoke_rows env ?u ?m []))"
    using revoke_duplicates_outcome by blast
  have listed: "push_listed env ep pl r ?u (Some rs) [] = ((False, Some msg, None), snd (revoke_rows env ?u ?m []))"
    for pl r
    using assms(1) msg by (simp add: push_listed_def listed_rows_def Let_def)
  have "sync_proxmox_endpoint_to_backend env ep base (Some rs) allow_disabled
      = (Inr (False, Some msg, None), snd (revoke_rows env ?u ?m []))"
    using assms(2)
    by (auto simp: sync_proxmox_endpoint_to_backend_def disabled_endpoint_detail_def prepare_proxmox_push_def
      listed Let_def split: if_splits)
  then show ?thesis
    by (simp add: revoke_rows_events row_url_def REVOCATION_def)
qed

definition demo_twin_rows :: "(string \<times> pyval) list list" where
  "demo_twin_rows = [demo_row, [(''id'', PInt 7), (''name'', PStr ''old (nb:4)'')], [(''name'', PStr ''x (nb:4)'')]]"

theorem ambiguous_identity_is_revoked_witness:
  "\<exists>msg. sync_proxmox_endpoint_to_backend demo_push demo_endpoint ''u'' (Some demo_twin_rows) False
     = (Inr (False, Some msg, None),
        [Sent \<lparr>rq_verb = ''PUT'', rq_url = ''u/proxmox/endpoints/9'',
            rq_body = [(''enabled'', PBool False), (''allow_packer_template_builds'', PBool False)]\<rparr>,
         Sent \<lparr>rq_verb = ''PUT'', rq_url = ''u/proxmox/endpoints/7'',
            rq_body = [(''enabled'', PBool False), (''allow_packer_template_builds'', PBool False)]\<rparr>])"
proof -
  have rs: "backend_rows_for_endpoint demo_twin_rows demo_endpoint = demo_twin_rows" by code_simp
  have pl: "endpoint_is_enabled demo_endpoint" "proxmox_backend_payload demo_push demo_endpoint = Inr demo_payload"
    by code_simp+
  have ids: "py_str (PInt 9) = ''9''" "py_str (PInt 7) = ''7''" by code_simp+
  show ?thesis
    using ambiguous_identity_is_revoked[of demo_twin_rows demo_endpoint demo_push False "''u''"] pl
    unfolding rs by (simp add: demo_twin_rows_def demo_row_def dget_def ids)
qed

lemma payload_field_names:
  "map fst (proxmox_payload_fields env ep port r) =
     [''name'', ''node_device_name_template'', ''ip_address'', ''domain'', ''port'', ''username'', ''password'',
      ''verify_ssl'', ''timeout'', ''max_retries'', ''retry_backoff'', ''token_name'', ''token_value'', ''enabled'',
      ''allow_packer_template_builds'', ''access_methods'', ''site_id'', ''site_slug'', ''site_name'',
      ''tenant_id'', ''tenant_slug'', ''tenant_name'']"
  by (simp add: proxmox_payload_fields_def related_object_metadata_def)

lemma binding_keys_fresh:
  "list_all (\<lambda>k. k \<notin> set [''name'', ''node_device_name_template'', ''ip_address'', ''domain'', ''port'', ''username'', ''password'',
      ''verify_ssl'', ''timeout'', ''max_retries'', ''retry_backoff'', ''token_name'', ''token_value'', ''enabled'',
      ''allow_packer_template_builds'', ''access_methods'', ''site_id'', ''site_slug'', ''site_name'',
      ''tenant_id'', ''tenant_slug'', ''tenant_name'']) BINDING_KEYS"
  by code_simp

lemma payload_fields_get:
  "map_of (proxmox_payload_fields env ep port r) ''allow_packer_template_builds'' = Some (PBool (packer_payload_allowed ep r))"
  "k \<in> set BINDING_KEYS \<Longrightarrow> map_of (proxmox_payload_fields env ep port r) k = None"
proof -
  show "map_of (proxmox_payload_fields env ep port r) ''allow_packer_template_builds'' = Some (PBool (packer_payload_allowed ep r))"
    by (simp add: proxmox_payload_fields_def)
  assume "k \<in> set BINDING_KEYS"
  then have "k \<notin> set (map fst (proxmox_payload_fields env ep port r))"
    using binding_keys_fresh unfolding payload_field_names list_all_iff by (rule bspec[rotated])
  then show "map_of (proxmox_payload_fields env ep port r) k = None"
    by (metis list.set_map map_of_eq_None_iff)
qed

lemma payload_parts:
  assumes "proxmox_backend_payload env ep = Inr payload"
  obtains keys revoke where "cloud_image_ssh_binding env ep = Some (keys, revoke)"
    and "dget payload ''allow_packer_template_builds'' = PBool (packer_payload_allowed ep revoke)"
    and "\<And>k. k \<in> set BINDING_KEYS \<Longrightarrow> dget payload k = dget keys k"
proof -
  obtain keys revoke port where b: "cloud_image_ssh_binding env ep = Some (keys, revoke)"
    and p: "payload = proxmox_payload_fields env ep port revoke @ keys"
    using assms by (auto simp: proxmox_backend_payload_def split: if_splits option.splits prod.splits)
  show ?thesis
    by (rule that[OF b]) (simp_all add: p dget_def map_add_def payload_fields_get split: option.splits)
qed

lemma unrevoked_binding:
  assumes "cloud_image_ssh_binding env ep = Some (keys, revoke)" and "\<not> revoke"
    and "packer_template_builds_effectively_allowed ep"
    and "stripped_endpoint_value ep ''access_methods'' = ''api_ssh''"
    and "stripped_endpoint_value ep ''cloud_image_ssh_target_node'' \<noteq> []"
  shows "cloud_image_ssh_target_matches_host env ep
    \<and> (\<exists>port. keys = full_binding ep port \<and> list_all (truthy \<circ> snd) keys)"
  using assms(1) unfolding cloud_image_ssh_binding_def Let_def
  using assms(2-) by (simp split: option.splits if_splits) auto

lemma full_binding_truthy:
  "\<exists>port. keys = full_binding ep port \<and> list_all (truthy \<circ> snd) keys
     \<Longrightarrow> list_all (\<lambda>k. truthy (dget keys k)) BINDING_KEYS"
  by (elim exE conjE) (simp add: full_binding_def BINDING_KEYS_def dget_def)

text \<open>The narrow Packer grant crosses the wire only with every gate of NetBox open: the endpoint is
  enabled, allows writes and allows template builds, and where SSH is configured for Cloud Images the
  binding is complete and the node inventory confirms, as the only node at that address, the node it
  names; otherwise the body revokes the grant.\<close>

theorem packer_grant_needs_every_gate:
  assumes "proxmox_backend_payload env ep = Inr payload"
    and "dget payload ''allow_packer_template_builds'' \<noteq> PBool False"
  shows "endpoint_is_enabled ep \<and> truthy (attr_value ep ''allow_writes'')
    \<and> truthy (attr_value ep ''allow_packer_template_builds'')
    \<and> (stripped_endpoint_value ep ''access_methods'' = ''api_ssh''
         \<and> stripped_endpoint_value ep ''cloud_image_ssh_target_node'' \<noteq> []
       \<longrightarrow> cloud_image_ssh_target_matches_host env ep
           \<and> list_all (\<lambda>k. truthy (dget payload k)) BINDING_KEYS)"
proof -
  obtain keys revoke where b: "cloud_image_ssh_binding env ep = Some (keys, revoke)"
    and grant: "dget payload ''allow_packer_template_builds'' = PBool (packer_payload_allowed ep revoke)"
    and get: "\<And>k. k \<in> set BINDING_KEYS \<Longrightarrow> dget payload k = dget keys k"
    by (rule payload_parts[OF assms(1)]) blast
  then have gates: "packer_template_builds_effectively_allowed ep" "\<not> revoke"
    using assms(2) by (auto simp: packer_payload_allowed_def)
  have "cloud_image_ssh_target_matches_host env ep \<and> list_all (\<lambda>k. truthy (dget keys k)) BINDING_KEYS"
    if "stripped_endpoint_value ep ''access_methods'' = ''api_ssh''"
      "stripped_endpoint_value ep ''cloud_image_ssh_target_node'' \<noteq> []"
    using unrevoked_binding[OF b gates(2,1) that] full_binding_truthy by blast
  then show ?thesis
    using gates get
    by (auto simp: packer_template_builds_effectively_allowed_def endpoint_is_enabled_def list_all_iff)
qed

theorem packer_grant_needs_every_gate_witness:
  "endpoint_is_enabled demo_ssh_endpoint \<and> cloud_image_ssh_target_matches_host demo_push demo_ssh_endpoint"
proof -
  have "proxmox_backend_payload demo_push demo_ssh_endpoint = Inr (rq_body demo_binding_request)"
    "dget (rq_body demo_binding_request) ''allow_packer_template_builds'' \<noteq> PBool False"
    "stripped_endpoint_value demo_ssh_endpoint ''access_methods'' = ''api_ssh''"
    "stripped_endpoint_value demo_ssh_endpoint ''cloud_image_ssh_target_node'' \<noteq> []"
    by code_simp+
  then show ?thesis
    using packer_grant_needs_every_gate[of demo_push demo_ssh_endpoint "rq_body demo_binding_request"] by simp
qed

text \<open>The dictionaries of a decoded answer: itself, or the items of a list.\<close>

primrec answer_rows :: "pyval \<Rightarrow> (string \<times> pyval) list list" where
  "answer_rows PNone = []"
| "answer_rows (PBool b) = []"
| "answer_rows (PInt i) = []"
| "answer_rows (PStr s) = []"
| "answer_rows (PList items) = concat (map (\<lambda>i. case i of PDict d \<Rightarrow> [d] | _ \<Rightarrow> []) items)"
| "answer_rows (PDict d) = [d]"

lemma listing_rows: "list_backend_proxmox_endpoints (Inr body) = Inr rs \<Longrightarrow> rs = answer_rows body"
  by (cases body) (auto simp: list_backend_proxmox_endpoints_def)

lemma resolve_no_rows: "resolve_backend_row_id [] ep \<noteq> Inr i"
proof
  assume "resolve_backend_row_id [] ep = Inr i"
  then obtain row where "backend_rows_for_endpoint [] ep = [row]"
    by (rule resolve_row_Inr)
  then show False by (simp add: backend_rows_for_endpoint_def Let_def split: if_splits)
qed

lemma confirmed_row_answer:
  assumes "confirmed_cached_proxmox_row env ep base i evs = (Inr True, evs')"
  shows "\<exists>pre req status body. Sent req \<in> set evs' \<and> pv_http env pre req = Inr (status, Inr body)
     \<and> resolve_backend_row_id (answer_rows body) ep = Inr i"
proof -
  define req where "req = \<lparr>rq_verb = ''GET'', rq_url = row_url (base @ ''/proxmox/endpoints'') (PInt i), rq_body = []\<rparr>"
  obtain status body where a: "pv_http env evs req = Inr (status, Inr body)" and e: "evs' = evs @ [Sent req]"
    and r: "resolve_backend_row_id (case body of PDict row \<Rightarrow> [row] | _ \<Rightarrow> []) ep = Inr i"
    using assms
    by (auto simp: confirmed_cached_proxmox_row_def send_def req_def Let_def split: sum.splits if_splits prod.splits)
  have "\<exists>d. body = PDict d"
    using r by (cases body) (simp_all add: resolve_no_rows)
  then have "resolve_backend_row_id (answer_rows body) ep = Inr i"
    using r by auto
  then show ?thesis using a e by auto
qed

lemma resolve_listed_answer:
  assumes "resolve_listed env ep base evs = (Inr i, evs')"
  shows "\<exists>pre req status body. Sent req \<in> set evs' \<and> pv_http env pre req = Inr (status, Inr body)
     \<and> resolve_backend_row_id (answer_rows body) ep = Inr i"
proof -
  let ?req = "\<lparr>rq_verb = ''GET'', rq_url = base @ ''/proxmox/endpoints'', rq_body = []\<rparr>"
  obtain rs where l: "list_proxmox_rows env base evs = (Inr rs, evs')" and r: "resolve_backend_row_id rs ep = Inr i"
    using assms by (auto simp: resolve_listed_def split: prod.splits sum.splits)
  have e: "evs' = evs @ [Sent ?req]"
    using l by (simp add: list_proxmox_rows_def send_def Let_def)
  obtain status body where a: "pv_http env evs ?req = Inr (status, Inr body)"
    and b: "list_backend_proxmox_endpoints (Inr body) = Inr rs"
    using l by (auto simp: list_proxmox_rows_def send_def Let_def list_backend_proxmox_endpoints_def
      split: sum.splits prod.splits)
  show ?thesis
    using a e r listing_rows[OF b] by auto
qed

text \<open>The single-endpoint resolver: an id it returns belongs to an enabled endpoint and was read from
  an answer of the backend, in which exactly one row claims the endpoint's key, dials the
  endpoint's own host and port and carries that id; a cached id is confirmed the same way, so a stale
  cache entry is never returned.\<close>

theorem resolved_endpoint_id_is_confirmed:
  assumes "resolve_backend_endpoint_id env ep base = (Inr i, evs)"
  shows "endpoint_is_enabled ep
    \<and> (\<exists>pre req status body row. Sent req \<in> set evs \<and> pv_http env pre req = Inr (status, Inr body)
         \<and> backend_rows_for_endpoint (answer_rows body) ep = [row]
         \<and> proxmox_targets_match ep row \<and> int_or_none (dget row ''id'') = Some i)"
proof -
  have enabled: "endpoint_is_enabled ep"
    by (rule ccontr) (use assms in \<open>simp add: resolve_backend_endpoint_id_def disabled_endpoint_detail_def Let_def\<close>)
  have "\<exists>pre req status body. Sent req \<in> set evs \<and> pv_http env pre req = Inr (status, Inr body)
     \<and> resolve_backend_row_id (answer_rows body) ep = Inr i"
    using assms resolve_listed_answer confirmed_row_answer unfolding resolve_backend_endpoint_id_def
    by (simp add: disabled_endpoint_detail_def enabled split: option.splits prod.splits sum.splits bool.splits)
  then obtain pre req status body where sent: "Sent req \<in> set evs" "pv_http env pre req = Inr (status, Inr body)"
    and r: "resolve_backend_row_id (answer_rows body) ep = Inr i"
    by blast
  obtain row where row: "backend_rows_for_endpoint (answer_rows body) ep = [row]"
    "proxmox_endpoint_target ep \<noteq> None" "proxmox_row_target row = proxmox_endpoint_target ep"
    "int_or_none (dget row ''id'') = Some i"
    using r by (rule resolve_row_Inr)
  then have "proxmox_targets_match ep row"
    by (simp add: proxmox_targets_match_def)
  then show ?thesis
    using enabled sent row by blast
qed

definition demo_listing :: push_env where
  "demo_listing = demo_push\<lparr>pv_http := (\<lambda>evs r. Inr (200, Inr (PList [PDict demo_row])))\<rparr>"

lemma demo_resolution:
  "resolve_backend_endpoint_id demo_listing demo_endpoint ''u''
   = (Inr 9, [Sent \<lparr>rq_verb = ''GET'', rq_url = ''u/proxmox/endpoints'', rq_body = []\<rparr>])"
proof -
  have "proxmox_backend_payload demo_listing demo_endpoint = Inr demo_payload"
    and "disabled_endpoint_detail demo_endpoint ''Proxmox endpoint'' ''skipping'' = None"
    and "resolve_listed demo_listing demo_endpoint ''u'' []
      = (Inr 9, [Sent \<lparr>rq_verb = ''GET'', rq_url = ''u/proxmox/endpoints'', rq_body = []\<rparr>])"
    by code_simp+
  then show ?thesis
    by (simp add: resolve_backend_endpoint_id_def) (simp add: demo_listing_def demo_push_def)
qed

theorem resolved_endpoint_id_is_confirmed_witness:
  "endpoint_is_enabled demo_endpoint
   \<and> (\<exists>body row. backend_rows_for_endpoint (answer_rows body) demo_endpoint = [row]
        \<and> proxmox_targets_match demo_endpoint row \<and> int_or_none (dget row ''id'') = Some 9)"
  using resolved_endpoint_id_is_confirmed[OF demo_resolution] by blast

end
