(* ===== verification/Netbox_Push.thy ===== *)
theory Netbox_Push
  imports Endpoint_Push
begin

text \<open>
  The push of the NetBox endpoint to the backend (\<open>views/backend_sync.py\<close>): the payload with the API
  token the backend writes to NetBox with, the recorded fingerprint of the pushed credentials and the
  comparison that notices a token rotated in place. \<open>pv_hmac\<close> of the environment is the keyed hash
  under the NetBox salt. The model's properties \<open>effective_token_version\<close> and
  \<open>effective_token_value\<close> are attributes of the endpoint.
\<close>

definition netbox_token_fields :: "pyval \<Rightarrow> string \<times> string \<times> string" where
  "netbox_token_fields ep =
     (let token_version = text_or_empty (py_or (attr_value ep ''effective_token_version'') (PStr ''v1''))
      in if token_version = ''v2''
         then (token_version, strip (text_or_empty (attr_value ep ''token_secret'')), effective_netbox_token_key ep)
         else (token_version, text_or_empty (attr_value ep ''effective_token_value''), []))"

text \<open>\<open>_netbox_endpoint_backend_payload\<close>: approval is checked before the token is read and again
  before the payload is returned.\<close>

definition netbox_endpoint_backend_payload :: "push_env \<Rightarrow> pyval \<Rightarrow> payload_error + (string \<times> pyval) list" where
  "netbox_endpoint_backend_payload env ep =
     (if \<not> approved_at env 0 ep then Inl Unapproved
      else
        let ip_obj = attr_value ep ''ip_address'';
            ip_address = (if ip_obj \<noteq> PNone then before_slash (py_str (attr_value ip_obj ''address'')) else ''127.0.0.1'');
            (token_version, token_value, token_key) = netbox_token_fields ep
        in case int_of_pyval (py_or (getattr_or ep ''port'' (PInt 443)) (PInt 443)) of
             None \<Rightarrow> Inl Bad_number
           | Some port \<Rightarrow>
               if \<not> approved_at env 1 ep then Inl Unapproved
               else Inr ([(''name'', text_or (attr_value ep ''name'') ''NetBox Endpoint''),
                          (''ip_address'', PStr ip_address),
                          (''domain'', PStr (stripped_endpoint_value ep ''domain'')),
                          (''port'', PInt port),
                          (''verify_ssl'', PBool (truthy (getattr_or ep ''verify_ssl'' (PBool True)))),
                          (''token_version'', PStr token_version),
                          (''token'', PStr token_value)]
                         @ (if token_key \<noteq> [] then [(''token_key'', PStr token_key)] else [])))"

definition NETBOX_CREDENTIAL_KEYS :: "string list" where
  "NETBOX_CREDENTIAL_KEYS = [''token_version'', ''token_key'', ''token'']"

definition netbox_credentials :: "(string \<times> pyval) list \<Rightarrow> string list" where
  "netbox_credentials payload = map (\<lambda>k. text_or_empty (dget payload k)) NETBOX_CREDENTIAL_KEYS"

definition netbox_credential_fingerprint :: "push_env \<Rightarrow> (string \<times> pyval) list \<Rightarrow> string" where
  "netbox_credential_fingerprint env payload = pv_hmac env (fingerprint_material (netbox_credentials payload))"

definition netbox_push_credentials_unchanged :: "push_env \<Rightarrow> pyval \<Rightarrow> payload_error + bool" where
  "netbox_push_credentials_unchanged env ep =
     (let stored = stored_credential_fingerprint ep in
      if stored = [] then Inr False
      else (case netbox_endpoint_backend_payload env ep of
              Inl e \<Rightarrow> Inl e
            | Inr payload \<Rightarrow> Inr (stored = netbox_credential_fingerprint env payload)))"

definition record_pushed_credential_fingerprint ::
  "push_env \<Rightarrow> pyval \<Rightarrow> (string \<times> pyval) list \<Rightarrow> push_event list \<Rightarrow> push_event list" where
  "record_pushed_credential_fingerprint env ep payload evs =
     (if attr_value ep ''pk'' = PNone then evs
      else evs @ [Stored ''pushed_credential_fingerprint'' (PStr (netbox_credential_fingerprint env payload))])"

text \<open>The end of the push: 200 and 201 record the credentials; another status, also one below 400, fails.\<close>

definition finish_netbox_push ::
  "push_env \<Rightarrow> pyval \<Rightarrow> (string \<times> pyval) list \<Rightarrow> http_answer \<Rightarrow> push_event list \<Rightarrow> push_outcome \<times> push_event list" where
  "finish_netbox_push env ep payload answer evs =
     (case answer of
        Inr (status, body) \<Rightarrow>
          if status \<in> {200, 201} then ((True, None, None), record_pushed_credential_fingerprint env ep payload evs)
          else ((False, Some (''Failed to sync NetBox endpoint to proxbox-api: HTTP '' @ str_of_int status
                 @ '' - Backend returned HTTP '' @ str_of_int status @ '' without a JSON error detail.''), Some status), evs)
      | Inl (detail, Some status) \<Rightarrow>
          ((False, Some (''Failed to sync NetBox endpoint to proxbox-api: HTTP '' @ str_of_int status @ '' - '' @ detail),
            Some status), evs)
      | Inl (detail, None) \<Rightarrow>
          ((False, Some (''Failed to sync NetBox endpoint to ProxBox backend: '' @ detail), None), evs))"

text \<open>The singleton row: the first listed row is updated, an empty listing creates it.\<close>

definition netbox_push_target :: "string \<Rightarrow> pyval list \<Rightarrow> (string \<times> string) option" where
  "netbox_push_target list_url existing =
     (case existing of
        [] \<Rightarrow> Some (''POST'', list_url)
      | item # _ \<Rightarrow>
          (let endpoint_id = (case item of PDict d \<Rightarrow> dget d ''id'' | _ \<Rightarrow> PNone)
           in if endpoint_id = PNone then None else Some (''PUT'', row_url list_url endpoint_id)))"

definition sync_netbox_endpoint_to_backend ::
  "push_env \<Rightarrow> pyval \<Rightarrow> string \<Rightarrow> (payload_error + push_outcome) \<times> push_event list" where
  "sync_netbox_endpoint_to_backend env ep base_url =
     (case disabled_endpoint_detail ep ''NetBox endpoint'' ''skipping backend sync'' of
        Some detail \<Rightarrow> (Inr (False, Some detail, None), [])
      | None \<Rightarrow>
          (let list_url = base_url @ ''/netbox/endpoint'' in
           case netbox_endpoint_backend_payload env ep of
             Inl Unapproved \<Rightarrow> (Inr (False, Some STALE_APPROVAL, None), [])
           | Inl Bad_number \<Rightarrow> (Inl Bad_number, [])
           | Inr payload \<Rightarrow>
               (let (answer, evs) = send env ''GET'' list_url [] []
                in case answer of
                     Inl (detail, Some status) \<Rightarrow>
                       (Inr (False, Some (''Failed to list NetBox endpoints on backend: HTTP '' @ str_of_int status),
                          Some status), evs)
                   | Inl (detail, None) \<Rightarrow>
                       (Inr (False, Some (''Failed to sync NetBox endpoint to ProxBox backend: '' @ detail), None), evs)
                   | Inr (status, body) \<Rightarrow>
                       if status \<noteq> 200
                       then (Inr (False, Some (''Failed to list NetBox endpoints on backend: HTTP '' @ str_of_int status),
                               Some status), evs)
                       else (case body of
                         Inl json_err \<Rightarrow>
                           (Inr (False, Some (''Failed to sync NetBox endpoint to ProxBox backend: '' @ json_err), None), evs)
                       | Inr (PList existing) \<Rightarrow>
                           if \<not> approved_at env 2 ep then (Inr (False, Some STALE_APPROVAL, None), evs)
                           else (case netbox_push_target list_url existing of
                             None \<Rightarrow> (Inr (False, Some (''proxbox-api returned NetBox endpoint without id, ''
                                       @ ''cannot update''), None), evs)
                           | Some (verb, url) \<Rightarrow>
                               (let (answer, evs) = send env verb url payload evs
                                in map_prod Inr id (finish_netbox_push env ep payload answer evs)))
                       | Inr _ \<Rightarrow>
                           (Inr (False, Some ''ProxBox backend returned invalid NetBox endpoint list payload.'', None),
                             evs)))))"

section \<open>Properties\<close>

lemma netbox_payload_approved:
  "netbox_endpoint_backend_payload env ep = Inr payload \<Longrightarrow> approved_at env 0 ep \<and> approved_at env 1 ep"
  by (auto simp: netbox_endpoint_backend_payload_def Let_def split: if_splits option.splits prod.splits)

lemma finish_netbox_events:
  "set (snd (finish_netbox_push env ep payload answer evs))
     \<subseteq> set evs \<union> {Stored ''pushed_credential_fingerprint'' (PStr (netbox_credential_fingerprint env payload))}"
  by (auto simp: finish_netbox_push_def record_pushed_credential_fingerprint_def split: sum.splits prod.splits
    option.splits)

text \<open>A run that builds no payload sends nothing; a run that builds one sends the listing GET and,
  only if still approved, the payload.\<close>

lemma netbox_push_requests:
  assumes "ev \<in> set (snd (sync_netbox_endpoint_to_backend env ep base))"
  obtains payload where "endpoint_is_enabled ep" and "netbox_endpoint_backend_payload env ep = Inr payload"
    and "\<And>req. ev = Sent req \<Longrightarrow> rq_body req = [] \<or> approved_at env 2 ep \<and> rq_body req = payload"
    and "\<And>c v. ev = Stored c v \<Longrightarrow> c = ''pushed_credential_fingerprint''
      \<and> v = PStr (netbox_credential_fingerprint env payload)"
proof -
  have enabled: "endpoint_is_enabled ep"
    by (rule ccontr) (use assms in \<open>simp add: sync_netbox_endpoint_to_backend_def disabled_endpoint_detail_def Let_def\<close>)
  obtain payload where payload: "netbox_endpoint_backend_payload env ep = Inr payload"
    using assms enabled
    by (auto simp: sync_netbox_endpoint_to_backend_def disabled_endpoint_detail_def Let_def
      split: sum.splits payload_error.splits)
  let ?get = "\<lparr>rq_verb = ''GET'', rq_url = base @ ''/netbox/endpoint'', rq_body = []\<rparr>"
  have "ev = Sent ?get \<or> (\<exists>v u. ev = Sent \<lparr>rq_verb = v, rq_url = u, rq_body = payload\<rparr> \<and> approved_at env 2 ep)
     \<or> ev = Stored ''pushed_credential_fingerprint'' (PStr (netbox_credential_fingerprint env payload))"
    using assms
    by (auto simp: sync_netbox_endpoint_to_backend_def disabled_endpoint_detail_def enabled payload send_def Let_def
      split: sum.splits prod.splits option.splits pyval.splits if_splits
      dest!: finish_netbox_events[THEN subsetD])
  then show ?thesis
    by (intro that[OF enabled payload]) auto
qed

text \<open>Safety of the NetBox push: a request that carries anything is sent only for an enabled
  endpoint whose target was approved at all three checks, and its body is exactly the payload; the
  credential fingerprint that is recorded is that of the same payload.\<close>

theorem netbox_token_pushed_only_when_approved:
  assumes "Sent req \<in> set (snd (sync_netbox_endpoint_to_backend env ep base))" and "rq_body req \<noteq> []"
  shows "endpoint_is_enabled ep
    \<and> (\<forall>n<3. approved_connection_allows_secrets (pv_authority env) (pv_states env n) ep)
    \<and> netbox_endpoint_backend_payload env ep = Inr (rq_body req)"
proof -
  obtain payload where p: "endpoint_is_enabled ep" "netbox_endpoint_backend_payload env ep = Inr payload"
    "approved_at env 2 ep" "rq_body req = payload"
    using netbox_push_requests[OF assms(1)] assms(2) by metis
  then have "\<forall>n<3. approved_at env n ep"
    using netbox_payload_approved[OF p(2)] by (auto simp: numeral_3_eq_3 less_Suc_eq numeral_2_eq_2)
  then show ?thesis
    using p by (simp add: approved_at_allows)
qed

definition demo_netbox :: pyval where
  "demo_netbox = PDict [(''pk'', PInt 1), (''name'', PStr ''nb''), (''domain'', PStr ''nb.lab''), (''enabled'', PBool True),
     (''effective_token_value'', PStr ''t0k'')]"

definition demo_netbox_env :: push_env where
  "demo_netbox_env = demo_push\<lparr>pv_http := (\<lambda>evs r. Inr (200, Inr (PList [])))\<rparr>"

definition demo_netbox_request :: push_request where
  "demo_netbox_request = \<lparr>rq_verb = ''POST'', rq_url = ''u/netbox/endpoint'',
     rq_body = [(''name'', PStr ''nb''), (''ip_address'', PStr ''127.0.0.1''), (''domain'', PStr ''nb.lab''),
       (''port'', PInt 443), (''verify_ssl'', PBool True), (''token_version'', PStr ''v1''), (''token'', PStr ''t0k'')]\<rparr>"

lemma demo_netbox_events:
  "sync_netbox_endpoint_to_backend demo_netbox_env demo_netbox ''u''
   = (Inr (True, None, None),
      [Sent \<lparr>rq_verb = ''GET'', rq_url = ''u/netbox/endpoint'', rq_body = []\<rparr>, Sent demo_netbox_request,
       Stored ''pushed_credential_fingerprint'' (PStr ''2:v10:3:t0k'')])"
  by code_simp

theorem netbox_token_pushed_only_when_approved_witness:
  "endpoint_is_enabled demo_netbox
   \<and> netbox_endpoint_backend_payload demo_netbox_env demo_netbox = Inr (rq_body demo_netbox_request)"
  using netbox_token_pushed_only_when_approved[of demo_netbox_request demo_netbox_env demo_netbox "''u''"]
  by (simp add: demo_netbox_events demo_netbox_request_def)

text \<open>Round trip of the credential record: once a push of \<open>ep\<close> succeeded and its recorded
  fingerprint is stored on a later state \<open>ep'\<close> of the endpoint, the comparison answers ``unchanged''
  exactly when the version, key and token that \<open>ep'\<close> would push are the ones the backend was given. The
  keyed hash is assumed not to collide on the two credential texts and to print without surrounding
  blanks.\<close>

theorem rotated_token_is_noticed:
  assumes sent: "sync_netbox_endpoint_to_backend env ep base = (Inr (True, None, None), evs)"
    and stored: "Stored ''pushed_credential_fingerprint'' fp \<in> set evs"
      "attr_value ep' ''pushed_credential_fingerprint'' = fp"
    and new: "netbox_endpoint_backend_payload env' ep' = Inr payload'"
    and old: "netbox_endpoint_backend_payload env ep = Inr payload"
    and hash: "pv_hmac env' = pv_hmac env" "\<And>t. pv_hmac env t \<noteq> [] \<and> strip (pv_hmac env t) = pv_hmac env t"
      "pv_hmac env (fingerprint_material (netbox_credentials payload))
         = pv_hmac env (fingerprint_material (netbox_credentials payload'))
       \<Longrightarrow> fingerprint_material (netbox_credentials payload) = fingerprint_material (netbox_credentials payload')"
  shows "netbox_push_credentials_unchanged env' ep' = Inr (netbox_credentials payload = netbox_credentials payload')"
proof -
  have "Stored ''pushed_credential_fingerprint'' fp \<in> set (snd (sync_netbox_endpoint_to_backend env ep base))"
    using sent stored(1) by simp
  then have fp: "fp = PStr (netbox_credential_fingerprint env payload)"
    by (rule netbox_push_requests) (use old in auto)
  have "stored_credential_fingerprint ep' = netbox_credential_fingerprint env payload"
    using hash(2) by (simp add: stored_credential_fingerprint_def stored(2) fp text_or_empty_def py_str_def
      netbox_credential_fingerprint_def)
  moreover have "netbox_credential_fingerprint env payload = netbox_credential_fingerprint env' payload'
      \<longleftrightarrow> netbox_credentials payload = netbox_credentials payload'"
    using hash(1,3) fingerprint_material_inj unfolding netbox_credential_fingerprint_def by metis
  moreover have "netbox_credential_fingerprint env payload \<noteq> []"
    using hash(2) by (simp add: netbox_credential_fingerprint_def)
  ultimately show ?thesis
    using new by (simp add: netbox_push_credentials_unchanged_def)
qed

definition demo_hash_env :: push_env where
  "demo_hash_env = demo_netbox_env\<lparr>pv_hmac := (\<lambda>t. ''h'' @ t @ ''h'')\<rparr>"

definition demo_rotated :: pyval where
  "demo_rotated = PDict [(''pk'', PInt 1), (''name'', PStr ''nb''), (''domain'', PStr ''nb.lab''), (''enabled'', PBool True),
     (''effective_token_value'', PStr ''t1k''), (''pushed_credential_fingerprint'', PStr ''h2:v10:3:t0kh'')]"

lemma demo_hash: "pv_hmac demo_hash_env t = ''h'' @ t @ ''h''"
  by (simp add: demo_hash_env_def)

lemma demo_hash_stripped: "strip (''h'' @ t @ ''h'') = ''h'' @ t @ ''h''"
  by (simp add: strip_def lstrip_def rstrip_def is_space_def)

theorem rotated_token_is_noticed_witness:
  "netbox_push_credentials_unchanged demo_hash_env demo_rotated = Inr False"
proof -
  let ?new = "[(''name'', PStr ''nb''), (''ip_address'', PStr ''127.0.0.1''), (''domain'', PStr ''nb.lab''),
       (''port'', PInt 443), (''verify_ssl'', PBool True), (''token_version'', PStr ''v1''), (''token'', PStr ''t1k'')]"
  have run: "sync_netbox_endpoint_to_backend demo_hash_env demo_netbox ''u''
     = (Inr (True, None, None),
        [Sent \<lparr>rq_verb = ''GET'', rq_url = ''u/netbox/endpoint'', rq_body = []\<rparr>, Sent demo_netbox_request,
         Stored ''pushed_credential_fingerprint'' (PStr ''h2:v10:3:t0kh'')])"
    and old: "netbox_endpoint_backend_payload demo_hash_env demo_netbox = Inr (rq_body demo_netbox_request)"
    and new: "netbox_endpoint_backend_payload demo_hash_env demo_rotated = Inr ?new"
    and fp: "attr_value demo_rotated ''pushed_credential_fingerprint'' = PStr ''h2:v10:3:t0kh''"
    and differ: "netbox_credentials (rq_body demo_netbox_request) \<noteq> netbox_credentials ?new"
    by code_simp+
  have "netbox_push_credentials_unchanged demo_hash_env demo_rotated
      = Inr (netbox_credentials (rq_body demo_netbox_request) = netbox_credentials ?new)"
    by (rule rotated_token_is_noticed[OF run _ fp new old])
      (simp_all add: demo_hash demo_hash_stripped[simplified])
  then show ?thesis using differ by simp
qed

end
