(* ===== verification/Backend_Path.thy ===== *)
theory Backend_Path
  imports Py_Base
begin

text \<open>
  \<open>netbox_proxbox/services/backend_path.py\<close>: the values that are placed in the path of a backend
  request, with \<open>urllib.parse.quote\<close> of the Python standard library.
\<close>

section \<open>Percent encoding\<close>

definition upper_hex :: "nat \<Rightarrow> char" where
  "upper_hex n = (if n < 10 then char_of (48 + n) else char_of (55 + n))"

text \<open>The characters \<open>quote\<close> never encodes: letters, digits and \<open>_.-~\<close>.\<close>

definition unreserved :: "char \<Rightarrow> bool" where
  "unreserved c \<longleftrightarrow> is_upper c \<or> is_lower c \<or> is_digit c \<or> c \<in> set ''_.-~''"

definition quote_char :: "char \<Rightarrow> string" where
  "quote_char c =
     (if unreserved c then [c] else [CHR ''%'', upper_hex (ord c div 16), upper_hex (ord c mod 16)])"

text \<open>\<open>quote(text, safe="")\<close>.\<close>

definition quote :: "string \<Rightarrow> string" where
  "quote s = concat (map quote_char s)"

lemma upper_hex_unreserved: "n < 16 \<Longrightarrow> unreserved (upper_hex n)"
  by (cases "n < 10") (simp_all add: unreserved_def upper_hex_def is_digit_def is_upper_def of_char_of)

lemma quote_char_set: "c \<in> set (quote_char d) \<Longrightarrow> unreserved c \<or> c = CHR ''%''"
proof -
  have "ord d div 16 < 16" using nat_of_char_less_256[of d] by (rule less_mult_imp_div_less[of _ 16 16, simplified])
  then have "unreserved (upper_hex (ord d div 16))" "unreserved (upper_hex (ord d mod 16))"
    using upper_hex_unreserved[of "ord d div 16"] upper_hex_unreserved[of "ord d mod 16"] by auto
  then show "c \<in> set (quote_char d) \<Longrightarrow> unreserved c \<or> c = CHR ''%''"
    by (auto simp: quote_char_def split: if_splits)
qed

lemma quote_set: "c \<in> set (quote s) \<Longrightarrow> unreserved c \<or> c = CHR ''%''"
  by (auto simp: quote_def dest: quote_char_set)

lemma quote_Cons: "quote (c # s) = quote_char c @ quote s"
  by (simp add: quote_def)

lemma quote_unreserved: "list_all unreserved s \<Longrightarrow> quote s = s"
  by (induction s) (simp_all add: quote_Cons quote_char_def quote_def)

lemma unreserved_not_reserved: "c \<in> set ''/?#&%'' \<Longrightarrow> \<not> unreserved c"
  by (auto simp: unreserved_def is_upper_def is_lower_def is_digit_def)

lemma reserved [simp]:
  "\<not> unreserved (CHR ''/'')" "\<not> unreserved (CHR ''?'')" "\<not> unreserved (CHR ''#'')"
  "\<not> unreserved (CHR ''&'')" "\<not> unreserved (CHR ''%'')"
  by (rule unreserved_not_reserved, simp)+

lemma quote_no_slash: "CHR ''/'' \<notin> set (quote s)" "CHR ''?'' \<notin> set (quote s)"
  "CHR ''&'' \<notin> set (quote s)" "CHR ''#'' \<notin> set (quote s)"
  using quote_set[of _ s] unreserved_not_reserved by (fastforce)+

lemma percent_in_quote: "c \<in> set s \<Longrightarrow> \<not> unreserved c \<Longrightarrow> CHR ''%'' \<in> set (quote s)"
  by (force simp: quote_def quote_char_def)

section \<open>Path segments\<close>

datatype path_error = Unsafe_segment string | Conversion_error

definition MAX_SEGMENT_LENGTH :: nat where "MAX_SEGMENT_LENGTH = 253"
definition MAX_VMID :: int where "MAX_VMID = 999999999"

definition segment_head :: "char \<Rightarrow> bool" where
  "segment_head c \<longleftrightarrow> is_upper c \<or> is_lower c \<or> is_digit c"

definition segment_char :: "char \<Rightarrow> bool" where
  "segment_char c \<longleftrightarrow> segment_head c \<or> c \<in> set ''._-''"

text \<open>The regular expression \<open>[A-Za-z0-9][A-Za-z0-9._-]*\<close> under \<open>fullmatch\<close>.\<close>

fun segment_re :: "string \<Rightarrow> bool" where
  "segment_re [] = False"
| "segment_re (c # s) = (segment_head c \<and> list_all segment_char s)"

text \<open>\<open>str(value if value is not None else "").strip()\<close>.\<close>

definition stripped_text :: "pyval \<Rightarrow> string" where
  "stripped_text v = strip (if v = PNone then [] else py_str v)"

definition safe_path_segment :: "pyval \<Rightarrow> path_error + string" where
  "safe_path_segment v =
     (let text = stripped_text v in
      if text = [] \<or> length text > MAX_SEGMENT_LENGTH
        then Inl (Unsafe_segment ''path segment is empty or too long'')
      else if \<not> segment_re text
        then Inl (Unsafe_segment ''path segment contains forbidden characters'')
      else if contains ''..'' text
        then Inl (Unsafe_segment ''path segment contains a dot-dot sequence'')
      else Inr (quote text))"

definition VM_TYPES :: "string list" where "VM_TYPES = [''qemu'', ''lxc'']"

definition safe_vm_type :: "pyval \<Rightarrow> path_error + string" where
  "safe_vm_type v =
     (let text = str_lower (stripped_text v) in
      if text \<notin> set VM_TYPES then Inl (Unsafe_segment ''guest type must be qemu or lxc'') else Inr text)"

definition safe_vmid :: "pyval \<Rightarrow> path_error + string" where
  "safe_vmid v =
     (case v of
        PBool _ \<Rightarrow> Inl (Unsafe_segment ''VMID must be a positive integer'')
      | _ \<Rightarrow>
          (let text = stripped_text v in
           if \<not> all_digits text then Inl (Unsafe_segment ''VMID must be a positive integer'')
           else (case nat_of_digits text of
                   None \<Rightarrow> Inl Conversion_error
                 | Some vmid \<Rightarrow>
                     if vmid < 1 \<or> MAX_VMID < int vmid then Inl (Unsafe_segment ''VMID is out of range'')
                     else Inr (str_of_nat vmid))))"

text \<open>A path segment that URL normalisation cannot move: it is not empty, is not a dot segment and
  has no character that ends a path.\<close>

definition inert_segment :: "string \<Rightarrow> bool" where
  "inert_segment s \<longleftrightarrow> s \<noteq> [] \<and> s \<noteq> ''.'' \<and> s \<noteq> ''..''
     \<and> list_all (\<lambda>c. c \<notin> set ''/?#'') s"

lemma segment_head_unreserved: "segment_head c \<Longrightarrow> unreserved c"
  by (auto simp: segment_head_def unreserved_def)

lemma segment_char_unreserved: "segment_char c \<Longrightarrow> unreserved c"
  by (auto simp: segment_char_def unreserved_def segment_head_def)

lemma segment_re_unreserved: "segment_re s \<Longrightarrow> list_all unreserved s"
  by (cases s) (auto simp: list_all_iff segment_head_unreserved segment_char_unreserved)

lemma segment_re_head: "segment_re s \<Longrightarrow> s \<noteq> [] \<and> segment_head (hd s)"
  by (cases s) auto

lemma dot_not_head: "\<not> segment_head (CHR ''.'')"
  by code_simp

lemma segment_re_inert: "segment_re s \<Longrightarrow> inert_segment s"
  using segment_re_unreserved[of s] segment_re_head[of s] dot_not_head
  by (auto simp: inert_segment_def list_all_iff)

text \<open>A value is placed in a backend path exactly when its stripped text is a Proxmox
  identifier of at most 253 characters without a dot-dot sequence, and then it is placed unchanged:
  it is one path segment, never a dot segment, and contains no character that ends a path, a query
  or a percent escape.\<close>

theorem safe_path_segment_exact:
  "safe_path_segment v = Inr seg \<longleftrightarrow>
     seg = stripped_text v \<and> length seg \<le> 253 \<and> segment_re seg \<and> \<not> contains ''..'' seg
     \<and> inert_segment seg \<and> CHR ''%'' \<notin> set seg"
proof
  assume a: "safe_path_segment v = Inr seg"
  then have ok: "segment_re (stripped_text v)" "seg = quote (stripped_text v)"
    "length (stripped_text v) \<le> 253" "\<not> contains ''..'' (stripped_text v)"
    by (auto simp: safe_path_segment_def Let_def MAX_SEGMENT_LENGTH_def split: if_splits)
  then have same: "seg = stripped_text v" using quote_unreserved segment_re_unreserved by simp
  with ok segment_re_inert segment_re_unreserved[of seg] unreserved_not_reserved[of "CHR ''%''"]
  show "seg = stripped_text v \<and> length seg \<le> 253 \<and> segment_re seg \<and> \<not> contains ''..'' seg
     \<and> inert_segment seg \<and> CHR ''%'' \<notin> set seg"
    by (auto simp: list_all_iff)
next
  assume a: "seg = stripped_text v \<and> length seg \<le> 253 \<and> segment_re seg \<and> \<not> contains ''..'' seg
     \<and> inert_segment seg \<and> CHR ''%'' \<notin> set seg"
  then have "quote seg = seg" using quote_unreserved segment_re_unreserved by blast
  with a show "safe_path_segment v = Inr seg"
    by (auto simp: safe_path_segment_def Let_def MAX_SEGMENT_LENGTH_def)
qed

lemma safe_path_segment_inert: "safe_path_segment v = Inr seg \<Longrightarrow> inert_segment seg"
proof -
  assume "safe_path_segment v = Inr seg"
  then have "segment_re (stripped_text v)" "seg = quote (stripped_text v)"
    by (auto simp: safe_path_segment_def Let_def split: if_splits)
  then show ?thesis using quote_unreserved segment_re_unreserved segment_re_inert by simp
qed

lemma safe_vmid_range:
  "safe_vmid v = Inr t \<Longrightarrow> \<exists>n. t = str_of_nat n \<and> 1 \<le> n \<and> int n \<le> MAX_VMID"
  by (auto simp: safe_vmid_def Let_def split: pyval.splits if_splits option.splits)

end
