(* ===== verification/Operational_Target.thy ===== *)
theory Operational_Target
  imports Endpoint_Push Backend_Path
begin

text \<open>
  \<open>services/operational_target.py\<close>, \<open>services/endpoint_scope.py\<close> and
  \<open>services/_endpoint_errors.py\<close>: an operation on Proxmox is bound to one endpoint row the actor may
  operate on, which must be enabled and known to the backend under its own target. Parameters: the
  actor's legacy permission, the endpoint rows with and without the actor's restriction, and the
  backend context (its URL; None where no enabled backend is configured).
\<close>

section \<open>One authorised endpoint\<close>

record target_env =
  tv_push :: push_env
  tv_legacy :: "pyval \<Rightarrow> bool"
  tv_all :: "pyval \<Rightarrow> pyval option"
  tv_restricted :: "pyval \<Rightarrow> pyval \<Rightarrow> pyval option"
  tv_context :: "string option"

record operational_target =
  ot_endpoint :: pyval
  ot_backend_id :: int
  ot_url :: string

record target_error =
  te_reason :: string
  te_detail :: string
  te_status :: int

definition authorized_endpoint :: "target_env \<Rightarrow> pyval \<Rightarrow> pyval \<Rightarrow> pyval option" where
  "authorized_endpoint env user endpoint_id =
     (if endpoint_id = PNone then None
      else if tv_legacy env user then tv_all env endpoint_id
      else tv_restricted env user endpoint_id)"

definition the_refusal :: "string \<Rightarrow> string \<Rightarrow> int \<Rightarrow> target_error" where
  "the_refusal reason detail status = \<lparr>te_reason = reason, te_detail = detail, te_status = status\<rparr>"

text \<open>\<open>resolve_operational_target\<close>; the actor \<open>PNone\<close> is an internal caller. The events are those of
  the backend resolver.\<close>

definition resolve_operational_target ::
  "target_env \<Rightarrow> pyval \<Rightarrow> pyval \<Rightarrow> (target_error + operational_target) \<times> push_event list" where
  "resolve_operational_target env endpoint user =
     (case (if user \<noteq> PNone then authorized_endpoint env user (attr_value endpoint ''pk'') else Some endpoint) of
        None \<Rightarrow> (Inl (the_refusal ''permission_denied''
                   ''Proxmox endpoint is outside the operational permission scope.'' 404), [])
      | Some authorized \<Rightarrow>
          if \<not> endpoint_is_enabled authorized
          then (Inl (the_refusal ''endpoint_disabled'' ''The selected Proxmox endpoint is disabled.'' 403), [])
          else (case tv_context env of
            None \<Rightarrow> (Inl (the_refusal ''fastapi_endpoint_required''
                        ''No enabled ProxBox (FastAPI) backend is configured.'' 503), [])
          | Some http_url \<Rightarrow>
              if http_url = []
              then (Inl (the_refusal ''fastapi_endpoint_required''
                      ''No enabled ProxBox (FastAPI) backend is configured.'' 503), [])
              else (case resolve_backend_endpoint_id (tv_push env) authorized (rstrip_char (CHR ''/'') http_url) of
                (Inl resolve_error, evs) \<Rightarrow>
                  (Inl (the_refusal ''backend_endpoint_unresolved''
                     (if resolve_error \<noteq> [] then resolve_error
                      else ''Could not resolve this endpoint on the ProxBox backend.'') 502), evs)
              | (Inr backend_id, evs) \<Rightarrow>
                  (Inr \<lparr>ot_endpoint = authorized, ot_backend_id = backend_id, ot_url = http_url\<rparr>, evs))))"

lemma resolve_target_Inr:
  assumes "resolve_operational_target env endpoint user = (Inr target, evs)"
  shows "endpoint_is_enabled (ot_endpoint target)"
    and "if user = PNone then ot_endpoint target = endpoint
         else authorized_endpoint env user (attr_value endpoint ''pk'') = Some (ot_endpoint target)"
    and "tv_context env = Some (ot_url target)"
    and "resolve_backend_endpoint_id (tv_push env) (ot_endpoint target) (rstrip_char (CHR ''/'') (ot_url target))
         = (Inr (ot_backend_id target), evs)"
  using assms
  by (auto simp: resolve_operational_target_def split: option.splits if_splits sum.splits prod.splits)

section \<open>The scope of a proxied read\<close>

text \<open>\<open>enabled_backend_endpoint_scope\<close>; \<open>stored\<close> is the query for enabled endpoint rows, restricted to
  the given keys where there are some, and \<open>listing\<close> the answer of the backend's list call.
  \<open>Inl\<close> where a key cannot be read as a number.\<close>

fun scoped_backend_ids :: "(int \<times> int) list \<Rightarrow> pyval list \<Rightarrow> string list" where
  "scoped_backend_ids mapping [] = []"
| "scoped_backend_ids mapping (endpoint # rest) =
     (case int_of_pyval (attr_value endpoint ''pk'') of
        None \<Rightarrow> scoped_backend_ids mapping rest
      | Some plugin_pk \<Rightarrow>
          (case map_of mapping plugin_pk of
             None \<Rightarrow> scoped_backend_ids mapping rest
           | Some backend_id \<Rightarrow> str_of_int backend_id # scoped_backend_ids mapping rest))"

definition enabled_backend_endpoint_scope ::
  "(int list option \<Rightarrow> pyval list) \<Rightarrow> string + pyval \<Rightarrow> int list option
    \<Rightarrow> ((string \<times> string) list option \<times> (int \<times> int) list \<times> string option) result" where
  "enabled_backend_endpoint_scope stored listing endpoint_ids =
     (if endpoint_ids = Some [] then Inr (None, [], None)
      else
        let endpoints = stored endpoint_ids in
        if endpoints = [] then Inr (None, [], None)
        else rbind (resolve_backend_endpoint_ids listing endpoints) (\<lambda>(mapping, error).
          if error \<noteq> None \<and> error \<noteq> Some [] then Inr (None, [], error)
          else
            let backend_ids = scoped_backend_ids mapping endpoints in
            if backend_ids = []
            then Inr (None, mapping, Some ''No enabled Proxmox endpoints are registered on the ProxBox backend.'')
            else Inr (Some [(''source'', ''database''), (''proxmox_endpoint_ids'', str_join '','' backend_ids)],
                   mapping, None)))"

section \<open>Readable request failures\<close>

text \<open>An HTTP exception: whether it is an \<open>SSLError\<close>, its text and the response it carries.\<close>

record http_exc =
  he_ssl :: bool
  he_text :: string
  he_response :: "(int \<times> string) option"

definition HTTPS_ON_HTTP_HINT :: string where
  "HTTPS_ON_HTTP_HINT = ''The proxbox-api backend appears to be HTTPS-only (e.g. the ''
     @ [CHR 0x27] @ ''*-nginx'' @ [CHR 0x27] @ '' image). Enable ''
     @ [CHR 0x27] @ ''Use HTTPS'' @ [CHR 0x27] @ '' on the FastAPI endpoint.''"

definition SELF_SIGNED_HINT :: string where
  "SELF_SIGNED_HINT = ''Could not verify the proxbox-api TLS certificate. If the backend ''
     @ ''uses a self-signed certificate (e.g. the bundled mkcert cert in the ''
     @ [CHR 0x27] @ ''*-nginx'' @ [CHR 0x27] @ '' image), uncheck ''
     @ [CHR 0x27] @ ''Verify SSL'' @ [CHR 0x27] @ '' on the FastAPI endpoint.''"

definition PLAIN_HTTP_NEEDLES :: "string list" where
  "PLAIN_HTTP_NEEDLES = [''plain HTTP request was sent to HTTPS port'', ''plain_http_on_https_port'']"

definition translate_request_exception :: "http_exc \<Rightarrow> string" where
  "translate_request_exception exc =
     (let text = he_text exc;
          needles = (\<lambda>t. list_ex (\<lambda>needle. contains needle t) PLAIN_HTTP_NEEDLES)
      in if he_ssl exc then text @ ''. '' @ SELF_SIGNED_HINT
         else if needles text then text @ ''. '' @ HTTPS_ON_HTTP_HINT
         else (case he_response exc of
                 None \<Rightarrow> text
               | Some (status, body) \<Rightarrow>
                   if status = 400 \<and> needles body then text @ ''. '' @ HTTPS_ON_HTTP_HINT else text))"

end
