(* ===== verification/Ip_Text.thy ===== *)
theory Ip_Text
  imports Py_Base
begin

text \<open>
  Which texts \<open>ipaddress.ip_network(text, strict=False)\<close> of the Python standard library accepts: an
  IPv4 or IPv6 address with an optional prefix length or, for IPv4, a net or host mask.
\<close>

section \<open>IPv4\<close>

text \<open>\<open>_parse_octet\<close>: ASCII digits, at most three, no leading zero, at most 255.\<close>

definition octet :: "string \<Rightarrow> nat option" where
  "octet s =
     (if s = [] \<or> \<not> list_all is_digit s \<or> length s > 3 \<or> (s \<noteq> ''0'' \<and> hd s = CHR ''0'') then None
      else (case nat_of_digits s of Some n \<Rightarrow> if n > 255 then None else Some n | None \<Rightarrow> None))"

definition ipv4_int :: "string \<Rightarrow> int option" where
  "ipv4_int s =
     (case map octet (split_on (CHR ''.'') s) of
        [Some a, Some b, Some c, Some d] \<Rightarrow> Some (((int a * 256 + int b) * 256 + int c) * 256 + int d)
      | _ \<Rightarrow> None)"

text \<open>\<open>_prefix_from_prefix_string\<close>.\<close>

definition prefix_ok :: "nat \<Rightarrow> string \<Rightarrow> bool" where
  "prefix_ok bits s \<longleftrightarrow> s \<noteq> [] \<and> list_all is_digit s
     \<and> (case nat_of_digits s of Some n \<Rightarrow> n \<le> bits | None \<Rightarrow> False)"

text \<open>\<open>_prefix_from_ip_string\<close>: the ones of a net mask, or of a complemented host mask, are leading.\<close>

definition netmask_int :: "int \<Rightarrow> bool" where
  "netmask_int n \<longleftrightarrow> list_ex (\<lambda>k. n = 2 ^ 32 - 2 ^ k) [0..<33]"

definition ipv4_mask_ok :: "string \<Rightarrow> bool" where
  "ipv4_mask_ok s \<longleftrightarrow> prefix_ok 32 s
     \<or> (case ipv4_int s of Some n \<Rightarrow> netmask_int n \<or> netmask_int (2 ^ 32 - 1 - n) | None \<Rightarrow> False)"

definition ipv4_network_ok :: "string \<Rightarrow> bool" where
  "ipv4_network_ok s \<longleftrightarrow>
     (case split_on (CHR ''/'') s of
        [a] \<Rightarrow> ipv4_int a \<noteq> None
      | [a, m] \<Rightarrow> ipv4_int a \<noteq> None \<and> ipv4_mask_ok m
      | _ \<Rightarrow> False)"

section \<open>IPv6\<close>

definition is_hex :: "char \<Rightarrow> bool" where
  "is_hex c \<longleftrightarrow> is_digit c \<or> c \<in> set ''abcdefABCDEF''"

definition hextet_ok :: "string \<Rightarrow> bool" where
  "hextet_ok s \<longleftrightarrow> s \<noteq> [] \<and> length s \<le> 4 \<and> list_all is_hex s"

text \<open>A dotted IPv4 tail counts as two hextets; None where it does not parse.\<close>

definition ipv6_parts :: "string \<Rightarrow> string list option" where
  "ipv6_parts s =
     (let parts = split_on (CHR '':'') s in
      if s = [] \<or> length parts < 3 then None
      else if CHR ''.'' \<in> set (last parts)
        then (if ipv4_int (last parts) = None then None else Some (butlast parts @ [''0'', ''0'']))
      else Some parts)"

text \<open>The positions of inner empty parts, where \<open>::\<close> may stand.\<close>

definition skip_indices :: "string list \<Rightarrow> nat list" where
  "skip_indices parts = filter (\<lambda>i. parts ! i = []) [1..<length parts - 1]"

definition ipv6_parts_ok :: "string list \<Rightarrow> bool" where
  "ipv6_parts_ok parts \<longleftrightarrow>
     length parts \<le> 9
     \<and> (case skip_indices parts of
          [] \<Rightarrow> length parts = 8 \<and> list_all hextet_ok parts
        | [i] \<Rightarrow>
            (let hi = (if hd parts = [] then i - 1 else i);
                 lo = (if last parts = [] then length parts - i - 2 else length parts - i - 1)
             in (hd parts = [] \<longrightarrow> hi = 0) \<and> (last parts = [] \<longrightarrow> lo = 0) \<and> hi + lo < 8
                \<and> list_all hextet_ok (take hi parts) \<and> list_all hextet_ok (drop (length parts - lo) parts))
        | _ \<Rightarrow> False)"

text \<open>\<open>IPv6Address\<close>: a scope after \<open>%\<close> is not empty and has no further \<open>%\<close>.\<close>

definition ipv6_address_ok :: "string \<Rightarrow> bool" where
  "ipv6_address_ok s \<longleftrightarrow>
     (let (addr, scope) = partition_char (CHR ''%'') s
      in (CHR ''%'' \<in> set s \<longrightarrow> scope \<noteq> [] \<and> CHR ''%'' \<notin> set scope)
         \<and> (case ipv6_parts addr of Some parts \<Rightarrow> ipv6_parts_ok parts | None \<Rightarrow> False))"

definition ipv6_network_ok :: "string \<Rightarrow> bool" where
  "ipv6_network_ok s \<longleftrightarrow>
     (case split_on (CHR ''/'') s of
        [a] \<Rightarrow> ipv6_address_ok a
      | [a, m] \<Rightarrow> ipv6_address_ok a \<and> prefix_ok 128 m
      | _ \<Rightarrow> False)"

definition ip_network_ok :: "string \<Rightarrow> bool" where
  "ip_network_ok s \<longleftrightarrow> ipv4_network_ok s \<or> ipv6_network_ok s"

lemma ip_network_examples:
  "ip_network_ok ''10.0.0.0/8''" "ip_network_ok ''10.0.0.0/0.255.255.255''" "ip_network_ok ''fe80::1''"
  "\<not> ip_network_ok ''010.0.0.1''" "\<not> ip_network_ok ''1::2::3''"
  by code_simp+

lemma ip_network_not_dots: "\<not> ip_network_ok []" "\<not> ip_network_ok ''.''" "\<not> ip_network_ok ''..''"
  by code_simp+

end
