(* ===== verification/Firewall_Push.thy ===== *)
theory Firewall_Push
  imports Operational_Target Ip_Text
begin

text \<open>
  The write side of \<open>intent/firewall_common.py\<close>: a firewall object of NetBox is bound to one endpoint
  by every ownership link it has, its backend route is composed from validated path segments, and one
  authorised request is sent. An object is its model class with its attributes; related rows are
  nested dictionaries. The events of a push are the requests of the backend resolver, status writes
  on the object and the firewall request.
\<close>

section \<open>Objects and errors\<close>

datatype fw_kind =
    Security_group
  | Rule
  | IPSet
  | IPSet_entry
  | Alias
  | Options
  | Other_object string

record fw_object =
  fw_kind :: fw_kind
  fw_attrs :: pyval

definition fw_get :: "fw_object \<Rightarrow> string \<Rightarrow> pyval" where
  "fw_get obj name = attr_value (fw_attrs obj) name"

record fw_error =
  fe_reason :: string
  fe_detail :: string
  fe_status :: int

text \<open>\<open>FirewallPushError\<close>, or an uncaught \<open>int()\<close> conversion of a rule position.\<close>

datatype fw_exc = Push_error fw_error | Bad_position

definition push_error :: "string \<Rightarrow> string \<Rightarrow> int \<Rightarrow> fw_exc" where
  "push_error reason detail status = Push_error \<lparr>fe_reason = reason, fe_detail = detail, fe_status = status\<rparr>"

section \<open>Who owns an object\<close>

definition object_pk :: "pyval \<Rightarrow> pyval" where
  "object_pk v = (if v = PNone then PNone else getattr_or v ''pk'' (getattr_or v ''id'' v))"

definition explicit_firewall_endpoint :: "fw_object \<Rightarrow> pyval" where
  "explicit_firewall_endpoint obj =
     (if fw_kind obj = IPSet_entry then attr_value (fw_get obj ''ipset'') ''endpoint'' else fw_get obj ''endpoint'')"

definition firewall_scope_for_object :: "fw_object \<Rightarrow> pyval" where
  "firewall_scope_for_object obj =
     (case fw_kind obj of
        Rule \<Rightarrow> fw_get obj ''zone''
      | Options \<Rightarrow> fw_get obj ''zone''
      | IPSet_entry \<Rightarrow> attr_value (fw_get obj ''ipset'') ''scope''
      | IPSet \<Rightarrow> fw_get obj ''scope''
      | Alias \<Rightarrow> fw_get obj ''scope''
      | _ \<Rightarrow> PNone)"

definition virtual_machine_for_scope :: "fw_object \<Rightarrow> pyval" where
  "virtual_machine_for_scope obj =
     (if fw_kind obj = IPSet_entry then attr_value (fw_get obj ''ipset'') ''virtual_machine''
      else fw_get obj ''virtual_machine'')"

definition VM_SCOPES :: "pyval list" where
  "VM_SCOPES = [PStr ''vm_qemu'', PStr ''vm_lxc'']"

definition vm_sync_state_endpoint :: "pyval \<Rightarrow> pyval" where
  "vm_sync_state_endpoint vm = attr_value (attr_value vm ''proxbox_sync_state'') ''endpoint''"

definition validate_vm_endpoint_identity :: "fw_object \<Rightarrow> pyval \<Rightarrow> fw_exc + unit" where
  "validate_vm_endpoint_identity obj endpoint =
     (let vm = virtual_machine_for_scope obj in
      case (if vm \<noteq> PNone then resolve_vm_endpoint_context vm else None) of
        None \<Rightarrow>
          (let state_endpoint = vm_sync_state_endpoint vm in
           if state_endpoint \<noteq> PNone \<and> \<not> endpoint_is_enabled state_endpoint
           then Inl (push_error ''endpoint_disabled'' (''The VM'' @ [CHR 0x27]
                  @ ''s authoritative Proxmox endpoint is disabled.'') 403)
           else Inl (push_error ''vm_endpoint_identity_required''
                  (''VM-scoped firewall operations require a complete, consistent Proxbox ''
                   @ ''sync-state endpoint identity.'') 400))
      | Some (authoritative_endpoint_id, vmid, vm_type) \<Rightarrow>
          if object_pk endpoint \<noteq> PInt authoritative_endpoint_id
          then Inl (push_error ''endpoint_mismatch'' (''The firewall object'' @ [CHR 0x27]
                 @ ''s endpoint does not own its virtual machine.'') 403)
          else if vm_type \<noteq> (if firewall_scope_for_object obj = PStr ''vm_lxc'' then ''lxc'' else ''qemu'')
          then Inl (push_error ''firewall_scope_mismatch'' (''The firewall object'' @ [CHR 0x27]
                 @ ''s VM scope does not match its authoritative VM type.'') 400)
          else Inr ())"

definition require_matching_endpoint :: "pyval \<Rightarrow> pyval \<Rightarrow> string \<Rightarrow> fw_exc + unit" where
  "require_matching_endpoint endpoint related detail =
     (if related = PNone \<or> object_pk endpoint \<noteq> object_pk related
      then Inl (push_error ''endpoint_mismatch'' detail 403) else Inr ())"

definition ownership_check :: "fw_object \<Rightarrow> pyval \<Rightarrow> fw_exc + unit" where
  "ownership_check obj endpoint =
     (let scope = firewall_scope_for_object obj in
      if scope \<in> set VM_SCOPES then validate_vm_endpoint_identity obj endpoint
      else if scope = PStr ''node'' then
        require_matching_endpoint endpoint (attr_value (fw_get obj ''proxmox_node'') ''endpoint'')
          (''The firewall object'' @ [CHR 0x27] @ ''s node belongs to a different Proxmox endpoint.'')
      else if scope = PStr ''security_group'' then
        require_matching_endpoint endpoint (attr_value (fw_get obj ''security_group'') ''endpoint'')
          (''The firewall object'' @ [CHR 0x27] @ ''s security group belongs to a different Proxmox endpoint.'')
      else Inr ())"

definition require_consistent_firewall_endpoint :: "fw_object \<Rightarrow> fw_exc + pyval" where
  "require_consistent_firewall_endpoint obj =
     (let endpoint = explicit_firewall_endpoint obj in
      if endpoint = PNone
      then Inl (push_error ''endpoint_required''
             ''This firewall object is not explicitly linked to a Proxmox endpoint.'' 400)
      else (case ownership_check obj endpoint of Inl e \<Rightarrow> Inl e | Inr _ \<Rightarrow> Inr endpoint))"

definition resolve_firewall_endpoint :: "fw_object \<Rightarrow> pyval" where
  "resolve_firewall_endpoint obj =
     (case require_consistent_firewall_endpoint obj of Inl e \<Rightarrow> PNone | Inr endpoint \<Rightarrow> endpoint)"

section \<open>Routes\<close>

definition path_segment :: "pyval \<Rightarrow> fw_exc + string" where
  "path_segment v =
     (case safe_path_segment v of
        Inr s \<Rightarrow> Inr s
      | Inl e \<Rightarrow> Inl (push_error ''invalid_identifier''
          (''A firewall object name, node name, or VNet name is not a valid ''
           @ ''Proxmox identifier, so no backend request was made.'') 400))"

definition ipset_entry_segment :: "pyval \<Rightarrow> fw_exc + string" where
  "ipset_entry_segment cidr =
     (let text = stripped_text cidr
      in if ip_network_ok text then Inr (quote text) else path_segment (PStr text))"

definition extract_vm_id :: "pyval \<Rightarrow> int option" where
  "extract_vm_id vm = (if vm = PNone then None else int_of_string (resolve_vm_vmid vm))"

definition vm_node_name :: "pyval \<Rightarrow> string" where
  "vm_node_name vm = (if vm = PNone then [] else strip (resolve_vm_node vm))"

text \<open>\<open>_vm_context\<close>: the VMID as text, the node and the guest type.\<close>

definition vm_context :: "pyval \<Rightarrow> pyval \<Rightarrow> fw_exc + string \<times> string \<times> string" where
  "vm_context vm zone =
     (let vm_type = (if zone = PStr ''vm_lxc'' then ''lxc'' else ''qemu'');
          node = vm_node_name vm
      in case extract_vm_id vm of
           None \<Rightarrow> Inl (push_error ''vmid_required''
             (''VM-scoped firewall pushes require a Proxmox VM ID in the Proxbox ''
              @ ''sync-state record. Run a Proxbox sync.'') 400)
         | Some vmid \<Rightarrow>
             if node = [] then Inl (push_error ''vm_node_required''
               ''VM-scoped firewall pushes require a Proxmox node name on the VM.'' 400)
             else (case safe_vmid (PInt vmid) of
                     Inl e \<Rightarrow> Inl (push_error ''vmid_invalid''
                       ''The Proxmox VM ID recorded for this VM is not a valid identifier.'' 400)
                   | Inr v \<Rightarrow> Inr (v, node, vm_type)))"

definition node_name :: "pyval \<Rightarrow> fw_exc + string" where
  "node_name node =
     (let name = strip (text_or_empty (attr_value node ''name'')) in
      if name = [] then Inl (push_error ''node_required'' ''Node-level firewall pushes require a Proxmox node.'' 400)
      else Inr name)"

definition has_remote_marker :: "fw_object \<Rightarrow> bool" where
  "has_remote_marker obj \<longleftrightarrow>
     truthy (fw_get obj ''digest'')
     \<or> (case fw_get obj ''raw_config'' of PDict raw \<Rightarrow> raw \<noteq> [] | _ \<Rightarrow> False)"

definition vm_query :: "string \<Rightarrow> string \<Rightarrow> string" where
  "vm_query node vm_type = ''?node='' @ quote node @ ''&vm_type='' @ vm_type"

definition VM_ROUTE :: string where "VM_ROUTE = ''/proxmox/firewall/vms/''"

text \<open>\<open>_rule_push_target\<close>: the method and the path.\<close>

definition ebind :: "'e + 'a \<Rightarrow> ('a \<Rightarrow> 'e + 'b) \<Rightarrow> 'e + 'b" where
  "ebind x f = (case x of Inl e \<Rightarrow> Inl e | Inr a \<Rightarrow> f a)"

definition rule_suffix :: "fw_object \<Rightarrow> fw_exc + string" where
  "rule_suffix rule =
     (if \<not> has_remote_marker rule then Inr []
      else (case int_of_pyval (fw_get rule ''pos'') of None \<Rightarrow> Inl Bad_position | Some pos \<Rightarrow> Inr (''/'' @ str_of_int pos)))"

definition rule_path :: "fw_object \<Rightarrow> string \<Rightarrow> fw_exc + string" where
  "rule_path rule tail =
     (let zone = fw_get rule ''zone'' in
      if zone = PStr ''datacenter'' then Inr (''/proxmox/firewall/datacenter/rules'' @ tail)
      else if zone = PStr ''node'' then
        ebind (node_name (fw_get rule ''proxmox_node'')) (\<lambda>name.
        ebind (path_segment (PStr name)) (\<lambda>seg. Inr (''/proxmox/firewall/nodes/'' @ seg @ ''/rules'' @ tail)))
      else if zone = PStr ''security_group'' then
        (let group_name = attr_value (fw_get rule ''security_group'') ''name'' in
         if \<not> truthy group_name then Inl (push_error ''security_group_required''
           ''Security-group firewall rules require a security group.'' 400)
         else ebind (path_segment (PStr (py_str group_name))) (\<lambda>seg.
           Inr (''/proxmox/firewall/datacenter/groups/'' @ seg @ ''/rules'' @ tail)))
      else if zone \<in> set VM_SCOPES then
        ebind (vm_context (fw_get rule ''virtual_machine'') zone) (\<lambda>(vmid, node, vm_type).
          Inr (VM_ROUTE @ vmid @ ''/rules'' @ tail @ vm_query node vm_type))
      else if zone = PStr ''vnet'' then
        (let vnet = strip (text_or_empty (fw_get rule ''iface'')) in
         if vnet = [] then Inl (push_error ''vnet_required''
           ''VNet firewall rules require the interface field to hold the VNet name.'' 400)
         else ebind (path_segment (PStr vnet)) (\<lambda>seg. Inr (''/proxmox/firewall/vnets/'' @ seg @ ''/rules'' @ tail)))
      else Inl (push_error ''unsupported_firewall_zone'' (''Unsupported firewall rule zone: '' @ py_str zone) 400))"

definition rule_push_target :: "fw_object \<Rightarrow> fw_exc + string \<times> string" where
  "rule_push_target rule =
     ebind (rule_suffix rule) (\<lambda>tail.
     ebind (rule_path rule tail) (\<lambda>path. Inr (if has_remote_marker rule then ''put'' else ''post'', path)))"

definition scoped_collection_path :: "pyval \<Rightarrow> string \<Rightarrow> fw_exc + string" where
  "scoped_collection_path attrs noun =
     (let scope = attr_value attrs ''scope'' in
      if scope = PStr ''datacenter'' then Inr (''/proxmox/firewall/datacenter/'' @ noun)
      else if scope \<in> set VM_SCOPES then
        ebind (vm_context (attr_value attrs ''virtual_machine'') scope) (\<lambda>(vmid, node, vm_type).
          Inr (VM_ROUTE @ vmid @ ''/'' @ noun @ vm_query node vm_type))
      else Inl (push_error ''unsupported_firewall_scope'' (''Unsupported firewall scope: '' @ py_str scope) 400))"

text \<open>\<open>segment.strip("/")\<close>.\<close>

definition strip_slashes :: "string \<Rightarrow> string" where
  "strip_slashes s = rstrip_char (CHR ''/'') (dropWhile (\<lambda>c. c = CHR ''/'') s)"

definition path_add_segments :: "string \<Rightarrow> string list \<Rightarrow> string" where
  "path_add_segments path segments =
     (let (base, query) = partition_char (CHR ''?'') path;
          updated = str_join ''/'' (rstrip_char (CHR ''/'') base # map strip_slashes segments)
      in if CHR ''?'' \<in> set path then updated @ ''?'' @ query else updated)"

definition ipset_entry_path :: "fw_object \<Rightarrow> fw_exc + string" where
  "ipset_entry_path entry =
     (let ipset = fw_get entry ''ipset'' in
      ebind (scoped_collection_path ipset ''ipsets'') (\<lambda>collection.
      ebind (path_segment (PStr (py_str (attr_value ipset ''name'')))) (\<lambda>seg.
        Inr (path_add_segments collection [seg, ''entries'']))))"

definition options_path :: "fw_object \<Rightarrow> fw_exc + string" where
  "options_path opts =
     (let zone = fw_get opts ''zone'' in
      if zone = PStr ''datacenter'' then Inr ''/proxmox/firewall/datacenter/options''
      else if zone = PStr ''node'' then
        ebind (node_name (fw_get opts ''proxmox_node'')) (\<lambda>name.
        ebind (path_segment (PStr name)) (\<lambda>seg. Inr (''/proxmox/firewall/nodes/'' @ seg @ ''/options'')))
      else if zone \<in> set VM_SCOPES then
        ebind (vm_context (fw_get opts ''virtual_machine'') zone) (\<lambda>(vmid, node, vm_type).
          Inr (VM_ROUTE @ vmid @ ''/options'' @ vm_query node vm_type))
      else Inl (push_error ''unsupported_firewall_options_zone''
        ''Firewall options pushes are only supported for datacenter, node, and VM zones.'' 400))"

section \<open>The request\<close>

record fw_request =
  fr_method :: string
  fr_url :: string
  fr_path :: string
  fr_json :: "(string \<times> pyval) list"
  fr_actor :: string

datatype fw_event =
    Fw_resolve push_event
  | Fw_status string
  | Fw_sent fw_request

text \<open>A response: its status, its decoded body (None where it is not JSON) and its text.\<close>

type_synonym fw_answer = "http_exc + int \<times> pyval option \<times> string"

record fw_env =
  fv_target :: target_env
  fv_http :: "fw_request \<Rightarrow> fw_answer"

record fw_result =
  fs_status :: string
  fs_endpoint_id :: int
  fs_path :: string
  fs_method :: string
  fs_payload :: "(string \<times> pyval) list"
  fs_response :: "pyval option"
  fs_reason :: pyval
  fs_detail :: pyval
  fs_http_status :: int

definition drop_empty :: "(string \<times> pyval) list \<Rightarrow> (string \<times> pyval) list" where
  "drop_empty payload = filter (\<lambda>(k, v). \<not> none_or_empty v) payload"

definition has_attr :: "pyval \<Rightarrow> string \<Rightarrow> bool" where
  "has_attr v name \<longleftrightarrow> (case v of PDict d \<Rightarrow> map_of d name \<noteq> None | _ \<Rightarrow> False)"

definition status_target :: "fw_object \<Rightarrow> bool" where
  "status_target obj \<longleftrightarrow> has_attr (fw_attrs obj) ''status'' \<or> has_attr (fw_get obj ''ipset'') ''status''"

definition save_status_for_firewall_object :: "fw_object \<Rightarrow> string \<Rightarrow> fw_event list" where
  "save_status_for_firewall_object obj status = (if status_target obj then [Fw_status status] else [])"

definition payload_value :: "pyval option \<Rightarrow> string \<Rightarrow> pyval" where
  "payload_value body key =
     (case body of
        Some (PDict payload) \<Rightarrow>
          (case map_of payload key of
             Some v \<Rightarrow> v
           | None \<Rightarrow> (case dget payload ''detail'' of PDict detail \<Rightarrow> dget detail key | _ \<Rightarrow> PNone))
      | _ \<Rightarrow> PNone)"

text \<open>\<open>_firewall_operational_target\<close>; a refusal marks the object as failed.\<close>

definition firewall_operational_target ::
  "fw_env \<Rightarrow> fw_object \<Rightarrow> pyval \<Rightarrow> (fw_exc + operational_target) \<times> fw_event list" where
  "firewall_operational_target env obj user =
     (case require_consistent_firewall_endpoint obj of
        Inl e \<Rightarrow> (Inl e, save_status_for_firewall_object obj ''error'')
      | Inr endpoint \<Rightarrow>
          if \<not> endpoint_is_enabled endpoint
          then (Inl (push_error ''endpoint_disabled'' ''The linked Proxmox endpoint is disabled.'' 403),
                save_status_for_firewall_object obj ''error'')
          else if \<not> truthy (attr_value endpoint ''allow_writes'')
          then (Inl (push_error ''writes_disabled_for_endpoint''
                  ''Firewall writes are disabled on the linked Proxmox endpoint.'' 403),
                save_status_for_firewall_object obj ''error'')
          else (case resolve_operational_target (fv_target env) endpoint user of
                  (Inl e, evs) \<Rightarrow>
                    (Inl (push_error (te_reason e) (te_detail e) (te_status e)),
                     map Fw_resolve evs @ save_status_for_firewall_object obj ''error'')
                | (Inr target, evs) \<Rightarrow> (Inr target, map Fw_resolve evs)))"

definition backend_url :: "string \<Rightarrow> string \<Rightarrow> int \<Rightarrow> string" where
  "backend_url base path endpoint_id =
     rstrip_char (CHR ''/'') base @ path @ (if CHR ''?'' \<in> set path then ''&'' else ''?'')
     @ ''endpoint_id='' @ str_of_int endpoint_id"

text \<open>The end of \<open>_call_firewall_backend\<close>, from the built request on.\<close>

definition dispatch_firewall_request ::
  "fw_env \<Rightarrow> fw_object \<Rightarrow> operational_target \<Rightarrow> string \<Rightarrow> string \<Rightarrow> (string \<times> pyval) list \<Rightarrow> string
    \<Rightarrow> (fw_exc + fw_result) \<times> fw_event list" where
  "dispatch_firewall_request env obj target method path payload actor =
     (let req = \<lparr>fr_method = method, fr_url = backend_url (ot_url target) path (ot_backend_id target), fr_path = path,
                 fr_json = payload, fr_actor = actor\<rparr>;
          failed = Fw_sent req # save_status_for_firewall_object obj ''error''
      in case fv_http env req of
           Inl exc \<Rightarrow> (Inl (push_error ''backend_request_failed'' (translate_request_exception exc) 502), failed)
         | Inr (status, body, text) \<Rightarrow>
             if status \<ge> 400
             then (Inl (push_error (py_str (py_or (payload_value body ''reason'') (PStr ''proxmox_firewall_push_failed'')))
                     (py_str (py_or (payload_value body ''detail'') (PStr text))) status), failed)
             else
               let st = py_str (py_or (payload_value body ''status'') (PStr ''pushed''))
               in (Inr \<lparr>fs_status = st, fs_endpoint_id = ot_backend_id target, fs_path = path, fs_method = method,
                       fs_payload = payload,
                       fs_response = (case body of Some (PDict d) \<Rightarrow> Some (PDict d) | _ \<Rightarrow> None),
                       fs_reason = payload_value body ''reason'', fs_detail = payload_value body ''detail'',
                       fs_http_status = status\<rparr>,
                   Fw_sent req # save_status_for_firewall_object obj (if st = ''skipped'' then ''stale'' else ''active'')))"

text \<open>\<open>_call_firewall_backend\<close>; \<open>given\<close> is the target the caller already resolved.\<close>

definition call_firewall_backend ::
  "fw_env \<Rightarrow> fw_object \<Rightarrow> string \<Rightarrow> string \<Rightarrow> (string \<times> pyval) list \<Rightarrow> string \<Rightarrow> operational_target option
    \<Rightarrow> (fw_exc + fw_result) \<times> fw_event list" where
  "call_firewall_backend env obj method path payload actor given =
     (let actor_value = strip actor;
          failed = save_status_for_firewall_object obj ''error''
      in if actor_value = []
         then (Inl (push_error ''actor_required'' ''Firewall pushes require an authenticated actor.'' 422), [])
         else (case require_consistent_firewall_endpoint obj of
           Inl e \<Rightarrow> (Inl e, failed)
         | Inr endpoint \<Rightarrow>
             if \<not> endpoint_is_enabled endpoint
             then (Inl (push_error ''endpoint_disabled'' ''The linked Proxmox endpoint is disabled.'' 403), failed)
             else (case (case given of
                           None \<Rightarrow> firewall_operational_target env obj PNone
                         | Some target \<Rightarrow>
                             if attr_value (ot_endpoint target) ''pk'' \<noteq> attr_value endpoint ''pk''
                             then (Inl (push_error ''endpoint_mismatch''
                                     ''The authorized endpoint does not own this firewall object.'' 403), failed)
                             else (Inr target, [])) of
                     (Inl e, evs) \<Rightarrow> (Inl e, evs)
                   | (Inr target, evs) \<Rightarrow>
                       if \<not> truthy (attr_value (ot_endpoint target) ''allow_writes'')
                       then (Inl (push_error ''writes_disabled_for_endpoint''
                               ''Firewall writes are disabled on the linked Proxmox endpoint.'' 403), evs @ failed)
                       else map_prod id (\<lambda>new. evs @ new)
                              (dispatch_firewall_request env obj target method path payload actor_value))))"

section \<open>Pushing each kind of object\<close>

definition rule_payload :: "fw_object \<Rightarrow> (string \<times> pyval) list" where
  "rule_payload rule =
     drop_empty (map (\<lambda>(key, field). (key, fw_get rule field))
       [(''pos'', ''pos''), (''type'', ''rule_type''), (''action'', ''action''), (''enable'', ''enable''),
        (''macro'', ''macro''), (''iface'', ''iface''), (''source'', ''source''), (''dest'', ''dest''),
        (''proto'', ''proto''), (''dport'', ''dport''), (''sport'', ''sport''), (''log'', ''log''),
        (''icmp-type'', ''icmp_type''), (''comment'', ''comment''), (''digest'', ''digest'')])"

definition named_payload :: "fw_object \<Rightarrow> string list \<Rightarrow> (string \<times> pyval) list" where
  "named_payload obj keys = drop_empty (map (\<lambda>k. (k, fw_get obj k)) keys)"

text \<open>Method, path and payload of \<open>push_security_group\<close>, \<open>push_rule\<close>, \<open>push_ipset\<close>, \<open>push_ipset_entry\<close>,
  \<open>push_alias\<close> and \<open>push_options\<close>.\<close>

definition security_group_call :: "fw_object \<Rightarrow> fw_exc + string \<times> string \<times> (string \<times> pyval) list" where
  "security_group_call grp =
     Inr (''post'', ''/proxmox/firewall/datacenter/groups'',
          drop_empty [(''group'', fw_get grp ''name''), (''comment'', fw_get grp ''comment'')])"

definition rule_call :: "fw_object \<Rightarrow> fw_exc + string \<times> string \<times> (string \<times> pyval) list" where
  "rule_call rule = ebind (rule_push_target rule) (\<lambda>(method, path). Inr (method, path, rule_payload rule))"

definition ipset_call :: "fw_object \<Rightarrow> fw_exc + string \<times> string \<times> (string \<times> pyval) list" where
  "ipset_call ipset =
     ebind (scoped_collection_path (fw_attrs ipset) ''ipsets'') (\<lambda>path.
       Inr (''post'', path, named_payload ipset [''name'', ''comment'']))"

definition ipset_entry_call :: "fw_object \<Rightarrow> fw_exc + string \<times> string \<times> (string \<times> pyval) list" where
  "ipset_entry_call entry =
     ebind (ipset_entry_path entry) (\<lambda>path.
       let payload = named_payload entry [''cidr'', ''comment'', ''nomatch''] in
       if \<not> has_remote_marker entry then Inr (''post'', path, payload)
       else ebind (ipset_entry_segment (fw_get entry ''cidr'')) (\<lambda>seg. Inr (''put'', path @ ''/'' @ seg, payload)))"

definition alias_call :: "fw_object \<Rightarrow> fw_exc + string \<times> string \<times> (string \<times> pyval) list" where
  "alias_call alias =
     ebind (scoped_collection_path (fw_attrs alias) ''aliases'') (\<lambda>collection.
       let payload = named_payload alias [''name'', ''cidr'', ''comment''] in
       if \<not> has_remote_marker alias then Inr (''post'', collection, payload)
       else ebind (path_segment (PStr (py_str (fw_get alias ''name'')))) (\<lambda>seg.
         Inr (''put'', path_add_segments collection [seg], payload)))"

definition options_call :: "fw_object \<Rightarrow> fw_exc + string \<times> string \<times> (string \<times> pyval) list" where
  "options_call opts =
     ebind (options_path opts) (\<lambda>path.
       Inr (''put'', path,
            drop_empty [(''enable'', fw_get opts ''enable''), (''policy_in'', fw_get opts ''policy_in''),
              (''policy_out'', fw_get opts ''policy_out''),
              (''options'', (case fw_get opts ''options'' of PDict d \<Rightarrow> PDict d | _ \<Rightarrow> PDict []))]))"

definition object_call :: "fw_object \<Rightarrow> fw_exc + string \<times> string \<times> (string \<times> pyval) list" where
  "object_call obj =
     (case fw_kind obj of
        Security_group \<Rightarrow> security_group_call obj
      | Rule \<Rightarrow> rule_call obj
      | IPSet \<Rightarrow> ipset_call obj
      | IPSet_entry \<Rightarrow> ipset_entry_call obj
      | Alias \<Rightarrow> alias_call obj
      | Options \<Rightarrow> options_call obj
      | Other_object cls \<Rightarrow> Inl (push_error ''unsupported_firewall_object''
          (cls @ '' cannot be pushed to Proxmox firewall endpoints.'') 400))"

definition push_object :: "fw_env \<Rightarrow> fw_object \<Rightarrow> string \<Rightarrow> operational_target option
    \<Rightarrow> (fw_exc + fw_result) \<times> fw_event list" where
  "push_object env obj actor given =
     (case object_call obj of
        Inl e \<Rightarrow> (Inl e, [])
      | Inr (method, path, payload) \<Rightarrow> call_firewall_backend env obj method path payload actor given)"

definition push_firewall_object ::
  "fw_env \<Rightarrow> fw_object \<Rightarrow> string \<Rightarrow> pyval \<Rightarrow> (fw_exc + fw_result) \<times> fw_event list" where
  "push_firewall_object env obj actor user =
     (case fw_kind obj of
        Other_object cls \<Rightarrow> (Inl (push_error ''unsupported_firewall_object''
          (cls @ '' cannot be pushed to Proxmox firewall endpoints.'') 400), [])
      | _ \<Rightarrow>
          if strip actor = []
          then (Inl (push_error ''actor_required'' ''Firewall pushes require an authenticated actor.'' 422), [])
          else (case firewall_operational_target env obj user of
                  (Inl e, evs) \<Rightarrow> (Inl e, evs)
                | (Inr target, evs) \<Rightarrow> map_prod id (\<lambda>new. evs @ new) (push_object env obj actor (Some target))))"

section \<open>Helpers with an explicit scope\<close>

definition validate_endpoint_scope :: "fw_object \<Rightarrow> pyval \<Rightarrow> fw_exc + unit" where
  "validate_endpoint_scope obj endpoint =
     (if object_pk (resolve_firewall_endpoint obj) \<noteq> object_pk endpoint
      then Inl (push_error ''firewall_scope_mismatch''
             ''Firewall object endpoint does not match the requested Proxmox endpoint.'' 400)
      else Inr ())"

definition validate_vm_firewall_scope ::
  "fw_object \<Rightarrow> pyval \<Rightarrow> int \<Rightarrow> string \<Rightarrow> string \<Rightarrow> fw_exc + unit" where
  "validate_vm_firewall_scope obj endpoint vmid node vm_type =
     (let expected_scope = (if vm_type = ''lxc'' then ''vm_lxc'' else ''vm_qemu'');
          actual_scope = firewall_scope_for_object obj
      in if actual_scope \<noteq> PStr expected_scope
         then Inl (push_error ''firewall_scope_mismatch''
                (''Expected '' @ expected_scope @ '' firewall object, got ''
                 @ (if truthy actual_scope then py_str actual_scope else ''unknown'') @ ''.'') 400)
         else
           ebind (validate_endpoint_scope obj endpoint) (\<lambda>_.
           ebind (vm_context (virtual_machine_for_scope obj) (PStr expected_scope)) (\<lambda>(actual_vmid, actual_node, actual_type).
             if actual_vmid \<noteq> str_of_int vmid \<or> actual_node \<noteq> node \<or> actual_type \<noteq> vm_type
             then Inl (push_error ''firewall_scope_mismatch''
                    (''Firewall object VM scope does not match the requested '' @ vm_type @ ''/'' @ str_of_int vmid
                     @ '' on node '' @ node @ ''.'') 400)
             else Inr ())))"

definition validate_vnet_firewall_scope :: "fw_object \<Rightarrow> pyval \<Rightarrow> string \<Rightarrow> fw_exc + unit" where
  "validate_vnet_firewall_scope rule endpoint vnet =
     (let zone = fw_get rule ''zone'';
          actual_vnet = strip (text_or_empty (fw_get rule ''iface''))
      in if zone \<noteq> PStr ''vnet''
         then Inl (push_error ''firewall_scope_mismatch''
                (''Expected vnet firewall rule, got '' @ (if truthy zone then py_str zone else ''unknown'') @ ''.'') 400)
         else ebind (validate_endpoint_scope rule endpoint) (\<lambda>_.
           if actual_vnet \<noteq> vnet
           then Inl (push_error ''firewall_scope_mismatch''
                  (''Firewall rule VNet '' @ (if actual_vnet \<noteq> [] then actual_vnet else ''unknown'')
                   @ '' does not match '' @ vnet @ ''.'') 400)
           else Inr ()))"

fun all_valid :: "('a \<Rightarrow> 'e + unit) \<Rightarrow> 'a list \<Rightarrow> 'e + unit" where
  "all_valid f [] = Inr ()"
| "all_valid f (x # xs) = ebind (f x) (\<lambda>_. all_valid f xs)"

fun push_each :: "fw_env \<Rightarrow> string \<Rightarrow> fw_object list \<Rightarrow> (fw_exc + fw_result list) \<times> fw_event list" where
  "push_each env actor [] = (Inr [], [])"
| "push_each env actor (obj # rest) =
     (case push_object env obj actor None of
        (Inl e, evs) \<Rightarrow> (Inl e, evs)
      | (Inr r, evs) \<Rightarrow>
          (case push_each env actor rest of
             (Inl e, evs') \<Rightarrow> (Inl e, evs @ evs')
           | (Inr rs, evs') \<Rightarrow> (Inr (r # rs), evs @ evs')))"

text \<open>\<open>push_vm_rules\<close>, \<open>push_vm_ipsets\<close>, \<open>push_vm_ipset_entries\<close>, \<open>push_vm_aliases\<close>, \<open>push_vm_options\<close> and
  their \<open>push_ct_\<close> twins of \<open>firewall_vm_qemu.py\<close> and \<open>firewall_vm_lxc.py\<close>: every object is validated
  before the first one is pushed.\<close>

definition push_vm_objects ::
  "fw_env \<Rightarrow> pyval \<Rightarrow> int \<Rightarrow> string \<Rightarrow> string \<Rightarrow> fw_object list \<Rightarrow> string \<Rightarrow> (fw_exc + fw_result list) \<times> fw_event list" where
  "push_vm_objects env endpoint vmid node vm_type objs actor =
     (case all_valid (\<lambda>obj. validate_vm_firewall_scope obj endpoint vmid node vm_type) objs of
        Inl e \<Rightarrow> (Inl e, [])
      | Inr _ \<Rightarrow> push_each env actor objs)"

definition push_vnet_rules ::
  "fw_env \<Rightarrow> pyval \<Rightarrow> string \<Rightarrow> fw_object list \<Rightarrow> string \<Rightarrow> (fw_exc + fw_result list) \<times> fw_event list" where
  "push_vnet_rules env endpoint vnet rules actor =
     (case all_valid (\<lambda>rule. validate_vnet_firewall_scope rule endpoint vnet) rules of
        Inl e \<Rightarrow> (Inl e, [])
      | Inr _ \<Rightarrow> push_each env actor rules)"

section \<open>Who is written to\<close>

lemma status_not_sent: "Fw_sent req \<notin> set (save_status_for_firewall_object obj st)"
  by (simp add: save_status_for_firewall_object_def)

lemma dispatch_sends:
  "Fw_sent req \<in> set (snd (dispatch_firewall_request env obj target method path payload actor)) \<longleftrightarrow>
     req = \<lparr>fr_method = method, fr_url = backend_url (ot_url target) path (ot_backend_id target), fr_path = path,
            fr_json = payload, fr_actor = actor\<rparr>"
  by (auto simp: dispatch_firewall_request_def Let_def status_not_sent split: sum.splits prod.splits)

lemma target_events:
  assumes "firewall_operational_target env obj user = (r, evs)"
  shows "Fw_sent req \<notin> set evs"
  using assms
  by (auto simp: firewall_operational_target_def status_not_sent split: sum.splits prod.splits if_splits)

lemma target_Inr:
  assumes "firewall_operational_target env obj user = (Inr target, evs)"
  obtains endpoint revs where "require_consistent_firewall_endpoint obj = Inr endpoint"
    and "endpoint_is_enabled endpoint" and "truthy (attr_value endpoint ''allow_writes'')"
    and "resolve_operational_target (fv_target env) endpoint user = (Inr target, revs)"
  using assms
  by (auto simp: firewall_operational_target_def split: sum.splits prod.splits if_splits)

lemma call_sends:
  assumes "Fw_sent req \<in> set (snd (call_firewall_backend env obj method path payload actor given))"
  obtains endpoint target evs where "strip actor \<noteq> []"
    and "require_consistent_firewall_endpoint obj = Inr endpoint" and "endpoint_is_enabled endpoint"
    and "case given of None \<Rightarrow> firewall_operational_target env obj PNone = (Inr target, evs)
         | Some t \<Rightarrow> target = t \<and> attr_value (ot_endpoint t) ''pk'' = attr_value endpoint ''pk''"
    and "truthy (attr_value (ot_endpoint target) ''allow_writes'')"
    and "req = \<lparr>fr_method = method, fr_url = backend_url (ot_url target) path (ot_backend_id target), fr_path = path,
            fr_json = payload, fr_actor = strip actor\<rparr>"
proof -
  obtain endpoint where e: "require_consistent_firewall_endpoint obj = Inr endpoint" "endpoint_is_enabled endpoint"
    "strip actor \<noteq> []"
    using assms by (auto simp: call_firewall_backend_def Let_def status_not_sent split: sum.splits if_splits)
  show ?thesis
  proof (cases given)
    case None
    obtain r evs where t: "firewall_operational_target env obj PNone = (r, evs)" by fastforce
    show ?thesis
      using assms e None t target_events[OF t] that[of endpoint]
      by (auto simp: call_firewall_backend_def Let_def status_not_sent dispatch_sends split: sum.splits if_splits)
  next
    case (Some target)
    show ?thesis
      using assms e Some that[of endpoint target]
      by (auto simp: call_firewall_backend_def Let_def status_not_sent dispatch_sends split: sum.splits if_splits)
  qed
qed

lemma push_object_sends:
  assumes "Fw_sent req \<in> set (snd (push_object env obj actor given))"
  obtains meth path payload where "object_call obj = Inr (meth, path, payload)"
    and "Fw_sent req \<in> set (snd (call_firewall_backend env obj meth path payload actor given))"
  using assms by (auto simp: push_object_def split: sum.splits)

lemma push_firewall_sends:
  assumes "Fw_sent req \<in> set (snd (push_firewall_object env obj actor user))"
  obtains target evs where "firewall_operational_target env obj user = (Inr target, evs)"
    and "Fw_sent req \<in> set (snd (push_object env obj actor (Some target)))"
proof -
  obtain r evs where t: "firewall_operational_target env obj user = (r, evs)" by fastforce
  show ?thesis
    using assms t target_events[OF t] that
    by (auto simp: push_firewall_object_def split: sum.splits if_splits fw_kind.splits)
qed


section \<open>What the route looks like\<close>

text \<open>A path below the firewall routes whose segments URL normalisation cannot move, and a query.\<close>

definition route :: "string list \<Rightarrow> string" where
  "route segs = concat (map (\<lambda>s. ''/'' @ s) segs)"

definition firewall_route :: "string \<Rightarrow> bool" where
  "firewall_route path \<longleftrightarrow>
     (\<exists>segs query. path = route (''proxmox'' # ''firewall'' # segs) @ query \<and> list_all inert_segment segs
        \<and> (query = [] \<or> hd query = CHR ''?''))"

lemma ebind_Inr: "ebind x f = Inr y \<longleftrightarrow> (\<exists>a. x = Inr a \<and> f a = Inr y)"
  by (cases x) (simp_all add: ebind_def)

lemma path_segment_inert: "path_segment v = Inr s \<Longrightarrow> inert_segment s"
  by (auto simp: path_segment_def split: sum.splits dest: safe_path_segment_inert)

lemma digits_inert: "s \<noteq> [] \<Longrightarrow> list_all is_digit s \<Longrightarrow> inert_segment s"
  by (cases s) (auto simp: inert_segment_def is_digit_def list_all_iff)

lemma firewall_routeI:
  "list_all inert_segment segs \<Longrightarrow> query = [] \<or> hd query = CHR ''?'' \<Longrightarrow>
     path = route (''proxmox'' # ''firewall'' # segs) @ query \<Longrightarrow> firewall_route path"
  unfolding firewall_route_def by blast

lemma route_simps [simp]: "route [] = []" "route (x # xs) = ''/'' @ x @ route xs" "route (xs @ ys) = route xs @ route ys"
  by (simp_all add: route_def)

lemma literal_segments [simp]:
  "inert_segment ''datacenter''" "inert_segment ''groups''" "inert_segment ''nodes''" "inert_segment ''vms''"
  "inert_segment ''vnets''" "inert_segment ''rules''" "inert_segment ''options''" "inert_segment ''ipsets''"
  "inert_segment ''aliases''" "inert_segment ''entries''" "inert_segment ''proxmox''" "inert_segment ''firewall''"
  by code_simp+

lemma str_of_nat_inert: "inert_segment (str_of_nat n)"
proof -
  have "str_of_nat n \<noteq> []" by (subst str_of_nat.simps) simp
  then show ?thesis using str_of_nat_digits digits_inert by blast
qed

lemma str_of_int_inert: "inert_segment (str_of_int i)"
  using str_of_nat_inert[of "nat i"] str_of_nat_inert[of "nat (- i)"]
  by (auto simp: str_of_int_def inert_segment_def)

lemma inert_no_slash: "inert_segment s \<Longrightarrow> CHR ''/'' \<notin> set s \<and> CHR ''?'' \<notin> set s \<and> s \<noteq> []"
  by (auto simp: inert_segment_def list_all_iff)

lemma quote_dots: "quote s = t \<Longrightarrow> t \<in> {[], ''.'', ''..''} \<Longrightarrow> s = t"
proof -
  assume q: "quote s = t" and t: "t \<in> {[], ''.'', ''..''}"
  have "CHR ''%'' \<notin> set t" using t by auto
  then have "list_all unreserved s"
    using percent_in_quote[of _ s] q by (auto simp: list_all_iff)
  then show "s = t" using quote_unreserved q by simp
qed

lemma ipset_entry_segment_inert: "ipset_entry_segment v = Inr s \<Longrightarrow> inert_segment s"
proof -
  assume s: "ipset_entry_segment v = Inr s"
  show "inert_segment s"
  proof (cases "ip_network_ok (stripped_text v)")
    case True
    then have q: "s = quote (stripped_text v)"
      using s by (simp add: ipset_entry_segment_def Let_def)
    have "s \<notin> {[], ''.'', ''..''}"
      using quote_dots[OF q[symmetric]] True ip_network_not_dots by auto
    then show ?thesis
      using quote_no_slash[of "stripped_text v"] q by (auto simp: inert_segment_def list_all_iff)
  next
    case False
    then show ?thesis
      using s by (simp add: ipset_entry_segment_def Let_def path_segment_inert)
  qed
qed

lemma vm_context_inert: "vm_context vm zone = Inr (vmid, node, vm_type) \<Longrightarrow> inert_segment vmid"
  using str_of_nat_inert safe_vmid_range
  by (fastforce simp: vm_context_def Let_def split: option.splits if_splits sum.splits)

lemma vm_query_hd: "hd (vm_query node vm_type) = CHR ''?''" "vm_query node vm_type \<noteq> []"
  by (simp_all add: vm_query_def)

lemma rule_suffix_route: "rule_suffix rule = Inr tail \<Longrightarrow> \<exists>ts. tail = route ts \<and> list_all inert_segment ts"
  by (auto simp: rule_suffix_def str_of_int_inert split: if_splits option.splits
    intro: exI[of _ "[]"] exI[of _ "[str_of_int _]"])

lemma routes:
  "list_all inert_segment segs \<Longrightarrow> firewall_route (''/proxmox/firewall'' @ route segs)"
  "list_all inert_segment segs \<Longrightarrow> hd q = CHR ''?'' \<Longrightarrow> firewall_route (''/proxmox/firewall'' @ route segs @ q)"
  by (auto intro: firewall_routeI[of segs "[]"] firewall_routeI[of segs q])

lemma rule_path_route:
  assumes "rule_path rule (route ts) = Inr path" and "list_all inert_segment ts"
  shows "firewall_route path"
  using assms(1) unfolding rule_path_def Let_def VM_ROUTE_def
  using routes(1)[of "[''datacenter'', ''rules''] @ ts"] routes(1)[of "[''nodes'', _, ''rules''] @ ts"]
    routes(1)[of "[''datacenter'', ''groups'', _, ''rules''] @ ts"] routes(1)[of "[''vnets'', _, ''rules''] @ ts"]
    routes(2)[of "[''vms'', _, ''rules''] @ ts" "vm_query _ _"] assms(2)
  by (auto simp: ebind_Inr vm_query_hd split: if_splits prod.splits dest: path_segment_inert vm_context_inert)

lemma scoped_collection_route:
  assumes "scoped_collection_path attrs noun = Inr path" and "inert_segment noun"
  shows "\<exists>segs q. path = route (''proxmox'' # ''firewall'' # segs) @ q \<and> list_all inert_segment segs
     \<and> (q = [] \<or> hd q = CHR ''?'')"
proof -
  consider "path = ''/proxmox/firewall/datacenter/'' @ noun"
    | vmid node vm_type where "inert_segment vmid" "path = VM_ROUTE @ vmid @ ''/'' @ noun @ vm_query node vm_type"
    using assms(1) by (auto simp: scoped_collection_path_def Let_def ebind_Inr split: if_splits dest: vm_context_inert)
  then show ?thesis
  proof cases
    case 1
    then show ?thesis using assms(2) by (intro exI[of _ "[''datacenter'', noun]"] exI[of _ "[]"]) simp
  next
    case (2 vmid node vm_type)
    then show ?thesis
      using assms(2) by (intro exI[of _ "[''vms'', vmid, noun]"] exI[of _ "vm_query node vm_type"])
        (simp add: VM_ROUTE_def vm_query_hd)
  qed
qed

lemma route_no_query: "list_all inert_segment segs \<Longrightarrow> CHR ''?'' \<notin> set (route segs)"
  by (induction segs) (auto dest: inert_no_slash)

lemma route_last: "list_all inert_segment segs \<Longrightarrow> segs \<noteq> [] \<Longrightarrow> route segs \<noteq> [] \<and> last (route segs) \<noteq> CHR ''/''"
proof (induction segs rule: rev_induct)
  case (snoc s segs)
  then have "s \<noteq> []" "last s \<noteq> CHR ''/''"
    using inert_no_slash[of s] by (auto dest: last_in_set)
  then show ?case by simp
qed simp

lemma rstrip_char_id: "s = [] \<or> last s \<noteq> c \<Longrightarrow> rstrip_char c s = s"
  by (cases s rule: rev_cases) (auto simp: rstrip_char_def)

lemma strip_slashes_inert: "inert_segment s \<Longrightarrow> strip_slashes s = s"
proof -
  assume s: "inert_segment s"
  then have "dropWhile (\<lambda>c. c = CHR ''/'') s = s"
    using inert_no_slash[OF s] by (cases s) auto
  moreover have "last s \<noteq> CHR ''/''"
    using inert_no_slash[OF s] by (auto dest: last_in_set)
  ultimately show ?thesis by (simp add: strip_slashes_def rstrip_char_id)
qed

lemma join_route: "str_join ''/'' (x # segs) = x @ route segs"
  by (induction segs arbitrary: x) auto

lemma partition_query:
  assumes "CHR ''?'' \<notin> set p" and "q = [] \<or> hd q = CHR ''?''"
  shows "partition_char (CHR ''?'') (p @ q) = (p, drop 1 q)"
proof -
  have tw: "takeWhile (\<lambda>c. c \<noteq> CHR ''?'') p = p" "dropWhile (\<lambda>c. c \<noteq> CHR ''?'') p = []"
    and all: "\<forall>c \<in> set p. c \<noteq> CHR ''?''"
    using assms(1) by (auto simp: takeWhile_eq_all_conv dropWhile_eq_Nil_conv)
  show ?thesis
    using assms(2) all by (cases q) (simp_all add: partition_char_def takeWhile_append dropWhile_append tw)
qed

lemma path_add_route:
  assumes "list_all inert_segment segs" and "segs \<noteq> []" and "list_all inert_segment new"
    and q: "q = [] \<or> hd q = CHR ''?''"
  shows "path_add_segments (route segs @ q) new = route (segs @ new) @ q"
proof -
  have p: "partition_char (CHR ''?'') (route segs @ q) = (route segs, drop 1 q)"
    by (rule partition_query[OF route_no_query[OF assms(1)] q])
  have "map strip_slashes new = new"
    using assms(3) by (simp add: list_all_iff strip_slashes_inert map_idI)
  then have "str_join ''/'' (rstrip_char (CHR ''/'') (route segs) # map strip_slashes new) = route (segs @ new)"
    using route_last[OF assms(1,2)] by (simp add: rstrip_char_id join_route)
  moreover have "CHR ''?'' \<in> set (route segs @ q) \<longleftrightarrow> q \<noteq> []"
    using q route_no_query[OF assms(1)] by (cases q) auto
  ultimately show ?thesis
    using q unfolding path_add_segments_def p by (cases q) (simp_all add: Let_def)
qed

lemma ipset_entry_path_route:
  assumes "ipset_entry_path entry = Inr path"
  obtains segs q where "path = route (''proxmox'' # ''firewall'' # segs) @ q" "list_all inert_segment segs"
    "q = [] \<or> hd q = CHR ''?''"
proof -
  obtain coll seg where c: "scoped_collection_path (fw_get entry ''ipset'') ''ipsets'' = Inr coll"
    and s: "inert_segment seg" and path: "path = path_add_segments coll [seg, ''entries'']"
    using assms by (auto simp: ipset_entry_path_def ebind_Inr Let_def dest: path_segment_inert)
  obtain segs q where r: "coll = route (''proxmox'' # ''firewall'' # segs) @ q" "list_all inert_segment segs"
    "q = [] \<or> hd q = CHR ''?''"
    using scoped_collection_route[OF c] by auto
  show ?thesis
    using path_add_route[of "''proxmox'' # ''firewall'' # segs" "[seg, ''entries'']" q] r s path
    by (intro that[of "segs @ [seg, ''entries'']" q]) auto
qed

lemma ipset_entry_call_route:
  assumes "ipset_entry_call entry = Inr (method, path, payload)"
  shows "firewall_route path"
proof -
  obtain p where p: "ipset_entry_path entry = Inr p"
    and cases: "path = p \<or> (\<exists>seg. inert_segment seg \<and> path = p @ ''/'' @ seg)"
    using assms by (auto simp: ipset_entry_call_def ebind_Inr Let_def split: if_splits dest: ipset_entry_segment_inert)
  obtain segs q where r: "p = route (''proxmox'' # ''firewall'' # segs) @ q" "list_all inert_segment segs"
    "q = [] \<or> hd q = CHR ''?''"
    using ipset_entry_path_route[OF p] by blast
  show ?thesis
    using cases
  proof
    assume "path = p" then show ?thesis using r by (blast intro: firewall_routeI)
  next
    assume "\<exists>seg. inert_segment seg \<and> path = p @ ''/'' @ seg"
    then obtain seg where seg: "inert_segment seg" "path = p @ ''/'' @ seg" by blast
    show ?thesis
    proof (cases "q = []")
      case True
      then show ?thesis using r seg by (intro firewall_routeI[of "segs @ [seg]" "[]"]) simp_all
    next
      case False
      then show ?thesis using r seg by (intro firewall_routeI[of segs "q @ ''/'' @ seg"]) simp_all
    qed
  qed
qed

lemma alias_call_route:
  assumes "alias_call alias = Inr (method, path, payload)"
  shows "firewall_route path"
proof -
  obtain coll where c: "scoped_collection_path (fw_attrs alias) ''aliases'' = Inr coll"
    and cases: "path = coll \<or> (\<exists>seg. inert_segment seg \<and> path = path_add_segments coll [seg])"
    using assms by (auto simp: alias_call_def ebind_Inr Let_def split: if_splits dest: path_segment_inert)
  obtain segs q where r: "coll = route (''proxmox'' # ''firewall'' # segs) @ q" "list_all inert_segment segs"
    "q = [] \<or> hd q = CHR ''?''"
    using scoped_collection_route[OF c] by auto
  show ?thesis
    using cases path_add_route[of "''proxmox'' # ''firewall'' # segs" "[_]" q] r
      firewall_routeI[of segs q] firewall_routeI[of "segs @ [_]" q] by auto
qed

lemma options_path_route: "options_path opts = Inr path \<Longrightarrow> firewall_route path"
  using routes(1)[of "[''datacenter'', ''options'']"] routes(1)[of "[''nodes'', _, ''options'']"]
    routes(2)[of "[''vms'', _, ''options'']" "vm_query _ _"]
  by (auto simp: options_path_def Let_def VM_ROUTE_def ebind_Inr vm_query_hd split: if_splits
    dest: path_segment_inert vm_context_inert)

text \<open>No editable name can move a firewall write to another route: the path of every object that has
  one starts with the firewall prefix and continues with path segments that are not empty, are not
  dot segments and hold no separator, whatever texts the names, nodes, VNets, IP-set entries and
  identifiers contain.\<close>

theorem firewall_paths_are_inert:
  assumes "object_call obj = Inr (method, path, payload)"
  shows "\<exists>segs query. path = ''/proxmox/firewall'' @ concat (map (\<lambda>s. ''/'' @ s) segs) @ query
    \<and> list_all inert_segment segs \<and> (query = [] \<or> hd query = CHR ''?'')"
proof -
  have "firewall_route path"
  proof (cases "fw_kind obj")
    case Security_group
    then show ?thesis using assms routes(1)[of "[''datacenter'', ''groups'']"]
      by (simp add: object_call_def security_group_call_def)
  next
    case Rule
    then obtain tail where "rule_suffix obj = Inr tail" "rule_path obj tail = Inr path"
      using assms by (auto simp: object_call_def rule_call_def rule_push_target_def ebind_Inr)
    then show ?thesis using rule_suffix_route rule_path_route by blast
  next
    case IPSet
    then have "scoped_collection_path (fw_attrs obj) ''ipsets'' = Inr path"
      using assms by (auto simp: object_call_def ipset_call_def ebind_Inr)
    then show ?thesis
      unfolding firewall_route_def by (rule scoped_collection_route) simp
  next
    case Options
    then show ?thesis
      using assms options_path_route by (auto simp: object_call_def options_call_def ebind_Inr)
  qed (use assms ipset_entry_call_route alias_call_route in \<open>auto simp: object_call_def\<close>)
  then obtain segs q where "path = route (''proxmox'' # ''firewall'' # segs) @ q" "list_all inert_segment segs"
    "q = [] \<or> hd q = CHR ''?''"
    unfolding firewall_route_def by blast
  then show ?thesis
    by (intro exI[of _ segs] exI[of _ q]) (simp add: route_def)
qed

definition demo_entry :: fw_object where
  "demo_entry = \<lparr>fw_kind = IPSet_entry, fw_attrs = PDict [
     (''ipset'', PDict [(''name'', PStr ''web''), (''scope'', PStr ''vm_lxc''),
        (''endpoint'', PDict [(''pk'', PInt 3), (''enabled'', PBool True)]), (''virtual_machine'', demo_vm)]),
     (''cidr'', PStr ''10.0.0.0/8''), (''nomatch'', PBool False), (''raw_config'', PDict [(''cidr'', PStr ''10.0.0.0/8'')])]\<rparr>"

lemma demo_entry_call:
  "object_call demo_entry = Inr (''put'', ''/proxmox/firewall/vms/101/ipsets/web/entries?node=n1&vm_type=lxc/10.0.0.0%2F8'',
     [(''cidr'', PStr ''10.0.0.0/8''), (''nomatch'', PBool False)])"
  by code_simp

theorem firewall_paths_are_inert_witness:
  "\<exists>segs query. ''/proxmox/firewall/vms/101/ipsets/web/entries?node=n1&vm_type=lxc/10.0.0.0%2F8''
     = ''/proxmox/firewall'' @ concat (map (\<lambda>s. ''/'' @ s) segs) @ query
    \<and> list_all inert_segment segs \<and> (query = [] \<or> hd query = CHR ''?'')"
  by (rule firewall_paths_are_inert[OF demo_entry_call])

text \<open>C31. The update of an entry of a VM-scoped IP set does not address the entry: the key is appended
  behind the query string, so the path part of the PUT is the path of the collection, and the key ends
  up in the value of \<open>vm_type\<close>. (For a datacenter set, which has no query, the key is a path segment.)\<close>

theorem vm_ipset_entry_update_misses_entry:
  assumes "fw_kind obj = IPSet_entry" and "has_remote_marker obj"
    and "attr_value (fw_get obj ''ipset'') ''scope'' \<in> {PStr ''vm_qemu'', PStr ''vm_lxc''}"
    and "object_call obj = Inr (method, path, payload)"
  shows "method = ''put'' \<and> (\<exists>collection key. ipset_entry_path obj = Inr collection
    \<and> ipset_entry_segment (fw_get obj ''cidr'') = Inr key \<and> path = collection @ ''/'' @ key
    \<and> takeWhile (\<lambda>c. c \<noteq> CHR ''?'') path = takeWhile (\<lambda>c. c \<noteq> CHR ''?'') collection)"
proof -
  obtain collection key where c: "ipset_entry_path obj = Inr collection"
    "ipset_entry_segment (fw_get obj ''cidr'') = Inr key" "path = collection @ ''/'' @ key" "method = ''put''"
    using assms by (auto simp: object_call_def ipset_entry_call_def ebind_Inr Let_def)
  obtain base seg where b: "scoped_collection_path (fw_get obj ''ipset'') ''ipsets'' = Inr base"
    "collection = path_add_segments base [seg, ''entries'']"
    using c(1) by (auto simp: ipset_entry_path_def ebind_Inr Let_def)
  have "CHR ''?'' \<in> set base"
    using b(1) assms(3)
    by (auto simp: scoped_collection_path_def VM_SCOPES_def ebind_Inr Let_def vm_query_def)
  then have "CHR ''?'' \<in> set collection"
    by (cases "partition_char (CHR ''?'') base") (simp add: b(2) path_add_segments_def Let_def)
  then have "takeWhile (\<lambda>c. c \<noteq> CHR ''?'') path = takeWhile (\<lambda>c. c \<noteq> CHR ''?'') collection"
    using c(3) by (simp add: takeWhile_append1)
  then show ?thesis using c by blast
qed

theorem vm_ipset_entry_update_misses_entry_witness:
  "takeWhile (\<lambda>c. c \<noteq> CHR ''?'') ''/proxmox/firewall/vms/101/ipsets/web/entries?node=n1&vm_type=lxc/10.0.0.0%2F8''
     = ''/proxmox/firewall/vms/101/ipsets/web/entries''
   \<and> (\<exists>collection. ipset_entry_path demo_entry = Inr collection
      \<and> takeWhile (\<lambda>c. c \<noteq> CHR ''?'') collection = ''/proxmox/firewall/vms/101/ipsets/web/entries'')"
proof -
  have "fw_kind demo_entry = IPSet_entry" "has_remote_marker demo_entry"
    "attr_value (fw_get demo_entry ''ipset'') ''scope'' \<in> {PStr ''vm_qemu'', PStr ''vm_lxc''}"
    by code_simp+
  from vm_ipset_entry_update_misses_entry[OF this demo_entry_call] show ?thesis by auto
qed

definition demo_fw_endpoint :: pyval where
  "demo_fw_endpoint = PDict [(''pk'', PInt 4), (''name'', PStr ''lab''), (''domain'', PStr ''pve.example''),
     (''port'', PInt 8006), (''enabled'', PBool True), (''allow_writes'', PBool True)]"

definition demo_alias :: fw_object where
  "demo_alias = \<lparr>fw_kind = Alias, fw_attrs = PDict [(''name'', PStr ''lan''), (''cidr'', PStr ''10.0.0.0/8''),
     (''scope'', PStr ''datacenter''), (''endpoint'', demo_fw_endpoint), (''status'', PStr ''stale'')]\<rparr>"

definition demo_fw :: fw_env where
  "demo_fw = \<lparr>fv_target = \<lparr>tv_push = demo_listing, tv_legacy = (\<lambda>u. False), tv_all = (\<lambda>k. None),
       tv_restricted = (\<lambda>u k. Some demo_fw_endpoint), tv_context = Some ''u/''\<rparr>,
     fv_http = (\<lambda>r. Inr (200, None, []))\<rparr>"

definition demo_fw_request :: fw_request where
  "demo_fw_request = \<lparr>fr_method = ''post'', fr_url = ''u/proxmox/firewall/datacenter/aliases?endpoint_id=9'',
     fr_path = ''/proxmox/firewall/datacenter/aliases'',
     fr_json = [(''name'', PStr ''lan''), (''cidr'', PStr ''10.0.0.0/8'')], fr_actor = ''ops''\<rparr>"

lemma demo_fw_resolution:
  "resolve_backend_endpoint_id demo_listing demo_fw_endpoint ''u''
   = (Inr 9, [Sent \<lparr>rq_verb = ''GET'', rq_url = ''u/proxmox/endpoints'', rq_body = []\<rparr>])"
proof -
  define pl where "pl = (case proxmox_backend_payload demo_listing demo_fw_endpoint of Inr p \<Rightarrow> p | Inl e \<Rightarrow> [])"
  have "proxmox_backend_payload demo_listing demo_fw_endpoint = Inr pl"
    unfolding pl_def by code_simp
  moreover have "disabled_endpoint_detail demo_fw_endpoint ''Proxmox endpoint'' ''skipping'' = None"
    and "resolve_listed demo_listing demo_fw_endpoint ''u'' []
      = (Inr 9, [Sent \<lparr>rq_verb = ''GET'', rq_url = ''u/proxmox/endpoints'', rq_body = []\<rparr>])"
    by code_simp+
  ultimately show ?thesis
    by (simp add: resolve_backend_endpoint_id_def) (simp add: demo_listing_def demo_push_def)
qed

lemma demo_fw_sent: "Fw_sent demo_fw_request \<in> set (snd (push_firewall_object demo_fw demo_alias '' ops'' PNone))"
proof -
  define target where "target = \<lparr>ot_endpoint = demo_fw_endpoint, ot_backend_id = 9, ot_url = ''u/''\<rparr>"
  have facts: "require_consistent_firewall_endpoint demo_alias = Inr demo_fw_endpoint"
    "endpoint_is_enabled demo_fw_endpoint" "truthy (attr_value demo_fw_endpoint ''allow_writes'')"
    "strip '' ops'' = ''ops''" "rstrip_char (CHR ''/'') ''u/'' = ''u''"
    by code_simp+
  have "\<exists>evs. firewall_operational_target demo_fw demo_alias PNone = (Inr target, evs)"
    using facts demo_fw_resolution
    by (simp add: firewall_operational_target_def resolve_operational_target_def demo_fw_def target_def)
  then obtain evs where t: "firewall_operational_target demo_fw demo_alias PNone = (Inr target, evs)" by blast
  have "Fw_sent demo_fw_request \<in> set (snd (push_object demo_fw demo_alias '' ops'' (Some target)))"
    unfolding target_def by code_simp
  then show ?thesis
    using facts t by (simp add: push_firewall_object_def) (simp add: demo_alias_def)
qed


end
