(* ===== verification/Intent_Diff.thy ===== *)
theory Intent_Diff
  imports Vm_Identity
begin

text \<open>
  \<open>intent/diff_union.py\<close> and \<open>intent/diff_classify.py\<close>: the rows of a branch that change a virtual
  machine and the rows that change its intent are merged into one operation per virtual machine, and
  each operation is classified. A row is a dictionary of its attributes (\<open>object\<close> is None for a
  deleted object). \<open>get_vm\<close> and \<open>get_intent\<close> are the lookups by primary key.
\<close>

section \<open>One operation per virtual machine\<close>

record branch_diffs =
  vm_rows :: "pyval list"
  intent_rows :: "pyval list"
  get_vm :: "int \<Rightarrow> pyval option"
  get_intent :: "pyval \<Rightarrow> pyval option"

definition ACTIONS :: "string list" where
  "ACTIONS = [''create'', ''update'', ''delete'']"

definition row_action :: "pyval \<Rightarrow> string option" where
  "row_action row =
     (let v = str_lower (text_or_empty (attr_value row ''action'')) in if v \<in> set ACTIONS then Some v else None)"

text \<open>\<open>type(value) is int\<close>.\<close>

definition exact_int :: "pyval \<Rightarrow> int option" where
  "exact_int v = (case v of PInt i \<Rightarrow> Some i | _ \<Rightarrow> None)"

fun first_some :: "('a \<Rightarrow> 'b option) \<Rightarrow> 'a list \<Rightarrow> 'b option" where
  "first_some f [] = None"
| "first_some f (x # xs) = (case f x of Some y \<Rightarrow> Some y | None \<Rightarrow> first_some f xs)"

definition json_vm_id :: "pyval \<Rightarrow> int option" where
  "json_vm_id row =
     first_some (\<lambda>a. case attr_value row a of PDict d \<Rightarrow> exact_int (dget d ''virtual_machine'') | _ \<Rightarrow> None)
       [''original'', ''modified'', ''current'']"

definition intent_diff_virtual_machine_id :: "branch_diffs \<Rightarrow> pyval \<Rightarrow> int option" where
  "intent_diff_virtual_machine_id b row =
     (case exact_int (attr_value (attr_value row ''object'') ''virtual_machine_id'') of
        Some i \<Rightarrow> Some i
      | None \<Rightarrow>
          (case json_vm_id row of
             Some i \<Rightarrow> Some i
           | None \<Rightarrow>
               (let object_id = attr_value row ''object_id'' in
                if object_id = PNone then None
                else (case get_intent b object_id of
                        None \<Rightarrow> None
                      | Some intent \<Rightarrow> exact_int (attr_value intent ''virtual_machine_id'')))))"

definition lookup_vm :: "branch_diffs \<Rightarrow> pyval \<Rightarrow> pyval" where
  "lookup_vm b key = (case key of PInt i \<Rightarrow> (case get_vm b i of Some vm \<Rightarrow> vm | None \<Rightarrow> PNone) | _ \<Rightarrow> PNone)"

definition vm_for_vm_diff :: "branch_diffs \<Rightarrow> pyval \<Rightarrow> pyval" where
  "vm_for_vm_diff b row =
     (let vm = attr_value row ''object'' in if vm \<noteq> PNone then vm else lookup_vm b (attr_value row ''object_id''))"

definition virtual_machine_diff_id :: "pyval \<Rightarrow> pyval \<Rightarrow> int option" where
  "virtual_machine_diff_id vm row =
     (case exact_int (attr_value vm ''pk'') of Some i \<Rightarrow> Some i | None \<Rightarrow> exact_int (attr_value row ''object_id''))"

definition vm_for_intent_diff :: "branch_diffs \<Rightarrow> pyval \<Rightarrow> int \<Rightarrow> pyval" where
  "vm_for_intent_diff b row vm_id =
     (let vm = attr_value (attr_value row ''object'') ''virtual_machine''
      in if vm \<noteq> PNone then vm else lookup_vm b (PInt vm_id))"

definition nonempty_text :: "pyval \<Rightarrow> string option" where
  "nonempty_text v = (if none_or_empty v then None else Some (py_str v))"

definition virtual_machine_diff_name :: "pyval \<Rightarrow> pyval \<Rightarrow> string" where
  "virtual_machine_diff_name vm row =
     (case nonempty_text (attr_value vm ''name'') of
        Some s \<Rightarrow> s
      | None \<Rightarrow>
          (case first_some (\<lambda>a. case attr_value row a of PDict d \<Rightarrow> nonempty_text (dget d ''name'') | _ \<Rightarrow> None)
                  [''original'', ''current''] of
             Some s \<Rightarrow> s
           | None \<Rightarrow> (case nonempty_text (attr_value row ''object_repr'') of Some s \<Rightarrow> s | None \<Rightarrow> [])))"

datatype diff_key = Vm_key int | Deleted_diff nat

type_synonym diff_entry = "pyval \<times> string \<times> pyval"

definition core_key :: "branch_diffs \<Rightarrow> nat \<Rightarrow> pyval \<Rightarrow> diff_key option" where
  "core_key b i row =
     (case row_action row of
        None \<Rightarrow> None
      | Some op \<Rightarrow>
          (case virtual_machine_diff_id (vm_for_vm_diff b row) row of
             Some vm_id \<Rightarrow> Some (Vm_key vm_id)
           | None \<Rightarrow> if op = ''delete'' then Some (Deleted_diff i) else None))"

definition core_entry :: "branch_diffs \<Rightarrow> pyval \<Rightarrow> diff_entry" where
  "core_entry b row = (vm_for_vm_diff b row, (case row_action row of Some op \<Rightarrow> op | None \<Rightarrow> []), row)"

text \<open>The two loops over the insertion-ordered dictionary \<open>resolved\<close>.\<close>

fun core_loop :: "branch_diffs \<Rightarrow> nat \<Rightarrow> pyval list \<Rightarrow> (diff_key \<times> diff_entry) list \<Rightarrow> (diff_key \<times> diff_entry) list" where
  "core_loop b i [] resolved = resolved"
| "core_loop b i (row # rest) resolved =
     core_loop b (Suc i) rest
       (case core_key b i row of
          None \<Rightarrow> resolved
        | Some key \<Rightarrow> if map_of resolved key = None then resolved @ [(key, core_entry b row)] else resolved)"

fun intent_loop :: "branch_diffs \<Rightarrow> pyval list \<Rightarrow> (diff_key \<times> diff_entry) list \<Rightarrow> (diff_key \<times> diff_entry) list" where
  "intent_loop b [] resolved = resolved"
| "intent_loop b (row # rest) resolved =
     intent_loop b rest
       (if row_action row = None then resolved
        else (case intent_diff_virtual_machine_id b row of
                None \<Rightarrow> resolved
              | Some vm_id \<Rightarrow>
                  if map_of resolved (Vm_key vm_id) \<noteq> None then resolved
                  else
                    let vm = vm_for_intent_diff b row vm_id
                    in if vm = PNone then resolved else resolved @ [(Vm_key vm_id, (vm, ''update'', row))]))"

definition resolved_diffs :: "branch_diffs \<Rightarrow> (diff_key \<times> diff_entry) list" where
  "resolved_diffs b = intent_loop b (intent_rows b) (core_loop b 0 (vm_rows b) [])"

definition virtual_machine_diff_union :: "branch_diffs \<Rightarrow> diff_entry list" where
  "virtual_machine_diff_union b = map snd (resolved_diffs b)"

section \<open>Classification\<close>

definition contains_lxc_marker :: "pyval \<Rightarrow> bool" where
  "contains_lxc_marker v \<longleftrightarrow>
     (let text = str_lower (text_or_empty v) in contains ''lxc'' text \<or> contains ''container'' text)"

definition role_markers :: "pyval \<Rightarrow> pyval list" where
  "role_markers vm =
     concat (map (\<lambda>a. let obj = attr_value vm a in
       if obj = PNone then [] else [attr_value obj ''slug'', attr_value obj ''name''])
       [''virtual_machine_type'', ''role''])"

definition snapshot_kind :: "(string \<times> pyval) list \<Rightarrow> string" where
  "snapshot_kind d =
     (let v = (case dget d ''proxbox_sync_state'' of PDict s \<Rightarrow> dget s ''proxmox_vm_type'' | _ \<Rightarrow> PNone);
          markers =
            concat (map (\<lambda>k. case dget d k of PDict o' \<Rightarrow> [dget o' ''slug'', dget o' ''name''] | x \<Rightarrow> [x])
              [''virtual_machine_type'', ''role''])
            @ map (dget d) [''virtual_machine_type_slug'', ''role_slug'', ''role_name'']
      in if \<not> none_or_empty v then (if contains_lxc_marker v then ''lxc'' else ''qemu'')
         else if list_ex contains_lxc_marker markers then ''lxc'' else [])"

definition classify_kind :: "pyval \<Rightarrow> pyval \<Rightarrow> string" where
  "classify_kind vm change_diff =
     (let kind = resolve_known_vm_type vm in
      if kind \<noteq> [] then kind
      else if list_ex contains_lxc_marker (role_markers vm) then ''lxc''
      else (case first_some (\<lambda>a. let k = snapshot_kind (case attr_value change_diff a of PDict d \<Rightarrow> d | _ \<Rightarrow> [])
                              in if k \<noteq> [] then Some k else None) [''original'', ''current''] of
              Some k \<Rightarrow> k
            | None \<Rightarrow> ''qemu''))"

definition classify_diff :: "pyval \<Rightarrow> string \<Rightarrow> pyval \<Rightarrow> string \<times> string" where
  "classify_diff vm op change_diff =
     (let o' = str_lower op in (if o' \<in> set ACTIONS then o' else ''update'', classify_kind vm change_diff))"

section \<open>The union against a reference\<close>

text \<open>The reference: for each virtual machine the first core row that has a supported action, else the
  first intent row that resolves to an existing virtual machine, as an update.\<close>

definition core_row_for :: "branch_diffs \<Rightarrow> int \<Rightarrow> pyval option" where
  "core_row_for b i = find (\<lambda>row. row_action row \<noteq> None
     \<and> virtual_machine_diff_id (vm_for_vm_diff b row) row = Some i) (vm_rows b)"

definition intent_row_for :: "branch_diffs \<Rightarrow> int \<Rightarrow> pyval option" where
  "intent_row_for b i = find (\<lambda>row. row_action row \<noteq> None \<and> intent_diff_virtual_machine_id b row = Some i
     \<and> vm_for_intent_diff b row i \<noteq> PNone) (intent_rows b)"

definition reference_entry :: "branch_diffs \<Rightarrow> int \<Rightarrow> diff_entry option" where
  "reference_entry b i =
     (case core_row_for b i of
        Some row \<Rightarrow> Some (core_entry b row)
      | None \<Rightarrow> map_option (\<lambda>row. (vm_for_intent_diff b row i, ''update'', row)) (intent_row_for b i))"

lemma map_of_snoc: "map_of (xs @ [(k, v)]) j = (case map_of xs j of Some x \<Rightarrow> Some x | None \<Rightarrow> if j = k then Some v else None)"
  by (simp add: map_add_def split: option.splits)

lemma core_loop_lookup:
  "map_of (core_loop b n rs resolved) (Vm_key i) =
     (case map_of resolved (Vm_key i) of
        Some e \<Rightarrow> Some e
      | None \<Rightarrow> map_option (core_entry b) (find (\<lambda>row. row_action row \<noteq> None
          \<and> virtual_machine_diff_id (vm_for_vm_diff b row) row = Some i) rs))"
  by (induction rs arbitrary: n resolved) (auto simp: core_key_def map_of_snoc split: option.splits)

lemma intent_loop_lookup:
  "map_of (intent_loop b rs resolved) (Vm_key i) =
     (case map_of resolved (Vm_key i) of
        Some e \<Rightarrow> Some e
      | None \<Rightarrow> map_option (\<lambda>row. (vm_for_intent_diff b row i, ''update'', row))
          (find (\<lambda>row. row_action row \<noteq> None \<and> intent_diff_virtual_machine_id b row = Some i
             \<and> vm_for_intent_diff b row i \<noteq> PNone) rs))"
  by (induction rs arbitrary: resolved) (auto simp: map_of_snoc Let_def split: option.splits)

lemma resolved_lookup: "map_of (resolved_diffs b) (Vm_key i) = reference_entry b i"
  by (auto simp: resolved_diffs_def intent_loop_lookup core_loop_lookup reference_entry_def core_row_for_def
    intent_row_for_def split: option.splits)

lemma distinct_snoc: "distinct (map fst xs) \<Longrightarrow> map_of xs k = None \<Longrightarrow> distinct (map fst (xs @ [(k, v)]))"
  by (auto simp: map_of_eq_None_iff)

lemma core_loop_distinct: "distinct (map fst resolved) \<Longrightarrow> distinct (map fst (core_loop b n rs resolved))"
  by (induction rs arbitrary: n resolved) (auto split: option.splits simp: map_of_eq_None_iff)

lemma intent_loop_distinct: "distinct (map fst resolved) \<Longrightarrow> distinct (map fst (intent_loop b rs resolved))"
  by (induction rs arbitrary: resolved) (auto simp: Let_def map_of_eq_None_iff split: option.splits)

lemma resolved_distinct: "distinct (map fst (resolved_diffs b))"
  by (simp add: resolved_diffs_def core_loop_distinct intent_loop_distinct)

text \<open>C32. The merged diff list is the reference: no virtual machine occurs twice, and what the two loops
  keep for it is the first supported row of the machine itself, with its own operation, or, only when
  there is none, the first row of its intent that leads to an existing machine, as an update. In
  particular a change of the intent can never turn into a deletion.\<close>

theorem diff_union_is_first_match:
  "distinct (map fst (resolved_diffs b))
   \<and> (\<forall>i. map_of (resolved_diffs b) (Vm_key i)
        = (case find (\<lambda>row. row_action row \<noteq> None \<and> virtual_machine_diff_id (vm_for_vm_diff b row) row = Some i)
                  (vm_rows b) of
             Some row \<Rightarrow> Some (core_entry b row)
           | None \<Rightarrow> map_option (\<lambda>row. (vm_for_intent_diff b row i, ''update'', row))
               (find (\<lambda>row. row_action row \<noteq> None \<and> intent_diff_virtual_machine_id b row = Some i
                  \<and> vm_for_intent_diff b row i \<noteq> PNone) (intent_rows b))))
   \<and> virtual_machine_diff_union b = map snd (resolved_diffs b)"
  by (simp only: resolved_distinct resolved_lookup virtual_machine_diff_union_def reference_entry_def
    core_row_for_def intent_row_for_def simp_thms)

end
