(* ===== verification/Firewall_Intent.thy ===== *)
theory Firewall_Intent
  imports Firewall_Push Intent_Diff
begin

text \<open>
  \<open>intent/firewall_payload.py\<close>: the plan and apply diffs of the firewall rows of a branch. A row is a
  dictionary; its \<open>object\<close> is the current firewall object of the row's model, or None. Related rows and
  the snapshots in the row's data are dictionaries or keys. \<open>endpoint_default\<close> is the query for the
  default endpoint row.
\<close>

definition FIREWALL_MODEL_NAMES :: "string list" where
  "FIREWALL_MODEL_NAMES = [''proxmoxfirewallsecuritygroup'', ''proxmoxfirewallrule'', ''proxmoxfirewallipset'',
     ''proxmoxfirewallipsetentry'', ''proxmoxfirewallalias'', ''proxmoxfirewalloptions'']"

section \<open>Reading a row\<close>

definition str_or_none :: "pyval \<Rightarrow> pyval" where
  "str_or_none v = (if none_or_empty v then PNone else PStr (py_str v))"

definition fw_int_or_none :: "pyval \<Rightarrow> int option" where
  "fw_int_or_none v = (if none_or_empty v then None else int_of_pyval v)"

definition drop_none :: "(string \<times> pyval) list \<Rightarrow> (string \<times> pyval) list" where
  "drop_none d = filter (\<lambda>(k, v). v \<noteq> PNone) d"

definition fw_row_op :: "pyval \<Rightarrow> string" where
  "fw_row_op row =
     (let action = str_lower (text_or_empty (attr_value row ''action''));
          pre = attr_value row ''prechange_data'';
          post = attr_value row ''postchange_data'';
          is_dict = (\<lambda>v. case v of PDict _ \<Rightarrow> True | _ \<Rightarrow> False)
      in if action \<in> set ACTIONS then action
         else if pre = PNone \<and> is_dict post then ''create''
         else if is_dict pre \<and> post = PNone then ''delete''
         else ''update'')"

definition fw_row_data :: "pyval \<Rightarrow> string \<Rightarrow> (string \<times> pyval) list" where
  "fw_row_data row op =
     (let (preferred, fallback) =
            (if op = ''delete'' then (''prechange_data'', ''postchange_data'') else (''postchange_data'', ''prechange_data''))
      in case attr_value row preferred of
           PDict d \<Rightarrow> d
         | _ \<Rightarrow> (case attr_value row fallback of PDict d \<Rightarrow> d | _ \<Rightarrow> []))"

definition fw_row_model_name :: "pyval \<Rightarrow> string" where
  "fw_row_model_name row =
     (let model = attr_value (attr_value row ''object_type'') ''model'';
          meta_name = attr_value (attr_value (attr_value row ''object'') ''_meta'') ''model_name''
      in if truthy model then str_lower (py_str model)
         else if truthy meta_name then str_lower (py_str meta_name)
         else str_lower (text_or_empty (attr_value row ''model'')))"

definition fw_object_id :: "pyval \<Rightarrow> int option" where
  "fw_object_id v =
     (case v of
        PDict _ \<Rightarrow> fw_int_or_none (py_or (attr_value v ''pk'') (attr_value v ''id''))
      | _ \<Rightarrow> fw_int_or_none v)"

text \<open>\<open>_int_or_none(row.object_id) or _object_id(obj)\<close>; a zero key falls through.\<close>

definition fw_row_object_id :: "pyval \<Rightarrow> int option" where
  "fw_row_object_id row =
     (case fw_int_or_none (attr_value row ''object_id'') of
        Some i \<Rightarrow> if i \<noteq> 0 then Some i else fw_object_id (attr_value row ''object'')
      | None \<Rightarrow> fw_object_id (attr_value row ''object''))"

definition fw_field :: "pyval \<Rightarrow> (string \<times> pyval) list \<Rightarrow> string \<Rightarrow> pyval" where
  "fw_field obj data name =
     (let v = attr_value obj name in
      if \<not> none_or_empty v then v
      else if \<not> none_or_empty (dget data name) then dget data name else PNone)"

definition fw_related :: "pyval \<Rightarrow> (string \<times> pyval) list \<Rightarrow> string \<Rightarrow> pyval" where
  "fw_related obj data name =
     (let v = fw_field obj data name in if v \<noteq> PNone then v else dget data (name @ ''_id''))"

definition fw_object_name :: "pyval \<Rightarrow> pyval" where
  "fw_object_name v =
     (case v of
        PDict _ \<Rightarrow> str_or_none (py_or (attr_value v ''name'') (attr_value v ''display''))
      | _ \<Rightarrow> str_or_none v)"

section \<open>The payload\<close>

definition action_for :: "string \<Rightarrow> string \<Rightarrow> string option" where
  "action_for model op =
     (if model = ''proxmoxfirewallrule'' then Some (''firewall.rule.'' @ op)
      else if model = ''proxmoxfirewallsecuritygroup''
        then (if op \<in> {''create'', ''delete''} then Some (''firewall.group.'' @ op) else None)
      else if model = ''proxmoxfirewallipset''
        then (if op \<in> {''create'', ''delete''} then Some (''firewall.ipset.'' @ op) else None)
      else if model = ''proxmoxfirewallipsetentry'' then Some (''firewall.ipset.entry.'' @ op)
      else if model = ''proxmoxfirewallalias'' then Some (''firewall.alias.'' @ op)
      else if model = ''proxmoxfirewalloptions'' \<and> op \<in> {''create'', ''update''} then Some ''firewall.options.update''
      else None)"

definition zone_from_scope :: "pyval \<Rightarrow> pyval" where
  "zone_from_scope scope = str_or_none scope"

definition zone_for :: "string \<Rightarrow> pyval \<Rightarrow> (string \<times> pyval) list \<Rightarrow> pyval" where
  "zone_for model obj data =
     (if model = ''proxmoxfirewallsecuritygroup'' then PStr ''datacenter''
      else if model \<in> {''proxmoxfirewallrule'', ''proxmoxfirewalloptions''} then fw_field obj data ''zone''
      else if model \<in> {''proxmoxfirewallipset'', ''proxmoxfirewallalias''} then zone_from_scope (fw_field obj data ''scope'')
      else if model = ''proxmoxfirewallipsetentry''
        then zone_from_scope (fw_field (fw_related obj data ''ipset'') data ''scope'')
      else PNone)"

definition vm_for :: "string \<Rightarrow> pyval \<Rightarrow> (string \<times> pyval) list \<Rightarrow> pyval" where
  "vm_for model obj data =
     (if model = ''proxmoxfirewallipsetentry''
      then (let vm = fw_related (fw_related obj data ''ipset'') data ''virtual_machine''
            in if vm \<noteq> PNone then vm else fw_related obj data ''virtual_machine'')
      else fw_related obj data ''virtual_machine'')"

definition or_text :: "string \<Rightarrow> pyval \<Rightarrow> pyval" where
  "or_text s v = (if s \<noteq> [] then PStr s else v)"

definition node_for :: "string \<Rightarrow> pyval \<Rightarrow> (string \<times> pyval) list \<Rightarrow> pyval" where
  "node_for model obj data =
     (let zone = zone_for model obj data in
      if zone = PStr ''node'' then
        (let name = fw_object_name (fw_related obj data ''proxmox_node'')
         in if name \<noteq> PNone then name else str_or_none (dget data ''node''))
      else if zone \<in> set VM_SCOPES then
        (let vm = vm_for model obj data
         in str_or_none (or_text (if vm \<noteq> PNone then resolve_vm_node vm else [])
              (py_or (dget data ''node'') (dget data ''proxmox_node''))))
      else PNone)"

definition vmid_for :: "string \<Rightarrow> pyval \<Rightarrow> (string \<times> pyval) list \<Rightarrow> int option" where
  "vmid_for model obj data =
     (if zone_for model obj data \<in> set VM_SCOPES then
        (let vm = vm_for model obj data
         in fw_int_or_none (or_text (if vm \<noteq> PNone then resolve_vm_vmid vm else [])
              (py_or (dget data ''vmid'') (dget data ''proxmox_vm_id''))))
      else None)"

definition vm_type_for :: "string \<Rightarrow> pyval \<Rightarrow> (string \<times> pyval) list \<Rightarrow> pyval" where
  "vm_type_for model obj data =
     (let zone = zone_for model obj data in
      if zone = PStr ''vm_qemu'' then PStr ''qemu'' else if zone = PStr ''vm_lxc'' then PStr ''lxc'' else PNone)"

definition vnet_for :: "string \<Rightarrow> pyval \<Rightarrow> (string \<times> pyval) list \<Rightarrow> pyval" where
  "vnet_for model obj data =
     (if zone_for model obj data = PStr ''vnet'' then str_or_none (fw_field obj data ''iface'') else PNone)"

definition group_for :: "string \<Rightarrow> pyval \<Rightarrow> (string \<times> pyval) list \<Rightarrow> pyval" where
  "group_for model obj data =
     (if model = ''proxmoxfirewallsecuritygroup'' then str_or_none (fw_field obj data ''name'')
      else if zone_for model obj data = PStr ''security_group'' then
        (let name = fw_object_name (fw_related obj data ''security_group'')
         in if name \<noteq> PNone then name else str_or_none (dget data ''group''))
      else PNone)"

definition name_for :: "string \<Rightarrow> pyval \<Rightarrow> (string \<times> pyval) list \<Rightarrow> pyval" where
  "name_for model obj data =
     (if model = ''proxmoxfirewallipsetentry'' then
        (let name = fw_object_name (fw_related obj data ''ipset'')
         in if name \<noteq> PNone then name else str_or_none (dget data ''ipset_name''))
      else str_or_none (fw_field obj data ''name''))"

text \<open>The class of the row's object.\<close>

definition kind_of_model :: "string \<Rightarrow> fw_kind" where
  "kind_of_model model =
     (if model = ''proxmoxfirewallsecuritygroup'' then Security_group
      else if model = ''proxmoxfirewallrule'' then Rule
      else if model = ''proxmoxfirewallipset'' then IPSet
      else if model = ''proxmoxfirewallipsetentry'' then IPSet_entry
      else if model = ''proxmoxfirewallalias'' then Alias
      else if model = ''proxmoxfirewalloptions'' then Options
      else Other_object model)"

text \<open>\<open>firewall_object_state\<close> of \<open>firewall_common.py\<close>.\<close>

definition firewall_object_state :: "fw_object \<Rightarrow> (string \<times> pyval) list" where
  "firewall_object_state obj =
     (case fw_kind obj of
        Security_group \<Rightarrow> named_payload obj [''name'', ''comment'']
      | Rule \<Rightarrow> rule_payload obj
      | IPSet \<Rightarrow> named_payload obj [''name'', ''comment'']
      | IPSet_entry \<Rightarrow> named_payload obj [''cidr'', ''comment'', ''nomatch'']
      | Alias \<Rightarrow> named_payload obj [''name'', ''cidr'', ''comment'']
      | Options \<Rightarrow>
          drop_empty (fold (\<lambda>(k, v) d. AList.update k v d)
            (case fw_get obj ''options'' of PDict d \<Rightarrow> d | _ \<Rightarrow> [])
            (map (\<lambda>k. (k, fw_get obj k)) [''enable'', ''policy_in'', ''policy_out'']))
      | Other_object cls \<Rightarrow> [])"

definition data_payload :: "(string \<times> pyval) list \<Rightarrow> string list \<Rightarrow> (string \<times> pyval) list" where
  "data_payload data keys = drop_empty (map (\<lambda>k. (k, dget data k)) keys)"

definition rule_data_payload :: "(string \<times> pyval) list \<Rightarrow> (string \<times> pyval) list" where
  "rule_data_payload data =
     drop_empty
       ([(''pos'', dget data ''pos''), (''type'', py_or (dget data ''rule_type'') (dget data ''type''))]
        @ map (\<lambda>k. (k, dget data k)) [''action'', ''enable'', ''macro'', ''iface'', ''source'', ''dest'', ''proto'',
            ''dport'', ''sport'', ''log'']
        @ [(''icmp-type'', py_or (dget data ''icmp_type'') (dget data ''icmp-type'')),
           (''comment'', dget data ''comment''), (''digest'', dget data ''digest'')])"

definition body_for :: "string \<Rightarrow> string \<Rightarrow> pyval \<Rightarrow> (string \<times> pyval) list \<Rightarrow> (string \<times> pyval) list" where
  "body_for model op obj data =
     (if obj \<noteq> PNone then
        (let o' = \<lparr>fw_kind = kind_of_model model, fw_attrs = obj\<rparr> in
         if model = ''proxmoxfirewallsecuritygroup''
         then drop_empty [(''group'', attr_value obj ''name''), (''comment'', attr_value obj ''comment'')]
         else if model = ''proxmoxfirewallalias'' \<and> op = ''update''
         then AList.delete ''name'' (firewall_object_state o')
         else firewall_object_state o')
      else if model = ''proxmoxfirewallrule'' then rule_data_payload data
      else if model = ''proxmoxfirewallsecuritygroup''
        then drop_empty [(''group'', dget data ''name''), (''comment'', dget data ''comment'')]
      else if model = ''proxmoxfirewallipset'' then data_payload data [''name'', ''comment'']
      else if model = ''proxmoxfirewallipsetentry'' then data_payload data [''cidr'', ''comment'', ''nomatch'']
      else if model = ''proxmoxfirewallalias''
        then data_payload data (if op = ''update'' then [''cidr'', ''comment''] else [''name'', ''cidr'', ''comment''])
      else if model = ''proxmoxfirewalloptions''
        then drop_empty (map (\<lambda>k. (k, dget data k)) [''enable'', ''policy_in'', ''policy_out'']
               @ [(''options'', py_or (dget data ''options'') (PDict []))])
      else [])"

definition opt_int :: "int option \<Rightarrow> pyval" where
  "opt_int i = (case i of None \<Rightarrow> PNone | Some n \<Rightarrow> PInt n)"

definition firewall_payload :: "string \<Rightarrow> string \<Rightarrow> string \<Rightarrow> pyval \<Rightarrow> (string \<times> pyval) list \<Rightarrow> (string \<times> pyval) list" where
  "firewall_payload model op action obj data =
     drop_none
       [(''action'', PStr action), (''zone'', zone_for model obj data), (''node'', node_for model obj data),
        (''vmid'', opt_int (vmid_for model obj data)), (''vm_type'', vm_type_for model obj data),
        (''vnet'', vnet_for model obj data), (''group'', group_for model obj data),
        (''pos'', opt_int (fw_int_or_none (fw_field obj data ''pos''))), (''name'', name_for model obj data),
        (''cidr'', fw_field obj data ''cidr''),
        (''body'', PDict (if op = ''delete'' then [] else body_for model op obj data))]"

definition endpoint_id_for :: "string \<Rightarrow> pyval \<Rightarrow> (string \<times> pyval) list \<Rightarrow> int option" where
  "endpoint_id_for model obj data =
     (let owned = (if obj = PNone then None
                   else fw_object_id (resolve_firewall_endpoint \<lparr>fw_kind = kind_of_model model, fw_attrs = obj\<rparr>))
      in if owned \<noteq> None then owned
         else first_some (\<lambda>k. fw_object_id (dget data k)) [''endpoint_id'', ''endpoint''])"

record firewall_apply_diff =
  fd_op :: string
  fd_netbox_id :: "int option"
  fd_payload :: "(string \<times> pyval) list"
  fd_endpoint_id :: "int option"
  fd_obj :: pyval

definition build_firewall_apply_diff :: "pyval \<Rightarrow> firewall_apply_diff option" where
  "build_firewall_apply_diff row =
     (let op = fw_row_op row;
          model = fw_row_model_name row;
          obj = attr_value row ''object'';
          data = fw_row_data row op
      in case action_for model op of
           None \<Rightarrow> None
         | Some action \<Rightarrow>
             Some \<lparr>fd_op = op, fd_netbox_id = fw_row_object_id row, fd_payload = firewall_payload model op action obj data,
                  fd_endpoint_id = endpoint_id_for model obj data, fd_obj = obj\<rparr>)"

definition fw_row_name :: "pyval \<Rightarrow> pyval" where
  "fw_row_name row = str_or_none (attr_value row ''object_repr'')"

definition firewall_result_key :: "pyval \<Rightarrow> nat \<Rightarrow> string" where
  "firewall_result_key row fallback =
     (let m = fw_row_model_name row;
          identifier = (case fw_row_object_id row of
            Some i \<Rightarrow> if i \<noteq> 0 then str_of_int i
                      else (case fw_row_name row of PStr s \<Rightarrow> s | _ \<Rightarrow> str_of_nat fallback)
          | None \<Rightarrow> (case fw_row_name row of PStr s \<Rightarrow> s | _ \<Rightarrow> str_of_nat fallback))
      in ''firewall:'' @ (if m \<noteq> [] then m else ''firewall'') @ '':'' @ identifier)"

definition unsupported_firewall_diff_message :: "pyval \<Rightarrow> string" where
  "unsupported_firewall_diff_message row =
     (let m = fw_row_model_name row
      in ''Firewall intent for '' @ (if m \<noteq> [] then m else ''object'') @ '' '' @ repr_str (fw_row_op row)
         @ '' is not supported by proxbox-api apply.'')"

definition firewall_plan_diff :: "pyval \<Rightarrow> (string \<times> pyval) list option" where
  "firewall_plan_diff row =
     map_option (\<lambda>fd. drop_none
       ([(''op'', PStr (fd_op fd)), (''kind'', PStr ''firewall''), (''netbox_id'', opt_int (fd_netbox_id fd)),
         (''name'', fw_row_name row), (''type'', dget (fd_payload fd) ''action'')]
        @ (case fd_endpoint_id fd of None \<Rightarrow> [] | Some e \<Rightarrow> [(''endpoint_id'', PInt e)])))
     (build_firewall_apply_diff row)"

definition build_firewall_plan_diffs :: "pyval list \<Rightarrow> (string \<times> pyval) list list" where
  "build_firewall_plan_diffs rs = concat (map (\<lambda>row. case firewall_plan_diff row of None \<Rightarrow> [] | Some d \<Rightarrow> [d]) rs)"

definition first_endpoint_id_from_diffs :: "(string \<times> pyval) list list \<Rightarrow> int option" where
  "first_endpoint_id_from_diffs diffs = first_some (\<lambda>d. fw_int_or_none (dget d ''endpoint_id'')) diffs"

end
