(* ===== verification/Redaction.thy ===== *)
theory Redaction
  imports Json_Text
begin

text \<open>
  \<open>redaction.py\<close> and \<open>views/error_utils.py\<close>: which field names carry a credential, the removal of
  their values from free text and from decoded payloads, and the error detail that is written to job
  logs. The regular expressions are written out as the scans they denote: every repetition in them is
  followed by a character it cannot match, so the leftmost match is the one found without
  backtracking, and only the order of the alternatives matters.
\<close>

section \<open>Credential names\<close>

definition SENSITIVE_KEY_MARKERS :: "string list" where
  "SENSITIVE_KEY_MARKERS = [''authorization'', ''credential'', ''passphrase'', ''password'', ''passwd'', ''session'',
     ''sshkeys'', ''secret'', ''cookie'', ''ticket'', ''token'', ''auth'', ''pwd'', ''apikey'', ''privatekey'',
     ''publickey'', ''encryptionkey'', ''secretkey'', ''signingkey'', ''hostkey'', ''sshkey'']"

definition AUTH_SCHEMES :: "string list" where
  "AUTH_SCHEMES = [''bearer'', ''basic'', ''token'', ''digest'', ''negotiate'', ''apikey'']"

definition normalize_key :: "string \<Rightarrow> string" where
  "normalize_key key = filter (\<lambda>c. c \<noteq> CHR ''-'' \<and> c \<noteq> CHR ''_'' \<and> \<not> is_space c) (str_lower key)"

definition is_sensitive_key :: "string \<Rightarrow> bool" where
  "is_sensitive_key key \<longleftrightarrow> list_ex (\<lambda>marker. contains marker (normalize_key key)) SENSITIVE_KEY_MARKERS"

definition VALUE_ECHO_KEYS :: "string list" where
  "VALUE_ECHO_KEYS = [''input'', ''inputvalue'']"

definition is_sensitive_or_echo_key :: "string \<Rightarrow> bool" where
  "is_sensitive_or_echo_key key \<longleftrightarrow> is_sensitive_key key \<or> normalize_key key \<in> set VALUE_ECHO_KEYS"

section \<open>Assignments in free text\<close>

definition is_ident :: "char \<Rightarrow> bool" where
  "is_ident c \<longleftrightarrow> is_lower c \<or> is_upper c \<or> is_digit c \<or> c = CHR ''_'' \<or> c = CHR ''-''"

definition is_joiner :: "char \<Rightarrow> bool" where
  "is_joiner c \<longleftrightarrow> c = CHR '' '' \<or> c = CHR ''_'' \<or> c = CHR ''-''"

definition is_quote :: "char \<Rightarrow> bool" where
  "is_quote c \<longleftrightarrow> c = CHR 0x27 \<or> c = CHR 0x22"

definition is_assign :: "char \<Rightarrow> bool" where
  "is_assign c \<longleftrightarrow> c = CHR '':'' \<or> c = CHR ''=''"

text \<open>The first words of the two-word markers; no one is a prefix of another.\<close>

definition COMPOUND_HEADS :: "string list" where
  "COMPOUND_HEADS = [''encryption'', ''private'', ''signing'', ''public'', ''secret'', ''host'', ''api'', ''ssh'']"

text \<open>\<open>ASSIGNMENT_KEY_RE\<close>: the first alternative of the key, as the length of its match.\<close>

definition compound_key :: "string \<Rightarrow> nat option" where
  "compound_key s =
     (case find (\<lambda>h. startswith h (str_lower s)) COMPOUND_HEADS of
        None \<Rightarrow> None
      | Some h \<Rightarrow>
          (let after = drop (length h) s;
               n = length (takeWhile is_joiner after);
               word = drop n after
           in if 0 < n \<and> startswith ''key'' (str_lower word)
              then Some (length h + n + 3 + length (takeWhile is_ident (drop 3 word)))
              else None))"

text \<open>The closing quote and the separator after a key: their text and what follows.\<close>

definition opt_head :: "(char \<Rightarrow> bool) \<Rightarrow> string \<Rightarrow> string" where
  "opt_head P s = (case s of [] \<Rightarrow> [] | c # _ \<Rightarrow> if P c then [c] else [])"

definition key_end :: "string \<Rightarrow> (string \<times> string) option" where
  "key_end s =
     (let b = opt_head (\<lambda>c. c = CHR 0x5C) s;
          q = opt_head is_quote (drop (length b) s);
          rest = drop (length b + length q) s
      in case dropWhile is_space rest of
           [] \<Rightarrow> None
         | c # t \<Rightarrow>
             if is_assign c
             then Some (b @ q @ takeWhile is_space rest @ [c] @ takeWhile is_space t, dropWhile is_space t)
             else None)"

definition key_of_length :: "string \<Rightarrow> nat \<Rightarrow> (string \<times> string \<times> string) option" where
  "key_of_length s n = map_option (\<lambda>(e, rest). (take n s, e, rest)) (key_end (drop n s))"

text \<open>A match at one place of the text; \<open>prev\<close> is the character before it.\<close>

definition match_key :: "char option \<Rightarrow> string \<Rightarrow> (string \<times> string \<times> string) option" where
  "match_key prev s =
     (case (case compound_key s of None \<Rightarrow> None | Some n \<Rightarrow> key_of_length s n) of
        Some m \<Rightarrow> Some m
      | None \<Rightarrow>
          (let n = length (takeWhile is_ident s)
           in if (case prev of None \<Rightarrow> False | Some c \<Rightarrow> is_ident c) \<or> n = 0 then None else key_of_length s n))"

text \<open>\<open>ASSIGNMENT_KEY_RE.search\<close>: the text passed over, the key, the separator and what follows.\<close>

fun search_key :: "char option \<Rightarrow> string \<Rightarrow> (string \<times> string \<times> string \<times> string) option" where
  "search_key prev [] = None"
| "search_key prev (c # s) =
     (case match_key prev (c # s) of
        Some (key, e, rest) \<Rightarrow> Some ([], key, e, rest)
      | None \<Rightarrow> map_option (\<lambda>(skipped, m). (c # skipped, m)) (search_key (Some c) s))"

lemma key_end_text: "key_end s = Some (e, rest) \<Longrightarrow> s = e @ rest \<and> e \<noteq> []"
proof -
  assume k: "key_end s = Some (e, rest)"
  define b where "b = opt_head (\<lambda>c. c = CHR 0x5C) s"
  define q where "q = opt_head is_quote (drop (length b) s)"
  define r where "r = drop (length b + length q) s"
  have o: "P = opt_head Q t \<Longrightarrow> P @ drop (length P) t = t" for P Q t
    by (auto simp: opt_head_def split: list.splits)
  have s: "s = b @ q @ r"
    using o[OF b_def] o[OF q_def] unfolding r_def by (metis add.commute drop_drop)
  from k obtain c t where "dropWhile is_space r = c # t" "e = b @ q @ takeWhile is_space r @ [c] @ takeWhile is_space t"
    "rest = dropWhile is_space t"
    unfolding key_end_def Let_def b_def[symmetric] q_def[symmetric] r_def[symmetric]
    by (auto split: list.splits if_splits)
  then show ?thesis using s takeWhile_dropWhile_id[of is_space r] takeWhile_dropWhile_id[of is_space t]
    by (metis append.assoc append_Cons append_Nil append_is_Nil_conv list.distinct(1))
qed

lemma key_of_length_text: "key_of_length s n = Some (key, e, rest) \<Longrightarrow> s = key @ e @ rest \<and> e \<noteq> [] \<and> key = take n s"
  using key_end_text[of "drop n s" e rest] append_take_drop_id[of n s]
  by (auto simp: key_of_length_def)

lemma match_key_text: "match_key prev s = Some (key, e, rest) \<Longrightarrow> s = key @ e @ rest \<and> e \<noteq> []"
  by (auto simp: match_key_def Let_def dest: key_of_length_text split: option.splits if_splits)

lemma search_key_text: "search_key prev s = Some (skipped, key, e, rest) \<Longrightarrow> s = skipped @ key @ e @ rest \<and> e \<noteq> []"
proof (induction s arbitrary: prev skipped)
  case (Cons c s)
  then show ?case
    using match_key_text[of prev "c # s"] by (auto split: option.splits)
qed simp

lemma search_key_length: "search_key prev s = Some (skipped, key, e, rest) \<Longrightarrow> length rest - n < length s"
  by (drule search_key_text) (cases e, auto)

text \<open>\<open>redact_assignments\<close>: \<open>value_re\<close> gives the length of the value at the start of a text. \<open>prev\<close> is the
  character before the text still to scan.\<close>

function redact_from ::
  "(string \<Rightarrow> nat option) \<Rightarrow> (string \<Rightarrow> string) \<Rightarrow> (string \<Rightarrow> bool) \<Rightarrow> char option \<Rightarrow> string \<Rightarrow> string" where
  "redact_from value_re render predicate prev text =
     (case search_key prev text of
        None \<Rightarrow> text
      | Some (skipped, key, e, rest) \<Rightarrow>
          (let head = skipped @ key @ e;
               resume = head @ redact_from value_re render predicate (Some (last head)) rest
           in if \<not> predicate key then resume
              else case value_re rest of
                     None \<Rightarrow> resume
                   | Some n \<Rightarrow>
                       if \<not> is_sensitive_key key \<and> contains (take 1 (take n rest)) [CHR 0x7B, CHR 0x5B] then resume
                       else head @ render (take n rest)
                              @ redact_from value_re render predicate (Some (last (head @ take n rest))) (drop n rest)))"
  by pat_completeness auto
termination
  by (relation "measure (\<lambda>(_, _, _, _, text). length text)") (auto dest: search_key_length search_key_length[where n = 0])

declare redact_from.simps [simp del]

definition redact_assignments :: "(string \<Rightarrow> nat option) \<Rightarrow> (string \<Rightarrow> string) \<Rightarrow> (string \<Rightarrow> bool) \<Rightarrow> string \<Rightarrow> string" where
  "redact_assignments value_re render predicate text = redact_from value_re render predicate None text"

section \<open>The job log\<close>

definition REDACTED :: string where "REDACTED = ''[redacted]''"
definition REDACTED_DEEP :: string where "REDACTED_DEEP = ''[redacted: nesting depth limit]''"
definition REDACTION_DEPTH_LIMIT :: nat where "REDACTION_DEPTH_LIMIT = 6"

definition LOC_ECHO_KEYS :: "string list" where
  "LOC_ECHO_KEYS = [''input'', ''input_value'']"

text \<open>\<open>_ASSIGNMENT_VALUE_RE\<close>: a scheme and its credential, a quoted value, an unclosed quote to the end of
  the line, or the characters up to a delimiter.\<close>

definition is_delim :: "char \<Rightarrow> bool" where
  "is_delim c \<longleftrightarrow> c \<in> {CHR '','', CHR '';'', CHR '')'', CHR 0x7D, CHR 0x5D}"

definition is_bare :: "char \<Rightarrow> bool" where
  "is_bare c \<longleftrightarrow> \<not> is_space c \<and> \<not> is_delim c"

definition scheme_prefix :: "string \<Rightarrow> nat option" where
  "scheme_prefix s = map_option length (find (\<lambda>w. startswith w (str_lower s)) AUTH_SCHEMES)"

definition scheme_value :: "string \<Rightarrow> nat option" where
  "scheme_value s =
     (case scheme_prefix s of
        None \<Rightarrow> None
      | Some n \<Rightarrow>
          (let after = drop n s;
               w = length (takeWhile is_space after);
               m = length (takeWhile is_bare (drop w after))
           in if w = 0 \<or> m = 0 then None else Some (n + w + m)))"

definition quoted_value :: "string \<Rightarrow> nat option" where
  "quoted_value s =
     (case s of
        [] \<Rightarrow> None
      | q # t \<Rightarrow>
          if \<not> is_quote q then None
          else if q \<in> set t then Some (length (takeWhile (\<lambda>c. c \<noteq> q) t) + 2)
          else Some (1 + length (takeWhile (\<lambda>c. c \<noteq> CHR 0x0D \<and> c \<noteq> CHR 0x0A) t)))"

definition bare_value :: "string \<Rightarrow> nat option" where
  "bare_value s = (let n = length (takeWhile is_bare s) in if n = 0 then None else Some n)"

definition assignment_value :: "string \<Rightarrow> nat option" where
  "assignment_value s =
     (case scheme_value s of
        Some n \<Rightarrow> Some n
      | None \<Rightarrow> (case quoted_value s of Some n \<Rightarrow> Some n | None \<Rightarrow> bare_value s))"

definition render_redacted_value :: "string \<Rightarrow> string" where
  "render_redacted_value v =
     (case v of [] \<Rightarrow> REDACTED | q # _ \<Rightarrow> if is_quote q then [q] @ REDACTED @ [q] else REDACTED)"

text \<open>\<open>_BEARER_RE.sub\<close>: a scheme that starts a word, and at least eight credential characters.\<close>

definition is_word :: "char \<Rightarrow> bool" where
  "is_word c \<longleftrightarrow> is_lower c \<or> is_upper c \<or> is_digit c \<or> c = CHR ''_'' \<or> 127 < ord c"

definition is_credential_char :: "char \<Rightarrow> bool" where
  "is_credential_char c \<longleftrightarrow> is_lower c \<or> is_upper c \<or> is_digit c \<or> c \<in> set ''._-+/=''"

definition bearer_match :: "char option \<Rightarrow> string \<Rightarrow> (nat \<times> nat) option" where
  "bearer_match prev s =
     (if (case prev of None \<Rightarrow> False | Some c \<Rightarrow> is_word c) then None
      else (case scheme_prefix s of
              None \<Rightarrow> None
            | Some n \<Rightarrow>
                (let after = drop n s;
                     w = length (takeWhile is_space after);
                     m = length (takeWhile is_credential_char (drop w after))
                 in if w = 0 \<or> m < 8 then None else Some (n, n + w + m))))"

function sweep_bearer :: "char option \<Rightarrow> string \<Rightarrow> string" where
  "sweep_bearer prev s =
     (case s of
        [] \<Rightarrow> []
      | c # t \<Rightarrow>
          (case bearer_match prev s of
             None \<Rightarrow> c # sweep_bearer (Some c) t
           | Some (n, m) \<Rightarrow> take n s @ '' '' @ REDACTED @ sweep_bearer (Some (last (take m s))) (drop m s)))"
  by pat_completeness auto
termination
  by (relation "measure (\<lambda>(_, s). length s)") (auto simp: bearer_match_def Let_def split: if_splits option.splits)

declare sweep_bearer.simps [simp del]

definition redact_sensitive_text :: "string \<Rightarrow> string" where
  "redact_sensitive_text value =
     sweep_bearer None (redact_assignments assignment_value render_redacted_value is_sensitive_or_echo_key value)"

definition loc_names_sensitive_field :: "pyval \<Rightarrow> bool" where
  "loc_names_sensitive_field loc \<longleftrightarrow>
     (case loc of
        PList parts \<Rightarrow> list_ex (\<lambda>part. case part of PStr s \<Rightarrow> is_sensitive_key s | _ \<Rightarrow> False) parts
      | _ \<Rightarrow> False)"

definition hidden_key :: "(string \<times> pyval) list \<Rightarrow> string \<Rightarrow> bool" where
  "hidden_key d key \<longleftrightarrow>
     is_sensitive_key key \<or> (loc_names_sensitive_field (dget d ''loc'') \<and> key \<in> set LOC_ECHO_KEYS)"

fun redact_sensitive :: "nat \<Rightarrow> pyval \<Rightarrow> pyval" where
  "redact_sensitive depth value =
     (if REDACTION_DEPTH_LIMIT < depth then PStr REDACTED_DEEP
      else case value of
        PDict d \<Rightarrow> PDict (map (\<lambda>kv. (fst kv,
            if hidden_key d (fst kv) then PStr REDACTED else redact_sensitive (Suc depth) (snd kv))) d)
      | PList xs \<Rightarrow> PList (map (redact_sensitive (Suc depth)) xs)
      | PStr s \<Rightarrow> PStr (redact_sensitive_text s)
      | v \<Rightarrow> v)"

declare redact_sensitive.simps [simp del]

text \<open>\<open>json.dumps(value)\<close> with the default separators.\<close>

fun json_dumps :: "pyval \<Rightarrow> string" where
  "json_dumps PNone = ''null''"
| "json_dumps (PBool b) = (if b then ''true'' else ''false'')"
| "json_dumps (PInt i) = str_of_int i"
| "json_dumps (PStr s) = json_str s"
| "json_dumps (PList xs) = CHR 0x5B # str_join '', '' (map json_dumps xs) @ [CHR 0x5D]"
| "json_dumps (PDict d) =
     CHR 0x7B # str_join '', '' (map (\<lambda>kv. json_str (fst kv) @ '': '' @ json_dumps (snd kv)) d) @ [CHR 0x7D]"

definition detail_to_text :: "pyval \<Rightarrow> string" where
  "detail_to_text v = (case v of PStr s \<Rightarrow> s | _ \<Rightarrow> json_dumps v)"

definition redact_backend_detail :: "pyval \<Rightarrow> string" where
  "redact_backend_detail v = detail_to_text (redact_sensitive 0 v)"

section \<open>Error details\<close>

text \<open>A \<open>requests\<close> exception: its class, the classes it is an instance of, its text and the response it
  carries. \<open>rs_json\<close> is None where decoding the body raises.\<close>

record http_response =
  rs_status :: "int option"
  rs_json :: "pyval option"
  rs_text :: string
  rs_content_type :: string
  rs_url :: string

record request_exc =
  rx_class :: string
  rx_ssl :: bool
  rx_timeout :: bool
  rx_connection :: bool
  rx_text :: string
  rx_response :: "http_response option"

text \<open>\<open>re.search("host='([^']+)'", message)\<close> and \<open>re.search("port=(\d+)", message)\<close>.\<close>

fun search_host :: "string \<Rightarrow> string option" where
  "search_host [] = None"
| "search_host (c # s) =
     (let p = ''host='' @ [CHR 0x27];
          t = drop (length p) (c # s);
          host = takeWhile (\<lambda>x. x \<noteq> CHR 0x27) t
      in if startswith p (c # s) \<and> host \<noteq> [] \<and> CHR 0x27 \<in> set t then Some host else search_host s)"

fun search_port :: "string \<Rightarrow> string option" where
  "search_port [] = None"
| "search_port (c # s) =
     (let port = takeWhile is_digit (drop 5 (c # s))
      in if startswith ''port='' (c # s) \<and> port \<noteq> [] then Some port else search_port s)"

definition configured_endpoint :: string where
  "configured_endpoint = ''configured FastAPI endpoint''"

definition target_host_port :: "string \<Rightarrow> string" where
  "target_host_port message =
     (case search_host message of
        None \<Rightarrow> configured_endpoint
      | Some host \<Rightarrow> (case search_port message of None \<Rightarrow> host | Some port \<Rightarrow> host @ '':'' @ port))"

definition timeout_target :: "string \<Rightarrow> string" where
  "timeout_target message =
     (case (search_host message, search_port message) of
        (Some host, Some port) \<Rightarrow> host @ '':'' @ port
      | _ \<Rightarrow> configured_endpoint)"

definition transport_detail :: "request_exc \<Rightarrow> string" where
  "transport_detail exc =
     (let error_text = rx_text exc;
          lowered = str_lower error_text
      in if rx_ssl exc
         then ''TLS error connecting to ProxBox backend at '' @ target_host_port error_text
           @ ''. Verify the certificate (or the endpoint'' @ [CHR 0x27] @ ''s ''
           @ ''Verify SSL setting) matches how proxbox-api is served.''
         else if rx_timeout exc \<or> contains ''timed out'' lowered
         then ''Timed out while connecting to ProxBox backend at '' @ timeout_target error_text
           @ ''. Verify network reachability and that proxbox-api is healthy.''
         else if rx_connection exc \<or> contains ''connection refused'' lowered
           \<or> contains ''failed to establish a new connection'' lowered \<or> contains ''max retries exceeded'' lowered
         then ''Unable to reach ProxBox backend at '' @ target_host_port error_text
           @ ''. Connection was refused. ''
           @ ''Verify proxbox-api is running and listening on the configured host/port, ''
           @ ''then confirm the plugin FastAPI endpoint settings.''
         else rx_class exc @ '': '' @ redact_sensitive_text error_text)"

definition generic_detail :: "string list" where
  "generic_detail = [''internal server error'', ''server error'']"

text \<open>The detail of a decoded body, redacted first; empty where there is none.\<close>

definition payload_error_detail :: "pyval \<Rightarrow> string" where
  "payload_error_detail body =
     (case redact_sensitive 0 body of
        PDict payload \<Rightarrow>
          (let payload_detail = dget payload ''detail'';
               payload_message = dget payload ''message'';
               is_generic = (case payload_detail of PStr s \<Rightarrow> str_lower (strip s) \<in> set generic_detail | _ \<Rightarrow> False);
               detail =
                 (if is_generic \<and> truthy payload_message then detail_to_text payload_message
                  else if truthy payload_detail then detail_to_text payload_detail
                  else if truthy payload_message then detail_to_text payload_message
                  else []);
               python_exception = dget payload ''python_exception''
           in if \<not> truthy python_exception then detail
              else if detail \<noteq> [] then detail @ '' ('' @ detail_to_text python_exception @ '')''
              else detail_to_text python_exception)
      | _ \<Rightarrow> [])"

definition status_text :: "int option \<Rightarrow> string" where
  "status_text status = (case status of None \<Rightarrow> ''None'' | Some n \<Rightarrow> str_of_int n)"

definition html_detail :: "http_response \<Rightarrow> string" where
  "html_detail response =
     ''Backend returned HTML instead of ProxBox API JSON (HTTP '' @ status_text (rs_status response) @ '').''
     @ (if rs_url response \<noteq> [] then '' URL: '' @ rs_url response @ ''.'' else [])
     @ '' Check FastAPI endpoint host/port; it may be pointing to NetBox UI instead of proxbox-api.''"

definition extract_backend_error_detail :: "request_exc \<Rightarrow> string \<times> int option" where
  "extract_backend_error_detail exc =
     (case rx_response exc of
        None \<Rightarrow> (transport_detail exc, None)
      | Some response \<Rightarrow>
          (let status_code = rs_status response;
               detail = (case rs_json response of None \<Rightarrow> [] | Some body \<Rightarrow> payload_error_detail body);
               body_lower = str_lower (strip (rs_text response))
           in if detail \<noteq> [] then (detail, status_code)
              else if (contains ''text/html'' (str_lower (rs_content_type response)) \<or> contains ''<html'' body_lower)
                \<and> status_code \<in> {Some 400, Some 401, Some 403, Some 404}
              then (html_detail response, status_code)
              else (if status_code \<noteq> None \<and> status_code \<noteq> Some 0
                    then ''Backend returned HTTP '' @ status_text status_code @ '' without a JSON error detail.''
                    else redact_sensitive_text (rx_text exc), status_code)))"

definition extract_proxmox_backend_error_detail ::
  "request_exc \<Rightarrow> string \<Rightarrow> int option \<Rightarrow> string \<Rightarrow> string \<times> int option" where
  "extract_proxmox_backend_error_detail exc proxmox_host proxmox_port backend_url =
     (if rx_response exc \<noteq> None then extract_backend_error_detail exc
      else
        let target = (case proxmox_port of
              None \<Rightarrow> proxmox_host
            | Some p \<Rightarrow> if p \<noteq> 0 then proxmox_host @ '':'' @ str_of_int p else proxmox_host)
        in (''ProxBox backend could not connect to the configured Proxmox endpoint ('' @ target
            @ ''). Backend route: '' @ backend_url @ ''. Upstream error: '' @ rx_class exc, None))"

section \<open>Nothing under a credential name survives\<close>

text \<open>Two decoded values an observer of the redacted text may not tell apart: they agree except below
  credential keys, in the echo of a field whose location names a credential, and beyond the depth
  limit.\<close>

inductive same_public :: "nat \<Rightarrow> pyval \<Rightarrow> pyval \<Rightarrow> bool" where
  deep: "REDACTION_DEPTH_LIMIT < depth \<Longrightarrow> same_public depth v w"
| refl: "same_public depth v v"
| items: "list_all2 (same_public (Suc depth)) xs ys \<Longrightarrow> same_public depth (PList xs) (PList ys)"
| fields: "\<lbrakk>list_all2 (\<lambda>kv kw. fst kv = fst kw
        \<and> (hidden_key d (fst kv) \<or> same_public (Suc depth) (snd kv) (snd kw))) d d';
      loc_names_sensitive_field (dget d ''loc'') = loc_names_sensitive_field (dget d' ''loc'')\<rbrakk>
    \<Longrightarrow> same_public depth (PDict d) (PDict d')"

lemma redact_same: "same_public depth v w \<Longrightarrow> redact_sensitive depth v = redact_sensitive depth w"
proof (induction rule: same_public.induct)
  case (items depth xs ys)
  then have "map (redact_sensitive (Suc depth)) xs = map (redact_sensitive (Suc depth)) ys"
    by (auto simp: list_all2_conv_all_nth intro: nth_equalityI)
  then show ?case by (simp add: redact_sensitive.simps[of depth])
next
  case (fields d depth d')
  have "hidden_key d' k = hidden_key d k" for k using fields(2) by (simp add: hidden_key_def)
  then have "map (\<lambda>kv. (fst kv, if hidden_key d (fst kv) then PStr REDACTED else redact_sensitive (Suc depth) (snd kv))) d
    = map (\<lambda>kv. (fst kv, if hidden_key d' (fst kv) then PStr REDACTED else redact_sensitive (Suc depth) (snd kv))) d'"
    using fields(1) by (auto simp: list_all2_conv_all_nth intro!: nth_equalityI)
  then show ?case by (simp add: redact_sensitive.simps[of depth])
qed (simp_all add: redact_sensitive.simps)

text \<open>C20. No credential of a backend error body reaches a log. Two error responses that differ only below
  credential keys of their decoded body (at any depth), in the echoed input of a field whose location
  names a credential, below the depth limit, or in their raw text without an HTML mark, give the same
  error detail and status: whatever those values are, the text written to the job is the same.\<close>

theorem error_detail_hides_credentials:
  assumes "same_public 0 body body'"
    and "contains ''<html'' (str_lower (strip text)) = contains ''<html'' (str_lower (strip text'))"
  shows "extract_backend_error_detail (exc\<lparr>rx_response := Some (response\<lparr>rs_json := Some body, rs_text := text\<rparr>)\<rparr>)
    = extract_backend_error_detail (exc\<lparr>rx_response := Some (response\<lparr>rs_json := Some body', rs_text := text'\<rparr>)\<rparr>)"
proof -
  have "payload_error_detail body = payload_error_detail body'"
    using redact_same[OF assms(1)] by (simp add: payload_error_detail_def)
  with assms(2) show ?thesis by (simp add: extract_backend_error_detail_def html_detail_def Let_def)
qed

section \<open>Nothing assigned to a credential name survives\<close>

lemma ident_not_special:
  "is_ident c \<Longrightarrow> \<not> is_assign c \<and> \<not> is_space c \<and> c \<noteq> CHR 0x5C \<and> \<not> is_quote c \<and> c \<noteq> CHR '' ''"
  by (auto simp: is_assign_def is_ident_def is_lower_def is_upper_def is_digit_def is_space_def is_quote_def)

lemma lower_letter: "is_lower (lower_char c) \<Longrightarrow> is_ident c"
  by (auto simp: lower_char_def is_ident_def)

lemma lower_prefix_ident:
  assumes "startswith w (str_lower s)" and "list_all is_lower w"
  shows "list_all is_ident (take (length w) s)"
proof -
  have "map lower_char (take (length w) s) = w"
    using assms(1) by (simp add: startswith_def str_lower_def take_map)
  then have "list_all is_lower (map lower_char (take (length w) s))" using assms(2) by simp
  then show ?thesis using lower_letter by (auto simp: list_all_iff)
qed

lemma word_lists_lower: "list_all (list_all is_lower) COMPOUND_HEADS" "list_all (list_all is_lower) AUTH_SCHEMES"
  "list_all is_lower ''key''"
  by code_simp+

lemma find_Some_member: "find P xs = Some x \<Longrightarrow> x \<in> set xs \<and> P x"
  by (induction xs) (auto split: if_splits)

lemma key_char: "\<not> is_assign c" if "is_ident c \<or> is_joiner c"
  using that ident_not_special[of c] by (auto simp: is_joiner_def is_assign_def)

lemma compound_key_chars: "compound_key s = Some n \<Longrightarrow> list_all (\<lambda>c. \<not> is_assign c) (take n s)"
proof -
  assume "compound_key s = Some n"
  then obtain h where h: "find (\<lambda>h. startswith h (str_lower s)) COMPOUND_HEADS = Some h"
    and n: "startswith ''key'' (str_lower (drop (length (takeWhile is_joiner (drop (length h) s))) (drop (length h) s)))"
      "n = length h + length (takeWhile is_joiner (drop (length h) s)) + 3
        + length (takeWhile is_ident (drop 3 (drop (length (takeWhile is_joiner (drop (length h) s))) (drop (length h) s))))"
    by (auto simp: compound_key_def Let_def split: option.splits if_splits)
  define after where "after = drop (length h) s"
  define word where "word = drop (length (takeWhile is_joiner after)) after"
  have "h \<in> set COMPOUND_HEADS" "startswith h (str_lower s)" using find_Some_member[OF h] by simp_all
  then have 1: "list_all is_ident (take (length h) s)"
    using lower_prefix_ident word_lists_lower(1) by (auto simp: list_all_iff)
  have 2: "list_all is_ident (take 3 word)"
    using lower_prefix_ident[OF n(1) word_lists_lower(3)] by (simp add: word_def after_def numeral_3_eq_3)
  have "take n s = take (length h) s @ takeWhile is_joiner after @ take 3 word @ takeWhile is_ident (drop 3 word)"
  proof -
    have tw: "take (length (takeWhile P xs)) xs = takeWhile P xs" for P :: "char \<Rightarrow> bool" and xs
      by (metis takeWhile_eq_take)
    have w: "drop (length h + length (takeWhile is_joiner after)) s = word"
      by (simp add: word_def after_def add.commute)
    then have "drop (length h + length (takeWhile is_joiner after) + 3) s = drop 3 word"
      by (metis add.commute drop_drop)
    then show ?thesis
      unfolding n(2) after_def[symmetric] word_def[symmetric] take_add w by (simp add: after_def[symmetric] tw)
  qed
  then show ?thesis
    using 1 2 key_char by (auto simp: list_all_iff dest: set_takeWhileD)
qed

lemma key_end_shape:
  assumes "key_end s = Some (e, rest)"
  shows "\<exists>stuff c ws. e = stuff @ c # ws \<and> is_assign c \<and> list_all is_space ws
    \<and> (\<forall>x \<in> set stuff. \<not> is_assign x \<and> \<not> is_ident x) \<and> (rest = [] \<or> \<not> is_space (hd rest))"
proof -
  define b where "b = opt_head (\<lambda>c. c = CHR 0x5C) s"
  define q where "q = opt_head is_quote (drop (length b) s)"
  define r where "r = drop (length b + length q) s"
  from assms obtain c t where ct: "dropWhile is_space r = c # t" "is_assign c"
    "e = b @ q @ takeWhile is_space r @ [c] @ takeWhile is_space t" "rest = dropWhile is_space t"
    unfolding key_end_def Let_def b_def[symmetric] q_def[symmetric] r_def[symmetric]
    by (auto split: list.splits if_splits)
  have nb: "x \<in> set b \<Longrightarrow> \<not> is_assign x \<and> \<not> is_ident x" for x
    unfolding b_def opt_head_def by (cases s) (auto simp: is_assign_def split: if_splits dest: ident_not_special)
  have nq: "x \<in> set q \<Longrightarrow> \<not> is_assign x \<and> \<not> is_ident x" for x
  proof -
    assume "x \<in> set q"
    then have "is_quote x" unfolding q_def opt_head_def by (cases "drop (length b) s") (auto split: if_splits)
    then show ?thesis using ident_not_special[of x] by (auto simp: is_quote_def is_assign_def)
  qed
  have ns: "is_space x \<Longrightarrow> \<not> is_assign x \<and> \<not> is_ident x" for x
    using ident_not_special[of x] by (auto simp: is_space_def is_assign_def)
  have stuff: "\<forall>x \<in> set (b @ q @ takeWhile is_space r). \<not> is_assign x \<and> \<not> is_ident x"
    using nb nq ns by (auto dest!: set_takeWhileD)
  have "rest = [] \<or> \<not> is_space (hd rest)" using ct(4) by (metis hd_dropWhile)
  moreover have "list_all is_space (takeWhile is_space t)" by (auto simp: list_all_iff dest: set_takeWhileD)
  moreover have "e = (b @ q @ takeWhile is_space r) @ c # takeWhile is_space t" using ct(3) by simp
  ultimately show ?thesis using stuff ct(2) by blast
qed

lemma first_assign_unique:
  assumes "a @ c # u = b @ d # v" and "\<forall>x \<in> set a. \<not> is_assign x" and "\<forall>x \<in> set b. \<not> is_assign x"
    and "is_assign c" and "is_assign d"
  shows "a = b \<and> c = d \<and> u = v"
proof -
  have "takeWhile (\<lambda>x. \<not> is_assign x) (a @ c # u) = a" "takeWhile (\<lambda>x. \<not> is_assign x) (b @ d # v) = b"
    using assms(2-5) by (auto simp: takeWhile_append2)
  then show ?thesis using assms(1) by auto
qed

lemma leading_spaces_unique:
  assumes "ws @ t = ws' @ t'" and "list_all is_space ws" and "list_all is_space ws'"
    and "t = [] \<or> \<not> is_space (hd t)" and "t' = [] \<or> \<not> is_space (hd t')"
  shows "ws = ws' \<and> t = t'"
proof -
  have "takeWhile is_space (ws @ t) = ws" "takeWhile is_space (ws' @ t') = ws'"
    using assms(2-5) by (auto simp: list_all_iff takeWhile_append2 takeWhile_eq_Nil_iff)
  then show ?thesis using assms(1) by auto
qed

text \<open>A match that starts before a name and its separator covers the text up to the separator.\<close>

lemma match_key_chars:
  assumes "match_key prev s = Some (key, e, rest)"
  shows "(\<forall>x \<in> set key. \<not> is_assign x) \<and> key_end (e @ rest) = Some (e, rest)"
proof -
  from assms obtain n where n: "key_of_length s n = Some (key, e, rest)"
    and or: "compound_key s = Some n \<or> n = length (takeWhile is_ident s)"
    by (auto simp: match_key_def Let_def split: option.splits if_splits)
  from or have "list_all (\<lambda>c. \<not> is_assign c) (take n s)"
  proof
    assume "n = length (takeWhile is_ident s)"
    then have "take n s = takeWhile is_ident s" by (simp add: takeWhile_eq_take[symmetric])
    moreover have "x \<in> set (takeWhile is_ident s) \<Longrightarrow> \<not> is_assign x" for x
      using ident_not_special[of x] set_takeWhileD[of x is_ident s] by simp
    ultimately show ?thesis by (simp add: list_all_iff)
  qed (rule compound_key_chars)
  then have k: "\<forall>x \<in> set (take n s). \<not> is_assign x" by (simp only: list_all_iff)
  have key: "key = take n s" and s: "s = key @ e @ rest" using key_of_length_text[OF n] by blast+
  have "take n s @ drop n s = s" by (rule append_take_drop_id)
  also have "\<dots> = take n s @ e @ rest" using s[unfolded key] .
  finally have "drop n s = e @ rest" by (simp only: same_append_eq)
  moreover have "key_end (drop n s) = Some (e, rest)" using n by (auto simp: key_of_length_def)
  ultimately show ?thesis using k key by simp
qed

lemma match_at_name:
  assumes m: "match_key prev (a @ c # ws @ t) = Some (key, e, rest)"
    and a: "\<forall>x \<in> set a. \<not> is_assign x" "a \<noteq> []" "is_ident (last a)"
    and c: "is_assign c" and ws: "list_all is_space ws" and t: "t = [] \<or> \<not> is_space (hd t)"
  shows "key = a \<and> e = c # ws \<and> rest = t"
proof -
  have s: "a @ c # ws @ t = key @ e @ rest" using match_key_text[OF m] by simp
  have k: "\<forall>x \<in> set key. \<not> is_assign x" and ke: "key_end (e @ rest) = Some (e, rest)"
    using match_key_chars[OF m] by simp_all
  from key_end_shape[OF ke] obtain stuff d us where e: "e = stuff @ d # us" "is_assign d" "list_all is_space us"
    and stuff: "\<forall>x \<in> set stuff. \<not> is_assign x \<and> \<not> is_ident x" and rest: "rest = [] \<or> \<not> is_space (hd rest)" by blast
  have eq: "a @ c # (ws @ t) = (key @ stuff) @ d # (us @ rest)" using s e(1) by simp
  have ks: "\<forall>x \<in> set (key @ stuff). \<not> is_assign x" using k stuff by auto
  have u: "a = key @ stuff \<and> c = d \<and> ws @ t = us @ rest"
    by (rule first_assign_unique[OF eq a(1) ks c e(2)])
  have "stuff = []"
  proof (rule ccontr)
    assume "stuff \<noteq> []"
    then have "last a \<in> set stuff" using u by simp
    then show False using stuff a(3) by blast
  qed
  with u leading_spaces_unique[OF _ ws e(3) t rest] e(1) show ?thesis by auto
qed

lemma key_end_simple:
  assumes "is_assign c" and "list_all is_space ws" and "t = [] \<or> \<not> is_space (hd t)"
  shows "key_end (c # ws @ t) = Some (c # ws, t)"
proof -
  have "takeWhile is_space (ws @ t) = ws" "dropWhile is_space (ws @ t) = t"
    using assms(2,3) by (auto simp: list_all_iff takeWhile_append2 dropWhile_append2 takeWhile_eq_Nil_iff dropWhile_eq_self_iff)
  moreover have "\<not> is_space c" "c \<noteq> CHR 0x5C" "\<not> is_quote c" using assms(1) by (auto simp: is_space_def is_quote_def is_assign_def)
  ultimately show ?thesis using assms(1) by (auto simp: key_end_def opt_head_def Let_def)
qed

lemma sensitive_append: "is_sensitive_key key \<Longrightarrow> is_sensitive_key (pre @ key)"
  by (auto simp: is_sensitive_key_def normalize_key_def str_lower_append list_ex_iff
      intro!: bexI contains_append_left)

lemma search_finds_name:
  assumes "\<forall>x \<in> set pre. \<not> is_assign x" and "case (if pre = [] then prev else Some (last pre)) of None \<Rightarrow> True | Some p \<Rightarrow> \<not> is_ident p"
    and key: "key \<noteq> []" "list_all is_ident key" "is_sensitive_key key"
    and c: "is_assign c" and ws: "list_all is_space ws" and t: "t = [] \<or> \<not> is_space (hd t)"
  shows "\<exists>skipped k. search_key prev (pre @ key @ c # ws @ t) = Some (skipped, k, c # ws, t)
    \<and> skipped @ k = pre @ key \<and> is_sensitive_key k"
  using assms(1,2)
proof (induction pre arbitrary: prev)
  case Nil
  have no: "\<forall>x \<in> set key. \<not> is_assign x" "is_ident (last key)"
    using key ident_not_special by (auto simp: list_all_iff)
  have "takeWhile is_ident (key @ c # ws @ t) = key"
    using key(2) ident_not_special[of c] c by (auto simp: list_all_iff takeWhile_append2)
  then have "match_key prev (key @ c # ws @ t) \<noteq> None"
    using Nil(2) key(1) key_end_simple[OF c ws t]
    by (auto simp: match_key_def key_of_length_def split: option.splits)
  then obtain k e r where m: "match_key prev (key @ c # ws @ t) = Some (k, e, r)" by auto
  obtain x xs where "key = x # xs" using key(1) by (cases key) auto
  with m match_at_name[OF m no(1) key(1) no(2) c ws t] key(3) show ?case by auto
next
  case (Cons x pre)
  let ?a = "(x # pre) @ key"
  have no: "\<forall>y \<in> set ?a. \<not> is_assign y" "is_ident (last ?a)"
    using key Cons.prems(1) ident_not_special by (auto simp: list_all_iff)
  show ?case
  proof (cases "match_key prev (?a @ c # ws @ t)")
    case None
    have "case (if pre = [] then Some x else Some (last pre)) of None \<Rightarrow> True | Some p \<Rightarrow> \<not> is_ident p"
      using Cons.prems(2) by (auto split: if_splits)
    then obtain sk k where "search_key (Some x) (pre @ key @ c # ws @ t) = Some (sk, k, c # ws, t)"
      "sk @ k = pre @ key" "is_sensitive_key k"
      using Cons.IH[of "Some x"] Cons.prems(1) by auto
    with None show ?thesis by auto
  next
    case (Some m)
    obtain k e r where m: "match_key prev (?a @ c # ws @ t) = Some (k, e, r)" using Some by (cases m) auto
    have "k = ?a \<and> e = c # ws \<and> r = t"
      by (rule match_at_name[OF m no(1) _ no(2) c ws t]) simp
    with m sensitive_append[OF key(3), of "x # pre"] show ?thesis by auto
  qed
qed

text \<open>A value that ends where the assignment ends: up to a closing delimiter, or in quotes.\<close>

definition closed_value :: "string \<Rightarrow> string \<Rightarrow> bool" where
  "closed_value v rest \<longleftrightarrow> v \<noteq> []
     \<and> (if is_quote (hd v) then 2 \<le> length v \<and> last v = hd v \<and> hd v \<notin> set (butlast (tl v))
        else list_all is_bare v \<and> (rest = [] \<or> is_delim (hd rest)))"

lemma scheme_prefix_ident: "scheme_prefix s = Some n \<Longrightarrow> list_all is_ident (take n s) \<and> n \<le> length s \<and> 0 < n"
proof -
  assume "scheme_prefix s = Some n"
  then obtain w where f: "find (\<lambda>w. startswith w (str_lower s)) AUTH_SCHEMES = Some w" and n: "n = length w"
    by (auto simp: scheme_prefix_def)
  have w: "w \<in> set AUTH_SCHEMES" "startswith w (str_lower s)" "n = length w"
    using find_Some_member[OF f] n by simp_all
  have "length (take n (str_lower s)) = n" using w(2,3) by (simp add: startswith_def)
  then have "n \<le> length s" by (simp add: length_str_lower)
  moreover have "0 < n" using w by (auto simp: AUTH_SCHEMES_def)
  ultimately show ?thesis
    using lower_prefix_ident[OF w(2)] w word_lists_lower(2) by (auto simp: list_all_iff)
qed

lemma bare_not_space: "is_bare c \<Longrightarrow> \<not> is_space c"
  by (simp add: is_bare_def)

lemma scheme_value_None:
  assumes "list_all is_bare v" and "rest = [] \<or> (\<not> is_space (hd rest) \<and> \<not> is_ident (hd rest))"
  shows "scheme_value (v @ rest) = None"
proof (cases "scheme_prefix (v @ rest)")
  case (Some n)
  note p = scheme_prefix_ident[OF Some]
  have "n \<le> length v"
  proof (rule ccontr)
    assume "\<not> n \<le> length v"
    then have "rest \<noteq> []" "hd rest \<in> set (take n (v @ rest))" using p by (cases rest; auto simp: take_Cons')+
    then show False using p assms(2) by (auto simp: list_all_iff)
  qed
  then have d: "drop n (v @ rest) = drop n v @ rest" by simp
  have "takeWhile is_space (drop n v @ rest) = []"
  proof (cases "drop n v")
    case Nil
    with assms(2) show ?thesis by (cases rest) auto
  next
    case (Cons a list)
    then have "a \<in> set v" using in_set_dropD[of a n v] by simp
    with assms(1) have "\<not> is_space a" using bare_not_space by (auto simp: list_all_iff)
    with Cons show ?thesis by simp
  qed
  with Some d show ?thesis by (simp add: scheme_value_def)
qed (simp add: scheme_value_def)

lemma delimiter_facts:
  "is_delim c \<Longrightarrow> \<not> is_space c \<and> \<not> is_ident c \<and> \<not> is_bare c"
  by (auto simp: is_delim_def is_space_def is_ident_def is_lower_def is_upper_def is_digit_def is_bare_def)

lemma closed_value_length: "closed_value v rest \<Longrightarrow> assignment_value (v @ rest) = Some (length v)"
proof -
  assume cv: "closed_value v rest"
  then obtain q t where v: "v = q # t" by (cases v) (auto simp: closed_value_def)
  show ?thesis
  proof (cases "is_quote q")
    case True
    with cv v obtain body where t: "t = body @ [q]" "q \<notin> set body"
      by (cases t rule: rev_cases) (auto simp: closed_value_def)
    have "scheme_prefix (v @ rest) = None"
    proof (rule ccontr)
      assume "scheme_prefix (v @ rest) \<noteq> None"
      then obtain n where "scheme_prefix (v @ rest) = Some n" by auto
      from scheme_prefix_ident[OF this] v have "is_ident q" by (cases n) auto
      with True show False using ident_not_special by blast
    qed
    moreover have "quoted_value (v @ rest) = Some (length v)"
    proof -
      have "takeWhile (\<lambda>c. c \<noteq> q) (body @ q # rest) = body" using t(2) by (induction body) auto
      then show ?thesis using True v t(1) by (simp add: quoted_value_def)
    qed
    ultimately show ?thesis by (simp add: assignment_value_def scheme_value_def)
  next
    case False
    with cv v have b: "list_all is_bare v"
      and r: "rest = [] \<or> is_delim (hd rest)"
      by (auto simp: closed_value_def)
    have r': "rest = [] \<or> (\<not> is_space (hd rest) \<and> \<not> is_ident (hd rest) \<and> \<not> is_bare (hd rest))"
      using r delimiter_facts[of "hd rest"] by auto
    then have "scheme_value (v @ rest) = None" by (intro scheme_value_None[OF b]) auto
    moreover have "quoted_value (v @ rest) = None" using False v by (simp add: quoted_value_def)
    moreover have "takeWhile is_bare (v @ rest) = v"
      using b r' by (cases rest) (auto simp: list_all_iff takeWhile_append2)
    ultimately show ?thesis using v by (simp add: assignment_value_def bare_value_def)
  qed
qed

lemma closed_value_not_space: "closed_value v rest \<Longrightarrow> \<not> is_space (hd (v @ rest))"
  by (cases v) (auto simp: closed_value_def is_quote_def is_bare_def is_space_def split: if_splits)

lemma search_key_prev: "rest = [] \<or> \<not> is_ident (hd rest) \<Longrightarrow> search_key prev rest = search_key prev' rest"
proof (cases rest)
  case (Cons c s)
  assume "rest = [] \<or> \<not> is_ident (hd rest)"
  with Cons have "match_key prev rest = match_key prev' rest" by (simp add: match_key_def Let_def split: option.split)
  with Cons show ?thesis by (simp split: option.splits)
qed simp

lemma redact_from_prev:
  "rest = [] \<or> \<not> is_ident (hd rest) \<Longrightarrow> redact_from f g p prev rest = redact_from f g p prev' rest"
  using search_key_prev[of rest prev prev'] by (subst (1 2) redact_from.simps) simp

lemma redact_one_assignment:
  assumes "\<forall>x \<in> set pre. \<not> is_assign x" and "pre = [] \<or> \<not> is_ident (last pre)"
    and "key \<noteq> []" "list_all is_ident key" "is_sensitive_key key"
    and "is_assign c" and "list_all is_space ws" and v: "closed_value v rest"
  shows "redact_assignments assignment_value render_redacted_value is_sensitive_or_echo_key (pre @ key @ c # ws @ v @ rest)
    = pre @ key @ c # ws @ render_redacted_value v
      @ redact_from assignment_value render_redacted_value is_sensitive_or_echo_key (Some (last v)) rest"
proof -
  have t: "v @ rest = [] \<or> \<not> is_space (hd (v @ rest))" using closed_value_not_space[OF v] by simp
  have "case (if pre = [] then None else Some (last pre)) of None \<Rightarrow> True | Some p \<Rightarrow> \<not> is_ident p"
    using assms(2) by auto
  from search_finds_name[OF assms(1) this assms(3-7) t] obtain sk k
    where k: "search_key None (pre @ key @ c # ws @ v @ rest) = Some (sk, k, c # ws, v @ rest)"
      "sk @ k = pre @ key" "is_sensitive_key k" by auto
  have ne: "v \<noteq> []" using v by (simp add: closed_value_def)
  have "sk @ k @ c # ws = pre @ key @ c # ws" using k(2) by (metis append.assoc)
  then show ?thesis
    unfolding redact_assignments_def
    by (subst redact_from.simps) (simp add: k(1,3) closed_value_length[OF v] is_sensitive_or_echo_key_def Let_def ne)
qed

lemma render_nonempty:
  "v \<noteq> [] \<Longrightarrow> render_redacted_value v = (if is_quote (hd v) then [hd v] @ REDACTED @ [hd v] else REDACTED)"
  by (cases v) (simp_all add: render_redacted_value_def)



text \<open>A rejected push whose body echoes the submitted token.\<close>

definition demo_error_body :: "string \<Rightarrow> pyval" where
  "demo_error_body token = PDict [(''detail'', PList [PDict [(''loc'', PList [PStr ''body'', PStr ''token'']),
     (''msg'', PStr ''too short''), (''input'', PStr token)]]), (''token_value'', PStr token)]"

definition demo_response :: http_response where
  "demo_response = \<lparr>rs_status = Some 422, rs_json = None, rs_text = [], rs_content_type = ''application/json'', rs_url = []\<rparr>"

definition demo_http_error :: request_exc where
  "demo_http_error = \<lparr>rx_class = ''HTTPError'', rx_ssl = False, rx_timeout = False, rx_connection = False,
     rx_text = ''422'', rx_response = None\<rparr>"

theorem error_detail_hides_credentials_witness:
  "extract_backend_error_detail (demo_http_error\<lparr>rx_response :=
      Some (demo_response\<lparr>rs_json := Some (demo_error_body ''nbt_1234''), rs_text := ''nbt_1234''\<rparr>)\<rparr>)
   = extract_backend_error_detail (demo_http_error\<lparr>rx_response :=
      Some (demo_response\<lparr>rs_json := Some (demo_error_body ''nbt_9''), rs_text := ''nbt_9''\<rparr>)\<rparr>)"
proof (rule error_detail_hides_credentials)
  have "is_sensitive_key ''token_value''" "is_sensitive_key ''token''" by code_simp+
  then show "same_public 0 (demo_error_body ''nbt_1234'') (demo_error_body ''nbt_9'')"
    by (auto simp: demo_error_body_def hidden_key_def dget_Cons loc_names_sensitive_field_def LOC_ECHO_KEYS_def
        intro!: same_public.fields same_public.items same_public.refl)
qed code_simp

end
