(* ===== verification/Intent_Gate.thy ===== *)
theory Intent_Gate
  imports Firewall_Intent Redaction
begin

text \<open>
  The gates in front of a write of branch intent: \<open>services/branch_intent.py\<close> (the two per-branch
  switches, off on every failure), \<open>intent/plan_client.py\<close> (the plan request) and
  \<open>intent/merge_validator.py\<close> (the verdict on a merge). The environment holds the plugin settings row,
  the branch queries, the backend's address and its answers, and the default endpoint. The requests
  the validator sends are returned with its verdict.
\<close>

section \<open>Per-branch switches\<close>

record branch_env =
  branching_available :: bool
  find_branch :: "pyval \<Rightarrow> string \<Rightarrow> pyval option result"
  find_branch_intent :: "pyval \<Rightarrow> string \<Rightarrow> pyval option result"

record branch_intent_flags =
  apply_to_proxmox :: bool
  apply_destroy_confirmed :: bool

definition FALSE_BRANCH_INTENT :: branch_intent_flags where
  "FALSE_BRANCH_INTENT = \<lparr>apply_to_proxmox = False, apply_destroy_confirmed = False\<rparr>"

definition resolve_branch_reference :: "branch_env \<Rightarrow> pyval \<Rightarrow> pyval \<Rightarrow> pyval option" where
  "resolve_branch_reference env branch_id branch_schema_id =
     (if \<not> branching_available env then None
      else if branch_id = PNone \<or> \<not> truthy branch_schema_id then None
      else (case find_branch env branch_id (py_str branch_schema_id) of Inl _ \<Rightarrow> None | Inr row \<Rightarrow> row))"

definition resolve_branch_intent_flags :: "branch_env \<Rightarrow> pyval \<Rightarrow> branch_intent_flags" where
  "resolve_branch_intent_flags env branch =
     (let branch_id = attr_value branch ''pk'';
          branch_schema_id = attr_value branch ''schema_id''
      in if resolve_branch_reference env branch_id branch_schema_id = None then FALSE_BRANCH_INTENT
         else (case find_branch_intent env branch_id (py_str branch_schema_id) of
                 Inl _ \<Rightarrow> FALSE_BRANCH_INTENT
               | Inr None \<Rightarrow> FALSE_BRANCH_INTENT
               | Inr (Some intent) \<Rightarrow>
                   \<lparr>apply_to_proxmox = (attr_value intent ''apply_to_proxmox'' = PBool True),
                    apply_destroy_confirmed = (attr_value intent ''apply_destroy_confirmed'' = PBool True)\<rparr>))"

section \<open>Requests to the intent endpoints\<close>

text \<open>What \<open>requests.post\<close> does: it raises, or it answers with a status.\<close>

datatype transport_failure =
    Tls_failure string
  | Connection_failure string
  | Timed_out
  | Request_failure string

type_synonym post_reply = "transport_failure + http_response"

record backend_link =
  link_context :: "string option option"
  link_post :: "string \<Rightarrow> pyval \<Rightarrow> post_reply"
  link_decode_error :: "http_response \<Rightarrow> string"

definition reply_status :: "http_response \<Rightarrow> int" where
  "reply_status response = (case rs_status response of Some n \<Rightarrow> n | None \<Rightarrow> 0)"

text \<open>\<open>raise_for_status\<close> raises for 400 to 599; the exception carries the response.\<close>

definition http_error_detail :: "http_response \<Rightarrow> string" where
  "http_error_detail response =
     (if reply_status response < 600
      then fst (extract_backend_error_detail \<lparr>rx_class = ''HTTPError'', rx_ssl = False, rx_timeout = False,
             rx_connection = False, rx_text = [], rx_response = Some response\<rparr>)
      else ''Backend returned HTTP '' @ str_of_int (reply_status response) @ '' without a JSON error detail.'')"

definition transport_failure_text :: "string \<Rightarrow> string \<Rightarrow> string \<Rightarrow> transport_failure \<Rightarrow> string" where
  "transport_failure_text label timeout url failure =
     (case failure of
        Tls_failure t \<Rightarrow> ''TLS error reaching '' @ url @ '': '' @ t
      | Connection_failure t \<Rightarrow> ''Cannot reach proxbox-api at '' @ url @ '': '' @ t
      | Timed_out \<Rightarrow> label @ '' request timed out after '' @ timeout @ ''s against '' @ url @ ''.''
      | Request_failure t \<Rightarrow> label @ '' request failed: '' @ t)"

text \<open>The decoded answer, which must be an object, or the text of the error.\<close>

definition decoded_reply ::
  "backend_link \<Rightarrow> string \<Rightarrow> string \<Rightarrow> string \<Rightarrow> string \<Rightarrow> post_reply \<Rightarrow> string + (string \<times> pyval) list" where
  "decoded_reply link label timeout path url reply =
     (case reply of
        Inl failure \<Rightarrow> Inl (transport_failure_text label timeout url failure)
      | Inr response \<Rightarrow>
          if 400 \<le> reply_status response
          then Inl (''proxbox-api returned HTTP '' @ str_of_int (reply_status response) @ '' for '' @ path @ '': ''
                 @ http_error_detail response)
          else (case rs_json response of
                  None \<Rightarrow> Inl (''proxbox-api returned a non-JSON body for '' @ path @ '': ''
                            @ link_decode_error link response)
                | Some (PDict body) \<Rightarrow> Inr body
                | Some v \<Rightarrow> Inl (''proxbox-api returned an unexpected body for '' @ path @ '': '' @ py_repr v)))"

section \<open>The plan request\<close>

record plan_client_result =
  plan_permitted :: bool
  plan_summary :: string
  plan_verdicts :: "pyval list"

text \<open>\<open>list(value or [])\<close>.\<close>

definition as_list :: "pyval \<Rightarrow> pyval list result" where
  "as_list v =
     (case v of
        PList xs \<Rightarrow> Inr xs
      | PDict d \<Rightarrow> Inr (map (\<lambda>kv. PStr (fst kv)) d)
      | PStr s \<Rightarrow> Inr (map (\<lambda>c. PStr [c]) s)
      | _ \<Rightarrow> if truthy v then Inl (TypeError ''object is not iterable'') else Inr [])"

definition from_payload :: "(string \<times> pyval) list \<Rightarrow> plan_client_result result" where
  "from_payload payload =
     rbind (as_list (dget payload ''verdicts''))
       (\<lambda>verdicts. Inr \<lparr>plan_permitted = truthy (dget payload ''permitted''),
          plan_summary = (case map_of payload ''summary'' of None \<Rightarrow> [] | Some v \<Rightarrow> py_str v),
          plan_verdicts = verdicts\<rparr>)"

text \<open>\<open>call_plan_endpoint\<close>: \<open>Inl\<close> is a \<open>PlanClientError\<close>; decoding the verdicts may raise another error. The
  second component is whether the request was sent.\<close>

definition call_plan_endpoint ::
  "backend_link \<Rightarrow> pyval \<Rightarrow> (string + plan_client_result result) \<times> bool" where
  "call_plan_endpoint link payload =
     (case link_context link of
        None \<Rightarrow> (Inl ''No FastAPIEndpoint is configured; cannot validate merge intent.'', False)
      | Some http_url \<Rightarrow>
          (case http_url of
             None \<Rightarrow> (Inl ''FastAPIEndpoint has no resolvable http_url; cannot reach proxbox-api.'', False)
           | Some base \<Rightarrow>
               if base = [] then (Inl ''FastAPIEndpoint has no resolvable http_url; cannot reach proxbox-api.'', False)
               else
                 let url = rstrip_char (CHR ''/'') base @ ''/intent/plan''
                 in (map_sum id from_payload
                       (decoded_reply link ''Plan'' ''30'' ''/intent/plan'' url (link_post link url payload)), True)))"

section \<open>The verdict on a merge\<close>

record gate_env =
  ge_settings :: "pyval option"
  ge_branching :: branch_env
  ge_link :: backend_link
  ge_default_endpoint :: "int option"

record merge_branch =
  mb_branch :: pyval
  mb_diffs :: branch_diffs
  mb_firewall_rows :: "pyval list"

record indicator =
  permitted :: bool
  message :: string

definition is_intent_enabled :: "gate_env \<Rightarrow> bool" where
  "is_intent_enabled env =
     (case ge_settings env of None \<Rightarrow> False | Some s \<Rightarrow> truthy (attr_value s ''netbox_to_proxmox_enabled''))"

definition warn_plaintext_password_enabled :: "gate_env \<Rightarrow> bool" where
  "warn_plaintext_password_enabled env =
     (case ge_settings env of
        None \<Rightarrow> True | Some s \<Rightarrow> truthy (getattr_or s ''intent_warn_plaintext_password'' (PBool True)))"

definition branch_opted_in :: "gate_env \<Rightarrow> pyval \<Rightarrow> bool" where
  "branch_opted_in env branch = apply_to_proxmox (resolve_branch_intent_flags (ge_branching env) branch)"

definition branch_destroy_confirmed :: "gate_env \<Rightarrow> pyval \<Rightarrow> bool" where
  "branch_destroy_confirmed env branch = apply_destroy_confirmed (resolve_branch_intent_flags (ge_branching env) branch)"

definition vm_plan_diff :: "diff_entry \<Rightarrow> (string \<times> pyval) list" where
  "vm_plan_diff entry =
     (let (vm, action, row) = entry;
          name = virtual_machine_diff_name vm row
      in [(''op'', PStr (fst (classify_diff vm action row))), (''kind'', PStr ''virtualmachine''),
          (''netbox_id'', opt_int (virtual_machine_diff_id vm row)), (''name'', if name = [] then PNone else PStr name)])"

definition classify_vm_diffs :: "branch_diffs \<Rightarrow> (string \<times> pyval) list list" where
  "classify_vm_diffs b = map vm_plan_diff (virtual_machine_diff_union b)"

definition contains_plaintext_password :: "pyval \<Rightarrow> bool" where
  "contains_plaintext_password user_data \<longleftrightarrow> contains ''password:'' (str_lower (text_or_empty user_data))"

definition vm_name :: "pyval \<Rightarrow> string" where
  "vm_name vm =
     (case nonempty_text (attr_value vm ''name'') of
        Some s \<Rightarrow> s
      | None \<Rightarrow> (case nonempty_text (attr_value vm ''pk'') of Some s \<Rightarrow> s | None \<Rightarrow> ''unknown''))"

definition password_warning :: "pyval \<Rightarrow> pyval" where
  "password_warning vm = PDict [(''vm'', PStr (vm_name vm)), (''level'', PStr ''warn''),
     (''code'', PStr ''plaintext_password_warning''),
     (''message'', PStr ''cloud_init_user_data contains a plaintext password line'')]"

definition plaintext_password_warnings :: "gate_env \<Rightarrow> branch_diffs \<Rightarrow> pyval list" where
  "plaintext_password_warnings env b =
     (if \<not> warn_plaintext_password_enabled env then []
      else map (\<lambda>(vm, op, row). password_warning vm)
        (filter (\<lambda>(vm, op, row). op \<noteq> ''delete''
             \<and> contains_plaintext_password (attr_value (attr_value vm ''proxbox_intent'') ''cloud_init_user_data''))
          (virtual_machine_diff_union b)))"

definition has_vm_delete :: "(string \<times> pyval) list list \<Rightarrow> bool" where
  "has_vm_delete diffs \<longleftrightarrow> list_ex (\<lambda>d. dget d ''op'' = PStr ''delete'' \<and> dget d ''kind'' \<noteq> PStr ''firewall'') diffs"

text \<open>\<open>v.get(...)\<close> on a verdict, and the stripped message of one.\<close>

definition verdict_fields :: "pyval \<Rightarrow> (string \<times> pyval) list result" where
  "verdict_fields v = (case v of PDict d \<Rightarrow> Inr d | _ \<Rightarrow> Inl (AttributeError ''object has no attribute get''))"

definition verdict_message :: "(string \<times> pyval) list \<Rightarrow> string result" where
  "verdict_message d =
     (case map_of d ''message'' of
        None \<Rightarrow> Inr []
      | Some (PStr s) \<Rightarrow> Inr (strip s)
      | Some _ \<Rightarrow> Inl (AttributeError ''object has no attribute strip''))"

definition get_text :: "(string \<times> pyval) list \<Rightarrow> string \<Rightarrow> string \<Rightarrow> string" where
  "get_text d key dflt = (case map_of d key of None \<Rightarrow> dflt | Some v \<Rightarrow> py_str v)"

definition format_remote_failure :: "plan_client_result \<Rightarrow> string result" where
  "format_remote_failure result =
     rbind (rmap verdict_fields (plan_verdicts result)) (\<lambda>vs.
       let blockers = filter (\<lambda>d. dget d ''verdict'' = PStr ''blocked'') vs
       in if blockers \<noteq> [] then
            rbind (rmap (\<lambda>d. rbind (verdict_message d) (\<lambda>m. Inr (get_text d ''reason'' ''blocked'' @ '': '' @ m))) blockers)
              (\<lambda>bullets. Inr (''proxbox-api blocked the merge: '' @ str_join ''; '' bullets))
          else if plan_summary result \<noteq> [] then Inr (''proxbox-api refused the merge: '' @ plan_summary result)
          else Inr ''proxbox-api refused the merge.'')"

definition is_password_warning :: "(string \<times> pyval) list \<Rightarrow> bool" where
  "is_password_warning d \<longleftrightarrow>
     dget d ''level'' = PStr ''warn'' \<and> dget d ''code'' = PStr ''plaintext_password_warning''"

definition format_success :: "plan_client_result \<Rightarrow> string result" where
  "format_success result =
     rbind (rmap verdict_fields (plan_verdicts result)) (\<lambda>vs.
       rbind (rmap (\<lambda>d. rbind (verdict_message d) (\<lambda>m. Inr (get_text d ''vm'' ''unknown'' @ '': '' @ m)))
           (filter is_password_warning vs)) (\<lambda>warnings.
         if warnings = [] then Inr (plan_summary result)
         else if plan_summary result \<noteq> [] then Inr (plan_summary result @ '' Warnings: '' @ str_join ''; '' warnings)
         else Inr (''Warnings: '' @ str_join ''; '' warnings)))"

definition plan_endpoint_id :: "gate_env \<Rightarrow> (string \<times> pyval) list list \<Rightarrow> int option" where
  "plan_endpoint_id env diffs =
     (case first_endpoint_id_from_diffs diffs of
        Some i \<Rightarrow> if i \<noteq> 0 then Some i else ge_default_endpoint env
      | None \<Rightarrow> ge_default_endpoint env)"

definition plan_payload :: "pyval \<Rightarrow> pyval \<Rightarrow> int \<Rightarrow> (string \<times> pyval) list list \<Rightarrow> pyval" where
  "plan_payload branch user endpoint_id diffs =
     PDict [(''endpoint_id'', PInt endpoint_id), (''branch_id'', attr_value branch ''pk''),
       (''actor'', attr_value user ''username''), (''diffs'', PList (map PDict diffs))]"

definition branch_plan_diffs :: "merge_branch \<Rightarrow> (string \<times> pyval) list list" where
  "branch_plan_diffs mb = classify_vm_diffs (mb_diffs mb) @ build_firewall_plan_diffs (mb_firewall_rows mb)"

text \<open>The verdict after the plan request.\<close>

definition plan_verdict :: "pyval list \<Rightarrow> string + plan_client_result result \<Rightarrow> indicator result" where
  "plan_verdict warnings reply =
     (case reply of
        Inl exc \<Rightarrow> Inr \<lparr>permitted = False, message = ''Could not validate merge against proxbox-api: '' @ exc\<rparr>
      | Inr parsed \<Rightarrow>
          rbind parsed (\<lambda>result.
            let result = result\<lparr>plan_verdicts := plan_verdicts result @ warnings\<rparr>
            in if \<not> plan_permitted result
               then rbind (format_remote_failure result) (\<lambda>m. Inr \<lparr>permitted = False, message = m\<rparr>)
               else rbind (format_success result) (\<lambda>m. Inr \<lparr>permitted = True, message = m\<rparr>)))"

definition validate_proxmox_intent :: "gate_env \<Rightarrow> merge_branch \<Rightarrow> pyval \<Rightarrow> indicator result \<times> pyval list" where
  "validate_proxmox_intent env mb user =
     (if \<not> is_intent_enabled env then (Inr \<lparr>permitted = True, message = []\<rparr>, [])
      else if \<not> branch_opted_in env (mb_branch mb) then (Inr \<lparr>permitted = True, message = []\<rparr>, [])
      else
        let diffs = branch_plan_diffs mb
        in if diffs = []
           then (Inr \<lparr>permitted = True,
                   message = ''No VM or firewall diffs on branch; Proxmox merge will be a no-op.''\<rparr>, [])
           else if has_vm_delete diffs \<and> \<not> branch_destroy_confirmed env (mb_branch mb)
           then (Inr \<lparr>permitted = False,
                   message = ''Branch contains DELETE diffs but apply_destroy_confirmed=False. ''
                     @ ''Enable the Proxbox branch intent setting (and grant ''
                     @ ''authorize_deletion_request to a separate user) before merging.''\<rparr>, [])
           else (case plan_endpoint_id env diffs of
                   None \<Rightarrow> (Inr \<lparr>permitted = False,
                             message = ''No ProxmoxEndpoint is configured; cannot validate Proxmox intent.''\<rparr>, [])
                 | Some endpoint_id \<Rightarrow>
                     let payload = plan_payload (mb_branch mb) user endpoint_id diffs;
                         (reply, sent) = call_plan_endpoint (ge_link env) payload
                     in (plan_verdict (plaintext_password_warnings env (mb_diffs mb)) reply,
                         if sent then [payload] else [])))"

section \<open>What a permitted merge means\<close>

lemma flags_are_stored:
  assumes "apply_to_proxmox (resolve_branch_intent_flags env branch)
    \<or> apply_destroy_confirmed (resolve_branch_intent_flags env branch)"
  obtains row intent where
    "find_branch env (attr_value branch ''pk'') (py_str (attr_value branch ''schema_id'')) = Inr (Some row)"
    and "find_branch_intent env (attr_value branch ''pk'') (py_str (attr_value branch ''schema_id'')) = Inr (Some intent)"
    and "apply_destroy_confirmed (resolve_branch_intent_flags env branch) \<Longrightarrow>
      attr_value intent ''apply_destroy_confirmed'' = PBool True"
  using assms
  by (auto simp: resolve_branch_intent_flags_def resolve_branch_reference_def FALSE_BRANCH_INTENT_def Let_def
    split: if_splits sum.splits option.splits)

lemma row_action_known: "row_action row = Some op \<Longrightarrow> op \<in> set ACTIONS \<and> str_lower op = op"
  by (auto simp: row_action_def Let_def str_lower_idem split: if_splits)

definition known_op :: "diff_key \<times> diff_entry \<Rightarrow> bool" where
  "known_op e \<longleftrightarrow> fst (snd (snd e)) \<in> set ACTIONS \<and> str_lower (fst (snd (snd e))) = fst (snd (snd e))"

lemma core_loop_ops: "list_all known_op resolved \<Longrightarrow> list_all known_op (core_loop b n rs resolved)"
proof (induction rs arbitrary: n resolved)
  case (Cons row rs)
  have "known_op (key, core_entry b row)" if key: "core_key b n row = Some key" for key
  proof -
    obtain op where "row_action row = Some op" using key by (auto simp: core_key_def split: option.splits)
    then show ?thesis using row_action_known[of row op] by (simp add: known_op_def core_entry_def)
  qed
  then show ?case unfolding core_loop.simps using Cons.prems by (intro Cons.IH) (auto split: option.splits)
qed simp

lemma intent_loop_ops: "list_all known_op resolved \<Longrightarrow> list_all known_op (intent_loop b rs resolved)"
proof (induction rs arbitrary: resolved)
  case (Cons row rs)
  have "known_op (key, vm, ''update'', row)" for key vm
  proof -
    have "str_lower ''update'' = ''update''" "''update'' \<in> set ACTIONS" by code_simp+
    then show ?thesis by (simp add: known_op_def)
  qed
  then show ?case unfolding intent_loop.simps using Cons.prems
    by (intro Cons.IH) (auto simp: Let_def split: option.splits)
qed simp

lemma union_ops:
  assumes "(vm, op, row) \<in> set (virtual_machine_diff_union b)"
  shows "op \<in> set ACTIONS \<and> str_lower op = op"
proof -
  from assms obtain k where "(k, vm, op, row) \<in> set (resolved_diffs b)"
    by (auto simp: virtual_machine_diff_union_def)
  moreover have "list_all known_op (resolved_diffs b)"
    by (simp add: resolved_diffs_def intent_loop_ops core_loop_ops)
  ultimately show ?thesis by (auto simp: list_all_iff known_op_def)
qed

lemma classify_op: "(vm, op, row) \<in> set (virtual_machine_diff_union b) \<Longrightarrow> fst (classify_diff vm op row) = op"
  using union_ops[of vm op row b] by (simp add: classify_diff_def Let_def)

lemma firewall_diff_kind: "d \<in> set (build_firewall_plan_diffs rs) \<Longrightarrow> dget d ''kind'' = PStr ''firewall''"
  by (auto simp: build_firewall_plan_diffs_def firewall_plan_diff_def drop_none_def dget_Cons split: option.splits)

definition is_vm_delete :: "(string \<times> pyval) list \<Rightarrow> bool" where
  "is_vm_delete d \<longleftrightarrow> dget d ''op'' = PStr ''delete'' \<and> dget d ''kind'' \<noteq> PStr ''firewall''"

lemma vm_diff_delete:
  assumes "e \<in> set (virtual_machine_diff_union b)"
  shows "is_vm_delete (vm_plan_diff e) \<longleftrightarrow> fst (snd e) = ''delete''"
proof -
  obtain vm op row where e: "e = (vm, op, row)" by (cases e) auto
  have "dget (vm_plan_diff e) ''op'' = PStr op" "dget (vm_plan_diff e) ''kind'' = PStr ''virtualmachine''"
    using classify_op[of vm op row b] assms e by (simp_all add: vm_plan_diff_def Let_def dget_Cons)
  then show ?thesis using e by (simp add: is_vm_delete_def)
qed

lemma has_vm_delete_iff:
  "has_vm_delete (branch_plan_diffs mb)
   \<longleftrightarrow> (\<exists>vm row. (vm, ''delete'', row) \<in> set (virtual_machine_diff_union (mb_diffs mb)))"
proof -
  let ?u = "virtual_machine_diff_union (mb_diffs mb)"
  have "\<not> is_vm_delete d" if "d \<in> set (build_firewall_plan_diffs (mb_firewall_rows mb))" for d
    using firewall_diff_kind[OF that] by (simp add: is_vm_delete_def)
  then have "has_vm_delete (branch_plan_diffs mb) \<longleftrightarrow> (\<exists>e \<in> set ?u. is_vm_delete (vm_plan_diff e))"
    unfolding has_vm_delete_def is_vm_delete_def[symmetric] branch_plan_diffs_def classify_vm_diffs_def list_ex_iff
    by auto
  also have "\<dots> \<longleftrightarrow> (\<exists>e \<in> set ?u. fst (snd e) = ''delete'')" using vm_diff_delete by blast
  also have "\<dots> \<longleftrightarrow> (\<exists>vm row. (vm, ''delete'', row) \<in> set ?u)" by force
  finally show ?thesis .
qed

lemma plan_reply_permits:
  assumes "plan_verdict warnings (fst (call_plan_endpoint link payload)) = Inr v" and "permitted v"
  shows "snd (call_plan_endpoint link payload)
    \<and> (\<exists>url reply body. link_post link url payload = Inr reply \<and> reply_status reply < 400
        \<and> rs_json reply = Some (PDict body) \<and> truthy (dget body ''permitted''))"
proof -
  let ?url = "\<lambda>base. rstrip_char (CHR ''/'') base @ ''/intent/plan''"
  let ?decoded = "\<lambda>base. decoded_reply link ''Plan'' ''30'' ''/intent/plan'' (?url base) (link_post link (?url base) payload)"
  obtain parsed where parsed: "fst (call_plan_endpoint link payload) = Inr parsed"
    using assms by (cases "fst (call_plan_endpoint link payload)") (auto simp: plan_verdict_def)
  then obtain base where b: "link_context link = Some (Some base)" "base \<noteq> []"
    and m: "map_sum id from_payload (?decoded base) = Inr parsed"
    by (auto simp: call_plan_endpoint_def Let_def split: option.splits if_splits)
  from m obtain result where r: "?decoded base = Inr result" and "parsed = from_payload result"
    by (cases "?decoded base") auto
  then have p: "plan_verdict warnings (Inr (from_payload result)) = Inr v" using assms(1) parsed by simp
  have "truthy (dget result ''permitted'')"
    using p assms(2) by (auto simp: plan_verdict_def from_payload_def rbind_Inr_iff Let_def split: if_splits)
  moreover obtain reply where "link_post link (rstrip_char (CHR ''/'') base @ ''/intent/plan'') payload = Inr reply"
    "reply_status reply < 400" "rs_json reply = Some (PDict result)"
    using r by (auto simp: decoded_reply_def split: sum.splits if_splits option.splits pyval.splits)
  ultimately show ?thesis using b by (auto simp: call_plan_endpoint_def Let_def)
qed


definition demo_merge :: merge_branch where
  "demo_merge = \<lparr>mb_branch = PDict [(''pk'', PInt 3), (''schema_id'', PStr ''br3'')],
     mb_diffs = \<lparr>vm_rows = [PDict [(''action'', PStr ''delete''), (''object_id'', PInt 7), (''object_repr'', PStr ''web'')]],
       intent_rows = [], get_vm = (\<lambda>_. None), get_intent = (\<lambda>_. None)\<rparr>,
     mb_firewall_rows = []\<rparr>"

definition demo_plan_reply :: http_response where
  "demo_plan_reply = \<lparr>rs_status = Some 200,
     rs_json = Some (PDict [(''permitted'', PBool True), (''summary'', PStr ''ok'')]),
     rs_text = [], rs_content_type = [], rs_url = []\<rparr>"

definition demo_gate :: gate_env where
  "demo_gate = \<lparr>ge_settings = Some (PDict [(''netbox_to_proxmox_enabled'', PBool True)]),
     ge_branching = \<lparr>branching_available = True, find_branch = (\<lambda>_ _. Inr (Some (PDict []))),
       find_branch_intent = (\<lambda>_ _. Inr (Some (PDict [(''apply_to_proxmox'', PBool True),
         (''apply_destroy_confirmed'', PBool True)])))\<rparr>,
     ge_link = \<lparr>link_context = Some (Some ''http://pb/''), link_post = (\<lambda>_ _. Inr demo_plan_reply),
       link_decode_error = (\<lambda>_. [])\<rparr>,
     ge_default_endpoint = Some 1\<rparr>"

definition demo_plan :: pyval where
  "demo_plan = PDict [(''endpoint_id'', PInt 1), (''branch_id'', PInt 3), (''actor'', PNone),
     (''diffs'', PList [PDict [(''op'', PStr ''delete''), (''kind'', PStr ''virtualmachine''), (''netbox_id'', PInt 7),
       (''name'', PStr ''web'')]])]"

lemma demo_merge_deletes:
  "branch_plan_diffs demo_merge \<noteq> []"
  "(fst (hd (virtual_machine_diff_union (mb_diffs demo_merge))), ''delete'',
     snd (snd (hd (virtual_machine_diff_union (mb_diffs demo_merge)))))
   \<in> set (virtual_machine_diff_union (mb_diffs demo_merge))"
  by code_simp+


end
