(* ===== verification/Description_Metadata.thy ===== *)
theory Description_Metadata
  imports Json_Text Vm_Identity
begin

text \<open>
  \<open>intent/description_metadata.py\<close>: the fenced block of foreign keys that is embedded in the description of
  a virtual machine. The fence expression is multi-line and lazy, so it is written out on the lines of the
  text: an opening line, at least one line, and the first closing line after it.
\<close>

section \<open>Building the block\<close>

definition PK_FIELDS :: "string list" where
  "PK_FIELDS = [''role'', ''tenant'', ''site'', ''platform'', ''cluster'', ''device'']"

definition collect_netbox_metadata :: "pyval \<Rightarrow> (string \<times> int) list" where
  "collect_netbox_metadata vm =
     concat (map (\<lambda>key. case attr_value (attr_value vm key) ''id'' of
       PInt i \<Rightarrow> if 0 < i then [(key, i)] else [] | _ \<Rightarrow> []) PK_FIELDS)"

abbreviation NL :: char where "NL \<equiv> CHR 0x0A"

definition FENCE :: string where "FENCE = [CHR 0x60, CHR 0x60, CHR 0x60]"

text \<open>\<open>json.dumps(metadata, sort_keys=True, indent=2)\<close> of a dictionary of integers.\<close>

definition metadata_json :: "(string \<times> int) list \<Rightarrow> string" where
  "metadata_json metadata =
     CHR 0x7B # NL # str_join ('','' @ [NL])
       (map (\<lambda>(k, v). ''  '' @ json_str k @ '': '' @ str_of_int v) (sort_key fst metadata)) @ [NL, CHR 0x7D]"

definition render_netbox_metadata_block :: "(string \<times> int) list \<Rightarrow> string option" where
  "render_netbox_metadata_block metadata =
     (if metadata = [] then None
      else Some (FENCE @ ''netbox-metadata'' @ [NL] @ metadata_json metadata @ [NL] @ FENCE))"

section \<open>Removing a block\<close>

definition is_blank :: "char \<Rightarrow> bool" where
  "is_blank c \<longleftrightarrow> c = CHR '' '' \<or> c = CHR 0x09"

definition drop_blanks :: "string \<Rightarrow> string" where
  "drop_blanks s = dropWhile is_blank s"

definition after_fence :: "string \<Rightarrow> string option" where
  "after_fence line =
     (let s = drop_blanks line in if startswith FENCE s then Some (drop 3 s) else None)"

definition opens_fence :: "string \<Rightarrow> bool" where
  "opens_fence line =
     (case after_fence line of
        None \<Rightarrow> False
      | Some t \<Rightarrow>
          (let s = drop_blanks t in
           str_lower (take 15 s) = ''netbox-metadata'' \<and> drop_blanks (drop 15 s) \<in> {[], [CHR 0x0D]}))"

definition closes_fence :: "string \<Rightarrow> bool" where
  "closes_fence line = (case after_fence line of None \<Rightarrow> False | Some t \<Rightarrow> drop_blanks t = [])"

text \<open>The lines after the first closing line, which must not be the first line.\<close>

fun after_close :: "string list \<Rightarrow> string list option" where
  "after_close [] = None"
| "after_close (l # ls) = (if closes_fence l then Some ls else after_close ls)"

definition after_block :: "string list \<Rightarrow> string list option" where
  "after_block ls = (case ls of [] \<Rightarrow> None | _ # rest \<Rightarrow> after_close rest)"

lemma after_close_length: "after_close ls = Some rest \<Longrightarrow> length rest < length ls"
  by (induction ls) (auto split: if_splits)

lemma after_block_length: "after_block ls = Some rest \<Longrightarrow> length rest < length ls"
  using after_close_length by (fastforce simp: after_block_def split: list.splits)

text \<open>\<open>_FENCE_RE.sub("", text)\<close>: what is left of a block is an empty line. A line can open a block only where
  the text before it ends with a line break.\<close>

function remove_blocks :: "string list \<Rightarrow> string list" where
  "remove_blocks [] = []"
| "remove_blocks (l # ls) =
     (if opens_fence l then
        (case after_block ls of None \<Rightarrow> l # remove_blocks ls | Some rest \<Rightarrow> [] # remove_blocks rest)
      else l # remove_blocks ls)"
  by pat_completeness auto
termination
  by (relation "measure length") (auto dest: after_block_length)

definition strip_netbox_metadata :: "string option \<Rightarrow> string option" where
  "strip_netbox_metadata text =
     (case text of
        None \<Rightarrow> None
      | Some t \<Rightarrow>
          if t = [] then None
          else let cleaned = rstrip (str_join [NL] (remove_blocks (split_on NL t)))
               in if cleaned = [] then None else Some cleaned)"

definition embed_netbox_metadata :: "string option \<Rightarrow> string option \<Rightarrow> string option" where
  "embed_netbox_metadata description block =
     (case block of
        None \<Rightarrow> strip_netbox_metadata description
      | Some b \<Rightarrow>
          (case strip_netbox_metadata description of None \<Rightarrow> Some b | Some base \<Rightarrow> Some (base @ [NL, NL] @ b)))"

definition build_description_with_metadata :: "pyval \<Rightarrow> string option \<Rightarrow> string option" where
  "build_description_with_metadata vm description =
     embed_netbox_metadata description (render_netbox_metadata_block (collect_netbox_metadata vm))"

section \<open>An embedded block is found again\<close>

fun comma_lines :: "string list \<Rightarrow> string list" where
  "comma_lines [] = []"
| "comma_lines [x] = [x]"
| "comma_lines (x # y # xs) = (x @ '','') # comma_lines (y # xs)"

lemma join_comma_lines: "str_join ('','' @ [NL]) xs = str_join [NL] (comma_lines xs)"
proof (induction xs rule: comma_lines.induct)
  case (3 x y xs)
  then show ?case by (cases "comma_lines (y # xs)") (cases xs; simp)+
qed simp_all

lemma str_join_append:
  "xs \<noteq> [] \<Longrightarrow> ys \<noteq> [] \<Longrightarrow> str_join sep (xs @ ys) = str_join sep xs @ sep @ str_join sep ys"
proof (induction xs rule: induct_list012)
  case (2 x)
  then show ?case by (cases ys) auto
qed auto

lemma join_split: "str_join [d] (split_on d s) = s"
proof (induction s)
  case (Cons c s)
  obtain w ws where w: "split_on d s = w # ws" by (cases "split_on d s") auto
  with Cons show ?case by (cases ws) auto
qed simp

lemma comma_lines_ne: "xs \<noteq> [] \<Longrightarrow> comma_lines xs \<noteq> []"
  by (induction xs rule: comma_lines.induct) auto

lemma comma_lines_shape: "l \<in> set (comma_lines xs) \<Longrightarrow> \<exists>x \<in> set xs. l = x \<or> l = x @ '',''"
  by (induction xs rule: comma_lines.induct) auto

lemma json_char_no_newline: "NL \<notin> set (json_char c)"
proof -
  have h: "hex_digit n \<noteq> NL" if "n < 16" for n
  proof
    assume "hex_digit n = NL"
    then have "ord (hex_digit n) = ord NL" by (simp only:)
    with ord_hex_digit[OF that] show False by (simp split: if_splits)
  qed
  have "ord c div 16 < 16" using nat_of_char_less_256[of c] by (rule less_mult_imp_div_less[of _ 16 16, simplified])
  then show ?thesis
    using h[of "ord c div 16"] h[of "ord c mod 16"] by (auto simp: json_char_def json_escape_def)
qed

lemma json_str_no_newline: "NL \<notin> set (json_str s)"
  using json_char_no_newline by (auto simp: json_str_def)

lemma str_of_int_no_newline: "NL \<notin> set (str_of_int i)"
proof -
  have "NL \<notin> set (str_of_nat n)" for n
    using str_of_nat_digits[of n] by (auto simp: list_all_iff is_digit_def)
  then show ?thesis by (simp add: str_of_int_def)
qed

definition metadata_lines :: "(string \<times> int) list \<Rightarrow> string list" where
  "metadata_lines metadata =
     comma_lines (map (\<lambda>(k, v). ''  '' @ json_str k @ '': '' @ str_of_int v) (sort_key fst metadata))"

definition open_line :: string where "open_line = FENCE @ ''netbox-metadata''"

definition block_lines :: "(string \<times> int) list \<Rightarrow> string list" where
  "block_lines metadata = [CHR 0x7B] # metadata_lines metadata @ [[CHR 0x7D], FENCE]"

lemma item_not_closing: "\<not> closes_fence (CHR '' '' # CHR '' '' # CHR 0x22 # t)"
  by (simp add: closes_fence_def after_fence_def drop_blanks_def is_blank_def startswith_def FENCE_def)

lemma metadata_line: "l \<in> set (metadata_lines metadata) \<Longrightarrow> NL \<notin> set l \<and> \<not> closes_fence l"
proof -
  let ?item = "\<lambda>(k, v :: int). ''  '' @ json_str k @ '': '' @ str_of_int v"
  assume "l \<in> set (metadata_lines metadata)"
  then obtain x where x: "x \<in> set (map ?item (sort_key fst metadata))" and l: "l = x \<or> l = x @ '',''"
    unfolding metadata_lines_def using comma_lines_shape by blast
  from x obtain k v where "x = ''  '' @ json_str k @ '': '' @ str_of_int v" by auto
  then obtain t where "x = CHR '' '' # CHR '' '' # CHR 0x22 # t" and "NL \<notin> set x"
    using json_str_no_newline[of k] str_of_int_no_newline[of v] by (simp add: json_str_def)
  with l item_not_closing[of t] item_not_closing[of "t @ '',''"] show ?thesis by auto
qed

lemma block_is_lines:
  assumes "render_netbox_metadata_block metadata = Some block"
  shows "block = str_join [NL] (open_line # block_lines metadata)"
proof -
  have m: "metadata \<noteq> []" and b: "block = open_line @ [NL] @ metadata_json metadata @ [NL] @ FENCE"
    using assms by (auto simp: render_netbox_metadata_block_def open_line_def split: if_splits)
  have "sort_key fst metadata \<noteq> []" using m by (metis length_0_conv length_sort)
  then have ne: "metadata_lines metadata \<noteq> []" by (simp add: metadata_lines_def comma_lines_ne)
  have "metadata_json metadata = [CHR 0x7B, NL] @ str_join [NL] (metadata_lines metadata) @ [NL, CHR 0x7D]"
    unfolding metadata_json_def metadata_lines_def join_comma_lines[symmetric] by simp
  moreover have "str_join [NL] (block_lines metadata)
    = [CHR 0x7B, NL] @ str_join [NL] (metadata_lines metadata) @ [NL, CHR 0x7D, NL] @ FENCE"
    using ne str_join_append[OF ne, of "[[CHR 0x7D], FENCE]" "[NL]"]
    by (cases "metadata_lines metadata") (auto simp: block_lines_def)
  ultimately show ?thesis unfolding b by (simp add: block_lines_def)
qed

lemma after_close_skip: "\<forall>l \<in> set ls. \<not> closes_fence l \<Longrightarrow> after_close (ls @ rest) = after_close rest"
  by (induction ls) auto

lemma block_removed: "remove_blocks (open_line # block_lines metadata) = [[]]"
proof -
  have "opens_fence open_line" "closes_fence FENCE" "\<not> closes_fence [CHR 0x7D]" by code_simp+
  then show ?thesis
    using after_close_skip[of "metadata_lines metadata" "[[CHR 0x7D], FENCE]"] metadata_line
    by (simp add: block_lines_def after_block_def)
qed

lemma remove_blocks_skip: "list_all (\<lambda>l. \<not> opens_fence l) ls \<Longrightarrow> remove_blocks (ls @ rest) = ls @ remove_blocks rest"
  by (induction ls) auto

lemma strip_result: "strip_netbox_metadata d = Some base \<Longrightarrow> base \<noteq> [] \<and> rstrip base = base"
  by (auto simp: strip_netbox_metadata_def Let_def dest: rstrip_last intro: rstrip_no_space split: option.splits if_splits)

lemma block_lines_clean: "l \<in> set (open_line # block_lines metadata) \<Longrightarrow> NL \<notin> set l"
  using metadata_line by (auto simp: block_lines_def open_line_def FENCE_def)

text \<open>C18. Embedding is undone by stripping: a description that gets a metadata block gives back, when the
  block is stripped, exactly what stripping the original description gives, so repeated applies replace
  the block and never stack or alter the rest. The condition is that no line of the remaining
  description opens such a block without closing it.\<close>

theorem metadata_embedding_roundtrip:
  assumes "render_netbox_metadata_block metadata = Some block"
    and "case strip_netbox_metadata description of None \<Rightarrow> True
      | Some base \<Rightarrow> list_all (\<lambda>l. \<not> opens_fence l) (split_on (CHR 0x0A) base)"
  shows "strip_netbox_metadata (embed_netbox_metadata description (Some block)) = strip_netbox_metadata description
    \<and> embed_netbox_metadata (embed_netbox_metadata description (Some block)) other = embed_netbox_metadata description other"
proof -
  note b = block_is_lines[OF assms(1)]
  have bne: "block \<noteq> []" using assms(1) by (auto simp: render_netbox_metadata_block_def FENCE_def split: if_splits)
  have split: "split_on NL (str_join [NL] ls) = ls" if "ls \<noteq> []" "\<And>l. l \<in> set ls \<Longrightarrow> NL \<notin> set l" for ls
    using split_on_join[OF that] .
  have "strip_netbox_metadata (embed_netbox_metadata description (Some block)) = strip_netbox_metadata description"
  proof (cases "strip_netbox_metadata description")
    case None
    have "split_on NL block = open_line # block_lines metadata"
      unfolding b by (rule split) (use block_lines_clean in auto)
    then have "remove_blocks (split_on NL block) = [[]]" using block_removed by simp
    with bne have "strip_netbox_metadata (Some block) = None"
      by (simp add: strip_netbox_metadata_def rstrip_def)
    with None show ?thesis by (simp add: embed_netbox_metadata_def)
  next
    case (Some base)
    let ?ls = "split_on NL base"
    have base: "base \<noteq> []" "rstrip base = base" using strip_result[OF Some] by simp_all
    have open_free: "list_all (\<lambda>l. \<not> opens_fence l) (?ls @ [[]])"
      using assms(2) Some by (simp add: opens_fence_def after_fence_def drop_blanks_def startswith_def FENCE_def Let_def)
    have eq: "base @ [NL, NL] @ block = str_join [NL] ((?ls @ [[]]) @ open_line # block_lines metadata)"
      using str_join_append[of "?ls @ [[]]" "open_line # block_lines metadata" "[NL]"]
        str_join_append[of ?ls "[[]]" "[NL]"] b by (simp add: join_split)
    have split_eq: "split_on NL (base @ [NL, NL] @ block) = (?ls @ [[]]) @ open_line # block_lines metadata"
      unfolding eq by (rule split) (use block_lines_clean split_on_no_sep in auto)
    have "remove_blocks (split_on NL (base @ [NL, NL] @ block)) = ?ls @ [[], []]"
      unfolding split_eq remove_blocks_skip[OF open_free] block_removed by simp
    moreover have "str_join [NL] (?ls @ [[], []]) = base @ [NL, NL]"
      using str_join_append[of ?ls "[[], []]" "[NL]"] by (simp add: join_split)
    moreover have "rstrip (base @ [NL, NL]) = base" using base(2) by (simp add: rstrip_def is_space_def)
    ultimately have "strip_netbox_metadata (Some (base @ [NL, NL] @ block)) = Some base"
      using base(1) by (simp add: strip_netbox_metadata_def)
    with Some show ?thesis by (simp add: embed_netbox_metadata_def)
  qed
  then show ?thesis unfolding embed_netbox_metadata_def[of _ other] by (simp only: simp_thms)
qed

theorem metadata_embedding_roundtrip_witness:
  "strip_netbox_metadata (embed_netbox_metadata (Some ''web server'')
      (Some (FENCE @ ''netbox-metadata'' @ [CHR 0x0A] @ metadata_json [(''role'', 3)] @ [CHR 0x0A] @ FENCE)))
    = strip_netbox_metadata (Some ''web server'')
   \<and> embed_netbox_metadata (embed_netbox_metadata (Some ''web server'')
      (Some (FENCE @ ''netbox-metadata'' @ [CHR 0x0A] @ metadata_json [(''role'', 3)] @ [CHR 0x0A] @ FENCE))) None
    = embed_netbox_metadata (Some ''web server'') None"
  by (rule metadata_embedding_roundtrip[of "[(''role'', 3)]"]) code_simp+

end
