(* ===== verification/Intent_Payload.thy ===== *)
theory Intent_Payload
  imports Intent_Gate Description_Metadata Complex_Main
begin

text \<open>
  \<open>intent/payload.py\<close> and \<open>intent/snapshot.py\<close>: the create and update payloads of a virtual machine or
  container, and the metadata kept with a deletion. \<open>to_float\<close> is \<open>float(value)\<close>, None where it raises
  \<open>TypeError\<close> or \<open>ValueError\<close>; \<open>parse_json\<close> is \<open>json.loads\<close>. Related rows (disks, tags, interfaces) are lists
  of objects. A payload raises where an infinite number is rounded.
\<close>

section \<open>Values\<close>

datatype float_value = Finite_float rat | Nan_float | Infinite_float

record payload_env =
  to_float :: "pyval \<Rightarrow> float_value option"
  parse_json :: "string \<Rightarrow> pyval option"
  embed_description_metadata :: bool

text \<open>\<open>round(x)\<close>: to the nearest integer, a half to the even one.\<close>

definition py_round :: "rat \<Rightarrow> int" where
  "py_round x =
     (let f = \<lfloor>x\<rfloor>; d = x - of_int f
      in if d < 1 / 2 then f else if 1 / 2 < d then f + 1 else if even f then f else f + 1)"

definition rounded_int_or_none :: "payload_env \<Rightarrow> pyval \<Rightarrow> int option result" where
  "rounded_int_or_none env v =
     (if none_or_empty v then Inr None
      else (case to_float env v of
              None \<Rightarrow> Inr None
            | Some Nan_float \<Rightarrow> Inr None
            | Some Infinite_float \<Rightarrow> Inl (OverflowError ''cannot convert float infinity to integer'')
            | Some (Finite_float x) \<Rightarrow> Inr (Some (py_round x))))"

definition int_field :: "payload_env \<Rightarrow> pyval \<Rightarrow> pyval result" where
  "int_field env v = rbind (rounded_int_or_none env v) (\<lambda>i. Inr (opt_int i))"

definition intent_value :: "pyval \<Rightarrow> string list \<Rightarrow> pyval" where
  "intent_value intent attributes =
     (case first_some (\<lambda>a. let v = attr_value intent a in if none_or_empty v then None else Some v) attributes of
        Some v \<Rightarrow> v | None \<Rightarrow> PNone)"

definition related_all :: "pyval \<Rightarrow> string \<Rightarrow> pyval list" where
  "related_all vm relation_name = (case attr_value vm relation_name of PList xs \<Rightarrow> xs | _ \<Rightarrow> [])"

definition disk_gb :: "payload_env \<Rightarrow> pyval \<Rightarrow> pyval result" where
  "disk_gb env vm =
     rbind (rmap (\<lambda>disk. rounded_int_or_none env (attr_value disk ''size'')) (related_all vm ''virtual_disks''))
       (\<lambda>sizes. let found = concat (map (\<lambda>s. case s of None \<Rightarrow> [] | Some n \<Rightarrow> [n]) sizes)
                in Inr (if found = [] then PNone else PInt (sum_list found)))"

definition tag_names :: "pyval \<Rightarrow> pyval list" where
  "tag_names vm =
     concat (map (\<lambda>tag. case nonempty_text (attr_value tag ''name'') of None \<Rightarrow> [] | Some s \<Rightarrow> [PStr s])
       (related_all vm ''tags''))"

definition opt_str :: "string option \<Rightarrow> pyval" where
  "opt_str s = (case s of None \<Rightarrow> PNone | Some t \<Rightarrow> PStr t)"

definition resolve_description :: "payload_env \<Rightarrow> pyval \<Rightarrow> pyval" where
  "resolve_description env vm =
     (let description = nonempty_text (attr_value vm ''description'')
      in opt_str (if embed_description_metadata env then build_description_with_metadata vm description else description))"

section \<open>Cloud-init\<close>

definition is_line_break :: "char \<Rightarrow> bool" where
  "is_line_break c \<longleftrightarrow> (10 \<le> ord c \<and> ord c \<le> 13) \<or> (28 \<le> ord c \<and> ord c \<le> 30)"

text \<open>\<open>text.splitlines()\<close>, up to empty lines.\<close>

fun split_breaks :: "string \<Rightarrow> string list" where
  "split_breaks [] = [[]]"
| "split_breaks (c # s) =
     (if is_line_break c then [] # split_breaks s
      else (case split_breaks s of [] \<Rightarrow> [[c]] | w # ws \<Rightarrow> (c # w) # ws))"

definition cloud_init_text :: "pyval \<Rightarrow> pyval" where
  "cloud_init_text v =
     (if none_or_empty v then PNone
      else case v of PStr s \<Rightarrow> if strip s = [] then PNone else v | _ \<Rightarrow> v)"

definition cloud_init_ssh_keys :: "pyval \<Rightarrow> pyval" where
  "cloud_init_ssh_keys v =
     (let t = cloud_init_text v;
          keys = filter (\<lambda>l. l \<noteq> []) (map strip (split_breaks (py_str t)))
      in if t = PNone \<or> keys = [] then PNone else PList (map PStr keys))"

definition cloud_init_network :: "payload_env \<Rightarrow> pyval \<Rightarrow> pyval" where
  "cloud_init_network env v =
     (case v of
        PDict d \<Rightarrow> if d = [] then PNone else v
      | _ \<Rightarrow>
          (let t = cloud_init_text v in
           if t = PNone then PNone
           else (case parse_json env (py_str t) of
                   Some (PDict d) \<Rightarrow> if d = [] then PNone else PDict d
                 | _ \<Rightarrow> PNone)))"

definition cloud_init_payload :: "payload_env \<Rightarrow> pyval \<Rightarrow> (string \<times> pyval) list" where
  "cloud_init_payload env intent =
     drop_none
       [(''user'', str_or_none (intent_value intent [''cloud_init_user''])),
        (''ssh_keys'', cloud_init_ssh_keys (intent_value intent [''cloud_init_ssh_keys''])),
        (''user_data'', cloud_init_text (intent_value intent [''cloud_init_user_data''])),
        (''network'', cloud_init_network env (intent_value intent [''cloud_init_network'']))]"

section \<open>Payloads\<close>

definition with_cloud_init :: "payload_env \<Rightarrow> pyval \<Rightarrow> (string \<times> pyval) list \<Rightarrow> (string \<times> pyval) list" where
  "with_cloud_init env intent payload =
     (let cloud_init = cloud_init_payload env intent
      in if cloud_init = [] then payload else payload @ [(''cloud_init'', PDict cloud_init)])"

definition build_vm_payload :: "payload_env \<Rightarrow> pyval \<Rightarrow> (string \<times> pyval) list result" where
  "build_vm_payload env vm =
     (let intent = attr_value vm ''proxbox_intent'' in
      rbind (int_field env (PStr (resolve_vm_vmid vm))) (\<lambda>vmid.
      rbind (int_field env (attr_value vm ''vcpus'')) (\<lambda>cores.
      rbind (int_field env (attr_value vm ''memory'')) (\<lambda>memory.
      rbind (disk_gb env vm) (\<lambda>disk.
      rbind (int_field env (intent_value intent [''template_vmid''])) (\<lambda>template_vmid.
        Inr (with_cloud_init env intent
          [(''vmid'', vmid), (''name'', PStr (text_or_empty (attr_value vm ''name''))),
           (''node'', str_or_none (intent_value intent [''target_node''])), (''cores'', cores), (''memory'', memory),
           (''disk_gb'', disk), (''storage'', str_or_none (intent_value intent [''target_storage''])),
           (''iso'', str_or_none (intent_value intent [''iso''])), (''template_vmid'', template_vmid),
           (''tags'', PList (tag_names vm)), (''description'', resolve_description env vm)])))))))"

definition build_lxc_payload :: "payload_env \<Rightarrow> pyval \<Rightarrow> (string \<times> pyval) list result" where
  "build_lxc_payload env vm =
     (let intent = attr_value vm ''proxbox_intent'' in
      rbind (int_field env (PStr (resolve_vm_vmid vm))) (\<lambda>vmid.
      rbind (int_field env (attr_value vm ''vcpus'')) (\<lambda>cores.
      rbind (int_field env (attr_value vm ''memory'')) (\<lambda>memory.
      rbind (int_field env (intent_value intent [''swap''])) (\<lambda>swap.
        Inr (with_cloud_init env intent
          [(''vmid'', vmid), (''name'', PStr (text_or_empty (attr_value vm ''name''))),
           (''node'', str_or_none (intent_value intent [''target_node''])), (''cores'', cores), (''memory'', memory),
           (''swap'', swap), (''rootfs'', str_or_none (intent_value intent [''rootfs''])),
           (''storage'', str_or_none (intent_value intent [''target_storage''])),
           (''ostemplate'', str_or_none (intent_value intent [''ostemplate'', ''iso''])),
           (''tags'', PList (tag_names vm)), (''description'', resolve_description env vm)]))))))"

definition build_update_delta ::
  "payload_env \<Rightarrow> pyval \<Rightarrow> (string \<times> pyval) list \<Rightarrow> (string \<times> pyval) list result" where
  "build_update_delta env vm prev =
     rbind (if str_lower (text_or_empty (dget prev ''kind'')) = ''lxc'' then build_lxc_payload env vm
            else build_vm_payload env vm)
       (\<lambda>current.
          let delta = filter (\<lambda>(k, v). k \<notin> {''vmid'', ''node''} \<and> dget prev k \<noteq> v) current
          in Inr (if delta = [] then []
                  else delta @ [(''vmid'', dget current ''vmid''), (''node'', dget current ''node'')]))"

section \<open>Snapshots for deletions\<close>

definition INTENT_FIELDS :: "string list" where
  "INTENT_FIELDS = [''target_node'', ''target_storage'', ''iso'', ''template_vmid'', ''swap'', ''rootfs'', ''ostemplate'',
     ''cloud_init_user'', ''cloud_init_ssh_keys'', ''cloud_init_user_data'', ''cloud_init_network'', ''intent_state'',
     ''last_apply_run_id'']"

definition intent_snapshot :: "pyval \<Rightarrow> (string \<times> pyval) list" where
  "intent_snapshot vm =
     (let intent = attr_value vm ''proxbox_intent''
      in if intent = PNone then [] else map (\<lambda>f. (f, attr_value intent f)) INTENT_FIELDS)"

definition snapshot_disk_gb :: "payload_env \<Rightarrow> pyval \<Rightarrow> pyval result" where
  "snapshot_disk_gb env vm =
     rbind (rounded_int_or_none env (attr_value vm ''disk_gb''))
       (\<lambda>v. case v of Some n \<Rightarrow> Inr (PInt n) | None \<Rightarrow> disk_gb env vm)"

definition interface_snapshot :: "payload_env \<Rightarrow> pyval \<Rightarrow> pyval result" where
  "interface_snapshot env interface =
     rbind (int_field env (attr_value interface ''mtu'')) (\<lambda>mtu.
       Inr (PDict [(''name'', str_or_none (attr_value interface ''name'')),
         (''mac_address'', str_or_none (attr_value interface ''mac_address'')),
         (''enabled'', attr_value interface ''enabled''), (''mtu'', mtu),
         (''description'', str_or_none (attr_value interface ''description''))]))"

definition snapshot_interfaces :: "payload_env \<Rightarrow> pyval \<Rightarrow> pyval list result" where
  "snapshot_interfaces env vm =
     rmap (interface_snapshot env)
       (if related_all vm ''interfaces'' = [] then related_all vm ''vminterface_set'' else related_all vm ''interfaces'')"

text \<open>The address of a related row; recorded snapshots hold plain values, whose text is used.\<close>

definition ip_string :: "pyval \<Rightarrow> pyval" where
  "ip_string v =
     (if none_or_empty v then PNone
      else let address = attr_value v ''address''
           in if none_or_empty address then PStr (obj_str v) else PStr (py_str address))"

definition build_metadata_snapshot :: "payload_env \<Rightarrow> pyval \<Rightarrow> (string \<times> pyval) list result" where
  "build_metadata_snapshot env vm =
     rbind (int_field env (py_or (attr_value vm ''vmid'') (PStr (resolve_vm_vmid vm)))) (\<lambda>vmid.
     rbind (int_field env (getattr_or vm ''cores'' (attr_value vm ''vcpus''))) (\<lambda>cores.
     rbind (int_field env (attr_value vm ''memory'')) (\<lambda>memory.
     rbind (snapshot_disk_gb env vm) (\<lambda>disk.
     rbind (snapshot_interfaces env vm) (\<lambda>interfaces.
       Inr [(''vmid'', vmid), (''node'', str_or_none (PStr (resolve_vm_node vm))),
         (''name'', PStr (text_or_empty (attr_value vm ''name''))), (''tags'', PList (tag_names vm)), (''cores'', cores),
         (''memory'', memory), (''disk_gb'', disk), (''interfaces'', PList interfaces),
         (''ipv4'', ip_string (attr_value vm ''primary_ip4'')), (''ipv6'', ip_string (attr_value vm ''primary_ip6'')),
         (''custom_field_data'', PDict (case attr_value vm ''custom_field_data'' of PDict d \<Rightarrow> d | _ \<Rightarrow> [])),
         (''intent'', PDict (intent_snapshot vm))])))))"

definition diff_mapping :: "pyval \<Rightarrow> string \<Rightarrow> (string \<times> pyval) list" where
  "diff_mapping change_diff a = (case attr_value change_diff a of PDict d \<Rightarrow> d | _ \<Rightarrow> [])"

definition recorded_value :: "(string \<times> pyval) list list \<Rightarrow> string \<Rightarrow> pyval" where
  "recorded_value snapshots key =
     (case first_some (\<lambda>d. if none_or_empty (dget d key) then None else Some (dget d key)) snapshots of
        Some v \<Rightarrow> v | None \<Rightarrow> PNone)"

definition recorded_custom_fields :: "(string \<times> pyval) list list \<Rightarrow> (string \<times> pyval) list" where
  "recorded_custom_fields snapshots =
     (case first_some (\<lambda>d. case py_or (dget d ''custom_field_data'') (dget d ''custom_fields'') of
         PDict c \<Rightarrow> Some c | _ \<Rightarrow> None) snapshots of Some c \<Rightarrow> c | None \<Rightarrow> [])"

definition recorded_name :: "pyval \<Rightarrow> string option" where
  "recorded_name v = nonempty_text (case v of PDict d \<Rightarrow> dget d ''name'' | _ \<Rightarrow> v)"

definition list_or_empty :: "pyval \<Rightarrow> pyval" where
  "list_or_empty v = (case v of PList xs \<Rightarrow> v | _ \<Rightarrow> PList [])"

definition recorded_vmid :: "payload_env \<Rightarrow> (string \<times> pyval) list list \<Rightarrow> int result" where
  "recorded_vmid env snapshots =
     (let raw = recorded_value snapshots ''vmid'';
          missing = Inl (ValueError ''Deleted VM ChangeDiff does not contain a Proxmox VMID.'')
      in rbind (case raw of PBool _ \<Rightarrow> Inr None | _ \<Rightarrow> rounded_int_or_none env raw)
           (\<lambda>v. case v of None \<Rightarrow> missing | Some n \<Rightarrow> if n \<le> 0 then missing else Inr n))"

definition get_or :: "(string \<times> pyval) list \<Rightarrow> string \<Rightarrow> pyval \<Rightarrow> pyval" where
  "get_or d key dflt = (case map_of d key of None \<Rightarrow> dflt | Some v \<Rightarrow> v)"

definition build_deleted_metadata_snapshot :: "payload_env \<Rightarrow> pyval \<Rightarrow> (string \<times> pyval) list result" where
  "build_deleted_metadata_snapshot env change_diff =
     (let original = diff_mapping change_diff ''original'';
          current = diff_mapping change_diff ''current'';
          snapshots = [original, current];
          source = (if original \<noteq> [] then original else current)
      in rbind (recorded_vmid env snapshots) (\<lambda>vmid.
         case recorded_name (recorded_value snapshots ''node'') of
           None \<Rightarrow> Inl (ValueError ''Deleted VM ChangeDiff does not contain a Proxmox node.'')
         | Some node \<Rightarrow>
             (let recorded = recorded_value snapshots ''name'' in
              case nonempty_text (if none_or_empty recorded then attr_value change_diff ''object_repr'' else recorded) of
                None \<Rightarrow> Inl (ValueError ''Deleted VM ChangeDiff does not contain a VM name.'')
              | Some name \<Rightarrow>
                  rbind (int_field env (get_or source ''cores'' (dget source ''vcpus''))) (\<lambda>cores.
                  rbind (int_field env (dget source ''memory'')) (\<lambda>memory.
                  rbind (int_field env (dget source ''disk_gb'')) (\<lambda>disk.
                    Inr [(''vmid'', PInt vmid), (''node'', PStr node), (''name'', PStr name),
                      (''tags'', list_or_empty (dget source ''tags'')), (''cores'', cores), (''memory'', memory),
                      (''disk_gb'', disk), (''interfaces'', list_or_empty (dget source ''interfaces'')),
                      (''ipv4'', str_or_none (get_or source ''primary_ip4'' (dget source ''ipv4''))),
                      (''ipv6'', str_or_none (get_or source ''primary_ip6'' (dget source ''ipv6''))),
                      (''custom_field_data'', PDict (recorded_custom_fields snapshots)),
                      (''intent'', PDict (case dget source ''intent'' of PDict d \<Rightarrow> d | _ \<Rightarrow> [])),
                      (''change_diff'', PDict [(''object_id'', attr_value change_diff ''object_id''),
                         (''object_repr'', attr_value change_diff ''object_repr''), (''original'', PDict original),
                         (''current'', if current = [] then PNone else PDict current)])]))))))"

end
