(* ===== verification/Intent_Apply.thy ===== *)
theory Intent_Apply
  imports Intent_Payload Deletion_Request
begin

text \<open>
  \<open>intent/apply_job.py\<close>, with \<open>intent/proxmox_tags.py\<close> and \<open>intent/intent_writes.py\<close>: the job that writes the
  changes of a merged branch. Virtual machines and containers are created and updated with one request
  each, deletions become pending requests, and firewall rows are sent as they are. The environment holds
  the answers of the backend, the permissions of the user who merged, and which saves the database
  accepts. What the job does is a list of events in order.
\<close>

section \<open>Results\<close>

definition CREATE_PERMISSIONS :: "string \<Rightarrow> string" where
  "CREATE_PERMISSIONS kind =
     (if kind = ''lxc'' then ''netbox_proxbox.intent_create_lxc'' else ''netbox_proxbox.intent_create_vm'')"

definition UPDATE_PERMISSIONS :: "string \<Rightarrow> string" where
  "UPDATE_PERMISSIONS kind =
     (if kind = ''lxc'' then ''netbox_proxbox.intent_update_lxc'' else ''netbox_proxbox.intent_update_vm'')"

definition DELETE_PERMISSIONS :: "string \<Rightarrow> string" where
  "DELETE_PERMISSIONS kind =
     (if kind = ''lxc'' then ''netbox_proxbox.intent_delete_lxc'' else ''netbox_proxbox.intent_delete_vm'')"

definition SUCCESS_STATUSES :: "string list" where
  "SUCCESS_STATUSES = [''succeeded'', ''success'', ''applied'', ''intent-logged'', ''delete-pending-approval'']"

definition FAILED_STATUSES :: "string list" where
  "FAILED_STATUSES = [''failed'']"

definition PENDING_DELETION_TAG :: string where
  "PENDING_DELETION_TAG = ''proxbox-pending-deletion''"

type_synonym result_dict = "(string \<times> pyval) list"

definition result_entry :: "pyval \<Rightarrow> string \<Rightarrow> string \<Rightarrow> string \<Rightarrow> string \<Rightarrow> pyval \<Rightarrow> result_dict" where
  "result_entry vmid op kind status msg upid =
     [(''vmid'', vmid), (''op'', PStr op), (''kind'', PStr kind), (''status'', PStr status), (''message'', PStr msg),
      (''proxmox_upid'', upid)]"

definition diff_identifier :: "pyval \<Rightarrow> nat \<Rightarrow> string" where
  "diff_identifier row fallback =
     (case first_some (\<lambda>a. nonempty_text (attr_value row a)) [''object_repr'', ''object_id'', ''pk''] of
        Some s \<Rightarrow> s | None \<Rightarrow> ''changediff-'' @ str_of_nat fallback)"

definition result_key :: "pyval \<Rightarrow> pyval \<Rightarrow> pyval \<Rightarrow> nat \<Rightarrow> string" where
  "result_key row vm vmid fallback =
     (case first_some nonempty_text [vmid, attr_value vm ''pk'', attr_value vm ''id''] of
        Some s \<Rightarrow> s | None \<Rightarrow> diff_identifier row fallback)"

definition status_is_success :: "string \<Rightarrow> bool" where
  "status_is_success status \<longleftrightarrow> str_lower status \<in> set SUCCESS_STATUSES"

datatype apply_state = Queued | Running | Succeeded | Failed | Partial

definition entry_status :: "result_dict \<Rightarrow> string" where
  "entry_status r = str_lower (text_or_empty (dget r ''status''))"

definition state_from_results :: "(string \<times> result_dict) list \<Rightarrow> apply_state" where
  "state_from_results results =
     (let statuses = map (entry_status \<circ> snd) results
      in if list_all (\<lambda>s. s \<in> set SUCCESS_STATUSES) statuses then Succeeded
         else if list_all (\<lambda>s. s \<in> set FAILED_STATUSES) statuses then Failed
         else Partial)"

definition deletion_identity :: "(string \<times> pyval) list \<Rightarrow> (int \<times> string \<times> string) result" where
  "deletion_identity snapshot =
     (let node = dget snapshot ''node''; name = dget snapshot ''name'' in
      case dget snapshot ''vmid'' of
        PInt vmid \<Rightarrow>
          if vmid \<le> 0 then Inl (ValueError ''Deletion metadata does not contain a valid Proxmox VMID.'')
          else if none_or_empty node then Inl (ValueError ''Deletion metadata does not contain a Proxmox node.'')
          else if none_or_empty name then Inl (ValueError ''Deletion metadata does not contain a VM name.'')
          else Inr (vmid, py_str node, py_str name)
      | _ \<Rightarrow> Inl (ValueError ''Deletion metadata does not contain a valid Proxmox VMID.''))"

section \<open>Effects\<close>

datatype apply_event =
    Apply_sent string pyval string
  | Deletion_created deletion_request
  | Tag_sent int string string
  | Intent_stamped pyval
  | Firewall_status fw_object string

record apply_env =
  ap_payload :: payload_env
  ap_branching :: branch_env
  ap_link :: backend_link
  ap_default_endpoint :: "int option"
  ap_has_perm :: "string \<Rightarrow> bool"
  ap_now :: rat
  ap_save_deletion :: "deletion_request \<Rightarrow> int result"
  ap_save_job :: "apply_state \<Rightarrow> bool"

record apply_run =
  ar_branch :: pyval
  ar_actor :: pyval
  ar_uuid :: string
  ar_diffs :: branch_diffs
  ar_firewall_rows :: "pyval list"

text \<open>\<open>actor is None or not callable(has_perm) or not has_perm(permission)\<close>, negated.\<close>

definition actor_may :: "apply_env \<Rightarrow> apply_run \<Rightarrow> string \<Rightarrow> bool" where
  "actor_may env run permission \<longleftrightarrow> ar_actor run \<noteq> PNone \<and> ap_has_perm env permission"

definition actor_username :: "apply_run \<Rightarrow> pyval" where
  "actor_username run = attr_value (ar_actor run) ''username''"

text \<open>\<open>_call_apply_endpoint\<close>: the decoded answer or the text of the error, and the request if one was sent.\<close>

definition apply_request :: "apply_run \<Rightarrow> (string \<times> pyval) list \<Rightarrow> pyval" where
  "apply_request run diff =
     PDict [(''diffs'', PList [PDict diff]), (''run_uuid'', PStr (ar_uuid run)), (''actor'', actor_username run)]"

definition call_apply_endpoint ::
  "apply_env \<Rightarrow> apply_run \<Rightarrow> (string \<times> pyval) list \<Rightarrow> int option \<Rightarrow> (string \<times> pyval) list result \<times> apply_event list" where
  "call_apply_endpoint env run diff endpoint_id =
     (case link_context (ap_link env) of
        None \<Rightarrow> (Inl (RuntimeError ''No FastAPIEndpoint is configured; cannot apply intent.''), [])
      | Some http_url \<Rightarrow>
          (let base = (case http_url of None \<Rightarrow> [] | Some u \<Rightarrow> u) in
           if base = [] then (Inl (RuntimeError ''FastAPIEndpoint has no resolvable http_url.''), [])
           else
             let url = rstrip_char (CHR ''/'') base @ ''/intent/apply''
                   @ (case endpoint_id of None \<Rightarrow> [] | Some i \<Rightarrow> ''?endpoint_id='' @ str_of_int i);
                 payload = apply_request run diff
             in (map_sum RuntimeError id
                   (decoded_reply (ap_link env) ''Apply'' ''3600'' ''/intent/apply'' url (link_post (ap_link env) url payload)),
                 [Apply_sent url payload (text_or_empty (actor_username run))])))"

definition first_apply_result :: "(string \<times> pyval) list \<Rightarrow> (string \<times> pyval) list" where
  "first_apply_result body =
     (case dget body ''results'' of
        PList (PDict d # _) \<Rightarrow> d
      | _ \<Rightarrow> [(''status'', PStr ''failed''),
              (''message'', PStr ''proxbox-api returned no ApplyResultItem for the CREATE diff.'')])"

definition item_status :: "(string \<times> pyval) list \<Rightarrow> string" where
  "item_status item = py_str (py_or (dget item ''status'') (PStr ''failed''))"

definition item_result :: "pyval \<Rightarrow> string \<Rightarrow> string \<Rightarrow> (string \<times> pyval) list \<Rightarrow> result_dict" where
  "item_result vmid op kind item =
     result_entry (get_or item ''vmid'' vmid) op kind (item_status item) (text_or_empty (dget item ''message''))
       (py_or (dget item ''proxmox_upid'') (dget item ''upid''))"

text \<open>The create and update branches from the request on.\<close>

definition send_vm_diff ::
  "apply_env \<Rightarrow> apply_run \<Rightarrow> pyval \<Rightarrow> string \<Rightarrow> string \<Rightarrow> (string \<times> pyval) list \<Rightarrow> pyval
    \<Rightarrow> result_dict result \<times> apply_event list" where
  "send_vm_diff env run vm op kind payload vmid =
     (case call_apply_endpoint env run [(''op'', PStr op), (''kind'', PStr kind), (''payload'', PDict payload)]
             (ap_default_endpoint env) of
        (Inl exc, evs) \<Rightarrow> (Inl exc, evs)
      | (Inr body, evs) \<Rightarrow>
          (let item = first_apply_result body
           in (Inr (item_result vmid op kind item),
               evs @ (if status_is_success (item_status item) then [Intent_stamped vm] else []))))"

text \<open>\<open>tag_pending_deletion\<close>: best effort, the answer is only logged.\<close>

definition tag_pending_deletion :: "apply_env \<Rightarrow> int \<Rightarrow> string \<Rightarrow> string \<Rightarrow> apply_event list" where
  "tag_pending_deletion env vmid node kind =
     (case link_context (ap_link env) of
        Some (Some url) \<Rightarrow> if url = [] then [] else [Tag_sent vmid node kind]
      | _ \<Rightarrow> [])"

definition new_deletion_request :: "apply_env \<Rightarrow> apply_run \<Rightarrow> string \<Rightarrow> int \<Rightarrow> string \<Rightarrow> deletion_request" where
  "new_deletion_request env run kind vmid node =
     \<lparr>dr_pk = 0, requested_by = exact_int (attr_value (ar_actor run) ''pk''), authorizer = None, dr_state = PENDING,
      dr_vmid = Some vmid, dr_node = node, dr_kind = kind, reject_reason = [], executor_run_uuid = None,
      requested_at = Some (ap_now env), approved_at = None, executed_at = None\<rparr>"

text \<open>The delete branch after its guards: the key under which the result is stored, the result and the
  events; \<open>Inl\<close> where the identity is incomplete or the row is not saved, with the key and VMID it then has.\<close>

definition request_deletion ::
  "apply_env \<Rightarrow> apply_run \<Rightarrow> nat \<Rightarrow> pyval \<Rightarrow> pyval \<Rightarrow> string \<Rightarrow> string \<times> pyval
    \<Rightarrow> (string \<times> pyval) \<times> (result_dict result \<times> apply_event list)" where
  "request_deletion env run index vm row kind slot =
     (case rbind (if vm = PNone then build_deleted_metadata_snapshot (ap_payload env) row
                  else build_metadata_snapshot (ap_payload env) vm) deletion_identity of
        Inl exc \<Rightarrow> (slot, Inl exc, [])
      | Inr (vmid, node, name) \<Rightarrow>
          (let dr = new_deletion_request env run kind vmid node;
               slot' = (result_key row vm (PInt vmid) index, PInt vmid)
           in case ap_save_deletion env dr of
                Inl exc \<Rightarrow> (slot', Inl exc, [])
              | Inr pk \<Rightarrow>
                  (slot', Inr [(''vmid'', PInt vmid), (''op'', PStr ''delete''), (''kind'', PStr kind),
                     (''status'', PStr ''delete-pending-approval''), (''deletion_request_id'', PInt pk),
                     (''message'', PStr ''pending authorization'')],
                   Deletion_created (dr\<lparr>dr_pk := pk\<rparr>) # tag_pending_deletion env vmid node kind)))"

definition skipped_entry :: "pyval \<Rightarrow> string \<Rightarrow> string \<Rightarrow> string \<Rightarrow> result_dict result \<times> apply_event list" where
  "skipped_entry vmid op kind reason = (Inr (result_entry vmid op kind ''skipped'' reason PNone), [])"

text \<open>One change of a virtual machine, after its payload was built.\<close>

definition apply_built_diff ::
  "apply_env \<Rightarrow> apply_run \<Rightarrow> nat \<Rightarrow> pyval \<Rightarrow> pyval \<Rightarrow> string \<Rightarrow> string \<Rightarrow> (string \<times> pyval) list
    \<Rightarrow> (string \<times> pyval) \<times> (result_dict result \<times> apply_event list)" where
  "apply_built_diff env run index vm row op kind payload =
     (let vmid = dget payload ''vmid'';
          slot = (result_key row vm vmid index, vmid);
          denied = (\<lambda>permission. (slot, skipped_entry vmid op kind (''permission denied: '' @ permission)))
      in if vm = PNone \<and> op \<noteq> ''delete''
         then (slot, Inr (result_entry vmid op kind ''failed''
                 (''Could not resolve NetBox VM for ChangeDiff '' @ diff_identifier row index @ ''.'') PNone), [])
         else if op = ''delete'' then
           (if \<not> apply_destroy_confirmed (resolve_branch_intent_flags (ap_branching env) (ar_branch run))
            then (slot, skipped_entry vmid op kind ''apply_destroy_confirmed not set'')
            else if \<not> actor_may env run (DELETE_PERMISSIONS kind) then denied (DELETE_PERMISSIONS kind)
            else request_deletion env run index vm row kind slot)
         else if op = ''update'' then
           (case build_update_delta (ap_payload env) vm [] of
              Inl exc \<Rightarrow> (slot, Inl exc, [])
            | Inr delta \<Rightarrow>
                if delta = [] then (slot, skipped_entry vmid op kind ''no real change'')
                else if \<not> actor_may env run (UPDATE_PERMISSIONS kind) then denied (UPDATE_PERMISSIONS kind)
                else (slot, send_vm_diff env run vm op kind delta vmid))
         else if \<not> actor_may env run (CREATE_PERMISSIONS kind) then denied (CREATE_PERMISSIONS kind)
         else (slot, send_vm_diff env run vm ''create'' kind payload vmid))"

definition failed_entry :: "pyval \<Rightarrow> string \<Rightarrow> string \<Rightarrow> py_exc \<Rightarrow> result_dict" where
  "failed_entry vmid op kind exc = result_entry vmid op kind ''failed'' (exc_text exc) PNone"

text \<open>One turn of the first loop: the key, the entry stored under it and the events.\<close>

definition apply_vm_diff ::
  "apply_env \<Rightarrow> apply_run \<Rightarrow> nat \<Rightarrow> diff_entry \<Rightarrow> (string \<times> result_dict) \<times> apply_event list" where
  "apply_vm_diff env run index entry =
     (let (vm, requested_op, row) = entry;
          (op, kind) = classify_diff vm requested_op row
      in case (if vm = PNone then Inr []
               else if kind = ''lxc'' then build_lxc_payload (ap_payload env) vm
               else build_vm_payload (ap_payload env) vm) of
           Inl exc \<Rightarrow> ((diff_identifier row index, failed_entry PNone op kind exc), [])
         | Inr payload \<Rightarrow>
             (case apply_built_diff env run index vm row op kind payload of
                ((key, vmid), Inl exc, evs) \<Rightarrow> ((key, failed_entry vmid op kind exc), evs)
              | ((key, vmid), Inr r, evs) \<Rightarrow> ((key, r), evs)))"

definition firewall_diff_dict :: "firewall_apply_diff \<Rightarrow> (string \<times> pyval) list" where
  "firewall_diff_dict fd =
     drop_none [(''op'', PStr (fd_op fd)), (''kind'', PStr ''firewall''), (''netbox_id'', opt_int (fd_netbox_id fd)),
       (''payload'', PDict (fd_payload fd))]"

text \<open>One turn of the second loop.\<close>

definition apply_firewall_diff ::
  "apply_env \<Rightarrow> apply_run \<Rightarrow> nat \<Rightarrow> pyval \<Rightarrow> (string \<times> result_dict) \<times> apply_event list" where
  "apply_firewall_diff env run index row =
     (let key = firewall_result_key row index in
      case build_firewall_apply_diff row of
        None \<Rightarrow> ((key, result_entry (PInt 0) (py_str (py_or (attr_value row ''action'') (PStr ''update''))) ''firewall''
                    ''skipped'' (unsupported_firewall_diff_message row) PNone), [])
      | Some fd \<Rightarrow>
          (case call_apply_endpoint env run (firewall_diff_dict fd) (fd_endpoint_id fd) of
             (Inl exc, evs) \<Rightarrow> ((key, failed_entry (PInt 0) (fd_op fd) ''firewall'' exc), evs)
           | (Inr body, evs) \<Rightarrow>
               (let item = first_apply_result body;
                    obj = \<lparr>fw_kind = kind_of_model (fw_row_model_name row), fw_attrs = fd_obj fd\<rparr>
                in ((key, item_result (PInt 0) (fd_op fd) ''firewall'' item),
                    evs @ (if status_is_success (item_status item) \<and> fd_obj fd \<noteq> PNone \<and> status_target obj
                           then [Firewall_status obj ''active''] else [])))))"

fun fold_diffs ::
  "(nat \<Rightarrow> 'a \<Rightarrow> (string \<times> result_dict) \<times> apply_event list) \<Rightarrow> nat \<Rightarrow> 'a list
    \<Rightarrow> (string \<times> result_dict) list \<times> apply_event list \<Rightarrow> (string \<times> result_dict) list \<times> apply_event list" where
  "fold_diffs f index [] acc = acc"
| "fold_diffs f index (x # xs) acc =
     (let ((key, r), evs) = f index x in fold_diffs f (Suc index) xs (AList.update key r (fst acc), snd acc @ evs))"

definition apply_diffs :: "apply_env \<Rightarrow> apply_run \<Rightarrow> (string \<times> result_dict) list \<times> apply_event list" where
  "apply_diffs env run =
     fold_diffs (apply_firewall_diff env run) 1 (ar_firewall_rows run)
       (fold_diffs (apply_vm_diff env run) 1 (virtual_machine_diff_union (ar_diffs run)) ([], []))"

section \<open>The job\<close>

record apply_job =
  aj_state :: apply_state
  aj_results :: "(string \<times> result_dict) list"
  aj_finished :: bool

text \<open>Marking the job as failed; a save the database refuses leaves the stored row as it is.\<close>

definition mark_failed :: "apply_env \<Rightarrow> apply_job \<Rightarrow> apply_job" where
  "mark_failed env job = (if ap_save_job env Failed then job\<lparr>aj_state := Failed, aj_finished := True\<rparr> else job)"

definition run_apply_job :: "apply_env \<Rightarrow> apply_run \<Rightarrow> apply_job \<Rightarrow> apply_job \<times> apply_event list" where
  "run_apply_job env run job =
     (if \<not> ap_save_job env Running then (mark_failed env job, [])
      else
        let job' = job\<lparr>aj_state := Running\<rparr>;
            (results, evs) = apply_diffs env run;
            state = state_from_results results
        in if ap_save_job env state
           then (job'\<lparr>aj_results := results, aj_state := state, aj_finished := True\<rparr>, evs)
           else (mark_failed env job', evs))"

section \<open>What the job may do\<close>

lemma call_events:
  "x \<in> set (snd (call_apply_endpoint env run diff e)) \<Longrightarrow>
   \<exists>url. x = Apply_sent url (apply_request run diff) (text_or_empty (actor_username run))"
  by (auto simp: call_apply_endpoint_def Let_def split: option.splits if_splits)

lemma send_events:
  assumes "x \<in> set (snd (send_vm_diff env run vm op kind payload vmid))"
  shows "(\<exists>url. x = Apply_sent url
      (apply_request run [(''op'', PStr op), (''kind'', PStr kind), (''payload'', PDict payload)])
      (text_or_empty (actor_username run))) \<or> x = Intent_stamped vm"
proof -
  let ?diff = "[(''op'', PStr op), (''kind'', PStr kind), (''payload'', PDict payload)]"
  obtain r evs where c: "call_apply_endpoint env run ?diff (ap_default_endpoint env) = (r, evs)" by fastforce
  with assms call_events[of x env run ?diff "ap_default_endpoint env"] show ?thesis
    by (cases r) (auto simp: send_vm_diff_def Let_def split: if_splits)
qed

lemma tag_events: "x \<in> set (tag_pending_deletion env vmid node kind) \<Longrightarrow> x = Tag_sent vmid node kind"
  by (auto simp: tag_pending_deletion_def split: option.splits if_splits)

lemma identity_positive: "deletion_identity snapshot = Inr (vmid, node, name) \<Longrightarrow> 0 < vmid"
  by (auto simp: deletion_identity_def Let_def split: pyval.splits if_splits)

lemma request_deletion_events:
  assumes "x \<in> set (snd (snd (request_deletion env run index vm row kind slot)))"
  shows "\<exists>vmid node pk. 0 < vmid
    \<and> (x = Deletion_created (new_deletion_request env run kind vmid node\<lparr>dr_pk := pk\<rparr>) \<or> x = Tag_sent vmid node kind)"
proof -
  let ?snap = "if vm = PNone then build_deleted_metadata_snapshot (ap_payload env) row
    else build_metadata_snapshot (ap_payload env) vm"
  from assms obtain vmid node name where i: "rbind ?snap deletion_identity = Inr (vmid, node, name)"
    by (cases "rbind ?snap deletion_identity") (auto simp: request_deletion_def)
  then have "0 < vmid" using identity_positive by (cases ?snap) auto
  moreover have "x = Tag_sent vmid node kind
    \<or> (\<exists>pk. x = Deletion_created (new_deletion_request env run kind vmid node\<lparr>dr_pk := pk\<rparr>))"
    using assms i tag_events[of x env vmid node kind] by (auto simp: request_deletion_def Let_def split: sum.splits)
  ultimately show ?thesis by blast
qed

text \<open>What a change of the branch allows.\<close>

definition permission_for :: "string \<Rightarrow> string \<Rightarrow> string" where
  "permission_for op kind =
     (if op = ''delete'' then DELETE_PERMISSIONS kind
      else if op = ''update'' then UPDATE_PERMISSIONS kind else CREATE_PERMISSIONS kind)"

definition diff_event_ok :: "apply_env \<Rightarrow> apply_run \<Rightarrow> diff_entry \<Rightarrow> apply_event \<Rightarrow> bool" where
  "diff_event_ok env run entry x \<longleftrightarrow>
     (let (vm, op, row) = entry; kind = classify_kind vm row
      in actor_may env run (permission_for op kind)
         \<and> (case x of
              Apply_sent url payload actor \<Rightarrow>
                op \<in> {''create'', ''update''} \<and> vm \<noteq> PNone
                \<and> (\<exists>body. payload = apply_request run [(''op'', PStr op), (''kind'', PStr kind), (''payload'', PDict body)])
            | Intent_stamped v \<Rightarrow> op \<in> {''create'', ''update''} \<and> v = vm
            | Deletion_created dr \<Rightarrow>
                op = ''delete'' \<and> apply_destroy_confirmed (resolve_branch_intent_flags (ap_branching env) (ar_branch run))
                \<and> fresh_request (dr, []) \<and> requested_by dr = exact_int (attr_value (ar_actor run) ''pk'')
                \<and> dr_kind dr = kind \<and> (\<exists>vmid. dr_vmid dr = Some vmid \<and> 0 < vmid)
            | Tag_sent vmid node k \<Rightarrow>
                op = ''delete'' \<and> apply_destroy_confirmed (resolve_branch_intent_flags (ap_branching env) (ar_branch run))
            | Firewall_status obj st \<Rightarrow> False))"

lemma built_diff_events:
  assumes "x \<in> set (snd (snd (apply_built_diff env run index vm row op (classify_kind vm row) payload)))"
    and "op \<in> set ACTIONS"
  shows "diff_event_ok env run (vm, op, row) x"
proof -
  let ?kind = "classify_kind vm row"
  let ?confirmed = "apply_destroy_confirmed (resolve_branch_intent_flags (ap_branching env) (ar_branch run))"
  consider "op = ''delete''" | "op = ''update''" | "op = ''create''" using assms(2) by (auto simp: ACTIONS_def)
  then show ?thesis
  proof cases
    case 1
    with assms(1) have ok: "?confirmed" "actor_may env run (DELETE_PERMISSIONS ?kind)"
      and x: "x \<in> set (snd (snd (request_deletion env run index vm row ?kind
        (result_key row vm (dget payload ''vmid'') index, dget payload ''vmid''))))"
      by (auto simp: apply_built_diff_def skipped_entry_def Let_def split: if_splits)
    with request_deletion_events[OF x] 1 show ?thesis
      by (auto simp: diff_event_ok_def permission_for_def new_deletion_request_def fresh_request_def Let_def)
  next
    case 2
    with assms(1) obtain delta where ok: "vm \<noteq> PNone" "actor_may env run (UPDATE_PERMISSIONS ?kind)"
      and x: "x \<in> set (snd (send_vm_diff env run vm op ?kind delta (dget payload ''vmid'')))"
      by (auto simp: apply_built_diff_def skipped_entry_def Let_def split: if_splits sum.splits)
    with send_events[OF x] 2 show ?thesis by (auto simp: diff_event_ok_def permission_for_def Let_def)
  next
    case 3
    with assms(1) have ok: "vm \<noteq> PNone" "actor_may env run (CREATE_PERMISSIONS ?kind)"
      and x: "x \<in> set (snd (send_vm_diff env run vm op ?kind payload (dget payload ''vmid'')))"
      by (auto simp: apply_built_diff_def skipped_entry_def Let_def split: if_splits)
    with send_events[OF x] 3 show ?thesis by (auto simp: diff_event_ok_def permission_for_def Let_def)
  qed
qed

lemma vm_diff_events:
  assumes "x \<in> set (snd (apply_vm_diff env run index entry))" and "entry \<in> set (virtual_machine_diff_union b)"
  shows "diff_event_ok env run entry x"
proof -
  obtain vm op row where e: "entry = (vm, op, row)" by (cases entry) auto
  have op: "op \<in> set ACTIONS" using union_ops assms(2) e by blast
  have c: "classify_diff vm op row = (op, classify_kind vm row)"
    using union_ops[of vm op row b] assms(2) e by (simp add: classify_diff_def Let_def)
  let ?payload = "if vm = PNone then Inr [] else if classify_kind vm row = ''lxc''
    then build_lxc_payload (ap_payload env) vm else build_vm_payload (ap_payload env) vm"
  obtain payload where p: "?payload = Inr payload"
    using assms(1) unfolding apply_vm_diff_def e by (cases ?payload) (auto simp: c)
  obtain key vmid r evs where
    b: "apply_built_diff env run index vm row op (classify_kind vm row) payload = ((key, vmid), r, evs)"
    by (metis surj_pair)
  have "snd (apply_vm_diff env run index entry) = evs"
    unfolding apply_vm_diff_def e by (cases r) (simp_all add: c p b)
  with assms(1) b have "x \<in> set (snd (snd (apply_built_diff env run index vm row op (classify_kind vm row) payload)))"
    by simp
  then show ?thesis unfolding e by (rule built_diff_events[OF _ op])
qed

lemma firewall_diff_events:
  assumes "x \<in> set (snd (apply_firewall_diff env run index row))"
  shows "\<exists>fd. build_firewall_apply_diff row = Some fd
    \<and> ((\<exists>url actor. x = Apply_sent url (apply_request run (firewall_diff_dict fd)) actor)
       \<or> (\<exists>obj. x = Firewall_status obj ''active''))"
proof -
  obtain fd where fd: "build_firewall_apply_diff row = Some fd"
    using assms by (auto simp: apply_firewall_diff_def Let_def split: option.splits)
  obtain r evs where c: "call_apply_endpoint env run (firewall_diff_dict fd) (fd_endpoint_id fd) = (r, evs)" by fastforce
  with assms fd call_events[of x env run "firewall_diff_dict fd" "fd_endpoint_id fd"] show ?thesis
    by (cases r) (auto simp: apply_firewall_diff_def Let_def split: if_splits)
qed

lemma fold_events:
  "x \<in> set (snd (fold_diffs f i xs acc)) \<Longrightarrow> x \<in> set (snd acc) \<or> (\<exists>j y. y \<in> set xs \<and> x \<in> set (snd (f j y)))"
proof (induction xs arbitrary: i acc)
  case (Cons y ys)
  obtain key r evs where f: "f i y = ((key, r), evs)" by (metis surj_pair)
  with Cons.prems Cons.IH[of "Suc i" "(AList.update key r (fst acc), snd acc @ evs)"] show ?case
    by (auto simp: Let_def) (metis snd_conv)+
qed simp

lemma apply_diffs_events:
  assumes "x \<in> set (snd (apply_diffs env run))"
  shows "(\<exists>entry \<in> set (virtual_machine_diff_union (ar_diffs run)). diff_event_ok env run entry x)
    \<or> (\<exists>row \<in> set (ar_firewall_rows run). \<exists>fd. build_firewall_apply_diff row = Some fd
         \<and> ((\<exists>url actor. x = Apply_sent url (apply_request run (firewall_diff_dict fd)) actor)
            \<or> (\<exists>obj. x = Firewall_status obj ''active'')))"
  using fold_events[OF assms[unfolded apply_diffs_def]]
proof
  assume "x \<in> set (snd (fold_diffs (apply_vm_diff env run) 1 (virtual_machine_diff_union (ar_diffs run)) ([], [])))"
  from fold_events[OF this] show ?thesis using vm_diff_events by fastforce
next
  assume "\<exists>j y. y \<in> set (ar_firewall_rows run) \<and> x \<in> set (snd (apply_firewall_diff env run j y))"
  then show ?thesis using firewall_diff_events by blast
qed

lemma run_events: "x \<in> set (snd (run_apply_job env run job)) \<Longrightarrow> x \<in> set (snd (apply_diffs env run))"
  by (auto simp: run_apply_job_def Let_def split: if_splits prod.splits)


section \<open>The job ends\<close>

lemma fold_diffs_keys:
  "k \<in> dom (map_of (fst acc)) \<Longrightarrow> k \<in> dom (map_of (fst (fold_diffs f i xs acc)))"
proof (induction xs arbitrary: i acc)
  case (Cons y ys)
  obtain key r evs where f: "f i y = ((key, r), evs)" by (metis surj_pair)
  have "k \<in> dom (map_of (fst (AList.update key r (fst acc), snd acc @ evs)))"
    using Cons.prems by (auto simp: map_of_update dom_def)
  from Cons.IH[OF this] f show ?case by (simp add: Let_def)
qed simp

lemma fold_diffs_complete:
  "j < length xs \<Longrightarrow> fst (fst (f (i + j) (xs ! j))) \<in> dom (map_of (fst (fold_diffs f i xs acc)))"
proof (induction xs arbitrary: i j acc)
  case (Cons y ys)
  obtain key r evs where f: "f i y = ((key, r), evs)" by (metis surj_pair)
  let ?acc = "(AList.update key r (fst acc), snd acc @ evs)"
  show ?case
  proof (cases j)
    case 0
    have "key \<in> dom (map_of (fst ?acc))" by (auto simp: map_of_update dom_def)
    from fold_diffs_keys[OF this] 0 f show ?thesis by (simp add: Let_def)
  next
    case (Suc j')
    with Cons.prems Cons.IH[of j' "Suc i" ?acc] f show ?thesis by (simp add: Let_def)
  qed
qed simp

definition all_diff_keys :: "apply_env \<Rightarrow> apply_run \<Rightarrow> string list" where
  "all_diff_keys env run =
     map (\<lambda>j. fst (fst (apply_vm_diff env run (1 + j) (virtual_machine_diff_union (ar_diffs run) ! j))))
       [0..<length (virtual_machine_diff_union (ar_diffs run))]
     @ map (\<lambda>j. firewall_result_key (ar_firewall_rows run ! j) (1 + j)) [0..<length (ar_firewall_rows run)]"

lemma firewall_key: "fst (fst (apply_firewall_diff env run i row)) = firewall_result_key row i"
  by (simp add: apply_firewall_diff_def Let_def split: option.splits prod.splits sum.splits)

lemma apply_diffs_complete: "set (all_diff_keys env run) \<subseteq> dom (map_of (fst (apply_diffs env run)))"
proof -
  let ?u = "virtual_machine_diff_union (ar_diffs run)"
  let ?vm = "fold_diffs (apply_vm_diff env run) 1 ?u ([], [])"
  have 1: "fst (fst (apply_vm_diff env run (1 + j) (?u ! j))) \<in> dom (map_of (fst (apply_diffs env run)))"
    if "j < length ?u" for j
    unfolding apply_diffs_def by (rule fold_diffs_keys) (rule fold_diffs_complete[OF that])
  have 2: "firewall_result_key (ar_firewall_rows run ! j) (1 + j) \<in> dom (map_of (fst (apply_diffs env run)))"
    if "j < length (ar_firewall_rows run)" for j
    using fold_diffs_complete[OF that, of "apply_firewall_diff env run" 1 ?vm]
    unfolding apply_diffs_def firewall_key .
  show ?thesis
    unfolding all_diff_keys_def set_append set_map set_upt Un_subset_iff image_subset_iff using 1 2 by simp
qed


section \<open>Two machines under one key\<close>

definition demo_float :: "pyval \<Rightarrow> float_value option" where
  "demo_float v = map_option (\<lambda>i. Finite_float (of_int i)) (int_of_pyval v)"

definition demo_answer :: "string \<Rightarrow> http_response" where
  "demo_answer status = \<lparr>rs_status = Some 200,
     rs_json = Some (PDict [(''results'', PList [PDict [(''status'', PStr status)]])]),
     rs_text = [], rs_content_type = [], rs_url = []\<rparr>"

text \<open>A backend that refuses to create and accepts every update.\<close>

definition refuses_create :: "pyval \<Rightarrow> bool" where
  "refuses_create payload \<longleftrightarrow>
     (case attr_value payload ''diffs'' of PList (d # _) \<Rightarrow> attr_value d ''op'' = PStr ''create'' | _ \<Rightarrow> False)"

definition demo_apply_env :: apply_env where
  "demo_apply_env = \<lparr>ap_payload = \<lparr>to_float = demo_float, parse_json = (\<lambda>_. None), embed_description_metadata = False\<rparr>,
     ap_branching = ge_branching demo_gate,
     ap_link = \<lparr>link_context = Some (Some ''http://pb''),
       link_post = (\<lambda>_ payload. Inr (demo_answer (if refuses_create payload then ''failed'' else ''succeeded''))),
       link_decode_error = (\<lambda>_. [])\<rparr>,
     ap_default_endpoint = Some 1, ap_has_perm = (\<lambda>_. True), ap_now = 0, ap_save_deletion = (\<lambda>_. Inr 1),
     ap_save_job = (\<lambda>_. True)\<rparr>"

definition demo_new_vm :: pyval where
  "demo_new_vm = PDict [(''pk'', PInt 100), (''name'', PStr ''new'')]"

definition demo_old_vm :: pyval where
  "demo_old_vm = PDict [(''pk'', PInt 5), (''name'', PStr ''old''),
     (''proxbox_sync_state'', PDict [(''proxmox_vm_id'', PInt 100), (''proxmox_vm_type'', PStr ''qemu'')])]"

definition demo_row :: "string \<Rightarrow> pyval \<Rightarrow> pyval" where
  "demo_row action vm = PDict [(''action'', PStr action), (''object'', vm)]"

definition demo_apply_run :: "pyval list \<Rightarrow> apply_run" where
  "demo_apply_run rs = \<lparr>ar_branch = mb_branch demo_merge, ar_actor = PDict [(''pk'', PInt 9), (''username'', PStr ''ops'')],
     ar_uuid = ''u'', ar_diffs = \<lparr>vm_rows = rs, intent_rows = [], get_vm = (\<lambda>_. None), get_intent = (\<lambda>_. None)\<rparr>,
     ar_firewall_rows = []\<rparr>"

definition queued_job :: apply_job where
  "queued_job = \<lparr>aj_state = Queued, aj_results = [], aj_finished = False\<rparr>"

lemma py_round_int: "py_round (of_int i) = i"
  by (simp add: py_round_def)


definition demo_gone_vm :: pyval where
  "demo_gone_vm = PDict [(''pk'', PInt 6), (''name'', PStr ''gone''),
     (''proxbox_sync_state'', PDict [(''proxmox_vm_id'', PInt 101), (''proxmox_vm_type'', PStr ''qemu''),
        (''proxmox_node_name'', PStr ''n1'')])]"

definition demo_delete_run :: apply_run where
  "demo_delete_run = demo_apply_run [demo_row ''delete'' demo_gone_vm]"

definition demo_deletion :: deletion_request where
  "demo_deletion = \<lparr>dr_pk = 1, requested_by = Some 9, authorizer = None, dr_state = PENDING, dr_vmid = Some 101,
     dr_node = ''n1'', dr_kind = ''qemu'', reject_reason = [], executor_run_uuid = None, requested_at = Some 0,
     approved_at = None, executed_at = None\<rparr>"

lemma demo_delete_event: "Deletion_created demo_deletion \<in> set (snd (run_apply_job demo_apply_env demo_delete_run queued_job))"
  by code_simp



end
