(* ===== verification/Branch_Lifecycle.thy ===== *)
theory Branch_Lifecycle
  imports Vm_Identity
begin

text \<open>
  \<open>services/branch_lifecycle.py\<close>: the decision whether a sync run is isolated in a branch, and
  the life of that branch. The branching plugin is not part of the repository. A branch is the object
  it hands out, read by attribute name; each answer of the plugin is an argument, \<open>Inl\<close> where the call
  raises. \<open>refreshed\<close> is what \<open>refresh_from_db\<close> leaves in the object. Times are in milliseconds.
\<close>

section \<open>Exceptions of a sync run\<close>

datatype job_exc =
    Branching_unavailable string
  | Deadline_reached string
  | Raised py_exc

primrec job_exc_text :: "job_exc \<Rightarrow> string" where
  "job_exc_text (Branching_unavailable m) = m"
| "job_exc_text (Deadline_reached m) = m"
| "job_exc_text (Raised e) = exc_text e"

text \<open>\<open>type(exc).__name__\<close>.\<close>

primrec exc_name :: "py_exc \<Rightarrow> string" where
  "exc_name (ValueError m) = ''ValueError''"
| "exc_name (TypeError m) = ''TypeError''"
| "exc_name (KeyError m) = ''KeyError''"
| "exc_name (RuntimeError m) = ''RuntimeError''"
| "exc_name (ValidationError m) = ''ValidationError''"
| "exc_name (AttributeError m) = ''AttributeError''"
| "exc_name (DoesNotExist m) = ''DoesNotExist''"
| "exc_name (DatabaseError m) = ''DatabaseError''"
| "exc_name (OverflowError m) = ''OverflowError''"

section \<open>The isolation decision\<close>

datatype branching_state = Isolation_enabled | Isolation_disabled | Configured_but_unavailable

record branch_settings =
  branch_prefix :: pyval
  on_conflict :: pyval

record branching_decision =
  decision_state :: branching_state
  decision_settings :: "branch_settings option"
  decision_reason :: "string option"
  configured :: "bool option"

text \<open>What the decision reads: the settings row, the app registry and the import of the plugin.\<close>

record branching_site =
  site_solo :: "pyval result"
  site_installed :: "bool result"
  site_import :: "unit result"

definition exception_reason :: "string \<Rightarrow> py_exc \<Rightarrow> string" where
  "exception_reason pre exc =
     (let detail = strip (exc_text exc)
      in pre @ '' ('' @ exc_name exc @ (if detail = [] then [] else '': '' @ detail) @ '')'')"

definition branching_failure_message :: "branching_decision \<Rightarrow> string" where
  "branching_failure_message d =
     (let detail = (case decision_reason d of
            Some r \<Rightarrow> if r = [] then ''no usable netbox-branching runtime was detected'' else r
          | None \<Rightarrow> ''no usable netbox-branching runtime was detected'')
      in if configured d \<noteq> Some True then
           ''Proxbox sync refused: branching_enabled could not be read, so branch ''
           @ ''isolation cannot be safely ruled out ('' @ detail @ ''). Restore access to ''
           @ ''ProxboxPluginSettings, then install and enable a netbox-branching ''
           @ ''release compatible with this NetBox version, or set ''
           @ ''branching_enabled=False to explicitly allow sync on main.''
         else
           ''Proxbox sync refused: branch isolation is configured with ''
           @ ''branching_enabled=True, but netbox-branching is unavailable ('' @ detail @ ''). ''
           @ ''Install and enable a netbox-branching release compatible with this NetBox ''
           @ ''version, or set branching_enabled=False to explicitly allow sync on main.'')"

definition branching_unavailable_reason :: "branching_site \<Rightarrow> string option" where
  "branching_unavailable_reason site =
     (case site_installed site of
        Inl exc \<Rightarrow> Some (exception_reason ''the Django app registry could not be checked'' exc)
      | Inr False \<Rightarrow> Some (
          ''the `netbox_branching` Django app is not loaded; it may be missing, ''
          @ ''disabled, or skipped because its NetBox version range is incompatible'')
      | Inr True \<Rightarrow>
          (case site_import site of
             Inl exc \<Rightarrow> Some (exception_reason ''the loaded `netbox_branching` app could not import'' exc)
           | Inr _ \<Rightarrow> None))"

definition is_branching_available :: "branching_site \<Rightarrow> bool" where
  "is_branching_available site \<longleftrightarrow> branching_unavailable_reason site = None"

definition resolve_branching_decision :: "branching_site \<Rightarrow> branching_decision" where
  "resolve_branching_decision site =
     (case site_solo site of
        Inl exc \<Rightarrow> \<lparr>decision_state = Configured_but_unavailable, decision_settings = None,
          decision_reason = Some (exception_reason ''Proxbox plugin settings could not be loaded'' exc),
          configured = None\<rparr>
      | Inr settings \<Rightarrow>
          if \<not> truthy (getattr_or settings ''branching_enabled'' (PBool False)) then
            \<lparr>decision_state = Isolation_disabled, decision_settings = None, decision_reason = None,
             configured = Some False\<rparr>
          else
            (case branching_unavailable_reason site of
               Some reason \<Rightarrow> \<lparr>decision_state = Configured_but_unavailable, decision_settings = None,
                 decision_reason = Some reason, configured = Some True\<rparr>
             | None \<Rightarrow> \<lparr>decision_state = Isolation_enabled,
                 decision_settings = Some
                   \<lparr>branch_prefix = py_or (getattr_or settings ''branch_name_prefix'' (PStr [])) (PStr ''proxbox-sync''),
                    on_conflict = py_or (getattr_or settings ''branch_on_conflict'' (PStr [])) (PStr ''fail'')\<rparr>,
                 decision_reason = None, configured = Some True\<rparr>))"

definition require_branch_isolation_or_raise :: "branching_site \<Rightarrow> job_exc + branching_decision" where
  "require_branch_isolation_or_raise site =
     (let d = resolve_branching_decision site
      in if decision_state d = Configured_but_unavailable
         then Inl (Branching_unavailable (branching_failure_message d)) else Inr d)"

definition branching_enabled_settings :: "branching_site \<Rightarrow> job_exc + branch_settings option" where
  "branching_enabled_settings site =
     (case require_branch_isolation_or_raise site of
        Inl e \<Rightarrow> Inl e
      | Inr d \<Rightarrow> Inr (if decision_state d = Isolation_disabled then None else decision_settings d))"

section \<open>Checks on a branch\<close>

definition branch_name :: "pyval \<Rightarrow> string" where
  "branch_name branch = py_str (getattr_or branch ''name'' (PStr ''<unknown>''))"

definition left_open_message :: "pyval \<Rightarrow> string \<Rightarrow> string" where
  "left_open_message branch detail =
     ''Branch '' @ branch_name branch @ '' '' @ detail @ ''; branch left open for operator inspection.''"

text \<open>The refreshed object; its \<open>status\<close> attribute is the status.\<close>

definition refreshed_branch_status :: "pyval result \<Rightarrow> pyval \<Rightarrow> string \<Rightarrow> job_exc + pyval" where
  "refreshed_branch_status refreshed branch action =
     (case refreshed of
        Inl exc \<Rightarrow> Inl (Branching_unavailable (left_open_message branch
          (exception_reason (''could not be refreshed before '' @ action) exc)))
      | Inr b \<Rightarrow> Inr b)"

definition usable_schema :: "pyval \<Rightarrow> bool" where
  "usable_schema v = (case v of PStr s \<Rightarrow> strip s \<noteq> [] | _ \<Rightarrow> False)"

definition require_branch_schema_id :: "pyval \<Rightarrow> job_exc + string" where
  "require_branch_schema_id branch =
     (let schema_id = attr_value branch ''schema_id''
      in if usable_schema schema_id then Inr (py_str schema_id)
         else Inl (Branching_unavailable (
           ''Branch '' @ branch_name branch @ '' reached READY without a usable schema_id; ''
           @ ''branch isolation cannot be guaranteed, so the branch was left open ''
           @ ''for operator inspection.'')))"

definition require_branch_ready :: "pyval \<Rightarrow> pyval result \<Rightarrow> pyval \<Rightarrow> string \<Rightarrow> job_exc + pyval" where
  "require_branch_ready ready refreshed branch action =
     (case refreshed_branch_status refreshed branch action of
        Inl e \<Rightarrow> Inl e
      | Inr b \<Rightarrow>
          (let status = attr_value b ''status''
           in if status \<noteq> ready then
                Inl (Branching_unavailable (left_open_message b
                  (''is not READY before '' @ action @ '' (status='' @ py_str status @ '')'')))
              else (case require_branch_schema_id b of Inl e \<Rightarrow> Inl e | Inr _ \<Rightarrow> Inr b)))"

text \<open>The branch a request browses on: \<open>active\<close> is what the plugin's context variable holds,
  \<open>None\<close> inside when no branch is active.\<close>

definition get_active_branch_schema_id ::
  "pyval \<Rightarrow> (pyval option) result \<Rightarrow> (pyval \<Rightarrow> pyval result) \<Rightarrow> string option" where
  "get_active_branch_schema_id ready active refresh =
     (case active of
        Inl _ \<Rightarrow> None
      | Inr None \<Rightarrow> None
      | Inr (Some branch) \<Rightarrow>
          (case refreshed_branch_status (refresh branch) branch ''request sync'' of
             Inl _ \<Rightarrow> None
           | Inr b \<Rightarrow>
               if attr_value b ''status'' \<noteq> ready then None
               else (case require_branch_schema_id b of Inl _ \<Rightarrow> None | Inr s \<Rightarrow> Some s)))"

definition ACTIVE_BRANCH_REQUIRED_MESSAGE :: string where
  "ACTIVE_BRANCH_REQUIRED_MESSAGE =
     ''Proxbox sync refused: branch isolation is enabled, but this request has no ''
     @ ''active READY branch schema; activate a branch or disable branch isolation.''"

definition require_active_branch_schema_id ::
  "pyval \<Rightarrow> (pyval option) result \<Rightarrow> (pyval \<Rightarrow> pyval result) \<Rightarrow> branching_decision \<Rightarrow> string option result" where
  "require_active_branch_schema_id ready active refresh d =
     (if decision_state d = Isolation_disabled then Inr None
      else (case get_active_branch_schema_id ready active refresh of
              None \<Rightarrow> Inl (RuntimeError ACTIVE_BRANCH_REQUIRED_MESSAGE)
            | Some s \<Rightarrow> Inr (Some s)))"

text \<open>\<open>activate_sync_branch\<close> up to its \<open>yield\<close>: the branch that is active inside the block.
  \<open>import_answer\<close> is the import of \<open>activate_branch\<close> and \<open>entered\<close> entering its context.\<close>

definition activate_sync_branch ::
  "pyval \<Rightarrow> unit result \<Rightarrow> pyval result \<Rightarrow> unit result \<Rightarrow> pyval option \<Rightarrow> job_exc + pyval option" where
  "activate_sync_branch ready import_answer refreshed entered branch =
     (case branch of
        None \<Rightarrow> Inr None
      | Some b \<Rightarrow>
          (case import_answer of
             Inl exc \<Rightarrow> Inl (Branching_unavailable (left_open_message b
               (exception_reason ''activation could not import'' exc)))
           | Inr _ \<Rightarrow>
               (case require_branch_ready ready refreshed b ''activation'' of
                  Inl e \<Rightarrow> Inl e
                | Inr b' \<Rightarrow>
                    (case entered of
                       Inl exc \<Rightarrow> Inl (Branching_unavailable (left_open_message b'
                         (exception_reason ''activation failed'' exc)))
                     | Inr _ \<Rightarrow> Inr (Some b')))))"

section \<open>Creation\<close>

text \<open>\<open>poll i\<close> is the object after the i-th refresh of the loop. \<open>time.sleep(0.5)\<close> lasts at
  least that long: between two refreshes pass 500 milliseconds and \<open>lag i\<close> more.\<close>

record branch_engine =
  ready_choice :: pyval
  failed_choice :: pyval
  merged_choice :: pyval
  new_branch :: "string \<Rightarrow> pyval result"
  provision :: "pyval \<Rightarrow> unit result"
  poll :: "nat \<Rightarrow> pyval result"
  lag :: "nat \<Rightarrow> nat"

fun elapsed_at :: "(nat \<Rightarrow> nat) \<Rightarrow> nat \<Rightarrow> nat" where
  "elapsed_at lags 0 = lags 0"
| "elapsed_at lags (Suc i) = elapsed_at lags i + 500 + lags (Suc i)"

text \<open>The loop from its i-th refresh on: its outcome and the number of refreshes.\<close>

function await_ready :: "branch_engine \<Rightarrow> nat \<Rightarrow> nat \<Rightarrow> (job_exc + pyval) \<times> nat" where
  "await_ready eng timeout_seconds i =
     (case poll eng i of
        Inl exc \<Rightarrow> (Inl (Raised exc), 1)
      | Inr b \<Rightarrow>
          if attr_value b ''status'' = ready_choice eng then
            (case require_branch_schema_id b of Inl e \<Rightarrow> (Inl e, 1) | Inr _ \<Rightarrow> (Inr b, 1))
          else if attr_value b ''status'' = failed_choice eng then
            (Inl (Raised (RuntimeError (''Branch '' @ py_str (attr_value b ''name'')
               @ '' entered FAILED status during provisioning''))), 1)
          else if elapsed_at (lag eng) i \<ge> 1000 * timeout_seconds then
            (Inl (Raised (RuntimeError (''Branch '' @ py_str (attr_value b ''name'')
               @ '' did not reach READY within '' @ str_of_nat timeout_seconds @ ''s (status=''
               @ py_str (attr_value b ''status'') @ '')''))), 1)
          else (case await_ready eng timeout_seconds (Suc i) of (r, n) \<Rightarrow> (r, Suc n)))"
  by pat_completeness auto
termination
  by (relation "measure (\<lambda>(eng, t, i). 1000 * t - elapsed_at (lag eng) i)") auto

definition create_and_provision_branch :: "branch_engine \<Rightarrow> string \<Rightarrow> nat \<Rightarrow> job_exc + pyval" where
  "create_and_provision_branch eng nm ready_timeout_seconds =
     (case new_branch eng nm of
        Inl exc \<Rightarrow> Inl (Raised exc)
      | Inr branch \<Rightarrow>
          (case provision eng branch of
             Inl exc \<Rightarrow> Inl (Raised exc)
           | Inr _ \<Rightarrow> fst (await_ready eng ready_timeout_seconds 0)))"

declare await_ready.simps [simp del]

section \<open>Merge\<close>

text \<open>The answers of the plugin during one merge, in the order they are asked for.\<close>

record merge_answers =
  has_conflicts :: "bool result"
  before_merge :: "pyval result"
  merge_outcome :: "unit result"
  after_merge :: "pyval result"
  has_unmerged :: "bool result"

record merge_report =
  merged :: bool
  merge_message :: string
  disposition :: "string option"
  merge_called :: bool
  merge_branch_object :: pyval

definition not_merged :: "bool \<Rightarrow> pyval \<Rightarrow> string \<Rightarrow> merge_report" where
  "not_merged called b m =
     \<lparr>merged = False, merge_message = m, disposition = None, merge_called = called, merge_branch_object = b\<rparr>"

text \<open>The part after \<open>branch.merge()\<close> returned.\<close>

definition verify_merge :: "branch_engine \<Rightarrow> merge_answers \<Rightarrow> pyval \<Rightarrow> merge_report" where
  "verify_merge eng ans b =
     (case refreshed_branch_status (after_merge ans) b ''merge verification'' of
        Inl e \<Rightarrow> not_merged True b (job_exc_text e)
      | Inr b' \<Rightarrow>
          (let status = attr_value b' ''status'';
               nm = py_str (attr_value b' ''name'')
           in if status = merged_choice eng then
                \<lparr>merged = True, merge_message = ''Branch '' @ nm @ '' merged.'', disposition = None,
                 merge_called = True, merge_branch_object = b'\<rparr>
              else if status \<noteq> ready_choice eng then
                not_merged True b' (left_open_message b'
                  (''did not reach MERGED after merge (status='' @ py_str status @ '')''))
              else
                (case has_unmerged ans of
                   Inl exc \<Rightarrow> not_merged True b' (left_open_message b' (''verification failed: '' @ exc_text exc))
                 | Inr True \<Rightarrow> not_merged True b' (left_open_message b'
                     ''remained READY after merge with unmerged changes'')
                 | Inr False \<Rightarrow>
                     \<lparr>merged = True,
                      merge_message = ''Branch '' @ nm @ '' (id=''
                        @ py_str (getattr_or b' ''pk'' (attr_value b' ''id''))
                        @ '') had no changes; branch left open. ''
                        @ ''Archive it through the netbox-branching UI.'',
                      disposition = Some ''no_changes_left_open'', merge_called = True,
                      merge_branch_object = b'\<rparr>)))"

definition merge_branch_run :: "branch_engine \<Rightarrow> merge_answers \<Rightarrow> pyval \<Rightarrow> pyval \<Rightarrow> job_exc + merge_report" where
  "merge_branch_run eng ans branch policy =
     (case has_conflicts ans of
        Inl exc \<Rightarrow> Inl (Raised exc)
      | Inr conflicts \<Rightarrow>
          if conflicts \<and> policy \<noteq> PStr ''acknowledge'' then
            Inr (not_merged False branch (left_open_message branch
              ''has unresolved conflicts and branch_on_conflict=fail''))
          else
            (case require_branch_ready (ready_choice eng) (before_merge ans) branch ''merge'' of
               Inl e \<Rightarrow> Inr (not_merged False branch (job_exc_text e))
             | Inr b \<Rightarrow>
                 (case merge_outcome ans of
                    Inl exc \<Rightarrow> Inr (not_merged True b (left_open_message b (''merge failed: '' @ exc_text exc)))
                  | Inr _ \<Rightarrow> Inr (verify_merge eng ans b))))"


section \<open>The decision fails closed\<close>

text \<open>What allows a sync on main: the settings were read and the switch is off.\<close>

definition main_allowed :: "branching_site \<Rightarrow> bool" where
  "main_allowed site \<longleftrightarrow>
     (case site_solo site of
        Inl _ \<Rightarrow> False
      | Inr settings \<Rightarrow> \<not> truthy (getattr_or settings ''branching_enabled'' (PBool False)))"

lemma isolation_disabled_iff:
  "require_branch_isolation_or_raise site = Inr d \<Longrightarrow>
     (decision_state d = Isolation_disabled) = main_allowed site"
  by (auto simp: require_branch_isolation_or_raise_def resolve_branching_decision_def main_allowed_def Let_def
      split: sum.splits option.splits if_splits)

lemma isolation_enabled_settings:
  assumes "require_branch_isolation_or_raise site = Inr d" and "\<not> main_allowed site"
  shows "\<exists>settings. decision_settings d = Some settings"
    and "is_branching_available site"
  using assms
  by (auto simp: require_branch_isolation_or_raise_def resolve_branching_decision_def main_allowed_def Let_def
      is_branching_available_def split: sum.splits option.splits if_splits)

lemma branching_config_None:
  "branching_enabled_settings site = Inr None \<longleftrightarrow> main_allowed site"
proof
  assume "branching_enabled_settings site = Inr None"
  then obtain d where d: "require_branch_isolation_or_raise site = Inr d"
    and n: "decision_state d = Isolation_disabled \<or> decision_settings d = None"
    by (auto simp: branching_enabled_settings_def split: sum.splits if_splits)
  from n show "main_allowed site"
    using isolation_enabled_settings(1)[OF d] isolation_disabled_iff[OF d] by auto
next
  assume "main_allowed site"
  then show "branching_enabled_settings site = Inr None"
    by (auto simp: branching_enabled_settings_def require_branch_isolation_or_raise_def
        resolve_branching_decision_def main_allowed_def Let_def split: sum.splits)
qed

lemma ready_Inr:
  assumes "require_branch_ready ready refreshed branch action = Inr b"
  shows "refreshed = Inr b" "attr_value b ''status'' = ready" "usable_schema (attr_value b ''schema_id'')"
  using assms
  by (auto simp: require_branch_ready_def refreshed_branch_status_def require_branch_schema_id_def Let_def
      split: sum.splits if_splits)

lemma active_schema_ready:
  assumes "get_active_branch_schema_id ready active refresh = Some s"
  shows "\<exists>branch b. active = Inr (Some branch) \<and> refresh branch = Inr b
    \<and> attr_value b ''status'' = ready \<and> attr_value b ''schema_id'' = PStr s \<and> strip s \<noteq> []"
  using assms
  by (auto simp: get_active_branch_schema_id_def refreshed_branch_status_def require_branch_schema_id_def
      usable_schema_def Let_def split: sum.splits option.splits if_splits pyval.splits)


definition demo_site :: branching_site where
  "demo_site = \<lparr>site_solo = Inr (PDict [(''branching_enabled'', PBool True)]), site_installed = Inr True,
     site_import = Inr ()\<rparr>"

definition demo_branch :: pyval where
  "demo_branch = PDict [(''pk'', PInt 4), (''name'', PStr ''b4''), (''status'', PStr ''ready''), (''schema_id'', PStr ''br4'')]"


section \<open>Creation ends\<close>

lemma elapsed_at_ge: "500 * i \<le> elapsed_at lags i"
  by (induction i) auto

lemma await_ready_Inr:
  "fst (await_ready eng t i) = Inr b \<Longrightarrow>
     attr_value b ''status'' = ready_choice eng \<and> usable_schema (attr_value b ''schema_id'')"
proof (induction eng t i rule: await_ready.induct)
  case (1 eng t i)
  from 1(2) show ?case
    by (subst (asm) await_ready.simps)
      (auto simp: require_branch_schema_id_def Let_def split: sum.splits if_splits prod.splits
        dest!: 1(1))
qed

lemma await_ready_polled: "fst (await_ready eng t i) = Inr b \<Longrightarrow> \<exists>j. poll eng j = Inr b"
proof (induction eng t i rule: await_ready.induct)
  case (1 eng t i)
  show ?case
  proof (cases "poll eng i")
    case (Inl e)
    with 1(2) show ?thesis by (simp add: await_ready.simps[of eng t i])
  next
    case (Inr b')
    with 1 show ?thesis
      by (cases "b' = b") (auto simp: await_ready.simps[of eng t i] split: sum.splits if_splits prod.splits)
  qed
qed

lemma created_schema:
  assumes "create_and_provision_branch eng nm t = Inr b" and "\<forall>i b. poll eng i = Inr b \<longrightarrow> attr_value b ''schema_id'' = PStr sch"
  shows "attr_value b ''schema_id'' = PStr sch"
  using assms await_ready_polled by (fastforce simp: create_and_provision_branch_def split: sum.splits)

lemma await_ready_count: "i \<le> 2 * t \<Longrightarrow> snd (await_ready eng t i) \<le> Suc (2 * t - i)"
proof (induction eng t i rule: await_ready.induct)
  case (1 eng t i)
  show ?case
  proof (cases "i < 2 * t")
    case True
    then have "snd (await_ready eng t (Suc i)) \<le> Suc (2 * t - Suc i)"
      if "poll eng i = Inr b" "attr_value b ''status'' \<noteq> ready_choice eng"
        "attr_value b ''status'' \<noteq> failed_choice eng" "\<not> 1000 * t \<le> elapsed_at (lag eng) i" for b
      using 1(1)[OF that] by simp
    then show ?thesis
      using True by (subst await_ready.simps) (auto split: sum.splits if_splits prod.splits)
  next
    case False
    with 1(2) elapsed_at_ge[of i "lag eng"] have "1000 * t \<le> elapsed_at (lag eng) i" by linarith
    then show ?thesis by (subst await_ready.simps) (auto split: sum.splits)
  qed
qed

text \<open>C34. Waiting for a new branch ends. The loop refreshes the branch at most twice per second of the
  timeout and once more, whatever the plugin answers, and a branch it returns was ready at its last
  refresh and has a usable schema name.\<close>

theorem branch_wait_bounded:
  "snd (await_ready eng timeout_seconds 0) \<le> 2 * timeout_seconds + 1
   \<and> (case create_and_provision_branch eng nm timeout_seconds of
        Inl _ \<Rightarrow> True
      | Inr b \<Rightarrow> attr_value b ''status'' = ready_choice eng \<and> usable_schema (attr_value b ''schema_id''))"
proof -
  have "attr_value b ''status'' = ready_choice eng \<and> usable_schema (attr_value b ''schema_id'')"
    if "create_and_provision_branch eng nm timeout_seconds = Inr b" for b
    using that await_ready_Inr by (auto simp: create_and_provision_branch_def split: sum.splits)
  then show ?thesis using await_ready_count[of 0 timeout_seconds eng] by (auto split: sum.splits)
qed

section \<open>A reported merge happened\<close>

lemma verify_merged:
  assumes "merged (verify_merge eng ans b)"
  shows "\<exists>b'. after_merge ans = Inr b' \<and> (attr_value b' ''status'' = merged_choice eng
    \<or> attr_value b' ''status'' = ready_choice eng \<and> has_unmerged ans = Inr False)"
  using assms
  by (auto simp: verify_merge_def refreshed_branch_status_def not_merged_def Let_def
      split: sum.splits if_splits bool.splits)

lemma merge_called_ready:
  assumes "merge_branch_run eng ans branch policy = Inr rep" and "merge_called rep"
  shows "(has_conflicts ans = Inr False \<or> policy = PStr ''acknowledge'')
    \<and> (\<exists>b. before_merge ans = Inr b \<and> attr_value b ''status'' = ready_choice eng)"
proof -
  from assms obtain b where "require_branch_ready (ready_choice eng) (before_merge ans) branch ''merge'' = Inr b"
    and "has_conflicts ans = Inr False \<or> policy = PStr ''acknowledge''"
    by (auto simp: merge_branch_run_def not_merged_def split: sum.splits if_splits)
  then show ?thesis using ready_Inr(1,2) by blast
qed

text \<open>C35. A merge is reported as done only when it is. A report of success means that the branch was
  ready when the merge was called, that it had no conflicts or the operator accepts them, and that the
  branch read back afterwards is merged, or is still ready and has no change left to merge.\<close>

theorem reported_merge_is_real:
  assumes "merge_branch_run eng ans branch policy = Inr rep" and "merged rep"
  shows "merge_called rep \<and> (has_conflicts ans = Inr False \<or> policy = PStr ''acknowledge'')
    \<and> (\<exists>b. before_merge ans = Inr b \<and> attr_value b ''status'' = ready_choice eng)
    \<and> merge_outcome ans = Inr ()
    \<and> (\<exists>b'. after_merge ans = Inr b' \<and> (attr_value b' ''status'' = merged_choice eng
        \<or> attr_value b' ''status'' = ready_choice eng \<and> has_unmerged ans = Inr False))"
proof -
  from assms obtain b where m: "merge_outcome ans = Inr ()" and rep: "rep = verify_merge eng ans b"
    by (auto simp: merge_branch_run_def not_merged_def split: sum.splits if_splits)
  have called: "merge_called rep"
    using assms(2) unfolding rep
    by (auto simp: verify_merge_def not_merged_def Let_def split: sum.splits if_splits bool.splits)
  show ?thesis
    using m called merge_called_ready[OF assms(1) called] verify_merged assms(2) rep by blast
qed

definition demo_engine :: branch_engine where
  "demo_engine = \<lparr>ready_choice = PStr ''ready'', failed_choice = PStr ''failed'', merged_choice = PStr ''merged'',
     new_branch = (\<lambda>nm. Inr demo_branch), provision = (\<lambda>_. Inr ()), poll = (\<lambda>_. Inr demo_branch), lag = (\<lambda>_. 0)\<rparr>"

definition demo_merged_branch :: pyval where
  "demo_merged_branch = PDict [(''name'', PStr ''b4''), (''status'', PStr ''merged'')]"

definition demo_answers :: merge_answers where
  "demo_answers = \<lparr>has_conflicts = Inr False, before_merge = Inr demo_branch, merge_outcome = Inr (),
     after_merge = Inr demo_merged_branch, has_unmerged = Inr False\<rparr>"

theorem reported_merge_is_real_witness:
  "(\<exists>b. before_merge demo_answers = Inr b \<and> attr_value b ''status'' = ready_choice demo_engine)
    \<and> (\<exists>b'. after_merge demo_answers = Inr b' \<and> (attr_value b' ''status'' = merged_choice demo_engine
        \<or> attr_value b' ''status'' = ready_choice demo_engine \<and> has_unmerged demo_answers = Inr False))"
proof -
  have r: "merge_branch_run demo_engine demo_answers demo_branch (PStr ''fail'')
      = Inr (verify_merge demo_engine demo_answers demo_branch)"
    by code_simp
  have m: "merged (verify_merge demo_engine demo_answers demo_branch)" by code_simp
  show ?thesis using reported_merge_is_real[OF r m] by blast
qed

end
