(* ===== verification/Job_State.thy ===== *)
theory Job_State
  imports Branch_Lifecycle Sync_Ownership Sync_Batch
begin

text \<open>
  The state of one run of \<open>ProxboxSyncJob\<close> and the actions it is written with. An action takes the
  state and returns the exception it raised or its value, with the state it leaves. What the run does
  to NetBox, to the backend and to its own job row is appended to \<open>jr_log\<close>. Each question the run asks
  its surroundings has a number, \<open>jr_tick\<close>; the surroundings answer by number, so an answer may differ
  every time. \<open>hoare P m Q E\<close> says that from \<open>P\<close> the action \<open>m\<close> returns with \<open>Q\<close> or raises with \<open>E\<close>.
\<close>

section \<open>Events and state\<close>

text \<open>Local passes, backfills and tenant assignments write to NetBox: the last component is the branch
  that is active at that moment, None for main.\<close>

datatype job_event =
    Claimed bool
  | Released
  | Branch_created pyval
  | Key_checked
  | Slept rat
  | Bootstrapped
  | Local_pass string int "pyval option"
  | Backfilled "(string \<times> string) list" "pyval option"
  | Tenant_assigned string "pyval option"
  | Stage_request run_request
  | Batch_request batch_request_sent
  | Data_saved pyval
  | Merge_called pyval

record job_run =
  jr_rows :: job_rows
  jr_job :: job
  jr_branch :: "pyval option"
  jr_active :: "pyval option"
  jr_backfill :: "pyval option"
  jr_log :: "job_event list"
  jr_tick :: nat

type_synonym 'a act = "job_run \<Rightarrow> (job_exc + 'a) \<times> job_run"

section \<open>Actions\<close>

definition ret :: "'a \<Rightarrow> 'a act" where
  "ret x = (\<lambda>s. (Inr x, s))"

definition raise_exc :: "job_exc \<Rightarrow> 'a act" where
  "raise_exc e = (\<lambda>s. (Inl e, s))"

definition abind :: "'a act \<Rightarrow> ('a \<Rightarrow> 'b act) \<Rightarrow> 'b act" where
  "abind m f = (\<lambda>s. case m s of (Inl e, s') \<Rightarrow> (Inl e, s') | (Inr x, s') \<Rightarrow> f x s')"

definition try_except :: "'a act \<Rightarrow> (job_exc \<Rightarrow> 'a act) \<Rightarrow> 'a act" where
  "try_except m h = (\<lambda>s. case m s of (Inl e, s') \<Rightarrow> h e s' | (Inr x, s') \<Rightarrow> (Inr x, s'))"

text \<open>\<open>try: m finally: f\<close>; an exception of the final block replaces the outcome.\<close>

definition try_finally :: "'a act \<Rightarrow> unit act \<Rightarrow> 'a act" where
  "try_finally m f = (\<lambda>s. case m s of (r, s') \<Rightarrow>
     (case f s' of (Inl e, s'') \<Rightarrow> (Inl e, s'') | (Inr _, s'') \<Rightarrow> (r, s'')))"

definition gets :: "(job_run \<Rightarrow> 'a) \<Rightarrow> 'a act" where
  "gets f = (\<lambda>s. (Inr (f s), s))"

definition modify :: "(job_run \<Rightarrow> job_run) \<Rightarrow> unit act" where
  "modify f = (\<lambda>s. (Inr (), f s))"

definition emit :: "job_event \<Rightarrow> unit act" where
  "emit ev = modify (\<lambda>s. s\<lparr>jr_log := jr_log s @ [ev]\<rparr>)"

definition emit_all :: "job_event list \<Rightarrow> unit act" where
  "emit_all evs = modify (\<lambda>s. s\<lparr>jr_log := jr_log s @ evs\<rparr>)"

definition consult :: "(nat \<Rightarrow> 'a) \<Rightarrow> 'a act" where
  "consult f = (\<lambda>s. (Inr (f (jr_tick s)), s\<lparr>jr_tick := Suc (jr_tick s)\<rparr>))"

definition lift_exc :: "job_exc + 'a \<Rightarrow> 'a act" where
  "lift_exc r = (case r of Inl e \<Rightarrow> raise_exc e | Inr x \<Rightarrow> ret x)"

definition lift_py :: "'a result \<Rightarrow> 'a act" where
  "lift_py r = (case r of Inl e \<Rightarrow> raise_exc (Raised e) | Inr x \<Rightarrow> ret x)"

lemma abind_simps [simp]:
  "abind (ret x) f = f x"
  "abind (raise_exc e) f = raise_exc e"
  "lift_exc (Inr x) = ret x" "lift_exc (Inl e) = raise_exc e"
  "lift_py (Inr x) = ret x" "lift_py (Inl p) = raise_exc (Raised p)"
  by (simp_all add: abind_def ret_def raise_exc_def lift_exc_def lift_py_def)

section \<open>Triples\<close>

definition hoare :: "(job_run \<Rightarrow> bool) \<Rightarrow> 'a act \<Rightarrow> ('a \<Rightarrow> job_run \<Rightarrow> bool) \<Rightarrow> (job_run \<Rightarrow> bool) \<Rightarrow> bool" where
  "hoare P m Q E \<longleftrightarrow> (\<forall>s. P s \<longrightarrow> (case m s of (Inl _, s') \<Rightarrow> E s' | (Inr x, s') \<Rightarrow> Q x s'))"

named_theorems hoare_rules \<open>syntax-directed rules for triples\<close>

lemma hoareI:
  "(\<And>s r s'. P s \<Longrightarrow> m s = (r, s') \<Longrightarrow> case r of Inl _ \<Rightarrow> E s' | Inr x \<Rightarrow> Q x s') \<Longrightarrow> hoare P m Q E"
  unfolding hoare_def by (fastforce split: prod.split sum.splits)

lemma hoareD: "hoare P m Q E \<Longrightarrow> P s \<Longrightarrow> m s = (r, s') \<Longrightarrow> case r of Inl _ \<Rightarrow> E s' | Inr x \<Rightarrow> Q x s'"
  unfolding hoare_def by (cases r) fastforce+

lemma hoare_Inr: "hoare P m Q E \<Longrightarrow> P s \<Longrightarrow> m s = (Inr x, s') \<Longrightarrow> Q x s'"
  using hoareD[of P m Q E s "Inr x" s'] by simp

lemma hoare_Inl: "hoare P m Q E \<Longrightarrow> P s \<Longrightarrow> m s = (Inl e, s') \<Longrightarrow> E s'"
  using hoareD[of P m Q E s "Inl e" s'] by simp

lemma hoare_any:
  assumes "hoare P m (\<lambda>_. Q) Q" and "P s"
  shows "Q (snd (m s))"
proof (cases "m s")
  case (Pair r s')
  with hoareD[OF assms Pair] show ?thesis by (cases r) simp_all
qed

lemma hoare_conseq:
  assumes "hoare P' m Q' E'" and "\<And>s. P s \<Longrightarrow> P' s" and "\<And>x s. Q' x s \<Longrightarrow> Q x s" and "\<And>s. E' s \<Longrightarrow> E s"
  shows "hoare P m Q E"
proof (rule hoareI)
  fix s r s' assume "P s" "m s = (r, s')"
  with hoareD[OF assms(1) assms(2)] assms(3,4) show "case r of Inl _ \<Rightarrow> E s' | Inr x \<Rightarrow> Q x s'"
    by (cases r) fastforce+
qed

lemma hoare_pre: "hoare P' m Q E \<Longrightarrow> (\<And>s. P s \<Longrightarrow> P' s) \<Longrightarrow> hoare P m Q E"
  by (rule hoare_conseq)

lemma hoare_pure: "(C \<Longrightarrow> hoare P m Q E) \<Longrightarrow> hoare (\<lambda>s. P s \<and> C) m Q E"
  by (cases C) (simp_all add: hoare_def)

lemma hoare_ret [hoare_rules]: "(\<And>s. P s \<Longrightarrow> Q x s) \<Longrightarrow> hoare P (ret x) Q E"
  by (simp add: hoare_def ret_def)

lemma hoare_raise [hoare_rules]: "(\<And>s. P s \<Longrightarrow> E s) \<Longrightarrow> hoare P (raise_exc e) Q E"
  by (simp add: hoare_def raise_exc_def)

lemma hoare_abind [hoare_rules]:
  assumes "hoare P m R E" and "\<And>x. hoare (R x) (f x) Q E"
  shows "hoare P (abind m f) Q E"
proof (rule hoareI)
  fix s r s' assume p: "P s" and run: "abind m f s = (r, s')"
  obtain r1 s1 where m: "m s = (r1, s1)" by (cases "m s")
  show "case r of Inl _ \<Rightarrow> E s' | Inr x \<Rightarrow> Q x s'"
  proof (cases r1)
    case (Inl e)
    with hoare_Inl[OF assms(1) p] m run show ?thesis by (auto simp: abind_def)
  next
    case (Inr x)
    with hoare_Inr[OF assms(1) p] m have "R x s1" by simp
    with run m Inr show ?thesis using hoareD[OF assms(2), of x s1 r s'] by (simp add: abind_def)
  qed
qed

lemma hoare_try_except [hoare_rules]:
  assumes "hoare P m Q R" and "\<And>e. hoare R (h e) Q E"
  shows "hoare P (try_except m h) Q E"
proof (rule hoareI)
  fix s r s' assume p: "P s" and run: "try_except m h s = (r, s')"
  obtain r1 s1 where m: "m s = (r1, s1)" by (cases "m s")
  show "case r of Inl _ \<Rightarrow> E s' | Inr x \<Rightarrow> Q x s'"
  proof (cases r1)
    case (Inl e)
    with hoare_Inl[OF assms(1) p] m have "R s1" by simp
    with run m Inl show ?thesis using hoareD[OF assms(2), of s1 e r s'] by (simp add: try_except_def)
  next
    case (Inr x)
    with hoare_Inr[OF assms(1) p] m run show ?thesis by (auto simp: try_except_def)
  qed
qed

lemma hoare_try_finally [hoare_rules]:
  assumes "hoare P m Q R" and "\<And>x. hoare (Q x) f (\<lambda>_. Q' x) E" and "hoare R f (\<lambda>_. E) E"
  shows "hoare P (try_finally m f) Q' E"
proof (rule hoareI)
  fix s r s' assume p: "P s" and run: "try_finally m f s = (r, s')"
  obtain r1 s1 where m: "m s = (r1, s1)" by (cases "m s")
  obtain r2 s2 where f: "f s1 = (r2, s2)" by (cases "f s1")
  show "case r of Inl _ \<Rightarrow> E s' | Inr x \<Rightarrow> Q' x s'"
  proof (cases r1)
    case (Inl e)
    with hoare_Inl[OF assms(1) p] m have "R s1" by simp
    with hoareD[OF assms(3) _ f] m f Inl run show ?thesis by (auto simp: try_finally_def split: sum.splits)
  next
    case (Inr x)
    with hoare_Inr[OF assms(1) p] m have "Q x s1" by simp
    with hoareD[OF assms(2) _ f, of x] m f Inr run show ?thesis by (auto simp: try_finally_def split: sum.splits)
  qed
qed

lemma hoare_gets [hoare_rules]: "(\<And>s. P s \<Longrightarrow> Q (f s) s) \<Longrightarrow> hoare P (gets f) Q E"
  by (simp add: hoare_def gets_def)

lemma hoare_modify [hoare_rules]: "(\<And>s. P s \<Longrightarrow> Q () (f s)) \<Longrightarrow> hoare P (modify f) Q E"
  by (simp add: hoare_def modify_def)

lemma hoare_emit [hoare_rules]: "(\<And>s. P s \<Longrightarrow> Q () (s\<lparr>jr_log := jr_log s @ [ev]\<rparr>)) \<Longrightarrow> hoare P (emit ev) Q E"
  by (simp add: emit_def hoare_modify)

lemma hoare_emit_all [hoare_rules]: "(\<And>s. P s \<Longrightarrow> Q () (s\<lparr>jr_log := jr_log s @ evs\<rparr>)) \<Longrightarrow> hoare P (emit_all evs) Q E"
  by (simp add: emit_all_def hoare_modify)

lemma hoare_consult [hoare_rules]:
  "(\<And>s. P s \<Longrightarrow> Q (f (jr_tick s)) (s\<lparr>jr_tick := Suc (jr_tick s)\<rparr>)) \<Longrightarrow> hoare P (consult f) Q E"
  by (simp add: hoare_def consult_def)

lemma hoare_lift_exc [hoare_rules]:
  "(\<And>e s. r = Inl e \<Longrightarrow> P s \<Longrightarrow> E s) \<Longrightarrow> (\<And>x s. r = Inr x \<Longrightarrow> P s \<Longrightarrow> Q x s) \<Longrightarrow> hoare P (lift_exc r) Q E"
  by (cases r) (simp_all add: lift_exc_def hoare_ret hoare_raise)

lemma hoare_lift_py [hoare_rules]:
  "(\<And>e s. r = Inl e \<Longrightarrow> P s \<Longrightarrow> E s) \<Longrightarrow> (\<And>x s. r = Inr x \<Longrightarrow> P s \<Longrightarrow> Q x s) \<Longrightarrow> hoare P (lift_py r) Q E"
  by (cases r) (simp_all add: lift_py_def hoare_ret hoare_raise)

lemma hoare_if [hoare_rules]:
  "(b \<Longrightarrow> hoare P m Q E) \<Longrightarrow> (\<not> b \<Longrightarrow> hoare P m' Q E) \<Longrightarrow> hoare P (if b then m else m') Q E"
  by simp

lemma hoare_case_option [hoare_rules]:
  "(v = None \<Longrightarrow> hoare P m Q E) \<Longrightarrow> (\<And>x. v = Some x \<Longrightarrow> hoare P (f x) Q E)
    \<Longrightarrow> hoare P (case v of None \<Rightarrow> m | Some x \<Rightarrow> f x) Q E"
  by (cases v) simp_all

lemma hoare_case_sum [hoare_rules]:
  "(\<And>e. v = Inl e \<Longrightarrow> hoare P (h e) Q E) \<Longrightarrow> (\<And>x. v = Inr x \<Longrightarrow> hoare P (f x) Q E)
    \<Longrightarrow> hoare P (case v of Inl e \<Rightarrow> h e | Inr x \<Rightarrow> f x) Q E"
  by (cases v) simp_all

lemma hoare_case_prod [hoare_rules]:
  "(\<And>x y. v = (x, y) \<Longrightarrow> hoare P (f x y) Q E) \<Longrightarrow> hoare P (case v of (x, y) \<Rightarrow> f x y) Q E"
  by (cases v) simp_all

section \<open>Invariants\<close>

definition keeps :: "(job_run \<Rightarrow> bool) \<Rightarrow> 'a act \<Rightarrow> bool" where
  "keeps I m \<longleftrightarrow> hoare I m (\<lambda>_. I) I"

named_theorems keeps_rules \<open>syntax-directed rules for invariants\<close>

lemma keeps_any: "keeps I m \<Longrightarrow> I s \<Longrightarrow> I (snd (m s))"
  unfolding keeps_def by (rule hoare_any)

lemma keeps_ret [keeps_rules]: "keeps I (ret x)"
  unfolding keeps_def by (rule hoare_ret)

lemma keeps_raise [keeps_rules]: "keeps I (raise_exc e)"
  unfolding keeps_def by (rule hoare_raise)

lemma keeps_gets [keeps_rules]: "keeps I (gets f)"
  unfolding keeps_def by (rule hoare_gets)

lemma keeps_lift_exc [keeps_rules]: "keeps I (lift_exc r)"
  unfolding keeps_def by (rule hoare_lift_exc)

lemma keeps_lift_py [keeps_rules]: "keeps I (lift_py r)"
  unfolding keeps_def by (rule hoare_lift_py)

lemma keeps_abind [keeps_rules]: "keeps I m \<Longrightarrow> (\<And>x. keeps I (f x)) \<Longrightarrow> keeps I (abind m f)"
  unfolding keeps_def by (rule hoare_abind)

lemma keeps_bind_py: "(\<And>x. r = Inr x \<Longrightarrow> keeps I (f x)) \<Longrightarrow> keeps I (abind (lift_py r) f)"
  by (cases r) (auto simp: keeps_def hoare_def abind_def lift_py_def ret_def raise_exc_def)

lemma keeps_try_except [keeps_rules]: "keeps I m \<Longrightarrow> (\<And>e. keeps I (h e)) \<Longrightarrow> keeps I (try_except m h)"
  unfolding keeps_def by (rule hoare_try_except)

lemma keeps_try_finally [keeps_rules]: "keeps I m \<Longrightarrow> keeps I f \<Longrightarrow> keeps I (try_finally m f)"
  unfolding keeps_def by (rule hoare_try_finally)

lemma keeps_if [keeps_rules]: "(b \<Longrightarrow> keeps I m) \<Longrightarrow> (\<not> b \<Longrightarrow> keeps I m') \<Longrightarrow> keeps I (if b then m else m')"
  by simp

lemma keeps_Let [keeps_rules]: "keeps I (f v) \<Longrightarrow> keeps I (Let v f)"
  by simp

lemma keeps_case_option [keeps_rules]:
  "(v = None \<Longrightarrow> keeps I m) \<Longrightarrow> (\<And>x. v = Some x \<Longrightarrow> keeps I (f x)) \<Longrightarrow> keeps I (case v of None \<Rightarrow> m | Some x \<Rightarrow> f x)"
  by (cases v) simp_all

lemma keeps_case_sum [keeps_rules]:
  "(\<And>e. v = Inl e \<Longrightarrow> keeps I (h e)) \<Longrightarrow> (\<And>x. v = Inr x \<Longrightarrow> keeps I (f x))
    \<Longrightarrow> keeps I (case v of Inl e \<Rightarrow> h e | Inr x \<Rightarrow> f x)"
  by (cases v) simp_all

lemma keeps_case_prod [keeps_rules]:
  "(\<And>x y. v = (x, y) \<Longrightarrow> keeps I (f x y)) \<Longrightarrow> keeps I (case v of (x, y) \<Rightarrow> f x y)"
  by (cases v) simp_all

lemma keeps_case_exc [keeps_rules]:
  "(\<And>m. keeps I (f m)) \<Longrightarrow> (\<And>m. keeps I (g m)) \<Longrightarrow> (\<And>p. keeps I (h p))
    \<Longrightarrow> keeps I (case e of Branching_unavailable m \<Rightarrow> f m | Deadline_reached m \<Rightarrow> g m | Raised p \<Rightarrow> h p)"
  by (cases e) simp_all

lemma keeps_modify: "(\<And>s. I s \<Longrightarrow> I (f s)) \<Longrightarrow> keeps I (modify f)"
  unfolding keeps_def by (rule hoare_modify)

lemma keeps_emit: "(\<And>s. I s \<Longrightarrow> I (s\<lparr>jr_log := jr_log s @ [ev]\<rparr>)) \<Longrightarrow> keeps I (emit ev)"
  unfolding keeps_def by (rule hoare_emit)

lemma keeps_emit_all: "(\<And>s. I s \<Longrightarrow> I (s\<lparr>jr_log := jr_log s @ evs\<rparr>)) \<Longrightarrow> keeps I (emit_all evs)"
  unfolding keeps_def by (rule hoare_emit_all)

lemma keeps_consult: "(\<And>s n. I s \<Longrightarrow> I (s\<lparr>jr_tick := n\<rparr>)) \<Longrightarrow> keeps I (consult f)"
  unfolding keeps_def by (rule hoare_consult)

text \<open>A value read from the state is still the value there.\<close>

lemma hoare_gets_eq: "(\<And>x. hoare (\<lambda>s. P s \<and> x = f s) (g x) Q E) \<Longrightarrow> hoare P (abind (gets f) g) Q E"
  by (rule hoare_abind[where R = "\<lambda>x s. P s \<and> x = f s"]) (rule hoare_gets, auto)

end
