(* ===== verification/Runtime_Phases.thy ===== *)
theory Runtime_Phases
  imports Sync_Batch "HOL-Library.Multiset"
begin

text \<open>
  The phase records of \<open>netbox_proxbox/jobs.py\<close>: how the results of the local services and of the
  backend stages become phases, how phases are grouped into one card per endpoint, and which phases
  make a run fail. A phase, a stage and a card are the dictionaries the job stores. The dictionaries
  hold no fractions: a duration is stored in whole milliseconds, to which the code rounds it.
  \<open>parse\<close> is \<open>float\<close> on text, in milliseconds.
\<close>

section \<open>Phases\<close>

type_synonym phase = "(string \<times> pyval) list"

definition stored_seconds :: "rat \<Rightarrow> pyval" where
  "stored_seconds t = PInt \<lfloor>1000 * t\<rfloor>"

definition runtime_seconds_since :: "rat \<Rightarrow> rat \<Rightarrow> rat" where
  "runtime_seconds_since now started = round3 (max (now - started) 0)"

definition normalize_endpoint_id :: "pyval \<Rightarrow> pyval" where
  "normalize_endpoint_id v =
     (if none_or_empty v then PNone
      else (case int_of_string (py_str v) of Some i \<Rightarrow> PInt i | None \<Rightarrow> PStr (py_str v)))"

definition coerce_runtime_seconds :: "(string \<Rightarrow> int option) \<Rightarrow> pyval \<Rightarrow> pyval" where
  "coerce_runtime_seconds parse v =
     (case v of
        PInt ms \<Rightarrow> PInt ms
      | PBool b \<Rightarrow> PInt (if b then 1000 else 0)
      | PStr s \<Rightarrow> if s = [] then PNone else (case parse s of Some ms \<Rightarrow> PInt ms | None \<Rightarrow> PNone)
      | _ \<Rightarrow> PNone)"

definition endpoint_runtime_phase ::
  "(string \<Rightarrow> int option) \<Rightarrow> pyval \<Rightarrow> pyval \<Rightarrow> string \<Rightarrow> string \<Rightarrow> pyval \<Rightarrow> string \<Rightarrow> string \<Rightarrow> pyval \<Rightarrow> pyval
    \<Rightarrow> phase" where
  "endpoint_runtime_phase parse endpoint_id endpoint_name kind label runtime status summary sync_type stream_path =
     (let optional = (\<lambda>k v. if truthy v then [(k, PStr (py_str v))] else []);
          eid = normalize_endpoint_id endpoint_id
      in [(''kind'', PStr kind), (''label'', PStr label),
          (''runtime_seconds'', coerce_runtime_seconds parse runtime),
          (''status'', PStr status), (''summary'', PStr summary)]
         @ (if eid = PNone then [] else [(''endpoint_id'', eid)])
         @ optional ''endpoint_name'' endpoint_name @ optional ''sync_type'' sync_type
         @ optional ''stream_path'' stream_path)"

definition status_text :: "bool \<Rightarrow> string" where
  "status_text ok = (if ok then ''success'' else ''warning'')"

definition phases_from_service_result ::
  "(string \<Rightarrow> int option) \<Rightarrow> pyval \<Rightarrow> string \<Rightarrow> string \<Rightarrow> phase list" where
  "phases_from_service_result parse res kind label =
     (let items = concat (map (\<lambda>item. case item of PDict d \<Rightarrow> [d] | _ \<Rightarrow> [])
            (case attr_value res ''per_endpoint'' of PList xs \<Rightarrow> xs | _ \<Rightarrow> []));
          phases = map (\<lambda>item. endpoint_runtime_phase parse (dget item ''endpoint_id'')
              (dget item ''endpoint_name'') kind label (dget item ''runtime_seconds'')
              (status_text (dget item ''success'' = PBool True))
              (py_str (py_or (dget item ''error'') (PStr (label @ '' completed'')))) PNone PNone) items;
          aggregate_failed = (attr_value res ''success'' \<noteq> PBool True)
      in if phases = [] \<or> aggregate_failed \<and> list_all (\<lambda>p. dget p ''status'' = PStr ''success'') phases then
           phases @ [endpoint_runtime_phase parse (attr_value res ''endpoint_id'')
             (attr_value res ''endpoint_name'') kind label (attr_value res ''runtime_seconds'')
             (status_text (\<not> aggregate_failed))
             (py_str (py_or (attr_value res ''error'') (PStr (label @ '' completed'')))) PNone PNone]
         else phases)"

definition phases_for_service_endpoint ::
  "(string \<Rightarrow> int option) \<Rightarrow> pyval \<Rightarrow> int \<Rightarrow> string \<Rightarrow> string \<Rightarrow> phase list" where
  "phases_for_service_endpoint parse res endpoint_id kind label =
     map (\<lambda>p. if dget p ''endpoint_id'' = PNone then AList.update ''endpoint_id'' (PInt endpoint_id) p else p)
       (filter (\<lambda>p. dget p ''endpoint_id'' \<in> {PNone, PInt endpoint_id, PStr (str_of_int endpoint_id)})
         (phases_from_service_result parse res kind label))"

definition failed_service_endpoint_phase ::
  "(string \<Rightarrow> int option) \<Rightarrow> int \<Rightarrow> string \<Rightarrow> string \<Rightarrow> rat \<Rightarrow> string \<Rightarrow> phase" where
  "failed_service_endpoint_phase parse endpoint_id kind label runtime exc =
     endpoint_runtime_phase parse (PInt endpoint_id) (PStr []) kind label (stored_seconds runtime)
       ''warning'' exc PNone PNone"

section \<open>Stages\<close>

definition opt_text :: "string option \<Rightarrow> pyval" where
  "opt_text t = (case t of None \<Rightarrow> PNone | Some s \<Rightarrow> PStr s)"

primrec summary_dict :: "stage_summary \<Rightarrow> (string \<times> pyval) list" where
  "summary_dict (Stage_ok path ok) = [(''path'', path), (''ok'', ok)]"
| "summary_dict (Stage_skipped reason) =
     [(''ok'', PBool True), (''skipped'', PBool True), (''reason'', PStr reason)]"
| "summary_dict (Scope_failed stage error) =
     [(''ok'', PBool False)] @ (case stage of None \<Rightarrow> [] | Some st \<Rightarrow> [(''stage'', PStr st)])
     @ [(''error'', PStr error)]"

text \<open>A stage record of \<open>Sync_Run\<close> as the dictionary the stage runner returns.\<close>

definition stage_dict :: "stage_record \<Rightarrow> phase" where
  "stage_dict r =
     [(''sync_type'', PStr (rec_sync_type r)), (''endpoint_id'', opt_text (rec_endpoint r))]
     @ (case rec_name r of None \<Rightarrow> [] | Some nm \<Rightarrow> [(''endpoint_name'', PStr nm)])
     @ [(''stream_path'', opt_text (rec_path r)), (''runtime_seconds'', stored_seconds (rec_runtime r)),
        (''result_summary'', PDict (summary_dict (rec_summary r)))]"

definition phases_from_stage_results :: "(string \<Rightarrow> int option) \<Rightarrow> phase list \<Rightarrow> phase list" where
  "phases_from_stage_results parse stages =
     map (\<lambda>stage.
       let summary = (case dget stage ''result_summary'' of PDict d \<Rightarrow> d | _ \<Rightarrow> []);
           sync_type = py_or (dget stage ''sync_type'') (PStr ''sync stage'');
           stream_path = py_or (dget stage ''stream_path'') (dget summary ''path'')
       in endpoint_runtime_phase parse (dget stage ''endpoint_id'') (dget stage ''endpoint_name'')
            ''sse_stage'' (py_str sync_type) (dget stage ''runtime_seconds'')
            (status_text (dget summary ''ok'' = PBool True))
            (py_str (py_or stream_path (PStr ''Backend SSE stage completed''))) sync_type stream_path) stages"

section \<open>Cards\<close>

definition endpoint_name_map :: "pyval list result \<Rightarrow> pyval list \<Rightarrow> (string \<times> string) list" where
  "endpoint_name_map rows endpoint_ids =
     (let numeric = concat (map (\<lambda>v. case int_of_string (py_str v) of Some i \<Rightarrow> [i] | None \<Rightarrow> []) endpoint_ids);
          found = (if numeric = [] then []
            else (case rows of
                    Inl _ \<Rightarrow> []
                  | Inr endpoints \<Rightarrow>
                      fold (\<lambda>e names. if normalize_endpoint_id (attr_value e ''pk'') = PNone then names
                          else AList.update (py_str (normalize_endpoint_id (attr_value e ''pk'')))
                            (py_str (py_or (attr_value e ''name'') (attr_value e ''__str__''))) names)
                        (filter (\<lambda>e. row_pk e \<in> set numeric) endpoints) []))
      in fold (\<lambda>v names. if map_of names (py_str v) = None
           then AList.update (py_str v) (''Endpoint '' @ py_str v) names else names) endpoint_ids found)"

record runtime_card =
  card_endpoint :: pyval
  card_name :: string
  card_ms :: int
  card_phases :: "phase list"

definition phase_endpoint :: "phase \<Rightarrow> pyval" where
  "phase_endpoint p = normalize_endpoint_id (dget p ''endpoint_id'')"

definition phase_ms :: "(string \<Rightarrow> int option) \<Rightarrow> phase \<Rightarrow> int" where
  "phase_ms parse p = (case coerce_runtime_seconds parse (dget p ''runtime_seconds'') of PInt ms \<Rightarrow> ms | _ \<Rightarrow> 0)"

definition add_phase ::
  "(string \<Rightarrow> int option) \<Rightarrow> phase \<Rightarrow> (string \<times> runtime_card) list \<Rightarrow> (string \<times> runtime_card) list" where
  "add_phase parse p buckets =
     (if phase_endpoint p = PNone then buckets
      else
        let key = py_str (phase_endpoint p);
            bucket = (case map_of buckets key of
                Some c \<Rightarrow> c
              | None \<Rightarrow> \<lparr>card_endpoint = phase_endpoint p, card_name = [], card_ms = 0, card_phases = []\<rparr>);
            nm = strip (text_or_empty (dget p ''endpoint_name''))
        in AList.update key
             (bucket\<lparr>card_name := (if nm = [] then card_name bucket else nm),
                     card_ms := card_ms bucket + phase_ms parse p,
                     card_phases := card_phases bucket @ [p]\<rparr>) buckets)"

definition build_endpoint_runtimes ::
  "(string \<Rightarrow> int option) \<Rightarrow> pyval list result \<Rightarrow> phase list \<Rightarrow> runtime_card list" where
  "build_endpoint_runtimes parse rows phases =
     (let buckets = map snd (fold (add_phase parse) phases []);
          names = endpoint_name_map rows (map card_endpoint buckets)
      in sort_key card_name (map (\<lambda>c. if card_name c = []
           then c\<lparr>card_name := (case map_of names (py_str (card_endpoint c)) of
               Some nm \<Rightarrow> nm | None \<Rightarrow> ''Endpoint '' @ py_str (card_endpoint c))\<rparr> else c) buckets))"

definition card_dict :: "runtime_card \<Rightarrow> pyval" where
  "card_dict c = PDict [(''endpoint_id'', card_endpoint c), (''endpoint_name'', PStr (card_name c)),
     (''runtime_seconds'', PInt (card_ms c)), (''phases'', PList (map PDict (card_phases c)))]"

definition runtime_summary :: "int \<Rightarrow> runtime_card list \<Rightarrow> pyval" where
  "runtime_summary runtime cards =
     (let total = sum_list (map card_ms cards)
      in PDict [(''runtime_seconds'', PInt runtime), (''endpoint_count'', PInt (int (length cards))),
        (''endpoint_runtime_seconds'', PInt total), (''other_runtime_seconds'', PInt (max (runtime - total) 0))])"

section \<open>Failures\<close>

definition LOCAL_PHASE_KINDS :: "string list" where
  "LOCAL_PHASE_KINDS = [''cluster'', ''firewall'', ''datacenter'', ''vm_template'']"

definition local_phases :: "phase list \<Rightarrow> phase list" where
  "local_phases phases = filter (\<lambda>p. dget p ''kind'' \<in> set (map PStr LOCAL_PHASE_KINDS)) phases"

definition failed_local_phases :: "phase list \<Rightarrow> phase list" where
  "failed_local_phases phases = filter (\<lambda>p. dget p ''status'' \<noteq> PStr ''success'') (local_phases phases)"

definition local_failure_detail :: "phase list \<Rightarrow> string" where
  "local_failure_detail phases =
     str_join ''; '' (map (\<lambda>p.
       let label = py_str (py_or (py_or (dget p ''label'') (dget p ''kind'')) (PStr ''Local sync''));
           scope = (if dget p ''endpoint_id'' = PNone then []
             else '' for endpoint '' @ py_str (dget p ''endpoint_id''))
       in label @ scope @ '': '' @ py_str (py_or (dget p ''summary'') (PStr ''unknown error''))) phases)"

text \<open>\<open>stage.get("result_summary") or {}\<close>, then one key with its default.\<close>

definition summary_get :: "phase \<Rightarrow> string \<Rightarrow> pyval \<Rightarrow> pyval" where
  "summary_get stage key dflt = getattr_or (dget stage ''result_summary'') key dflt"

definition failed_endpoint_scopes :: "phase list \<Rightarrow> phase list" where
  "failed_endpoint_scopes stages =
     filter (\<lambda>st. dget st ''sync_type'' = PStr ENDPOINT_SCOPE \<and> \<not> truthy (summary_get st ''ok'' (PBool True))) stages"

definition failed_scope_detail :: "phase list \<Rightarrow> string" where
  "failed_scope_detail stages =
     str_join ''; '' (map (\<lambda>st.
       let error = py_str (py_or (summary_get st ''error'' PNone) (PStr ''unknown error''))
       in if dget st ''endpoint_id'' = PNone then error
          else ''endpoint '' @ py_str (dget st ''endpoint_id'') @ '': '' @ error) stages)"

definition any_sync_stage_ran :: "phase list \<Rightarrow> bool" where
  "any_sync_stage_ran stages \<longleftrightarrow>
     list_ex (\<lambda>st. dget st ''sync_type'' \<noteq> PStr ENDPOINT_SCOPE \<and> \<not> truthy (summary_get st ''skipped'' PNone)) stages"

definition BATCH_FAILURE_DETAIL_LIMIT :: nat where "BATCH_FAILURE_DETAIL_LIMIT = 10"

primrec object_error_text :: "object_result \<Rightarrow> string" where
  "object_error_text (Object_error status error) = error"
| "object_error_text (Object_synced status response deps) = text_or_empty (attr_value response ''error'')"

definition failed_batch_object_detail :: "batch_summary \<Rightarrow> string" where
  "failed_batch_object_detail batch =
     (let failures = map (\<lambda>(oid, r). (if oid = [] then ''?'' else oid) @ '' ('' @ str_of_int (result_status r)
             @ (if strip (object_error_text r) = [] then [] else '': '' @ strip (object_error_text r)) @ '')'')
            (filter (\<lambda>(oid, r). 400 \<le> result_status r) (bs_results batch));
          shown = take BATCH_FAILURE_DETAIL_LIMIT failures;
          remaining = length failures - length shown
      in if failures = [] then ''no per-object detail was recorded; see the job data for the raw result''
         else ''failed object(s): '' @ str_join ''; '' shown
           @ (if remaining > 0 then ''; and '' @ str_of_nat remaining @ '' more'' else []))"

section \<open>The cards are a partition of the phases\<close>

text \<open>The phases of one endpoint, in their order.\<close>

definition phases_of_endpoint :: "string \<Rightarrow> phase list \<Rightarrow> phase list" where
  "phases_of_endpoint key phases = filter (\<lambda>p. phase_endpoint p \<noteq> PNone \<and> py_str (phase_endpoint p) = key) phases"

definition good_bucket :: "(string \<Rightarrow> int option) \<Rightarrow> phase list \<Rightarrow> string \<Rightarrow> runtime_card option \<Rightarrow> bool" where
  "good_bucket parse phases key b \<longleftrightarrow>
     (case b of
        None \<Rightarrow> phases_of_endpoint key phases = []
      | Some c \<Rightarrow> py_str (card_endpoint c) = key \<and> card_phases c = phases_of_endpoint key phases
          \<and> card_ms c = sum_list (map (phase_ms parse) (card_phases c)) \<and> card_phases c \<noteq> [])"

lemma buckets_good: "good_bucket parse phases key (map_of (fold (add_phase parse) phases []) key)"
proof (induction phases arbitrary: key rule: rev_induct)
  case Nil
  then show ?case by (simp add: good_bucket_def phases_of_endpoint_def)
next
  case (snoc p phases)
  from snoc.IH[of key] snoc.IH[of "py_str (phase_endpoint p)"] show ?case
    by (auto simp: good_bucket_def phases_of_endpoint_def add_phase_def Let_def update_conv' split: option.splits)
qed

lemma buckets_distinct: "distinct (map fst (fold (add_phase parse) phases []))"
  by (induction phases rule: rev_induct) (simp_all add: add_phase_def Let_def distinct_update)

lemma bucket_card:
  assumes "(key, c) \<in> set (fold (add_phase parse) phases [])"
  shows "good_bucket parse phases key (Some c)"
  using buckets_good[of parse phases key] map_of_is_SomeI[OF buckets_distinct assms] by simp

lemma bucket_present:
  assumes "phases_of_endpoint key phases \<noteq> []"
  shows "key \<in> fst ` set (fold (add_phase parse) phases [])"
  using buckets_good[of parse phases key] assms
  by (auto simp: good_bucket_def split: option.splits dest!: map_of_SomeD intro: rev_image_eqI)

lemma bucket_keys:
  "set (map fst (fold (add_phase parse) phases []))
     = set (map (\<lambda>p. py_str (phase_endpoint p)) (filter (\<lambda>p. phase_endpoint p \<noteq> PNone) phases))"
    (is "set (map fst ?b) = ?named")
proof -
  have named: "k \<in> ?named \<longleftrightarrow> phases_of_endpoint k phases \<noteq> []" for k
    by (auto simp: phases_of_endpoint_def filter_empty_conv)
  have "k \<in> fst ` set ?b \<longleftrightarrow> phases_of_endpoint k phases \<noteq> []" for k
  proof
    assume "k \<in> fst ` set ?b"
    then obtain c where "(k, c) \<in> set ?b" by auto
    from bucket_card[OF this] show "phases_of_endpoint k phases \<noteq> []" unfolding good_bucket_def option.case by metis
  qed (rule bucket_present)
  then show ?thesis unfolding set_map[of fst] set_eq_iff named by blast
qed

text \<open>C40. The runtime cards of a run partition its phases. There is one card for each endpoint that some phase
  names and no other card, no endpoint has two cards, each card holds exactly the phases of its endpoint in the
  order in which they were recorded, its runtime is the sum of theirs, and the cards are listed by name.\<close>

theorem cards_partition_phases:
  "let cards = build_endpoint_runtimes parse rows phases; key = (\<lambda>c. py_str (card_endpoint c))
   in distinct (map key cards)
      \<and> set (map key cards) = set (map (\<lambda>p. py_str (phase_endpoint p)) (filter (\<lambda>p. phase_endpoint p \<noteq> PNone) phases))
      \<and> list_all (\<lambda>c. card_phases c = phases_of_endpoint (key c) phases \<and> card_phases c \<noteq> []
          \<and> card_ms c = sum_list (map (phase_ms parse) (card_phases c))) cards
      \<and> sorted (map card_name cards)"
proof -
  let ?b = "fold (add_phase parse) phases []"
  define named where "named c = (if card_name c = [] then c\<lparr>card_name :=
      (case map_of (endpoint_name_map rows (map card_endpoint (map snd ?b))) (py_str (card_endpoint c)) of
         Some nm \<Rightarrow> nm | None \<Rightarrow> ''Endpoint '' @ py_str (card_endpoint c))\<rparr> else c)" for c :: runtime_card
  have cards: "build_endpoint_runtimes parse rows phases = sort_key card_name (map named (map snd ?b))"
    unfolding build_endpoint_runtimes_def Let_def named_def ..
  have same: "card_endpoint (named c) = card_endpoint c" "card_phases (named c) = card_phases c" "card_ms (named c) = card_ms c" for c
    by (simp_all add: named_def)
  have good: "py_str (card_endpoint c) = k \<and> card_phases c = phases_of_endpoint k phases \<and> card_phases c \<noteq> []
      \<and> card_ms c = sum_list (map (phase_ms parse) (card_phases c))" if "(k, c) \<in> set ?b" for k c
    using bucket_card[OF that] unfolding good_bucket_def option.case by blast
  have keys: "map (\<lambda>c. py_str (card_endpoint c)) (map named (map snd ?b)) = map fst ?b"
    using good by (auto simp: same)
  have mset_keys: "mset (map (\<lambda>c. py_str (card_endpoint c)) (build_endpoint_runtimes parse rows phases)) = mset (map fst ?b)"
    unfolding cards keys[symmetric] by (simp only: mset_map mset_sort)
  have "distinct (map (\<lambda>c. py_str (card_endpoint c)) (build_endpoint_runtimes parse rows phases))"
    using buckets_distinct mset_eq_imp_distinct_iff[OF mset_keys] by blast
  moreover have "set (map (\<lambda>c. py_str (card_endpoint c)) (build_endpoint_runtimes parse rows phases))
      = set (map (\<lambda>p. py_str (phase_endpoint p)) (filter (\<lambda>p. phase_endpoint p \<noteq> PNone) phases))"
    unfolding mset_eq_setD[OF mset_keys] by (rule bucket_keys)
  moreover have "sorted (map card_name (build_endpoint_runtimes parse rows phases))"
    unfolding cards by (rule sorted_sort_key)
  moreover have "card_phases c = phases_of_endpoint (py_str (card_endpoint c)) phases \<and> card_phases c \<noteq> []
      \<and> card_ms c = sum_list (map (phase_ms parse) (card_phases c))"
    if c: "c \<in> set (build_endpoint_runtimes parse rows phases)" for c
  proof -
    from c obtain k c' where "(k, c') \<in> set ?b" and "c = named c'" by (auto simp: cards)
    with good[of k c'] same[of c'] show ?thesis by metis
  qed
  ultimately show ?thesis unfolding Let_def list_all_iff by blast
qed

end
