(* ===== verification/Sync_Job.thy ===== *)
theory Sync_Job
  imports Job_State Runtime_Phases
begin

text \<open>
  \<open>ProxboxSyncJob.run\<close> of \<open>netbox_proxbox/jobs.py\<close> with its phases: claim the job row, decide on
  branch isolation, create the branch, verify the backend key, push the endpoints, run the local
  passes or the selected objects, run the backend stages, bind the sync state, store the results,
  classify failures, merge the branch, release the row. \<open>job_env\<close> holds what the run asks for:
  the branching plugin, the clock, the key check and the endpoint push of the backend, the four local
  services, the stage runner's surroundings and the backfill. The endpoint push, the services and the
  backfill are code of the repository that is not modelled here: only when they are called, on which
  branch, and what the run does with their answers. Log lines are left out.
\<close>

section \<open>Surroundings, arguments and context\<close>

record key_answer =
  key_ok :: bool
  key_details :: "(string \<times> pyval) list"

record preflight_result =
  pf_phases :: "phase list"
  pf_blocking :: string

record job_env =
  je_loads :: json_loads
  je_stamp :: string
  je_orm :: bool
  je_site :: branching_site
  je_engine :: branch_engine
  je_import_activate :: "nat \<Rightarrow> unit result"
  je_refresh :: "nat \<Rightarrow> pyval result"
  je_enter :: "nat \<Rightarrow> unit result"
  je_merge :: "nat \<Rightarrow> merge_answers"
  je_clock :: "nat \<Rightarrow> rat"
  je_dates :: clock_env
  je_timeout :: rat
  je_uuid :: string
  je_key :: "nat \<Rightarrow> key_answer"
  je_bootstrap :: "nat \<Rightarrow> job_exc + preflight_result"
  je_endpoints :: "nat \<Rightarrow> pyval list result"
  je_solo :: "pyval option"
  je_service :: "nat \<Rightarrow> string \<Rightarrow> int \<Rightarrow> job_exc + pyval"
  je_stage_env :: "nat \<Rightarrow> run_env"
  je_modes :: mode_vars
  je_batch_env :: "nat \<Rightarrow> batch_env"
  je_backfill :: "nat \<Rightarrow> (string \<times> string) list \<Rightarrow> pyval result"
  je_parse :: "string \<Rightarrow> int option"

record job_args =
  ja_sync_types :: "pyval list"
  ja_sync_type :: "pyval option"
  ja_proxmox :: "pyval list"
  ja_netbox :: "pyval list"
  ja_vms :: "pyval list"
  ja_batch_type :: pyval
  ja_batch_ids :: "pyval list"
  ja_fastapi :: pyval

record sync_ctx =
  cx_config :: "branch_settings option"
  cx_types :: "string list"
  cx_proxmox :: "pyval list"
  cx_netbox :: "pyval list"
  cx_vms :: "pyval list"
  cx_batch_type :: "string option"
  cx_batch_ids :: "string list"
  cx_fastapi :: "int option"
  cx_started :: rat
  cx_deadline :: sync_job_deadline
  cx_stages :: "string list"

definition now :: "job_env \<Rightarrow> rat act" where
  "now env = consult (je_clock env)"

definition normalize_run_types :: "pyval list \<Rightarrow> pyval option \<Rightarrow> string list" where
  "normalize_run_types sync_types sync_type =
     (if sync_types \<noteq> [] then normalize_sync_types (map py_str sync_types)
      else (case sync_type of Some t \<Rightarrow> normalize_sync_types [py_str t] | None \<Rightarrow> [ALL_STAGES]))"

text \<open>\<open>_prepare_sync_run\<close> and the constructor of the context; the persistence reserve is 120 seconds.\<close>

definition prepare_sync_run :: "job_env \<Rightarrow> job_args \<Rightarrow> branch_settings option \<Rightarrow> sync_ctx act" where
  "prepare_sync_run env args config =
     abind (now env) (\<lambda>started.
       let types = normalize_run_types (ja_sync_types args) (ja_sync_type args)
       in ret \<lparr>cx_config = config, cx_types = types, cx_proxmox = ja_proxmox args, cx_netbox = ja_netbox args,
            cx_vms = ja_vms args,
            cx_batch_type = (if truthy (ja_batch_type args) then Some (strip (py_str (ja_batch_type args))) else None),
            cx_batch_ids = normalize_batch_object_ids (ja_batch_ids args),
            cx_fastapi = coerce_fastapi_endpoint_id (ja_fastapi args), cx_started = started,
            cx_deadline = \<lparr>expires_at = started + je_timeout env, reserve_seconds = 120\<rparr>,
            cx_stages = expanded_sync_stages types\<rparr>)"

definition nonempty_texts :: "pyval list \<Rightarrow> string list" where
  "nonempty_texts vs = filter (\<lambda>s. s \<noteq> []) (map py_str vs)"

definition build_sync_run_params :: "job_env \<Rightarrow> sync_ctx \<Rightarrow> (string \<times> pyval) list" where
  "build_sync_run_params env ctx =
     (let texts = (\<lambda>xs. PList (map PStr xs))
      in [(''sync_types'', texts (cx_types ctx)),
          (''proxmox_endpoint_ids'', texts (nonempty_texts (cx_proxmox ctx))),
          (''netbox_endpoint_ids'', texts (nonempty_texts (cx_netbox ctx))),
          (''netbox_vm_ids'', texts (nonempty_texts (cx_vms ctx))),
          (''batch_object_type'', opt_text (cx_batch_type ctx)),
          (''batch_object_ids'', texts (cx_batch_ids ctx)),
          (''fastapi_endpoint_id'', (case cx_fastapi ctx of None \<Rightarrow> PNone | Some i \<Rightarrow> PInt i)),
          (''run_id'', PStr (je_uuid env))])"

section \<open>Job data\<close>

text \<open>\<open>job.data = data; job.save(update_fields=["data"])\<close>.\<close>

definition persist_data :: "(string \<times> pyval) list \<Rightarrow> unit act" where
  "persist_data data =
     abind (modify (\<lambda>s. s\<lparr>jr_job := (jr_job s)\<lparr>job_data := PDict data\<rparr>\<rparr>)) (\<lambda>_.
     abind (gets (\<lambda>s. save_job_data (jr_rows s) (jr_job s) data)) (\<lambda>saved.
     abind (lift_py saved) (\<lambda>(rows, job).
     abind (modify (\<lambda>s. s\<lparr>jr_rows := rows, jr_job := job\<rparr>)) (\<lambda>_. emit (Data_saved (PDict data))))))"

definition setdefault :: "string \<Rightarrow> pyval \<Rightarrow> (string \<times> pyval) list \<Rightarrow> (string \<times> pyval) list" where
  "setdefault k v d = (if map_of d k = None then AList.update k v d else d)"

definition dict_of :: "pyval \<Rightarrow> (string \<times> pyval) list" where
  "dict_of v = (case v of PDict d \<Rightarrow> d | _ \<Rightarrow> [])"

definition branching_failure_stage :: "string \<Rightarrow> pyval" where
  "branching_failure_stage m =
     PDict [(''sync_type'', PStr ''branch-isolation''), (''endpoint_id'', PNone), (''stream_path'', PNone),
       (''runtime_seconds'', PInt 0), (''result_summary'', PDict [(''ok'', PBool False), (''error'', PStr m)])]"

definition branching_failure_response :: "(string \<times> pyval) list \<Rightarrow> string \<Rightarrow> (string \<times> pyval) list" where
  "branching_failure_response sync_data m =
     (let response = dict_of (dget sync_data ''response'');
          stages = filter (\<lambda>st. attr_value st ''sync_type'' \<noteq> PStr ''branch-isolation'')
            (list_or_empty (dget response ''stages''))
      in setdefault ''runtime_summary'' (runtime_summary 0 [])
           (setdefault ''endpoint_runtimes'' (PList [])
             (AList.update ''stages'' (PList (stages @ [branching_failure_stage m])) response)))"

definition record_branching_failure :: "string \<Rightarrow> unit act" where
  "record_branching_failure m =
     abind (gets (\<lambda>s. dict_of (job_data (jr_job s)))) (\<lambda>data.
       let sync_data = setdefault ''runtime_seconds'' (PInt 0) (dict_of (dget data ''proxbox_sync''))
       in persist_data (AList.update ''proxbox_sync''
            (PDict (AList.update ''response'' (PDict (branching_failure_response sync_data m)) sync_data)) data))"

definition branch_identity :: "pyval \<Rightarrow> (string \<times> pyval) list" where
  "branch_identity b =
     [(''id'', getattr_or b ''pk'' (attr_value b ''id'')), (''name'', PStr (branch_name b)),
      (''schema_id'', PStr (py_str (getattr_or b ''schema_id'' (PStr []))))]"

text \<open>\<open>params\<close> is the parameter block as it is at that moment.\<close>

definition sync_data_with_branch :: "(string \<times> pyval) list \<Rightarrow> (string \<times> pyval) list act" where
  "sync_data_with_branch params =
     gets (\<lambda>s. [(''params'', PDict params)]
       @ (case jr_branch s of None \<Rightarrow> [] | Some b \<Rightarrow> [(''branch'', PDict (branch_identity b))])
       @ (case jr_backfill s of None \<Rightarrow> [] | Some v \<Rightarrow> [(''sync_state_endpoint_backfill'', v)]))"

definition persist_initial_sync_data :: "job_env \<Rightarrow> sync_ctx \<Rightarrow> unit act" where
  "persist_initial_sync_data env ctx =
     abind (sync_data_with_branch (serialize_sync_params (cx_types ctx) (nonempty_texts (cx_proxmox ctx))
         (nonempty_texts (cx_netbox ctx)) (nonempty_texts (cx_vms ctx)) (cx_batch_type ctx) (cx_batch_ids ctx)
         (cx_fastapi ctx) (Some (je_uuid env)))) (\<lambda>sync_data.
       persist_data [(''proxbox_sync'', PDict sync_data)])"

definition persist_branch_disposition :: "string \<Rightarrow> unit act" where
  "persist_branch_disposition status =
     abind (gets (\<lambda>s. (dict_of (job_data (jr_job s)), jr_branch s))) (\<lambda>(data, branch).
       let sync_data = dict_of (dget data ''proxbox_sync'');
           response = dict_of (dget sync_data ''response'');
           identity = (case branch of None \<Rightarrow> [] | Some b \<Rightarrow> branch_identity b);
           note = PDict [(''status'', PStr status), (''branch_id'', dget identity ''id''),
             (''branch_name'', dget identity ''name'')]
       in persist_data (AList.update ''proxbox_sync'' (PDict (AList.update ''response''
            (PDict (AList.update ''branch_disposition'' note response)) sync_data)) data))"

section \<open>The branch of the run\<close>

definition sync_branch_name :: "branch_settings \<Rightarrow> int \<Rightarrow> rat \<Rightarrow> string" where
  "sync_branch_name config pk started =
     py_str (branch_prefix config) @ ''-'' @ str_of_int pk @ ''-'' @ str_of_int \<lfloor>started\<rfloor>"

text \<open>The handlers around the creation.\<close>

definition creation_failed :: "string \<Rightarrow> job_exc \<Rightarrow> unit act" where
  "creation_failed nm e =
     (case e of
        Branching_unavailable _ \<Rightarrow> raise_exc e
      | _ \<Rightarrow> abind (record_branching_failure (''Proxbox sync refused: failed to create/provision NetBox branch ''
            @ nm @ '': '' @ job_exc_text e)) (\<lambda>_. raise_exc e))"

definition create_sync_branch :: "job_env \<Rightarrow> sync_ctx \<Rightarrow> unit act" where
  "create_sync_branch env ctx =
     (case cx_config ctx of
        None \<Rightarrow> ret ()
      | Some config \<Rightarrow>
          abind (gets (\<lambda>s. sync_branch_name config (job_pk (jr_job s)) (cx_started ctx))) (\<lambda>nm.
            case create_and_provision_branch (je_engine env) nm 60 of
              Inl e \<Rightarrow> creation_failed nm e
            | Inr b \<Rightarrow> abind (modify (\<lambda>s. s\<lparr>jr_branch := Some b\<rparr>)) (\<lambda>_. emit (Branch_created b))))"

text \<open>\<open>with activate_sync_branch(branch): m\<close>. The refresh changes the branch object also when the
  activation is refused.\<close>

definition in_branch :: "job_env \<Rightarrow> 'a act \<Rightarrow> 'a act" where
  "in_branch env m =
     abind (gets jr_branch) (\<lambda>branch.
       case branch of
         None \<Rightarrow> m
       | Some b \<Rightarrow>
           abind (consult (je_import_activate env)) (\<lambda>imported.
           abind (consult (je_refresh env)) (\<lambda>refreshed.
           abind (consult (je_enter env)) (\<lambda>entered.
           abind (case refreshed of Inl _ \<Rightarrow> ret () | Inr b' \<Rightarrow> modify (\<lambda>s. s\<lparr>jr_branch := Some b'\<rparr>)) (\<lambda>_.
           abind (lift_exc (activate_sync_branch (ready_choice (je_engine env)) imported refreshed entered (Some b)))
             (\<lambda>active.
           abind (gets jr_active) (\<lambda>outer.
           abind (modify (\<lambda>s. s\<lparr>jr_active := active\<rparr>)) (\<lambda>_.
             try_finally m (modify (\<lambda>s. s\<lparr>jr_active := outer\<rparr>))))))))))"

text \<open>What follows the report of \<open>merge_branch\<close>.\<close>

definition settle_merge :: "merge_report \<Rightarrow> unit act" where
  "settle_merge rep =
     (if merged rep then (case disposition rep of Some d \<Rightarrow> persist_branch_disposition d | None \<Rightarrow> ret ())
      else abind (record_branching_failure (merge_message rep)) (\<lambda>_.
        raise_exc (Raised (RuntimeError (merge_message rep)))))"

definition merge_with :: "job_env \<Rightarrow> branch_settings \<Rightarrow> pyval \<Rightarrow> unit act" where
  "merge_with env config b =
     abind (consult (je_merge env)) (\<lambda>answers.
     abind (lift_exc (merge_branch_run (je_engine env) answers b (on_conflict config))) (\<lambda>rep.
     abind (modify (\<lambda>s. s\<lparr>jr_branch := Some (merge_branch_object rep)\<rparr>)) (\<lambda>_.
     abind (if merge_called rep then emit (Merge_called b) else ret ()) (\<lambda>_. settle_merge rep))))"

definition merge_sync_branch :: "job_env \<Rightarrow> sync_ctx \<Rightarrow> unit act" where
  "merge_sync_branch env ctx =
     abind (gets jr_branch) (\<lambda>branch.
       case (branch, cx_config ctx) of
         (Some b, Some config) \<Rightarrow> merge_with env config b
       | _ \<Rightarrow> ret ())"

section \<open>Backend key\<close>

definition BACKEND_KEY_RETRY_MAX_DELAY :: rat where "BACKEND_KEY_RETRY_MAX_DELAY = 60"
definition BACKEND_KEY_RETRY_TOTAL_BUDGET :: rat where "BACKEND_KEY_RETRY_TOTAL_BUDGET = 180"
definition BACKEND_KEY_RETRY_MAX_ATTEMPTS :: nat where "BACKEND_KEY_RETRY_MAX_ATTEMPTS = 10"

definition backend_key_retryable :: "(string \<times> pyval) list \<Rightarrow> bool" where
  "backend_key_retryable details \<longleftrightarrow>
     dget details ''status_code'' \<in> {PInt 429, PInt 503}
     \<or> dget details ''code'' \<in> {PStr ''backend_throttled'', PStr ''backend_timeout'', PStr ''backend_unreachable'',
          PStr ''backend_request_failed''}"

definition deadline_exc :: job_exc where
  "deadline_exc = Deadline_reached ''Job deadline reached.''"

text \<open>The loop with \<open>left\<close> attempts after this one, \<open>slept\<close> seconds waited and the next \<open>delay\<close>.\<close>

primrec key_attempts :: "job_env \<Rightarrow> sync_job_deadline \<Rightarrow> nat \<Rightarrow> rat \<Rightarrow> rat \<Rightarrow> unit act" where
  "key_attempts env d 0 slept delay =
     abind (now env) (\<lambda>t1.
     abind (if deadline_remaining d t1 \<le> 0 then raise_exc deadline_exc else ret ()) (\<lambda>_.
     abind (emit Key_checked) (\<lambda>_.
     abind (consult (je_key env)) (\<lambda>answer.
       if key_ok answer then ret ()
       else abind (now env) (\<lambda>_. abind (now env) (\<lambda>t3.
         if deadline_remaining d t3 \<le> 0 then raise_exc deadline_exc
         else raise_exc (Raised (RuntimeError ''Backend API-key preflight failed; no sync stage was started.''))))))))"
| "key_attempts env d (Suc left) slept delay =
     abind (now env) (\<lambda>t1.
     abind (if deadline_remaining d t1 \<le> 0 then raise_exc deadline_exc else ret ()) (\<lambda>_.
     abind (emit Key_checked) (\<lambda>_.
     abind (consult (je_key env)) (\<lambda>answer.
       if key_ok answer then ret ()
       else
         let retry_after = parse_retry_after (clock_env.to_float (je_dates env)) (parse_date (je_dates env))
               (wall_now (je_dates env)) (dget (key_details answer) ''retry_after'') BACKEND_KEY_RETRY_MAX_DELAY
         in abind (now env) (\<lambda>t2.
            let wait = deadline_cap d (case retry_after of Some w \<Rightarrow> w
                  | None \<Rightarrow> min delay BACKEND_KEY_RETRY_MAX_DELAY) t2
            in if \<not> backend_key_retryable (key_details answer)
                  \<or> slept + wait > BACKEND_KEY_RETRY_TOTAL_BUDGET \<or> wait \<le> 0 then
                 abind (now env) (\<lambda>t3.
                   if deadline_remaining d t3 \<le> 0 then raise_exc deadline_exc
                   else raise_exc (Raised (RuntimeError ''Backend API-key preflight failed; no sync stage was started.'')))
               else abind (emit (Slept wait)) (\<lambda>_.
                 key_attempts env d left (slept + wait) (min (delay * 2) BACKEND_KEY_RETRY_MAX_DELAY)))))))"

definition require_backend_key :: "job_env \<Rightarrow> sync_job_deadline \<Rightarrow> unit act" where
  "require_backend_key env d = key_attempts env d (BACKEND_KEY_RETRY_MAX_ATTEMPTS - 1) 0 2"

section \<open>Storing the staged result\<close>

definition JOB_DEADLINE_CAUSE :: string where
  "JOB_DEADLINE_CAUSE = ''Job deadline reached; no time remains before the persistence reserve.''"

definition left_open :: "pyval \<Rightarrow> string \<Rightarrow> pyval" where
  "left_open b reason = PDict [(''status'', PStr ''left_open''), (''branch_name'', PStr (branch_name b)),
     (''reason'', PStr reason)]"

definition local_failure_disposition :: "pyval option \<Rightarrow> phase list \<Rightarrow> pyval option" where
  "local_failure_disposition branch phases =
     (case branch of
        None \<Rightarrow> None
      | Some b \<Rightarrow> if failed_local_phases phases = [] then None else Some (left_open b ''local_reconciliation_failed''))"

definition sse_failure_disposition :: "pyval option \<Rightarrow> phase list \<Rightarrow> pyval option" where
  "sse_failure_disposition branch phases =
     (case local_failure_disposition branch phases of
        Some d \<Rightarrow> Some d
      | None \<Rightarrow> map_option (\<lambda>b. left_open b ''sse_failed'') branch)"

definition staged_response ::
  "(string \<Rightarrow> int option) \<Rightarrow> pyval list result \<Rightarrow> int \<Rightarrow> phase list \<Rightarrow> phase list \<Rightarrow> pyval option
    \<Rightarrow> (string \<times> pyval) list" where
  "staged_response parse rows runtime stages phases note =
     (let cards = build_endpoint_runtimes parse rows phases
      in [(''stages'', PList (map PDict stages)), (''local_phases'', PList (map PDict (local_phases phases))),
          (''endpoint_runtimes'', PList (map card_dict cards)), (''runtime_summary'', runtime_summary runtime cards)]
         @ (case note of None \<Rightarrow> [] | Some d \<Rightarrow> [(''branch_disposition'', d)]))"

definition persist_staged_result ::
  "job_env \<Rightarrow> sync_ctx \<Rightarrow> pyval \<Rightarrow> phase list \<Rightarrow> phase list \<Rightarrow> pyval option \<Rightarrow> unit act" where
  "persist_staged_result env ctx schema stages phases note =
     abind (now env) (\<lambda>t.
     abind (consult (je_endpoints env)) (\<lambda>rows.
     abind (gets jr_branch) (\<lambda>branch.
     abind (sync_data_with_branch (build_sync_run_params env ctx @ [(''netbox_branch_schema_id'', schema)])) (\<lambda>sync_data.
       let runtime = \<lfloor>1000 * runtime_seconds_since t (cx_started ctx)\<rfloor>;
           note' = (case note of Some d \<Rightarrow> Some d | None \<Rightarrow> local_failure_disposition branch phases)
       in persist_data [(''proxbox_sync'', PDict (sync_data @ [(''runtime_seconds'', PInt runtime),
            (''response'', PDict (staged_response (je_parse env) rows runtime stages phases note'))]))]))))"

section \<open>Endpoints in scope\<close>

definition coerce_endpoint_ids :: "pyval list \<Rightarrow> int list" where
  "coerce_endpoint_ids raw_ids =
     concat (map (\<lambda>v. case int_of_string (strip (py_str v)) of Some i \<Rightarrow> [i] | None \<Rightarrow> [])
       (filter (\<lambda>v. strip (py_str v) \<noteq> []) raw_ids))"

definition enabled_endpoint_ids :: "pyval list \<Rightarrow> pyval list \<Rightarrow> int list" where
  "enabled_endpoint_ids raw_ids rows =
     (if raw_ids = [] then map row_pk (enabled_rows rows)
      else
        let requested = coerce_endpoint_ids raw_ids
        in if requested = [] then []
           else map row_pk (filter (\<lambda>r. row_pk r \<in> set requested) (enabled_rows rows)))"

definition staged_endpoint_ids :: "job_env \<Rightarrow> sync_ctx \<Rightarrow> int list act" where
  "staged_endpoint_ids env ctx =
     abind (consult (je_endpoints env)) (\<lambda>rows. abind (lift_py rows) (\<lambda>rs.
       ret (enabled_endpoint_ids (cx_proxmox ctx) rs)))"

section \<open>Local passes\<close>

definition local_deadline_phases :: "job_env \<Rightarrow> int list \<Rightarrow> string \<Rightarrow> string \<Rightarrow> phase list" where
  "local_deadline_phases env endpoint_ids kind label =
     map (\<lambda>i. endpoint_runtime_phase (je_parse env) (PInt i) (PStr []) kind label (stored_seconds 0) ''warning''
       JOB_DEADLINE_CAUSE PNone PNone) endpoint_ids"

definition count_text :: "pyval \<Rightarrow> string \<Rightarrow> string" where
  "count_text res nm = py_str (attr_value res nm)"

definition cluster_result_summary :: "pyval \<Rightarrow> string" where
  "cluster_result_summary res =
     (if truthy (attr_value res ''success'') then
        count_text res ''clusters_created'' @ '' cluster(s) created, '' @ count_text res ''clusters_updated''
        @ '' updated, '' @ count_text res ''nodes_created'' @ '' node(s) created, '' @ count_text res ''nodes_updated''
        @ '' updated''
      else py_str (py_or (attr_value res ''error'') (PStr ''cluster/node sync failed'')))"

definition vm_template_result_summary :: "pyval \<Rightarrow> string" where
  "vm_template_result_summary res =
     (if truthy (attr_value res ''success'') then
        count_text res ''templates_created'' @ '' template(s) created, '' @ count_text res ''templates_updated''
        @ '' updated, '' @ count_text res ''templates_skipped'' @ '' skipped, ''
        @ count_text res ''templates_deleted'' @ '' deleted''
      else py_str (py_or (attr_value res ''error'') (PStr ''VM template sync failed'')))"

text \<open>The phase of a service that reports on one endpoint.\<close>

definition single_phase ::
  "job_env \<Rightarrow> string \<Rightarrow> string \<Rightarrow> (pyval \<Rightarrow> bool) \<Rightarrow> (pyval \<Rightarrow> string) \<Rightarrow> int \<Rightarrow> rat \<Rightarrow> pyval \<Rightarrow> phase list" where
  "single_phase env kind label ok summary i runtime res =
     [endpoint_runtime_phase (je_parse env) (py_or (attr_value res ''endpoint_id'') (PInt i))
        (attr_value res ''endpoint_name'') kind label (stored_seconds runtime) (status_text (ok res)) (summary res)
        PNone PNone]"

text \<open>The loop that the four passes share: \<open>phases_of\<close> are the phases of a result, \<open>isolate\<close> says
  that an exception of one endpoint does not end the pass.\<close>

primrec local_pass_loop ::
  "job_env \<Rightarrow> sync_ctx \<Rightarrow> string \<Rightarrow> string \<Rightarrow> bool \<Rightarrow> (int \<Rightarrow> rat \<Rightarrow> pyval \<Rightarrow> phase list) \<Rightarrow> int list
    \<Rightarrow> phase list act" where
  "local_pass_loop env ctx kind label isolate phases_of [] = ret []"
| "local_pass_loop env ctx kind label isolate phases_of (i # rest) =
     abind (now env) (\<lambda>t.
       if deadline_remaining (cx_deadline ctx) t \<le> 0 then
         ret (local_deadline_phases env (i # rest) kind label)
       else
         abind (now env) (\<lambda>started.
         abind (gets jr_active) (\<lambda>active.
         abind (emit (Local_pass kind i active)) (\<lambda>_.
         abind (consult (je_service env)) (\<lambda>answer.
         abind (now env) (\<lambda>finished.
           let runtime = runtime_seconds_since finished started
           in case answer kind i of
                Inl (Deadline_reached m) \<Rightarrow> ret (local_deadline_phases env (i # rest) kind label)
              | Inl e \<Rightarrow>
                  if isolate then
                    abind (local_pass_loop env ctx kind label isolate phases_of rest) (\<lambda>phases.
                      ret (failed_service_endpoint_phase (je_parse env) i kind label runtime (job_exc_text e) # phases))
                  else raise_exc e
              | Inr res \<Rightarrow>
                  abind (local_pass_loop env ctx kind label isolate phases_of rest) (\<lambda>phases.
                    ret (phases_of i runtime res @ phases))))))))"

definition sync_cluster_phase :: "job_env \<Rightarrow> sync_ctx \<Rightarrow> int list \<Rightarrow> phase list act" where
  "sync_cluster_phase env ctx ids =
     in_branch env (local_pass_loop env ctx ''cluster'' ''Cluster/node sync'' False
       (single_phase env ''cluster'' ''Cluster/node sync'' (\<lambda>r. truthy (attr_value r ''success''))
         cluster_result_summary) ids)"

definition sync_firewall :: "job_env \<Rightarrow> sync_ctx \<Rightarrow> int list \<Rightarrow> phase list act" where
  "sync_firewall env ctx ids =
     in_branch env (local_pass_loop env ctx ''firewall'' ''Firewall sync'' True
       (\<lambda>i runtime res. phases_for_service_endpoint (je_parse env) res i ''firewall'' ''Firewall sync'') ids)"

definition sync_datacenter :: "job_env \<Rightarrow> sync_ctx \<Rightarrow> int list \<Rightarrow> phase list act" where
  "sync_datacenter env ctx ids =
     in_branch env (local_pass_loop env ctx ''datacenter'' ''Datacenter sync'' True
       (\<lambda>i runtime res. phases_for_service_endpoint (je_parse env) res i ''datacenter'' ''Datacenter sync'') ids)"

definition vm_template_sync_disabled :: "job_env \<Rightarrow> bool result" where
  "vm_template_sync_disabled env =
     rbind (effective_sync_modes_for_endpoint (je_solo env) (\<lambda>_. None) PNone) (\<lambda>modes.
       Inr ((case map_of modes ''sync_mode_vm_template'' of Some m \<Rightarrow> m | None \<Rightarrow> ALWAYS) = DISABLED))"

definition sync_vm_templates :: "job_env \<Rightarrow> sync_ctx \<Rightarrow> int list \<Rightarrow> phase list act" where
  "sync_vm_templates env ctx ids =
     abind (lift_py (vm_template_sync_disabled env)) (\<lambda>disabled.
       if disabled then ret []
       else in_branch env (local_pass_loop env ctx ''vm_template'' ''VM template sync'' False
         (single_phase env ''vm_template'' ''VM template sync'' (\<lambda>r. attr_value r ''success'' = PBool True)
           vm_template_result_summary) ids))"

section \<open>The staged run\<close>

definition bootstrap_backend_endpoints :: "job_env \<Rightarrow> preflight_result act" where
  "bootstrap_backend_endpoints env =
     abind (emit Bootstrapped) (\<lambda>_.
     abind (consult (je_bootstrap env)) (\<lambda>answer.
     abind (lift_exc answer) (\<lambda>preflight.
       if pf_blocking preflight \<noteq> [] then raise_exc (Raised (RuntimeError (pf_blocking preflight)))
       else ret preflight)))"

text \<open>The key check of \<open>_begin_sync_run\<close> with its handler.\<close>

definition verify_backend_key :: "job_env \<Rightarrow> sync_ctx \<Rightarrow> pyval \<Rightarrow> unit act" where
  "verify_backend_key env ctx schema =
     try_except (require_backend_key env (cx_deadline ctx)) (\<lambda>e.
       case e of
         Deadline_reached _ \<Rightarrow>
           abind (staged_endpoint_ids env ctx) (\<lambda>ids.
           abind (persist_staged_result env ctx schema []
             (local_deadline_phases env ids ''preflight'' ''Backend key verification'') None) (\<lambda>_.
             raise_exc (Raised (RuntimeError JOB_DEADLINE_CAUSE))))
       | _ \<Rightarrow> raise_exc e)"

text \<open>\<open>_begin_sync_run\<close>; the value is the schema of the branch that the parameters carry from now on.\<close>

definition begin_sync_run :: "job_env \<Rightarrow> sync_ctx \<Rightarrow> pyval act" where
  "begin_sync_run env ctx =
     abind (create_sync_branch env ctx) (\<lambda>_.
     abind (persist_initial_sync_data env ctx) (\<lambda>_.
     abind (gets (\<lambda>s. case jr_branch s of None \<Rightarrow> PNone | Some b \<Rightarrow> attr_value b ''schema_id'')) (\<lambda>schema.
     abind (verify_backend_key env ctx schema) (\<lambda>_. ret schema))))"

text \<open>A local phase is stored before the next one starts; the value is the list of phases so far.\<close>

definition extend_and_checkpoint ::
  "job_env \<Rightarrow> sync_ctx \<Rightarrow> pyval \<Rightarrow> phase list \<Rightarrow> phase list \<Rightarrow> phase list act" where
  "extend_and_checkpoint env ctx schema phases new =
     abind (persist_staged_result env ctx schema [] (phases @ new) None) (\<lambda>_. ret (phases @ new))"

definition start_staged_sync :: "job_env \<Rightarrow> sync_ctx \<Rightarrow> pyval \<Rightarrow> (int list \<times> phase list) act" where
  "start_staged_sync env ctx schema =
     abind (bootstrap_backend_endpoints env) (\<lambda>preflight.
     abind (staged_endpoint_ids env ctx) (\<lambda>ids.
     abind (sync_cluster_phase env ctx ids) (\<lambda>new.
     abind (extend_and_checkpoint env ctx schema (pf_phases preflight) new) (\<lambda>phases. ret (ids, phases)))))"

definition run_local_sync_phases :: "job_env \<Rightarrow> sync_ctx \<Rightarrow> pyval \<Rightarrow> int list \<Rightarrow> phase list \<Rightarrow> phase list act" where
  "run_local_sync_phases env ctx schema ids phases =
     abind (sync_firewall env ctx ids) (\<lambda>new1.
     abind (extend_and_checkpoint env ctx schema phases new1) (\<lambda>phases1.
     abind (sync_datacenter env ctx ids) (\<lambda>new2.
     abind (extend_and_checkpoint env ctx schema phases1 new2) (\<lambda>phases2.
     abind (sync_vm_templates env ctx ids) (\<lambda>new3. extend_and_checkpoint env ctx schema phases2 new3)))))"

definition stage_params :: "job_env \<Rightarrow> sync_ctx \<Rightarrow> pyval \<Rightarrow> run_params" where
  "stage_params env ctx schema =
     \<lparr>par_endpoints = map PStr (nonempty_texts (cx_proxmox ctx)), par_netbox = nonempty_texts (cx_netbox ctx),
      par_vm_ids = map PStr (nonempty_texts (cx_vms ctx)), par_branch = schema, par_run_id = PStr (je_uuid env)\<rparr>"

text \<open>The endpoint map that \<open>capture_wire_endpoint_ids\<close> collects during the stages.\<close>

definition captured_wire :: "run_env \<Rightarrow> pyval list \<Rightarrow> (string \<times> string) list" where
  "captured_wire renv ids =
     (let scopes = proxmox_endpoint_scopes (env_rows renv) ids in
      if scopes = [] then []
      else (case resolve_wire_endpoint_ids (env_rows renv) (env_ctx_url renv) (env_listing renv) scopes of
              Inr (wire, None) \<Rightarrow> wire | _ \<Rightarrow> []))"

definition run_sse_stages ::
  "job_env \<Rightarrow> sync_ctx \<Rightarrow> pyval \<Rightarrow> phase list \<Rightarrow> (phase list \<times> (string \<times> string) list) act" where
  "run_sse_stages env ctx schema phases =
     abind (consult (je_stage_env env)) (\<lambda>renv.
       case run_all_stages_sync renv (je_modes env) (stage_params env ctx schema) (cx_stages ctx) of
         Inl e \<Rightarrow>
           abind (gets jr_branch) (\<lambda>branch.
           abind (persist_staged_result env ctx schema [] phases (sse_failure_disposition branch phases)) (\<lambda>_.
             raise_exc (Raised e)))
       | Inr (recs, reqs) \<Rightarrow>
           abind (emit_all (map Stage_request reqs)) (\<lambda>_.
             ret (map stage_dict recs, captured_wire renv (par_endpoints (stage_params env ctx schema)))))"

text \<open>A lookup in a dictionary whose keys are text.\<close>

definition text_key_get :: "(string \<times> string) list \<Rightarrow> pyval \<Rightarrow> string \<Rightarrow> string" where
  "text_key_get d key dflt =
     (case key of PStr k \<Rightarrow> (case map_of d k of Some v \<Rightarrow> v | None \<Rightarrow> dflt) | _ \<Rightarrow> dflt)"

definition deadline_sse_stages :: "job_env \<Rightarrow> sync_ctx \<Rightarrow> phase list act" where
  "deadline_sse_stages env ctx =
     abind (staged_endpoint_ids env ctx) (\<lambda>ids.
     abind (consult (je_endpoints env)) (\<lambda>rows.
     abind (now env) (\<lambda>t.
       ret (map (\<lambda>i.
         [(''sync_type'', PStr ENDPOINT_SCOPE), (''endpoint_id'', PInt i),
          (''endpoint_name'', PStr (text_key_get (endpoint_name_map rows [PInt i]) (PInt i) [])),
          (''stream_path'', PNone),
          (''runtime_seconds'', stored_seconds (runtime_seconds_since t (cx_started ctx))),
          (''result_summary'', PDict [(''ok'', PBool False), (''error'', PStr JOB_DEADLINE_CAUSE)])]) ids))))"

definition backfill_sync_state_endpoints :: "job_env \<Rightarrow> (string \<times> string) list \<Rightarrow> unit act" where
  "backfill_sync_state_endpoints env wire =
     (if wire = [] then
        modify (\<lambda>s. s\<lparr>jr_backfill := Some (PDict [(''skipped'', PBool True),
          (''reason'', PStr ''the run resolved no usable plugin-to-backend endpoint map'')])\<rparr>)
      else
        abind (in_branch env (
          abind (gets jr_active) (\<lambda>active.
          abind (emit (Backfilled wire active)) (\<lambda>_.
          abind (consult (je_backfill env)) (\<lambda>answer. lift_py (answer wire)))))) (\<lambda>summary.
          modify (\<lambda>s. s\<lparr>jr_backfill := Some summary\<rparr>)))"

text \<open>\<open>_stored_stages\<close> rereads the job row.\<close>

definition refresh_job :: "unit act" where
  "refresh_job =
     abind (gets (\<lambda>s. jr_rows s (job_pk (jr_job s)))) (\<lambda>row.
       case row of
         None \<Rightarrow> raise_exc (Raised (DoesNotExist ''Job matching query does not exist.''))
       | Some d \<Rightarrow> modify (\<lambda>s. s\<lparr>jr_job := (jr_job s)\<lparr>job_data := d\<rparr>\<rparr>))"

definition raise_for_failed_endpoint_scopes :: "phase list \<Rightarrow> unit act" where
  "raise_for_failed_endpoint_scopes stages =
     (let failed = failed_endpoint_scopes stages
      in if failed = [] then ret ()
         else if any_sync_stage_ran stages then
           raise_exc (Raised (RuntimeError (str_of_nat (length failed)
             @ '' Proxmox endpoint(s) were skipped and did not sync '' @ [em_dash] @ '' '' @ failed_scope_detail failed)))
         else
           raise_exc (Raised (RuntimeError (''No sync stage ran: every selected Proxmox endpoint was skipped ''
             @ [em_dash] @ '' '' @ failed_scope_detail failed))))"

definition raise_for_failed_local_phases :: "phase list \<Rightarrow> unit act" where
  "raise_for_failed_local_phases phases =
     (let failed = failed_local_phases phases;
          m = ''Local reconciliation failed: '' @ local_failure_detail failed
      in if failed = [] then ret ()
         else abind (gets jr_branch) (\<lambda>branch.
           case branch of
             None \<Rightarrow> raise_exc (Raised (RuntimeError m))
           | Some b \<Rightarrow> raise_exc (Raised (RuntimeError (m @ ''. Branch '' @ branch_name b
               @ '' was left open for operator inspection.'')))))"

text \<open>\<open>_finish_staged_sync\<close> up to the merge.\<close>

definition staged_results :: "job_env \<Rightarrow> sync_ctx \<Rightarrow> pyval \<Rightarrow> phase list \<Rightarrow> unit act" where
  "staged_results env ctx schema phases =
     abind (now env) (\<lambda>t.
     abind (if deadline_remaining (cx_deadline ctx) t \<le> 0 then deadline_sse_stages env ctx
       else abind (run_sse_stages env ctx schema phases) (\<lambda>(stages, wire).
         abind (backfill_sync_state_endpoints env wire) (\<lambda>_. ret stages))) (\<lambda>stages.
       let phases' = phases @ phases_from_stage_results (je_parse env) stages
       in abind (gets jr_branch) (\<lambda>branch.
          abind (persist_staged_result env ctx schema stages phases'
            (if failed_endpoint_scopes stages = [] then None else sse_failure_disposition branch phases')) (\<lambda>_.
          abind refresh_job (\<lambda>_.
          abind (raise_for_failed_endpoint_scopes stages) (\<lambda>_. raise_for_failed_local_phases phases'))))))"

definition finish_staged_sync :: "job_env \<Rightarrow> sync_ctx \<Rightarrow> pyval \<Rightarrow> phase list \<Rightarrow> unit act" where
  "finish_staged_sync env ctx schema phases =
     abind (staged_results env ctx schema phases) (\<lambda>_. merge_sync_branch env ctx)"

section \<open>The selected-object run\<close>

text \<open>\<open>batch_object_type.replace("-", " ").title()\<close> on a name of letters and dashes.\<close>

fun title_words :: "bool \<Rightarrow> string \<Rightarrow> string" where
  "title_words start [] = []"
| "title_words start (c # cs) =
     (if c = CHR ''-'' then CHR '' '' # title_words True cs
      else (if start then upper_char c else lower_char c) # title_words False cs)"

definition batch_object_label :: "string \<Rightarrow> string" where
  "batch_object_label typ = title_words True typ"

primrec object_dict :: "string \<Rightarrow> string \<Rightarrow> object_result \<Rightarrow> (string \<times> pyval) list" where
  "object_dict typ oid (Object_error status error) =
     [(''batch_object_type'', PStr typ), (''object_id'', PStr oid), (''status'', PInt status), (''error'', PStr error)]"
| "object_dict typ oid (Object_synced status response deps) =
     [(''batch_object_type'', PStr typ), (''object_id'', PStr oid), (''status'', PInt status), (''response'', response),
      (''dependencies'', PList deps), (''error'', attr_value response ''error'')]"

definition batch_dict :: "batch_summary \<Rightarrow> (string \<times> pyval) list" where
  "batch_dict b =
     [(''batch_object_type'', PStr (bs_type b)), (''batch_object_label'', PStr (batch_object_label (bs_type b))),
      (''total'', PInt (int (bs_total b))), (''succeeded'', PInt (int (bs_succeeded b))),
      (''failed'', PInt (int (bs_failed b))),
      (''results'', PList (map (\<lambda>(oid, r). PDict (object_dict (bs_type b) oid r)) (bs_results b)))]"

definition batch_result_summary :: "batch_summary \<Rightarrow> string" where
  "batch_result_summary b =
     batch_object_label (bs_type b) @ '' ('' @ str_of_nat (bs_total b) @ '' total, '' @ str_of_nat (bs_succeeded b)
     @ '' succeeded, '' @ str_of_nat (bs_failed b) @ '' failed)''"

definition persist_batch_result :: "job_env \<Rightarrow> sync_ctx \<Rightarrow> pyval \<Rightarrow> batch_summary \<Rightarrow> phase list \<Rightarrow> unit act" where
  "persist_batch_result env ctx schema batch phases =
     abind (now env) (\<lambda>t.
     abind (consult (je_endpoints env)) (\<lambda>rows.
     abind (sync_data_with_branch (build_sync_run_params env ctx @ [(''netbox_branch_schema_id'', schema)])) (\<lambda>sync_data.
       persist_data [(''proxbox_sync'', PDict (sync_data @
         [(''runtime_seconds'', PInt \<lfloor>1000 * runtime_seconds_since t (cx_started ctx)\<rfloor>),
          (''response'', PDict [(''batch'', PDict (batch_dict batch)), (''endpoint_runtimes'',
             PList (map card_dict (build_endpoint_runtimes (je_parse env) rows phases)))])]))])))"

text \<open>The requests of a batch run concurrently; they are logged in the order of the objects, and the
  tenant assignments after them.\<close>

definition execute_batch_sync ::
  "job_env \<Rightarrow> sync_ctx \<Rightarrow> pyval \<Rightarrow> string \<Rightarrow> string \<Rightarrow> (string \<times> string) list \<Rightarrow> batch_summary act" where
  "execute_batch_sync env ctx schema typ wire_scope wire_by_pk =
     abind (consult (je_batch_env env)) (\<lambda>benv.
     abind (lift_py (run_batch_selected_sync benv typ (map PStr (cx_batch_ids ctx))
         (case schema of PStr s \<Rightarrow> Some s | _ \<Rightarrow> None) (Some wire_scope) wire_by_pk)) (\<lambda>(batch, reqs).
     abind (gets jr_active) (\<lambda>active.
     abind (emit_all (map Batch_request reqs @ map (\<lambda>oid. Tenant_assigned oid active) (bs_tenant_assigned batch))) (\<lambda>_.
       ret batch))))"

definition raise_for_batch_failures :: "batch_summary \<Rightarrow> unit act" where
  "raise_for_batch_failures batch =
     (if bs_failed batch = 0 then ret ()
      else raise_exc (Raised (RuntimeError (''Batch sync failed for '' @ batch_result_summary batch @ '' '' @ [em_dash]
        @ '' '' @ failed_batch_object_detail batch))))"

text \<open>\<open>_run_batch_phase\<close> up to the merge.\<close>

definition batch_results :: "job_env \<Rightarrow> sync_ctx \<Rightarrow> pyval \<Rightarrow> string \<Rightarrow> unit act" where
  "batch_results env ctx schema typ =
     abind (bootstrap_backend_endpoints env) (\<lambda>preflight.
     abind (consult (je_stage_env env)) (\<lambda>renv.
     abind (lift_py (batch_wire_endpoint_scope (env_rows renv) (env_ctx_url renv) (env_listing renv)
         (map PStr (nonempty_texts (cx_proxmox ctx))))) (\<lambda>(wire_scope, skipped, scope_error, wire_by_pk).
     abind (case scope_error of
         Some e \<Rightarrow> if e = [] then ret ()
           else raise_exc (Raised (RuntimeError (''Selected-object sync did not run: '' @ e)))
       | None \<Rightarrow> ret ()) (\<lambda>_.
     abind (execute_batch_sync env ctx schema typ wire_scope wire_by_pk) (\<lambda>batch.
     abind (backfill_sync_state_endpoints env wire_by_pk) (\<lambda>_.
     abind (persist_batch_result env ctx schema batch (pf_phases preflight)) (\<lambda>_.
       raise_for_batch_failures batch)))))))"

definition run_batch_phase :: "job_env \<Rightarrow> sync_ctx \<Rightarrow> pyval \<Rightarrow> string \<Rightarrow> unit act" where
  "run_batch_phase env ctx schema typ =
     abind (batch_results env ctx schema typ) (\<lambda>_. merge_sync_branch env ctx)"

section \<open>The run\<close>

definition claim_run :: "job_env \<Rightarrow> bool act" where
  "claim_run env =
     abind (gets (\<lambda>s. claim_rq_sync_ownership (je_loads env) (je_stamp env) (je_orm env) (jr_rows s) (jr_job s)))
       (\<lambda>answer.
     abind (lift_py answer) (\<lambda>(claimed, rows, job).
     abind (modify (\<lambda>s. s\<lparr>jr_rows := rows, jr_job := job\<rparr>)) (\<lambda>_.
     abind (emit (Claimed claimed)) (\<lambda>_. ret claimed))))"

definition release_run :: "job_env \<Rightarrow> unit act" where
  "release_run env =
     abind (gets (\<lambda>s. release_rq_sync_ownership (je_loads env) (jr_rows s) (jr_job s))) (\<lambda>answer.
     abind (lift_py answer) (\<lambda>(rows, job).
     abind (modify (\<lambda>s. s\<lparr>jr_rows := rows, jr_job := job\<rparr>)) (\<lambda>_. emit Released)))"

definition staged_run :: "job_env \<Rightarrow> sync_ctx \<Rightarrow> pyval \<Rightarrow> unit act" where
  "staged_run env ctx schema =
     abind (start_staged_sync env ctx schema) (\<lambda>(ids, phases).
     abind (if cx_vms ctx \<noteq> [] then ret phases else run_local_sync_phases env ctx schema ids phases) (\<lambda>phases'.
       finish_staged_sync env ctx schema phases'))"

definition context_run :: "job_env \<Rightarrow> sync_ctx \<Rightarrow> unit act" where
  "context_run env ctx =
     abind (begin_sync_run env ctx) (\<lambda>schema.
       case cx_batch_type ctx of
         Some typ \<Rightarrow> if typ \<noteq> [] \<and> cx_batch_ids ctx \<noteq> [] then run_batch_phase env ctx schema typ
           else staged_run env ctx schema
       | None \<Rightarrow> staged_run env ctx schema)"

text \<open>The body of \<open>run\<close> once the row is claimed.\<close>

definition owned_run :: "job_env \<Rightarrow> job_args \<Rightarrow> unit act" where
  "owned_run env args =
     abind (lift_exc (branching_enabled_settings (je_site env))) (\<lambda>config.
     abind (prepare_sync_run env args config) (\<lambda>ctx. context_run env ctx))"

text \<open>The same with the handlers of \<open>run\<close>.\<close>

definition claimed_run :: "job_env \<Rightarrow> job_args \<Rightarrow> unit act" where
  "claimed_run env args =
     try_finally
       (try_except (owned_run env args) (\<lambda>e.
         case e of
           Branching_unavailable m \<Rightarrow> abind (record_branching_failure m) (\<lambda>_. raise_exc e)
         | _ \<Rightarrow> raise_exc e))
       (release_run env)"

definition run_sync_job :: "job_env \<Rightarrow> job_args \<Rightarrow> unit act" where
  "run_sync_job env args =
     abind (claim_run env) (\<lambda>claimed. if \<not> claimed then ret () else claimed_run env args)"

end
