(* ===== verification/Sync_Job_Facts.thy ===== *)
theory Sync_Job_Facts
  imports Sync_Job
begin

text \<open>
  What a run of \<open>Sync_Job\<close> guarantees. The first part carries an invariant through the actions of a
  run: \<open>quiet_invariant\<close> for what depends on nothing that bookkeeping changes, \<open>branch_invariant\<close>
  for a pair of conditions, one outside and one inside an activated branch. The invariants of the
  properties are its interpretations.
\<close>

section \<open>Invariants of a run\<close>

definition quiet_event :: "job_event \<Rightarrow> bool" where
  "quiet_event ev =
     (case ev of
        Local_pass _ _ _ \<Rightarrow> False | Backfilled _ _ \<Rightarrow> False | Tenant_assigned _ _ \<Rightarrow> False
      | Stage_request _ \<Rightarrow> False | Batch_request _ \<Rightarrow> False | Merge_called _ \<Rightarrow> False | _ \<Rightarrow> True)"

lemma quiet_event_simps [simp]:
  "quiet_event (Claimed b)" "quiet_event Released" "quiet_event (Branch_created v)" "quiet_event Key_checked"
  "quiet_event (Slept t)" "quiet_event Bootstrapped" "quiet_event (Data_saved v)"
  by (simp_all add: quiet_event_def)

locale quiet_invariant =
  fixes I :: "job_run \<Rightarrow> bool"
  assumes tick: "I s \<Longrightarrow> I (s\<lparr>jr_tick := n\<rparr>)"
    and job_row: "I s \<Longrightarrow> I (s\<lparr>jr_job := j\<rparr>)"
    and job_store: "I s \<Longrightarrow> I (s\<lparr>jr_rows := rows\<rparr>)"
    and backfill_note: "I s \<Longrightarrow> I (s\<lparr>jr_backfill := v\<rparr>)"
    and quiet: "I s \<Longrightarrow> quiet_event ev \<Longrightarrow> I (s\<lparr>jr_log := jr_log s @ [ev]\<rparr>)"
begin

lemma keeps_tick: "keeps I (consult f)"
  by (rule keeps_consult) (rule tick)

lemma keeps_now: "keeps I (now env)"
  unfolding now_def by (rule keeps_tick)

lemma keeps_quiet: "quiet_event ev \<Longrightarrow> keeps I (emit ev)"
  by (rule keeps_emit) (rule quiet)

lemma keeps_store: "keeps I (modify (\<lambda>s. s\<lparr>jr_rows := f s, jr_job := g s\<rparr>))"
  by (rule keeps_modify) (rule job_row[OF job_store])

lemma keeps_job: "keeps I (modify (\<lambda>s. s\<lparr>jr_job := g s\<rparr>))"
  by (rule keeps_modify) (rule job_row)

lemma keeps_backfill_note: "keeps I (modify (\<lambda>s. s\<lparr>jr_backfill := v\<rparr>))"
  by (rule keeps_modify) (rule backfill_note)

lemmas basic = keeps_rules keeps_tick keeps_now keeps_quiet keeps_store keeps_job keeps_backfill_note quiet_event_simps

lemma keeps_persist: "keeps I (persist_data data)"
  unfolding persist_data_def by (intro basic)

lemma keeps_sync_data: "keeps I (sync_data_with_branch params)"
  unfolding sync_data_with_branch_def by (intro basic)

lemma keeps_failure: "keeps I (record_branching_failure m)"
  unfolding record_branching_failure_def by (intro basic keeps_persist)

lemma keeps_disposition: "keeps I (persist_branch_disposition d)"
  unfolding persist_branch_disposition_def by (intro basic keeps_persist)

lemma keeps_settle: "keeps I (settle_merge rep)"
  unfolding settle_merge_def by (intro basic keeps_failure keeps_disposition)

lemma keeps_initial: "keeps I (persist_initial_sync_data env ctx)"
  unfolding persist_initial_sync_data_def by (intro basic keeps_persist keeps_sync_data)

lemma keeps_staged: "keeps I (persist_staged_result env ctx schema stages phases note)"
  unfolding persist_staged_result_def by (intro basic keeps_persist keeps_sync_data)

lemma keeps_batch: "keeps I (persist_batch_result env ctx schema batch phases)"
  unfolding persist_batch_result_def by (intro basic keeps_persist keeps_sync_data)

lemma keeps_key: "keeps I (key_attempts env d n t delay)"
  by (induction n arbitrary: t delay) (simp_all only: key_attempts.simps, (intro basic | assumption)+)

lemma keeps_creation_failed: "keeps I (creation_failed nm e)"
  unfolding creation_failed_def by (intro basic keeps_failure)

lemma keeps_endpoint_ids: "keeps I (staged_endpoint_ids env ctx)"
  unfolding staged_endpoint_ids_def by (intro basic)

lemma keeps_bootstrap: "keeps I (bootstrap_backend_endpoints env)"
  unfolding bootstrap_backend_endpoints_def by (intro basic)

lemma keeps_refresh: "keeps I refresh_job"
  unfolding refresh_job_def by (intro basic)

lemma keeps_raise_scopes: "keeps I (raise_for_failed_endpoint_scopes stages)"
  unfolding raise_for_failed_endpoint_scopes_def by (intro basic)

lemma keeps_raise_local: "keeps I (raise_for_failed_local_phases phases)"
  unfolding raise_for_failed_local_phases_def by (intro basic)

lemma keeps_raise_batch: "keeps I (raise_for_batch_failures batch)"
  unfolding raise_for_batch_failures_def by (intro basic)

lemma keeps_verify_key: "keeps I (verify_backend_key env ctx schema)"
  unfolding verify_backend_key_def require_backend_key_def
  by (intro basic keeps_key keeps_endpoint_ids keeps_staged)

lemma keeps_checkpoint: "keeps I (extend_and_checkpoint env ctx schema phases new)"
  unfolding extend_and_checkpoint_def by (intro basic keeps_staged)

lemma keeps_deadline_stages: "keeps I (deadline_sse_stages env ctx)"
  unfolding deadline_sse_stages_def by (intro basic keeps_endpoint_ids)

lemma keeps_claim: "keeps I (claim_run env)"
  unfolding claim_run_def by (intro basic)

lemma keeps_release: "keeps I (release_run env)"
  unfolding release_run_def by (intro basic)

lemma keeps_prepare: "keeps I (prepare_sync_run env args config)"
  unfolding prepare_sync_run_def by (intro basic)

text \<open>A pass keeps what its writes keep.\<close>

lemma keeps_pass:
  assumes writes: "\<And>s i. I s \<Longrightarrow> I (s\<lparr>jr_log := jr_log s @ [Local_pass kind i (jr_active s)]\<rparr>)"
  shows "keeps I (local_pass_loop env ctx kind label isolate phases_of ids)"
proof (induction ids)
  case Nil
  show ?case by (simp only: local_pass_loop.simps) (intro basic)
next
  case (Cons i ids)
  have w: "keeps I (abind (gets jr_active) (\<lambda>active. abind (emit (Local_pass kind i active)) (\<lambda>_. m active)))"
    if "\<And>active. keeps I (m active)" for m :: "pyval option \<Rightarrow> phase list act"
    unfolding keeps_def
  proof (rule hoare_gets_eq)
    fix a show "hoare (\<lambda>s. I s \<and> a = jr_active s) (abind (emit (Local_pass kind i a)) (\<lambda>_. m a)) (\<lambda>_. I) I"
      by (rule hoare_abind[where R = "\<lambda>_. I"], rule hoare_emit)
        (use writes that[unfolded keeps_def] in auto)
  qed
  show ?case by (simp only: local_pass_loop.simps) (intro basic w Cons.IH)
qed

end

text \<open>\<open>I\<close> holds outside and \<open>A\<close> inside a block that activates the branch of the run.\<close>

locale branch_invariant = outside: quiet_invariant I + inside: quiet_invariant A
  for I A :: "job_run \<Rightarrow> bool" +
  fixes env :: job_env and schema :: pyval
  assumes refreshed: "I s \<Longrightarrow> je_refresh env n = Inr b \<Longrightarrow> I (s\<lparr>jr_branch := Some b\<rparr>)"
    and enter: "I s \<Longrightarrow> je_refresh env n = Inr b \<Longrightarrow> jr_branch s = Some b
      \<Longrightarrow> attr_value b ''status'' = ready_choice (je_engine env) \<Longrightarrow> A (s\<lparr>jr_active := Some b\<rparr>)"
    and leave: "I s \<Longrightarrow> A s' \<Longrightarrow> I (s'\<lparr>jr_active := jr_active s\<rparr>)"
    and write_inside: "A s \<Longrightarrow> A (s\<lparr>jr_log := jr_log s @ [Local_pass k i (jr_active s)]\<rparr>)"
    and bind_inside: "A s \<Longrightarrow> A (s\<lparr>jr_log := jr_log s @ [Backfilled w (jr_active s)]\<rparr>)"
    and write_main: "I s \<Longrightarrow> jr_branch s = None \<Longrightarrow> I (s\<lparr>jr_log := jr_log s @ [Local_pass k i (jr_active s)]\<rparr>)"
    and bind_main: "I s \<Longrightarrow> jr_branch s = None \<Longrightarrow> I (s\<lparr>jr_log := jr_log s @ [Backfilled w (jr_active s)]\<rparr>)"
    and stage_requests: "I s \<Longrightarrow> run_all_stages_sync renv (je_modes env) (stage_params env ctx schema) stages = Inr (recs, reqs)
      \<Longrightarrow> I (s\<lparr>jr_log := jr_log s @ map Stage_request reqs\<rparr>)"
begin

lemma keeps_in_branch:
  assumes a: "keeps A m" and i: "keeps (\<lambda>s. I s \<and> jr_branch s = None) m"
  shows "keeps I (in_branch env m)"
  unfolding keeps_def
proof (rule hoareI)
  fix s r s' assume inv: "I s" and run: "in_branch env m s = (r, s')"
  show "case r of Inl _ \<Rightarrow> I s' | Inr x \<Rightarrow> I s'"
  proof (cases "jr_branch s")
    case None
    then have "m s = (r, s')" using run by (simp add: in_branch_def abind_def gets_def)
    then show ?thesis using keeps_any[OF i, of s] inv None by (cases r) auto
  next
    case (Some b)
    let ?n = "jr_tick s" let ?s = "s\<lparr>jr_tick := Suc (Suc (Suc ?n))\<rparr>"
    have inv3: "I ?s" using outside.tick[OF inv] .
    show ?thesis
    proof (cases "activate_sync_branch (ready_choice (je_engine env)) (je_import_activate env ?n)
        (je_refresh env (Suc ?n)) (je_enter env (Suc (Suc ?n))) (Some b)")
      case (Inl e)
      then have "s' = ?s \<or> (\<exists>b'. je_refresh env (Suc ?n) = Inr b' \<and> s' = ?s\<lparr>jr_branch := Some b'\<rparr>)" "r = Inl e"
        using run Some
        by (auto simp: in_branch_def abind_def gets_def consult_def lift_exc_def raise_exc_def ret_def modify_def
            split: sum.splits)
      then show ?thesis using inv3 refreshed[OF inv3] by auto
    next
      case (Inr active)
      then obtain b' where b': "je_refresh env (Suc ?n) = Inr b'" "active = Some b'"
          "attr_value b' ''status'' = ready_choice (je_engine env)"
        using ready_Inr(1,2) by (fastforce simp: activate_sync_branch_def split: sum.splits)
      let ?e = "?s\<lparr>jr_branch := Some b', jr_active := Some b'\<rparr>"
      have "A ?e" using enter[OF refreshed[OF inv3 b'(1)] b'(1) _ b'(3)] by simp
      then have "A (snd (m ?e))" by (rule keeps_any[OF a])
      then have "I ((snd (m ?e))\<lparr>jr_active := jr_active s\<rparr>)" by (rule leave[OF inv])
      moreover have "(r, s') = (fst (m ?e), (snd (m ?e))\<lparr>jr_active := jr_active s\<rparr>)"
        using run Some Inr b'
        by (auto simp: in_branch_def abind_def gets_def consult_def lift_exc_def ret_def modify_def try_finally_def
            split: prod.splits)
      ultimately show ?thesis by (auto split: sum.splits)
    qed
  qed
qed

end

sublocale branch_invariant \<subseteq> main: quiet_invariant "\<lambda>s. I s \<and> jr_branch s = None"
  by unfold_locales (simp_all add: outside.tick outside.job_row outside.job_store outside.backfill_note outside.quiet)

context branch_invariant
begin

lemma keeps_pass_in_branch:
  "keeps I (in_branch env (local_pass_loop env ctx kind label isolate phases_of ids))"
  by (rule keeps_in_branch) (rule inside.keeps_pass main.keeps_pass; simp add: write_inside write_main)+

lemma keeps_local_passes:
  "keeps I (sync_cluster_phase env ctx ids)" "keeps I (sync_firewall env ctx ids)"
  "keeps I (sync_datacenter env ctx ids)" "keeps I (sync_vm_templates env ctx ids)"
  unfolding sync_cluster_phase_def sync_firewall_def sync_datacenter_def sync_vm_templates_def
  by (intro outside.basic keeps_pass_in_branch)+

lemma keeps_start: "keeps I (start_staged_sync env ctx schema)"
  unfolding start_staged_sync_def
  by (intro outside.basic outside.keeps_bootstrap outside.keeps_endpoint_ids outside.keeps_checkpoint keeps_local_passes)

lemma keeps_local: "keeps I (run_local_sync_phases env ctx schema ids phases)"
  unfolding run_local_sync_phases_def by (intro outside.basic outside.keeps_checkpoint keeps_local_passes)

lemma keeps_bind_write:
  assumes "\<And>s. J s \<Longrightarrow> J (s\<lparr>jr_log := jr_log s @ [Backfilled w (jr_active s)]\<rparr>)"
    and "\<And>s n. J s \<Longrightarrow> J (s\<lparr>jr_tick := n\<rparr>)"
  shows "keeps J (abind (gets jr_active) (\<lambda>active. abind (emit (Backfilled w active)) (\<lambda>_.
    abind (consult (je_backfill env)) (\<lambda>answer. lift_py (answer w)))))"
  unfolding keeps_def
proof (rule hoare_gets_eq)
  fix a show "hoare (\<lambda>s. J s \<and> a = jr_active s) (abind (emit (Backfilled w a)) (\<lambda>_.
      abind (consult (je_backfill env)) (\<lambda>answer. lift_py (answer w)))) (\<lambda>_. J) J"
  proof (rule hoare_abind[where R = "\<lambda>_. J"])
    show "hoare (\<lambda>s. J s \<and> a = jr_active s) (emit (Backfilled w a)) (\<lambda>_. J) J"
      by (rule hoare_emit) (use assms(1) in auto)
    show "hoare J (abind (consult (je_backfill env)) (\<lambda>answer. lift_py (answer w))) (\<lambda>_. J) J"
      unfolding keeps_def[symmetric] by (intro keeps_rules keeps_consult assms(2))
  qed
qed

lemma keeps_backfill: "keeps I (backfill_sync_state_endpoints env wire)"
  unfolding backfill_sync_state_endpoints_def
  by (intro outside.basic keeps_in_branch keeps_bind_write)
    (simp_all add: bind_inside bind_main inside.tick outside.tick)

lemma keeps_sse: "keeps I (run_sse_stages env ctx schema phases)"
  unfolding run_sse_stages_def
  by (intro outside.basic outside.keeps_staged keeps_emit_all) (auto intro: stage_requests)

lemma keeps_staged_results: "keeps I (staged_results env ctx schema phases)"
  unfolding staged_results_def
  by (intro outside.basic outside.keeps_staged outside.keeps_deadline_stages keeps_sse keeps_backfill
      outside.keeps_refresh outside.keeps_raise_scopes outside.keeps_raise_local)

end

section \<open>Isolation\<close>

text \<open>What the branching plugin is relied on for: the branch it creates and rereads is the same one,
  recognised by its schema.\<close>

definition keeps_schema :: "job_env \<Rightarrow> string \<Rightarrow> bool" where
  "keeps_schema env sch \<longleftrightarrow> sch \<noteq> []
     \<and> (\<forall>n b. je_refresh env n = Inr b \<longrightarrow> attr_value b ''schema_id'' = PStr sch)
     \<and> (\<forall>i b. poll (je_engine env) i = Inr b \<longrightarrow> attr_value b ''schema_id'' = PStr sch)"

definition in_schema :: "job_env \<Rightarrow> string \<Rightarrow> pyval option \<Rightarrow> bool" where
  "in_schema env sch active =
     (case active of
        None \<Rightarrow> False
      | Some b \<Rightarrow> attr_value b ''status'' = ready_choice (je_engine env) \<and> attr_value b ''schema_id'' = PStr sch)"

definition isolated :: "job_env \<Rightarrow> string \<Rightarrow> job_event \<Rightarrow> bool" where
  "isolated env sch ev =
     (case ev of
        Local_pass _ _ active \<Rightarrow> in_schema env sch active
      | Backfilled _ active \<Rightarrow> in_schema env sch active
      | Stage_request q \<Rightarrow> map_of (req_query q) ''netbox_branch_schema_id'' = Some sch
      | Batch_request q \<Rightarrow> dget (sent_query q) ''netbox_branch_schema_id'' = PStr sch
      | _ \<Rightarrow> True)"

definition isolated_log :: "job_env \<Rightarrow> string \<Rightarrow> job_run \<Rightarrow> bool" where
  "isolated_log env sch s \<longleftrightarrow> list_all (isolated env sch) (jr_log s)"

definition on_branch :: "job_env \<Rightarrow> string \<Rightarrow> job_run \<Rightarrow> bool" where
  "on_branch env sch s \<longleftrightarrow> (keeps_schema env sch \<longrightarrow> isolated_log env sch s
     \<and> (\<exists>b. jr_branch s = Some b \<and> attr_value b ''schema_id'' = PStr sch))"

definition inside_branch :: "job_env \<Rightarrow> string \<Rightarrow> job_run \<Rightarrow> bool" where
  "inside_branch env sch s \<longleftrightarrow> on_branch env sch s \<and> (keeps_schema env sch \<longrightarrow> in_schema env sch (jr_active s))"

lemma isolated_quiet: "quiet_event ev \<Longrightarrow> isolated env sch ev"
  by (cases ev) (simp_all add: quiet_event_def isolated_def)

lemma isolated_simps [simp]:
  "isolated env sch (Local_pass k i a) = in_schema env sch a"
  "isolated env sch (Backfilled w a) = in_schema env sch a"
  "isolated env sch (Stage_request q) \<longleftrightarrow> map_of (req_query q) ''netbox_branch_schema_id'' = Some sch"
  "isolated env sch (Batch_request rq) \<longleftrightarrow> dget (sent_query rq) ''netbox_branch_schema_id'' = PStr sch"
  "isolated env sch (Merge_called b)" "isolated env sch (Tenant_assigned oid a)"
  by (simp_all add: isolated_def)

lemma isolated_log_simps [simp]:
  "isolated_log env sch (s\<lparr>jr_tick := n\<rparr>) = isolated_log env sch s"
  "isolated_log env sch (s\<lparr>jr_job := j\<rparr>) = isolated_log env sch s"
  "isolated_log env sch (s\<lparr>jr_rows := r\<rparr>) = isolated_log env sch s"
  "isolated_log env sch (s\<lparr>jr_backfill := v\<rparr>) = isolated_log env sch s"
  "isolated_log env sch (s\<lparr>jr_branch := b\<rparr>) = isolated_log env sch s"
  "isolated_log env sch (s\<lparr>jr_active := a\<rparr>) = isolated_log env sch s"
  "isolated_log env sch (s\<lparr>jr_log := jr_log s @ evs\<rparr>) \<longleftrightarrow> isolated_log env sch s \<and> list_all (isolated env sch) evs"
  by (simp_all add: isolated_log_def)

interpretation ilog: quiet_invariant "isolated_log env sch" for env sch
  by unfold_locales (simp_all add: isolated_quiet)

interpretation iso: branch_invariant "on_branch env sch" "inside_branch env sch" env "PStr sch" for env sch
proof
  fix s ctx renv stages recs reqs
  assume "on_branch env sch s"
    and "run_all_stages_sync renv (je_modes env) (stage_params env ctx (PStr sch)) stages = Inr (recs, reqs)"
  then show "on_branch env sch (s\<lparr>jr_log := jr_log s @ map Stage_request reqs\<rparr>)"
    using staged_requests_name_branch
    by (auto simp: on_branch_def keeps_schema_def list_all_iff stage_params_def)
qed (auto simp: on_branch_def inside_branch_def keeps_schema_def in_schema_def isolated_quiet)

lemma creation_failed_raises: "hoare (isolated_log env sch) (creation_failed nm e) Q (isolated_log env sch)"
  unfolding creation_failed_def
  by (cases e) (auto intro!: hoare_raise hoare_abind[OF ilog.keeps_failure[unfolded keeps_def]])

lemma create_on_branch:
  assumes "keeps_schema env sch" and "cx_config ctx = Some config"
  shows "hoare (isolated_log env sch) (create_sync_branch env ctx) (\<lambda>_. on_branch env sch) (isolated_log env sch)"
proof -
  let ?E = "isolated_log env sch"
  have "hoare ?E (abind (modify (\<lambda>s. s\<lparr>jr_branch := Some b\<rparr>)) (\<lambda>_. emit (Branch_created b)))
      (\<lambda>_. on_branch env sch) ?E" if "create_and_provision_branch (je_engine env) nm 60 = Inr b" for nm b
  proof -
    have "attr_value b ''schema_id'' = PStr sch"
      using assms(1) by (intro created_schema[OF that]) (simp add: keeps_schema_def)
    then show ?thesis
      by (intro hoare_abind[where R = "\<lambda>_ s. ?E s \<and> jr_branch s = Some b"] hoare_modify hoare_emit)
        (auto simp: on_branch_def isolated_quiet)
  qed
  note created = this
  show ?thesis
    unfolding create_sync_branch_def assms(2) option.case
    by (rule hoare_abind[where R = "\<lambda>_. ?E"], rule hoare_gets, assumption, rule hoare_case_sum,
        rule creation_failed_raises, rule created)
qed

lemma on_branch_log: "keeps_schema env sch \<Longrightarrow> on_branch env sch s \<Longrightarrow> isolated_log env sch s"
  by (simp add: on_branch_def)

lemma keeps_on_branch:
  assumes "keeps_schema env sch" and "keeps (on_branch env sch) m"
  shows "hoare (on_branch env sch) m (\<lambda>_. on_branch env sch) (isolated_log env sch)"
  by (rule hoare_conseq[OF assms(2)[unfolded keeps_def]]) (auto simp: on_branch_log[OF assms(1)])

lemma begin_on_branch:
  assumes "keeps_schema env sch" and "cx_config ctx = Some config"
  shows "hoare (isolated_log env sch) (begin_sync_run env ctx)
    (\<lambda>schema s. schema = PStr sch \<and> on_branch env sch s) (isolated_log env sch)"
proof -
  let ?O = "on_branch env sch" let ?E = "isolated_log env sch"
  have key: "hoare (\<lambda>s. schema = PStr sch \<and> ?O s) (abind (verify_backend_key env ctx schema) (\<lambda>_. ret schema))
      (\<lambda>schema s. schema = PStr sch \<and> ?O s) ?E" for schema
  proof (cases "schema = PStr sch")
    case True
    then show ?thesis
      by (auto intro!: hoare_abind[OF keeps_on_branch[OF assms(1) iso.outside.keeps_verify_key]] hoare_ret)
  qed (simp add: hoare_def)
  show ?thesis
    unfolding begin_sync_run_def
    by (rule hoare_abind[OF create_on_branch[OF assms]],
        rule hoare_abind[OF keeps_on_branch[OF assms(1) iso.outside.keeps_initial]],
        rule hoare_abind[OF hoare_gets key]) (auto simp: on_branch_def assms(1))
qed

lemma merge_keeps_log: "keeps (isolated_log env sch) (merge_sync_branch env ctx)"
proof -
  have b: "keeps (isolated_log env sch) (modify (\<lambda>s. s\<lparr>jr_branch := v\<rparr>))" for v
    by (rule keeps_modify) simp
  have e: "keeps (isolated_log env sch) (emit (Merge_called v))" for v
    by (rule keeps_emit) simp
  show ?thesis
    unfolding merge_sync_branch_def merge_with_def by (intro ilog.basic b e ilog.keeps_settle)
qed

lemma run_one_branch:
  assumes "r \<in> set (snd (run_one env typ objects owners scope by_pk (Some sch) oid))" and "sch \<noteq> []"
  shows "dget (sent_query r) ''netbox_branch_schema_id'' = PStr sch"
  using assms
  by (auto simp: run_one_def object_request_def Let_def dget_update split: option.splits sum.splits if_splits prod.splits)

lemma execute_batch_on_branch:
  "keeps (on_branch env sch) (execute_batch_sync env ctx (PStr sch) typ scope by_pk)"
proof -
  have "keeps (on_branch env sch) (emit_all (map Batch_request reqs @ map (\<lambda>oid. Tenant_assigned oid a) oids))"
    if "run_batch_selected_sync benv typ ids (Some sch) (Some scope) by_pk = Inr (batch, reqs)" for benv ids batch reqs oids a
  proof (rule keeps_emit_all)
    fix s assume "on_branch env sch s"
    then show "on_branch env sch
        (s\<lparr>jr_log := jr_log s @ map Batch_request reqs @ map (\<lambda>oid. Tenant_assigned oid a) oids\<rparr>)"
      using batch_requests_of_run_one[OF that] run_one_branch
      by (fastforce simp: on_branch_def keeps_schema_def list_all_iff)
  qed
  note sent = this
  show ?thesis
    unfolding execute_batch_sync_def pyval.case
    by (rule keeps_abind[OF iso.outside.keeps_tick], rule keeps_bind_py, rule keeps_case_prod)
      (auto intro!: keeps_abind keeps_gets keeps_ret sent)
qed

lemma batch_on_branch: "keeps (on_branch env sch) (batch_results env ctx (PStr sch) typ)"
  unfolding batch_results_def
  by (intro iso.outside.basic iso.outside.keeps_bootstrap execute_batch_on_branch iso.keeps_backfill
      iso.outside.keeps_batch iso.outside.keeps_raise_batch)

lemma then_merge:
  assumes "keeps_schema env sch" and "keeps (on_branch env sch) m"
  shows "hoare (on_branch env sch) (abind m (\<lambda>_. merge_sync_branch env ctx)) (\<lambda>_. isolated_log env sch) (isolated_log env sch)"
  by (rule hoare_abind[OF keeps_on_branch[OF assms]])
    (rule hoare_pre[OF merge_keeps_log[unfolded keeps_def] on_branch_log[OF assms(1)]])

lemma staged_on_branch:
  assumes "keeps_schema env sch"
  shows "hoare (on_branch env sch) (staged_run env ctx (PStr sch)) (\<lambda>_. isolated_log env sch) (isolated_log env sch)"
  unfolding staged_run_def finish_staged_sync_def
proof (rule hoare_abind[OF keeps_on_branch[OF assms iso.keeps_start]], rule hoare_case_prod)
  fix ids phases
  show "hoare (on_branch env sch) (abind (if cx_vms ctx \<noteq> [] then ret phases
      else run_local_sync_phases env ctx (PStr sch) ids phases) (\<lambda>phases'.
      abind (staged_results env ctx (PStr sch) phases') (\<lambda>_. merge_sync_branch env ctx)))
    (\<lambda>_. isolated_log env sch) (isolated_log env sch)"
    by (rule hoare_abind[OF keeps_on_branch[OF assms]])
      (intro iso.outside.basic iso.keeps_local, rule then_merge[OF assms iso.keeps_staged_results])
qed

lemma prepared_config:
  "hoare P (prepare_sync_run env args config) (\<lambda>ctx s. cx_config ctx = config \<and> (\<exists>n s0. P s0 \<and> s = s0\<lparr>jr_tick := n\<rparr>)) E"
  by (auto simp: hoare_def prepare_sync_run_def abind_def now_def consult_def ret_def Let_def)

text \<open>A run that is not allowed on main has a configuration, so it suffices to look at such runs.\<close>

lemma owned_run_rule:
  assumes "\<not> main_allowed (je_site env)" and "\<And>s n. P s \<Longrightarrow> P (s\<lparr>jr_tick := n\<rparr>)" and "\<And>s. P s \<Longrightarrow> E s"
    and "\<And>ctx config. cx_config ctx = Some config \<Longrightarrow> hoare P (context_run env ctx) Q E"
  shows "hoare P (owned_run env args) Q E"
  unfolding owned_run_def
proof (rule hoare_abind[where R = "\<lambda>config s. P s \<and> config \<noteq> None"])
  show "hoare P (lift_exc (branching_enabled_settings (je_site env))) (\<lambda>config s. P s \<and> config \<noteq> None) E"
    by (rule hoare_lift_exc) (use branching_config_None[of "je_site env"] assms(1,3) in metis)+
  fix config
  show "hoare (\<lambda>s. P s \<and> config \<noteq> None) (abind (prepare_sync_run env args config) (context_run env)) Q E"
  proof (rule hoare_abind[OF prepared_config])
    fix ctx
    show "hoare (\<lambda>s. cx_config ctx = config \<and> (\<exists>n s0. (P s0 \<and> config \<noteq> None) \<and> s = s0\<lparr>jr_tick := n\<rparr>)) (context_run env ctx) Q E"
    proof (cases config)
      case (Some c)
      show ?thesis
      proof (cases "cx_config ctx = config")
        case True
        with Some assms(4) have "hoare P (context_run env ctx) Q E" by blast
        then show ?thesis by (rule hoare_pre) (use assms(2) in auto)
      qed (simp add: hoare_def)
    qed (simp add: hoare_def)
  qed
qed

lemma context_isolated:
  assumes "keeps_schema env sch" and "cx_config ctx = Some config"
  shows "hoare (isolated_log env sch) (context_run env ctx) (\<lambda>_. isolated_log env sch) (isolated_log env sch)"
  unfolding context_run_def
proof (rule hoare_abind[OF begin_on_branch[OF assms]])
  fix schema
  show "hoare (\<lambda>s. schema = PStr sch \<and> on_branch env sch s) (case cx_batch_type ctx of
       None \<Rightarrow> staged_run env ctx schema
     | Some typ \<Rightarrow> if typ \<noteq> [] \<and> cx_batch_ids ctx \<noteq> [] then run_batch_phase env ctx schema typ
         else staged_run env ctx schema) (\<lambda>_. isolated_log env sch) (isolated_log env sch)"
  proof (cases "schema = PStr sch")
    case True
    then show ?thesis
      by (auto simp: run_batch_phase_def intro!: staged_on_branch[OF assms(1)] then_merge[OF assms(1) batch_on_branch]
          split: option.splits)
  qed (simp add: hoare_def)
qed

lemma owned_isolated:
  assumes "\<not> main_allowed (je_site env)" and "keeps_schema env sch"
  shows "keeps (isolated_log env sch) (owned_run env args)"
  unfolding keeps_def by (rule owned_run_rule[OF assms(1)]) (simp_all add: context_isolated[OF assms(2)])


section \<open>Merge\<close>

text \<open>The data stored last before a point of the log, and what it has to show for a merge: a batch
  without failures, or stages without a failed endpoint scope and local passes without a failure.\<close>

fun last_saved :: "pyval option \<Rightarrow> job_event list \<Rightarrow> pyval option" where
  "last_saved d [] = d"
| "last_saved d (Data_saved d' # evs) = last_saved (Some d') evs"
| "last_saved d (_ # evs) = last_saved d evs"

definition merge_evidence :: "pyval \<Rightarrow> bool" where
  "merge_evidence d \<longleftrightarrow>
     (let response = attr_value (attr_value d ''proxbox_sync'') ''response'';
          batch = attr_value response ''batch''
      in if batch \<noteq> PNone then attr_value batch ''failed'' = PInt 0
         else response \<noteq> PNone
           \<and> failed_endpoint_scopes (map dict_of (list_or_empty (attr_value response ''stages''))) = []
           \<and> failed_local_phases (map dict_of (list_or_empty (attr_value response ''local_phases''))) = [])"

definition good_data :: "pyval option \<Rightarrow> bool" where
  "good_data d = (case d of None \<Rightarrow> False | Some v \<Rightarrow> merge_evidence v)"

fun justified :: "pyval option \<Rightarrow> job_event list \<Rightarrow> bool" where
  "justified d [] \<longleftrightarrow> True"
| "justified d (Data_saved d' # evs) \<longleftrightarrow> justified (Some d') evs"
| "justified d (Merge_called b # evs) \<longleftrightarrow> good_data d \<and> justified d evs"
| "justified d (_ # evs) \<longleftrightarrow> justified d evs"

definition unmerged :: "job_run \<Rightarrow> bool" where
  "unmerged s \<longleftrightarrow> (\<forall>b. Merge_called b \<notin> set (jr_log s))"

definition ready_to_merge :: "job_run \<Rightarrow> bool" where
  "ready_to_merge s \<longleftrightarrow> unmerged s \<and> good_data (last_saved None (jr_log s))"

definition justified_run :: "job_run \<Rightarrow> bool" where
  "justified_run s \<longleftrightarrow> justified None (jr_log s)"

lemma last_saved_append: "last_saved d (xs @ ys) = last_saved (last_saved d xs) ys"
  by (induction d xs rule: last_saved.induct) simp_all

lemma justified_append: "justified d (xs @ ys) \<longleftrightarrow> justified d xs \<and> justified (last_saved d xs) ys"
  by (induction d xs rule: justified.induct) auto

lemma justified_quiet: "quiet_event ev \<Longrightarrow> justified d [ev]"
  by (cases ev) (simp_all add: quiet_event_def)

lemma justified_unmerged: "(\<forall>b. Merge_called b \<notin> set evs) \<Longrightarrow> justified d evs"
  by (induction d evs rule: justified.induct) auto

lemma unmerged_justified: "unmerged s \<Longrightarrow> justified_run s"
  by (simp add: unmerged_def justified_run_def justified_unmerged)

lemma unmerged_event: "quiet_event ev \<Longrightarrow> Merge_called b \<noteq> ev"
  by (auto simp: quiet_event_def)

interpretation um: branch_invariant unmerged unmerged env schema for env schema
  by unfold_locales (auto simp: unmerged_def unmerged_event)

interpretation just: quiet_invariant justified_run
  by unfold_locales (auto simp: justified_run_def justified_append justified_quiet)

lemma persist_saves:
  "hoare unmerged (persist_data data) (\<lambda>_ s. unmerged s \<and> last_saved None (jr_log s) = Some (PDict data)) unmerged"
  unfolding persist_data_def
  by (rule hoare_abind[OF um.outside.keeps_job[unfolded keeps_def]], rule hoare_abind[OF keeps_gets[unfolded keeps_def]],
      rule hoare_abind[OF keeps_lift_py[unfolded keeps_def]], rule hoare_case_prod,
      rule hoare_abind[OF um.outside.keeps_store[unfolded keeps_def]], rule hoare_emit)
    (auto simp: unmerged_def last_saved_append)

lemma local_phases_idem: "failed_local_phases (local_phases phases) = failed_local_phases phases"
  by (simp add: failed_local_phases_def local_phases_def)

lemma staged_evidence:
  assumes "failed_endpoint_scopes stages = []" and "failed_local_phases phases = []"
    and "map_of sync_data ''response'' = None"
  shows "merge_evidence (PDict [(''proxbox_sync'', PDict (sync_data @ [(''runtime_seconds'', PInt t),
    (''response'', PDict (staged_response parse rows t stages phases disp))]))])"
proof -
  have "dget (sync_data @ [(''runtime_seconds'', PInt t),
      (''response'', PDict (staged_response parse rows t stages phases disp))]) ''response''
    = PDict (staged_response parse rows t stages phases disp)"
    using assms(3) by (simp add: dget_def map_add_def)
  moreover have "dget (staged_response parse rows t stages phases disp) ''stages'' = PList (map PDict stages)"
    "dget (staged_response parse rows t stages phases disp) ''local_phases'' = PList (map PDict (local_phases phases))"
    "dget (staged_response parse rows t stages phases disp) ''batch'' = PNone"
    by (cases disp; simp add: staged_response_def Let_def dget_Cons)+
  ultimately show ?thesis
    using assms(1,2) by (simp add: merge_evidence_def Let_def dget_Cons list_or_empty_def dict_of_def comp_def local_phases_idem)
qed

lemma um_keeps: "keeps unmerged m \<Longrightarrow> hoare unmerged m (\<lambda>_. unmerged) unmerged"
  by (simp add: keeps_def)

lemma sync_data_no_response:
  "hoare P (sync_data_with_branch params) (\<lambda>d s. P s \<and> map_of d ''response'' = None) E"
  unfolding sync_data_with_branch_def by (rule hoare_gets) (simp split: option.splits)

text \<open>What a stored result has to show holds for the data stored, if it holds for the lists.\<close>

definition if_clean :: "bool \<Rightarrow> job_run \<Rightarrow> bool" where
  "if_clean c s \<longleftrightarrow> unmerged s \<and> (c \<longrightarrow> good_data (last_saved None (jr_log s)))"

lemma persist_staged_clean:
  "hoare unmerged (persist_staged_result env ctx schema stages phases disp)
    (\<lambda>_. if_clean (failed_endpoint_scopes stages = [] \<and> failed_local_phases phases = [])) unmerged"
  unfolding persist_staged_result_def Let_def
  by (rule hoare_abind[OF um.outside.keeps_now[unfolded keeps_def]],
      rule hoare_abind[OF um.outside.keeps_tick[unfolded keeps_def]],
      rule hoare_abind[OF keeps_gets[unfolded keeps_def]], rule hoare_abind[OF sync_data_no_response],
      rule hoare_pure, rule hoare_conseq[OF persist_saves])
    (auto simp: if_clean_def good_data_def intro!: staged_evidence)

lemma batch_evidence:
  assumes "bs_failed batch = 0" and "map_of sync_data ''response'' = None"
  shows "merge_evidence (PDict [(''proxbox_sync'', PDict (sync_data @ [(''runtime_seconds'', t),
    (''response'', PDict [(''batch'', PDict (batch_dict batch)), (''endpoint_runtimes'', cards)])]))])"
proof -
  have "dget (sync_data @ [(''runtime_seconds'', t),
      (''response'', PDict [(''batch'', PDict (batch_dict batch)), (''endpoint_runtimes'', cards)])]) ''response''
    = PDict [(''batch'', PDict (batch_dict batch)), (''endpoint_runtimes'', cards)]"
    using assms(2) by (simp add: dget_def map_add_def)
  then show ?thesis using assms(1) by (simp add: merge_evidence_def Let_def dget_Cons batch_dict_def)
qed

lemma persist_batch_clean:
  "hoare unmerged (persist_batch_result env ctx schema batch phases) (\<lambda>_. if_clean (bs_failed batch = 0)) unmerged"
  unfolding persist_batch_result_def
  by (rule hoare_abind[OF um.outside.keeps_now[unfolded keeps_def]],
      rule hoare_abind[OF um.outside.keeps_tick[unfolded keeps_def]],
      rule hoare_abind[OF sync_data_no_response], rule hoare_pure, rule hoare_conseq[OF persist_saves])
    (auto simp: if_clean_def good_data_def intro!: batch_evidence)

lemma refresh_keeps_log: "hoare (\<lambda>s. F (jr_log s)) refresh_job (\<lambda>_ s. F (jr_log s)) (\<lambda>s. F (jr_log s))"
  unfolding refresh_job_def
  by (rule hoare_abind[where R = "\<lambda>_ s. F (jr_log s)"], rule hoare_gets, assumption)
    (auto intro!: hoare_raise hoare_modify split: option.splits)

lemma if_clean_log: "if_clean c s = ((\<forall>b. Merge_called b \<notin> set (jr_log s)) \<and> (c \<longrightarrow> good_data (last_saved None (jr_log s))))"
  by (simp add: if_clean_def unmerged_def)

lemma classified_clean:
  "hoare (if_clean (failed_endpoint_scopes stages = [] \<and> failed_local_phases phases = []))
    (abind refresh_job (\<lambda>_. abind (raise_for_failed_endpoint_scopes stages) (\<lambda>_. raise_for_failed_local_phases phases)))
    (\<lambda>_. ready_to_merge) unmerged"
proof -
  let ?c = "failed_endpoint_scopes stages = [] \<and> failed_local_phases phases = []"
  have r: "hoare (if_clean ?c) refresh_job (\<lambda>_. if_clean ?c) unmerged"
    using refresh_keeps_log[of "\<lambda>l. (\<forall>b. Merge_called b \<notin> set l) \<and> (?c \<longrightarrow> good_data (last_saved None l))"]
    by (rule hoare_conseq) (auto simp: if_clean_log unmerged_def)
  have "hoare (if_clean ?c) (abind (raise_for_failed_endpoint_scopes stages) (\<lambda>_. raise_for_failed_local_phases phases))
      (\<lambda>_. ready_to_merge) unmerged"
  proof (cases ?c)
    case True
    then show ?thesis
      by (auto simp: hoare_def raise_for_failed_endpoint_scopes_def raise_for_failed_local_phases_def abind_def ret_def
          if_clean_def ready_to_merge_def)
  next
    case False
    then show ?thesis
      by (auto simp: hoare_def raise_for_failed_endpoint_scopes_def raise_for_failed_local_phases_def abind_def ret_def
          gets_def raise_exc_def Let_def if_clean_def split: option.splits)
  qed
  then show ?thesis using r by (rule hoare_abind[rotated])
qed

lemma staged_results_clean:
  "hoare unmerged (staged_results env ctx schema phases) (\<lambda>_. ready_to_merge) unmerged"
proof -
  have stages: "keeps unmerged (if deadline_remaining (cx_deadline ctx) t \<le> 0 then deadline_sse_stages env ctx
       else abind (run_sse_stages env ctx schema phases) (\<lambda>(stages, wire).
         abind (backfill_sync_state_endpoints env wire) (\<lambda>_. ret stages)))" for t
    by (intro um.outside.basic um.outside.keeps_deadline_stages um.keeps_sse um.keeps_backfill)
  show ?thesis
    unfolding staged_results_def Let_def
    by (rule hoare_abind[OF um.outside.keeps_now[unfolded keeps_def]], rule hoare_abind[OF um_keeps[OF stages]],
        rule hoare_abind[OF keeps_gets[unfolded keeps_def]], rule hoare_abind[OF persist_staged_clean classified_clean])
qed

lemma batch_results_clean:
  "hoare unmerged (batch_results env ctx schema typ) (\<lambda>_. ready_to_merge) unmerged"
proof -
  have exec: "keeps unmerged (execute_batch_sync env ctx schema typ scope by_pk)" for scope by_pk
  proof -
    have "keeps unmerged (emit_all (map Batch_request reqs @ map (\<lambda>oid. Tenant_assigned oid a) oids))" for reqs oids a
      by (rule keeps_emit_all) (auto simp: unmerged_def)
    then show ?thesis unfolding execute_batch_sync_def by (intro um.outside.basic)
  qed
  have finish: "hoare (if_clean (bs_failed batch = 0)) (raise_for_batch_failures batch) (\<lambda>_. ready_to_merge) unmerged" for batch
    by (auto simp: hoare_def raise_for_batch_failures_def ret_def raise_exc_def if_clean_def ready_to_merge_def)
  have scope: "keeps unmerged (case scope_error of
         Some e \<Rightarrow> if e = [] then ret ()
           else raise_exc (Raised (RuntimeError (''Selected-object sync did not run: '' @ e)))
       | None \<Rightarrow> ret ())" for scope_error
    by (intro keeps_rules)
  show ?thesis
    unfolding batch_results_def
    by (rule hoare_abind[OF um_keeps[OF um.outside.keeps_bootstrap]],
        rule hoare_abind[OF um_keeps[OF um.outside.keeps_tick]], rule hoare_abind[OF um_keeps[OF keeps_lift_py]],
        (rule hoare_case_prod)+, rule hoare_abind[OF um_keeps[OF scope]], rule hoare_abind[OF um_keeps[OF exec]],
        rule hoare_abind[OF um_keeps[OF um.keeps_backfill]], rule hoare_abind[OF persist_batch_clean finish])
qed

lemma ready_justified: "ready_to_merge s \<Longrightarrow> justified_run s"
  by (simp add: ready_to_merge_def unmerged_justified)

lemma merge_justified: "hoare ready_to_merge (merge_sync_branch env ctx) (\<lambda>_. justified_run) justified_run"
proof -
  have stay: "hoare ready_to_merge m (\<lambda>_. ready_to_merge) justified_run" if "keeps ready_to_merge m" for m :: "'b act"
    by (rule hoare_conseq[OF that[unfolded keeps_def]]) (simp_all add: ready_justified)
  have asked: "keeps ready_to_merge (consult f)" for f :: "nat \<Rightarrow> merge_answers"
    by (rule keeps_consult) (simp add: ready_to_merge_def unmerged_def)
  have noted: "keeps ready_to_merge (modify (\<lambda>s. s\<lparr>jr_branch := v\<rparr>))" for v
    by (rule keeps_modify) (simp add: ready_to_merge_def unmerged_def)
  have called: "hoare ready_to_merge (if merge_called rep then emit (Merge_called b) else ret ()) (\<lambda>_. justified_run) justified_run"
    for rep b
  proof (rule hoare_if)
    show "hoare ready_to_merge (emit (Merge_called b)) (\<lambda>_. justified_run) justified_run"
      by (rule hoare_emit) (simp add: ready_to_merge_def justified_run_def justified_append unmerged_def justified_unmerged)
    show "hoare ready_to_merge (ret ()) (\<lambda>_. justified_run) justified_run"
      by (rule hoare_ret) (rule ready_justified)
  qed
  have main: "hoare ready_to_merge (merge_with env config b) (\<lambda>_. justified_run) justified_run" for b config
    unfolding merge_with_def
    by (rule hoare_abind[OF stay[OF asked]], rule hoare_abind[OF stay[OF keeps_lift_exc]],
        rule hoare_abind[OF stay[OF noted]], rule hoare_abind[OF called just.keeps_settle[unfolded keeps_def]])
  show ?thesis
    unfolding merge_sync_branch_def
    by (rule hoare_abind[OF stay[OF keeps_gets]])
      (auto intro!: main hoare_ret ready_justified split: option.splits)
qed

lemma context_justified: "hoare unmerged (context_run env ctx) (\<lambda>_. justified_run) justified_run"
proof -
  have stay: "hoare unmerged m (\<lambda>_. unmerged) justified_run" if "keeps unmerged m" for m :: "'b act"
    by (rule hoare_conseq[OF that[unfolded keeps_def]]) (simp_all add: unmerged_justified)
  have merge: "hoare unmerged (abind m (\<lambda>_. merge_sync_branch env ctx)) (\<lambda>_. justified_run) justified_run"
    if "hoare unmerged m (\<lambda>_. ready_to_merge) unmerged" for m :: "unit act"
    by (rule hoare_abind[OF _ merge_justified]) (rule hoare_conseq[OF that], auto simp: unmerged_justified)
  have created: "keeps unmerged (create_sync_branch env ctx)"
  proof -
    have "keeps unmerged (modify (\<lambda>s. s\<lparr>jr_branch := v\<rparr>))" for v
      by (rule keeps_modify) (simp add: unmerged_def)
    then show ?thesis
      unfolding create_sync_branch_def by (intro um.outside.basic um.outside.keeps_creation_failed)
  qed
  have begun: "keeps unmerged (begin_sync_run env ctx)"
    unfolding begin_sync_run_def by (intro um.outside.basic created um.outside.keeps_initial um.outside.keeps_verify_key)
  have staged: "hoare unmerged (staged_run env ctx schema) (\<lambda>_. justified_run) justified_run" for schema
    unfolding staged_run_def finish_staged_sync_def
    by (rule hoare_abind[OF stay[OF um.keeps_start]], rule hoare_case_prod, rule hoare_abind[OF stay])
      (intro um.outside.basic um.keeps_local, rule merge[OF staged_results_clean])
  show ?thesis
    unfolding context_run_def run_batch_phase_def
    by (rule hoare_abind[OF stay[OF begun]]) (auto intro!: staged merge[OF batch_results_clean] split: option.splits)
qed

lemma run_justified: "hoare unmerged (run_sync_job env args) (\<lambda>_. justified_run) justified_run"
proof -
  have stay: "hoare unmerged m (\<lambda>_. unmerged) justified_run" if "keeps unmerged m" for m :: "'b act"
    by (rule hoare_conseq[OF that[unfolded keeps_def]]) (simp_all add: unmerged_justified)
  have owned: "hoare unmerged (owned_run env args) (\<lambda>_. justified_run) justified_run"
    unfolding owned_run_def
    by (rule hoare_abind[OF stay[OF keeps_lift_exc]], rule hoare_abind[OF stay[OF um.outside.keeps_prepare] context_justified])
  have handler: "keeps justified_run (case e of Branching_unavailable m \<Rightarrow> abind (record_branching_failure m) (\<lambda>_. raise_exc e)
      | _ \<Rightarrow> raise_exc e)" for e :: job_exc
    by (intro just.basic just.keeps_failure)
  have body: "hoare unmerged (try_except (owned_run env args) (\<lambda>e. case e of
      Branching_unavailable m \<Rightarrow> abind (record_branching_failure m) (\<lambda>_. raise_exc e) | _ \<Rightarrow> raise_exc e))
    (\<lambda>_. justified_run) justified_run"
    by (rule hoare_try_except[OF owned]) (rule handler[unfolded keeps_def])
  show ?thesis
    unfolding run_sync_job_def claimed_run_def
    by (rule hoare_abind[OF stay[OF um.outside.keeps_claim]], rule hoare_if, rule hoare_ret)
      (auto intro: unmerged_justified hoare_try_finally[OF body] just.keeps_release[unfolded keeps_def])
qed

lemma justified_split:
  "justified d (pre @ Merge_called b # post) \<Longrightarrow> \<exists>v. last_saved d pre = Some v \<and> merge_evidence v"
  by (cases "last_saved d pre") (auto simp: justified_append good_data_def)


section \<open>Success\<close>

definition has_branch :: "job_run \<Rightarrow> bool" where
  "has_branch s \<longleftrightarrow> jr_branch s \<noteq> None"

interpretation hb: branch_invariant has_branch has_branch env schema for env schema
  by unfold_locales (auto simp: has_branch_def)

definition was_merged :: "job_run \<Rightarrow> bool" where
  "was_merged s \<longleftrightarrow> (\<exists>b. Merge_called b \<in> set (jr_log s))"

interpretation wm: quiet_invariant was_merged
  by unfold_locales (auto simp: was_merged_def)

lemma reported_merge_called:
  assumes "merge_branch_run eng ans b policy = Inr rep" and "merged rep"
  shows "merge_called rep"
proof -
  from assms obtain b' where "rep = verify_merge eng ans b'"
    by (auto simp: merge_branch_run_def not_merged_def split: sum.splits if_splits)
  with assms(2) show ?thesis
    by (auto simp: verify_merge_def not_merged_def Let_def split: sum.splits if_splits bool.splits)
qed

lemma hoare_true: "hoare P m (\<lambda>_ _. True) (\<lambda>_. True)"
  by (simp add: hoare_def split: prod.splits sum.splits)

lemma settle_merged: "hoare (\<lambda>s. merged rep \<longrightarrow> was_merged s) (settle_merge rep) (\<lambda>_. was_merged) (\<lambda>_. True)"
proof (cases "merged rep")
  case True
  have "hoare was_merged (settle_merge rep) (\<lambda>_. was_merged) (\<lambda>_. True)"
    by (rule hoare_conseq[OF wm.keeps_settle[unfolded keeps_def]]) simp_all
  then show ?thesis by (rule hoare_pre) (simp add: True)
next
  case False
  then show ?thesis by (auto simp: settle_merge_def intro!: hoare_abind[OF hoare_true] hoare_raise)
qed

lemma merge_succeeds: "hoare P (merge_with env config b) (\<lambda>_. was_merged) (\<lambda>_. True)"
proof -
  have rest: "hoare (\<lambda>_. merged rep \<longrightarrow> merge_called rep) (abind (modify (\<lambda>s. s\<lparr>jr_branch := Some (merge_branch_object rep)\<rparr>)) (\<lambda>_.
     abind (if merge_called rep then emit (Merge_called b) else ret ()) (\<lambda>_. settle_merge rep)))
    (\<lambda>_. was_merged) (\<lambda>_. True)" for rep
  proof (rule hoare_abind[where R = "\<lambda>_ _. merged rep \<longrightarrow> merge_called rep"], rule hoare_modify, assumption,
      rule hoare_abind[OF _ settle_merged])
    show "hoare (\<lambda>_. merged rep \<longrightarrow> merge_called rep) (if merge_called rep then emit (Merge_called b) else ret ())
        (\<lambda>_ s. merged rep \<longrightarrow> was_merged s) (\<lambda>_. True)"
      by (auto simp: was_merged_def intro!: hoare_emit hoare_ret)
  qed
  show ?thesis
    unfolding merge_with_def
    by (rule hoare_abind[OF hoare_true], rule hoare_abind[OF _ rest], rule hoare_lift_exc)
      (auto intro: reported_merge_called)
qed

lemma has_branch_keeps: "keeps has_branch m \<Longrightarrow> hoare has_branch m (\<lambda>_. has_branch) (\<lambda>_. True)"
  unfolding keeps_def by (erule hoare_conseq) simp_all

lemma merge_succeeds_on_branch:
  assumes "cx_config ctx = Some config"
  shows "hoare has_branch (merge_sync_branch env ctx) (\<lambda>_. was_merged) (\<lambda>_. True)"
  unfolding merge_sync_branch_def
proof (rule hoare_gets_eq)
  fix branch
  show "hoare (\<lambda>s. has_branch s \<and> branch = jr_branch s) (case (branch, cx_config ctx) of
      (Some b, Some config) \<Rightarrow> merge_with env config b | _ \<Rightarrow> ret ()) (\<lambda>_. was_merged) (\<lambda>_. True)"
    by (cases branch) (simp_all add: assms merge_succeeds, auto simp: hoare_def has_branch_def)
qed

lemma created_has_branch:
  assumes "cx_config ctx = Some config"
  shows "hoare P (create_sync_branch env ctx) (\<lambda>_. has_branch) (\<lambda>_. True)"
proof -
  have failed: "hoare P' (creation_failed nm e) (\<lambda>_. has_branch) (\<lambda>_. True)" for P' nm e
    unfolding creation_failed_def by (cases e) (auto intro!: hoare_raise hoare_abind[OF hoare_true])
  have made: "hoare P' (abind (modify (\<lambda>s. s\<lparr>jr_branch := Some b\<rparr>)) (\<lambda>_. emit (Branch_created b))) (\<lambda>_. has_branch) (\<lambda>_. True)"
    for P' b
    by (rule hoare_abind[where R = "\<lambda>_. has_branch"], rule hoare_modify, simp add: has_branch_def, rule hoare_emit)
      (simp add: has_branch_def)
  show ?thesis
    unfolding create_sync_branch_def assms option.case
    by (rule hoare_abind[OF hoare_true], rule hoare_case_sum, rule failed, rule made)
qed

lemma context_merged:
  assumes "cx_config ctx = Some config"
  shows "hoare P (context_run env ctx) (\<lambda>_. was_merged) (\<lambda>_. True)"
proof -
  note merge = merge_succeeds_on_branch[OF assms]
  have begun: "hoare P (begin_sync_run env ctx) (\<lambda>_. has_branch) (\<lambda>_. True)"
    unfolding begin_sync_run_def
    by (rule hoare_abind[OF created_has_branch[OF assms]], rule has_branch_keeps)
      (intro hb.outside.basic hb.outside.keeps_initial hb.outside.keeps_verify_key)
  have staged: "hoare has_branch (staged_run env ctx schema) (\<lambda>_. was_merged) (\<lambda>_. True)" for schema
    unfolding staged_run_def finish_staged_sync_def
    by (rule hoare_abind[OF has_branch_keeps[OF hb.keeps_start]], rule hoare_case_prod,
        rule hoare_abind[OF has_branch_keeps], intro hb.outside.basic hb.keeps_local,
        rule hoare_abind[OF has_branch_keeps[OF hb.keeps_staged_results] merge])
  have exec: "keeps has_branch (execute_batch_sync env ctx schema ty scope by_pk)" for schema ty scope by_pk
  proof -
    have "keeps has_branch (emit_all evs)" for evs by (rule keeps_emit_all) (simp add: has_branch_def)
    then show ?thesis unfolding execute_batch_sync_def by (intro hb.outside.basic)
  qed
  have batch: "keeps has_branch (batch_results env ctx schema ty)" for schema ty
    unfolding batch_results_def
    by (intro hb.outside.basic hb.outside.keeps_bootstrap exec hb.keeps_backfill hb.outside.keeps_batch
        hb.outside.keeps_raise_batch)
  show ?thesis
    unfolding context_run_def run_batch_phase_def
    by (rule hoare_abind[OF begun])
      (auto intro!: staged hoare_abind[OF has_branch_keeps[OF batch] merge] split: option.splits)
qed

lemma claimed_merged:
  assumes "\<not> main_allowed (je_site env)"
  shows "hoare (\<lambda>_. True) (claimed_run env args) (\<lambda>_. was_merged) (\<lambda>_. True)"
  unfolding claimed_run_def
proof (rule hoare_try_finally[where Q = "\<lambda>_. was_merged" and R = "\<lambda>_. True"])
  have "hoare (\<lambda>_. True) (owned_run env args) (\<lambda>_. was_merged) (\<lambda>_. True)"
    by (rule owned_run_rule[OF assms]) (simp_all add: context_merged)
  then show "hoare (\<lambda>_. True) (try_except (owned_run env args) (\<lambda>e. case e of
      Branching_unavailable m \<Rightarrow> abind (record_branching_failure m) (\<lambda>_. raise_exc e) | _ \<Rightarrow> raise_exc e))
    (\<lambda>_. was_merged) (\<lambda>_. True)"
    by (rule hoare_try_except) (auto split: job_exc.splits intro!: hoare_raise hoare_abind[OF hoare_true])
  show "hoare was_merged (release_run env) (\<lambda>_. was_merged) (\<lambda>_. True)"
    by (rule hoare_conseq[OF wm.keeps_release[unfolded keeps_def]]) simp_all
qed (rule hoare_true)

lemma run_after_claim:
  assumes "claim_rq_sync_ownership (je_loads env) (je_stamp env) (je_orm env) (jr_rows s) (jr_job s) = Inr (True, rows, job)"
  shows "run_sync_job env args s
    = claimed_run env args (s\<lparr>jr_rows := rows, jr_job := job, jr_log := jr_log s @ [Claimed True]\<rparr>)"
  by (simp add: run_sync_job_def claim_run_def abind_def gets_def lift_py_def ret_def modify_def emit_def assms)

lemma success_merged:
  assumes "\<not> main_allowed (je_site env)" and "run_sync_job env args s = (Inr (), s')"
    and "claim_rq_sync_ownership (je_loads env) (je_stamp env) (je_orm env) (jr_rows s) (jr_job s) = Inr (True, rows, job)"
  shows "was_merged s'"
  using hoare_Inr[OF claimed_merged[OF assms(1)] TrueI] assms(2) unfolding run_after_claim[OF assms(3)] by blast

text \<open>C3. With branch isolation on, a run that owned its job and ended without an exception has asked for the
  merge of its branch. It cannot report success and leave its work on a branch nobody asked to merge.\<close>

theorem isolated_success_is_merged:
  assumes "\<not> main_allowed (je_site env)" and "run_sync_job env args s = (Inr (), s')"
    and "claim_rq_sync_ownership (je_loads env) (je_stamp env) (je_orm env) (jr_rows s) (jr_job s) = Inr (True, rows, job)"
  shows "\<exists>b. Merge_called b \<in> set (jr_log s')"
  using success_merged[OF assms] unfolding was_merged_def .

section \<open>A run\<close>

text \<open>A selected-object run on a branch: one virtual machine, one endpoint, every answer favourable.\<close>

definition demo_vm_row :: pyval where
  "demo_vm_row = PDict [(''pk'', PInt 7), (''name'', PStr ''web''), (''cluster_id'', PInt 3),
     (''cluster'', PDict [(''name'', PStr ''c1'')]),
     (''proxbox_sync_state'', PDict [(''proxmox_vm_id'', PInt 101), (''proxmox_vm_type'', PStr ''qemu''),
        (''proxmox_node_name'', PStr ''n1''), (''proxmox_cluster_name'', PStr ''c1'')])]"

definition demo_objects :: batch_env where
  "demo_objects = \<lparr>be_tracked = (\<lambda>_. None), be_claims = [], be_fetch = (\<lambda>_ _. [demo_vm_row]),
     be_call = (\<lambda>_. (PDict [], 200, []))\<rparr>"

definition demo_job_env :: job_env where
  "demo_job_env = \<lparr>je_loads = (\<lambda>_. None), je_stamp = ''t'', je_orm = True, je_site = demo_site, je_engine = demo_engine,
     je_import_activate = (\<lambda>_. Inr ()), je_refresh = (\<lambda>_. Inr demo_branch), je_enter = (\<lambda>_. Inr ()),
     je_merge = (\<lambda>_. demo_answers), je_clock = (\<lambda>_. 0),
     je_dates = \<lparr>clock_env.to_float = (\<lambda>_. None), parse_date = (\<lambda>_. None), wall_now = 0\<rparr>,
     je_timeout = 7200, je_uuid = ''u'', je_key = (\<lambda>_. \<lparr>key_ok = True, key_details = []\<rparr>),
     je_bootstrap = (\<lambda>_. Inr \<lparr>pf_phases = [], pf_blocking = []\<rparr>),
     je_endpoints = (\<lambda>_. Inr []), je_solo = None, je_service = (\<lambda>_ _ _. Inr PNone),
     je_stage_env = (\<lambda>_. demo_env), je_modes = [],
     je_batch_env = (\<lambda>_. demo_objects),
     je_backfill = (\<lambda>_ _. Inr (PDict [])), je_parse = (\<lambda>_. None)\<rparr>"

definition demo_job_args :: job_args where
  "demo_job_args = \<lparr>ja_sync_types = [], ja_sync_type = None, ja_proxmox = [], ja_netbox = [], ja_vms = [],
     ja_batch_type = PStr ''virtual-machine'', ja_batch_ids = [PInt 7], ja_fastapi = PNone\<rparr>"

definition demo_start :: job_run where
  "demo_start = \<lparr>jr_rows = (\<lambda>pk. if pk = 1 then Some (PDict []) else None),
     jr_job = \<lparr>job_pk = 1, job_name = PNone, job_status = [], job_data = PDict [], log_entries = PNone\<rparr>,
     jr_branch = None, jr_active = None, jr_backfill = None, jr_log = [], jr_tick = 0\<rparr>"

text \<open>An action that cannot fail satisfies a triple whose last condition is false.\<close>

definition row_on_branch :: "pyval option \<Rightarrow> job_run \<Rightarrow> bool" where
  "row_on_branch b s \<longleftrightarrow> jr_rows s (job_pk (jr_job s)) \<noteq> None \<and> jr_branch s = b"

abbreviation never :: "job_run \<Rightarrow> bool" where
  "never \<equiv> (\<lambda>_. False)"

lemma persist_wins: "hoare (row_on_branch b) (persist_data data) (\<lambda>_. row_on_branch b) never"
  by (rule hoareI)
    (auto simp: row_on_branch_def persist_data_def abind_def modify_def gets_def lift_py_def ret_def emit_def
      save_job_data_def split: option.splits)

lemma hoare_known: "(\<And>s n. P s \<Longrightarrow> P (s\<lparr>jr_tick := n\<rparr>)) \<Longrightarrow> hoare P (f c) Q E \<Longrightarrow> hoare P (abind (consult (\<lambda>_. c)) f) Q E"
  by (auto simp: hoare_def abind_def consult_def)

lemma row_tick: "row_on_branch b s \<Longrightarrow> row_on_branch b (s\<lparr>jr_tick := n\<rparr>)"
  by (simp add: row_on_branch_def)

lemma known: "hoare (row_on_branch b) (f c) Q E \<Longrightarrow> hoare (row_on_branch b) (abind (consult (\<lambda>_. c)) f) Q E"
  by (rule hoare_known) (rule row_tick)

lemma asked_wins: "hoare (row_on_branch b) (consult f) (\<lambda>_. row_on_branch b) never"
  by (rule hoare_consult) (rule row_tick)

lemma read_wins: "hoare (row_on_branch b) (gets f) (\<lambda>_. row_on_branch b) never"
  by (rule hoare_gets)

lemma said_wins: "hoare (row_on_branch b) (emit ev) (\<lambda>_. row_on_branch b) never"
  by (rule hoare_emit) (simp add: row_on_branch_def)

lemma saves_win:
  "hoare (row_on_branch b) (persist_initial_sync_data env ctx) (\<lambda>_. row_on_branch b) never"
  "hoare (row_on_branch b) (persist_batch_result env ctx schema batch phases) (\<lambda>_. row_on_branch b) never"
  "hoare (row_on_branch b) (persist_staged_result env ctx schema stages phases disp) (\<lambda>_. row_on_branch b) never"
  unfolding persist_initial_sync_data_def persist_batch_result_def persist_staged_result_def
    sync_data_with_branch_def now_def Let_def
  by (intro hoare_abind[OF asked_wins] hoare_abind[OF read_wins] persist_wins)+

lemma demo_env_simps:
  "je_clock demo_job_env = (\<lambda>_. 0)" "je_key demo_job_env = (\<lambda>_. \<lparr>key_ok = True, key_details = []\<rparr>)"
  "je_bootstrap demo_job_env = (\<lambda>_. Inr \<lparr>pf_phases = [], pf_blocking = []\<rparr>)"
  "je_stage_env demo_job_env = (\<lambda>_. demo_env)" "je_merge demo_job_env = (\<lambda>_. demo_answers)"
  "je_import_activate demo_job_env = (\<lambda>_. Inr ())" "je_refresh demo_job_env = (\<lambda>_. Inr demo_branch)"
  "je_enter demo_job_env = (\<lambda>_. Inr ())" "je_backfill demo_job_env = (\<lambda>_ _. Inr (PDict []))"
  "je_engine demo_job_env = demo_engine" "je_site demo_job_env = demo_site" "je_timeout demo_job_env = 7200"
  "je_batch_env demo_job_env = (\<lambda>_. demo_objects)"
  by (simp_all add: demo_job_env_def)

lemma demo_key_wins:
  assumes "0 < deadline_remaining d 0"
  shows "hoare (row_on_branch b) (require_backend_key demo_job_env d) (\<lambda>_. row_on_branch b) never"
proof -
  have "hoare (row_on_branch b) (key_attempts demo_job_env d (Suc n) t delay) (\<lambda>_. row_on_branch b) never" for n t delay
    unfolding key_attempts.simps now_def demo_env_simps
    using assms by (intro known) (auto intro!: hoare_ret hoare_abind[OF said_wins] known)
  then show ?thesis by (simp add: require_backend_key_def BACKEND_KEY_RETRY_MAX_ATTEMPTS_def numeral_nat)
qed

lemma demo_created: "create_and_provision_branch demo_engine nm 60 = Inr demo_branch"
proof -
  have "fst (await_ready demo_engine 60 0) = Inr demo_branch" by code_simp
  then show ?thesis by (simp add: create_and_provision_branch_def) (simp add: demo_engine_def)
qed

lemma demo_config: "branching_enabled_settings demo_site
    = Inr (Some \<lparr>branch_prefix = PStr ''proxbox-sync'', on_conflict = PStr ''fail''\<rparr>)"
  by code_simp

lemma demo_begin_wins:
  assumes "cx_config ctx = Some config" and "0 < deadline_remaining (cx_deadline ctx) 0"
  shows "hoare (row_on_branch None) (begin_sync_run demo_job_env ctx)
    (\<lambda>schema s. schema = PStr ''br4'' \<and> row_on_branch (Some demo_branch) s) never"
proof -
  have created: "hoare (row_on_branch None) (create_sync_branch demo_job_env ctx) (\<lambda>_. row_on_branch (Some demo_branch)) never"
    unfolding create_sync_branch_def assms(1) option.case demo_env_simps demo_created sum.case
    by (rule hoare_abind[OF read_wins], rule hoare_abind[where R = "\<lambda>_. row_on_branch (Some demo_branch)"])
      (auto intro!: hoare_modify said_wins simp: row_on_branch_def)
  have schema: "attr_value demo_branch ''schema_id'' = PStr ''br4''" by code_simp
  have key: "hoare (row_on_branch (Some demo_branch)) (verify_backend_key demo_job_env ctx schema) (\<lambda>_. row_on_branch (Some demo_branch)) never"
    for schema
    unfolding verify_backend_key_def by (rule hoare_try_except[OF demo_key_wins[OF assms(2)]]) (simp add: hoare_def)
  have tail: "hoare (\<lambda>s. schema = PStr ''br4'' \<and> row_on_branch (Some demo_branch) s)
      (abind (verify_backend_key demo_job_env ctx schema) (\<lambda>_. ret schema))
      (\<lambda>schema s. schema = PStr ''br4'' \<and> row_on_branch (Some demo_branch) s) never" for schema
    by (cases "schema = PStr ''br4''") (auto intro!: hoare_abind[OF key] hoare_ret, simp add: hoare_def)
  show ?thesis
    unfolding begin_sync_run_def
    by (rule hoare_abind[OF created], rule hoare_abind[OF saves_win(1)], rule hoare_abind[OF hoare_gets tail])
      (auto simp: schema row_on_branch_def)
qed

lemma demo_in_branch_wins:
  assumes "hoare (row_on_branch (Some demo_branch)) m (\<lambda>x s. row_on_branch (Some demo_branch) s \<and> F x) never"
  shows "hoare (row_on_branch (Some demo_branch)) (in_branch demo_job_env m)
    (\<lambda>x s. row_on_branch (Some demo_branch) s \<and> F x) never"
proof (rule hoareI)
  fix s r s' assume row: "row_on_branch (Some demo_branch) s" and run: "in_branch demo_job_env m s = (r, s')"
  have act: "activate_sync_branch (PStr ''ready'') (Inr ()) (Inr demo_branch) (Inr ()) (Some demo_branch) = Inr (Some demo_branch)"
    by code_simp
  let ?e = "s\<lparr>jr_tick := Suc (Suc (Suc (jr_tick s))), jr_branch := Some demo_branch, jr_active := Some demo_branch\<rparr>"
  have "row_on_branch (Some demo_branch) ?e" using row by (simp add: row_on_branch_def)
  from hoareD[OF assms this] obtain x s1 where "m ?e = (Inr x, s1)" "row_on_branch (Some demo_branch) s1" "F x"
    by (cases "m ?e") (auto split: sum.splits)
  then show "case r of Inl _ \<Rightarrow> False | Inr x \<Rightarrow> row_on_branch (Some demo_branch) s' \<and> F x"
    using run row
    by (auto simp: in_branch_def abind_def gets_def consult_def lift_exc_def ret_def modify_def try_finally_def
        demo_env_simps row_on_branch_def act demo_engine_def)
qed

lemma demo_backfill_wins:
  "hoare (row_on_branch (Some demo_branch)) (backfill_sync_state_endpoints demo_job_env wire)
    (\<lambda>_. row_on_branch (Some demo_branch)) never"
proof -
  have noted: "hoare (row_on_branch b) (modify (\<lambda>s. s\<lparr>jr_backfill := v\<rparr>)) (\<lambda>_. row_on_branch b) never" for b v
    by (rule hoare_modify) (simp add: row_on_branch_def)
  have bound: "hoare (row_on_branch (Some demo_branch)) (abind (gets jr_active) (\<lambda>active. abind (emit (Backfilled wire active)) (\<lambda>_.
      abind (consult (je_backfill demo_job_env)) (\<lambda>answer. lift_py (answer wire)))))
    (\<lambda>_ s. row_on_branch (Some demo_branch) s \<and> True) never"
    unfolding demo_env_simps
    by (rule hoare_abind[OF read_wins], rule hoare_abind[OF said_wins], rule known) (simp add: hoare_ret)
  show ?thesis
    unfolding backfill_sync_state_endpoints_def
    by (auto intro!: noted hoare_abind[OF demo_in_branch_wins[OF bound]] hoare_pre[OF noted])
qed

definition demo_ctx :: "branch_settings \<Rightarrow> sync_ctx" where
  "demo_ctx config = \<lparr>cx_config = Some config, cx_types = [ALL_STAGES], cx_proxmox = [], cx_netbox = [], cx_vms = [],
     cx_batch_type = Some ''virtual-machine'', cx_batch_ids = [''7''], cx_fastapi = None, cx_started = 0,
     cx_deadline = \<lparr>expires_at = 7200, reserve_seconds = 120\<rparr>, cx_stages = expanded_sync_stages [ALL_STAGES]\<rparr>"

lemma demo_prepared: "prepare_sync_run demo_job_env demo_job_args (Some config) = abind (consult (\<lambda>_. 0 :: rat)) (\<lambda>_. ret (demo_ctx config))"
proof -
  have "strip ''virtual-machine'' = ''virtual-machine''" "normalize_batch_object_ids [PInt 7] = [''7'']" by code_simp+
  then show ?thesis
    by (simp add: prepare_sync_run_def now_def demo_env_simps demo_job_args_def demo_ctx_def normalize_run_types_def Let_def
        coerce_fastapi_endpoint_id_def abind_def consult_def ret_def fun_eq_iff)
qed

definition demo_batch_run :: "(batch_summary \<times> batch_request_sent list) result" where
  "demo_batch_run = run_batch_selected_sync demo_objects ''virtual-machine'' [PStr ''7''] (Some ''br4'')
     (Some ''9'') [(''4'', ''9'')]"

lemma demo_batch: "\<exists>batch req. demo_batch_run = Inr (batch, [req]) \<and> bs_failed batch = 0 \<and> bs_tenant_assigned batch = [''7'']"
proof -
  have "case demo_batch_run of Inl _ \<Rightarrow> False
    | Inr (batch, reqs) \<Rightarrow> length reqs = 1 \<and> bs_failed batch = 0 \<and> bs_tenant_assigned batch = [''7'']"
    by code_simp
  then show ?thesis by (auto split: sum.splits simp: length_Suc_conv)
qed

lemma demo_scope: "batch_wire_endpoint_scope (env_rows demo_env) (env_ctx_url demo_env) (env_listing demo_env) []
    = Inr (''9'', [], None, [(''4'', ''9'')])"
  by code_simp

definition seen :: "(job_event \<Rightarrow> bool) \<Rightarrow> job_run \<Rightarrow> bool" where
  "seen p s \<longleftrightarrow> list_ex p (jr_log s)"

interpretation see: branch_invariant "seen p" "seen p" env schema for p env schema
  by unfold_locales (simp_all add: seen_def)

definition is_tenant_of :: "string \<Rightarrow> job_event \<Rightarrow> bool" where
  "is_tenant_of oid ev = (case ev of Tenant_assigned o2 _ \<Rightarrow> o2 = oid | _ \<Rightarrow> False)"

definition is_batch_request :: "job_event \<Rightarrow> bool" where
  "is_batch_request ev = (case ev of Batch_request _ \<Rightarrow> True | _ \<Rightarrow> False)"

definition demo_seen :: "job_run \<Rightarrow> bool" where
  "demo_seen s \<longleftrightarrow> seen (is_tenant_of ''7'') s \<and> seen is_batch_request s"

lemma demo_execute:
  "execute_batch_sync demo_job_env (demo_ctx config) (PStr ''br4'') ''virtual-machine'' ''9'' [(''4'', ''9'')]
   = abind (consult (\<lambda>_. demo_objects)) (\<lambda>_. abind (lift_py demo_batch_run) (\<lambda>(batch, reqs).
     abind (gets jr_active) (\<lambda>active.
     abind (emit_all (map Batch_request reqs @ map (\<lambda>oid. Tenant_assigned oid active) (bs_tenant_assigned batch))) (\<lambda>_.
       ret batch))))"
  by (simp add: execute_batch_sync_def demo_batch_run_def demo_ctx_def demo_env_simps abind_def consult_def fun_eq_iff)

lemma demo_execute_wins:
  "hoare (row_on_branch (Some demo_branch))
    (execute_batch_sync demo_job_env (demo_ctx config) (PStr ''br4'') ''virtual-machine'' ''9'' [(''4'', ''9'')])
    (\<lambda>batch s. (row_on_branch (Some demo_branch) s \<and> demo_seen s) \<and> bs_failed batch = 0) never"
proof -
  obtain batch req where b: "demo_batch_run = Inr (batch, [req])" "bs_failed batch = 0" "bs_tenant_assigned batch = [''7'']"
    using demo_batch by blast
  show ?thesis
    unfolding demo_execute b(1)
    by (rule hoare_abind[OF asked_wins], simp only: abind_simps prod.case, rule hoare_abind[OF read_wins],
        rule hoare_abind[where R = "\<lambda>_ s. row_on_branch (Some demo_branch) s \<and> demo_seen s"], rule hoare_emit_all)
      (auto intro!: hoare_ret simp: b row_on_branch_def demo_seen_def seen_def is_tenant_of_def is_batch_request_def)
qed

lemma demo_seen_kept: "keeps demo_seen m" if "\<And>p. keeps (seen p) m" for m :: "'a act"
proof -
  have "hoare (seen p) m (\<lambda>_. seen p) (seen p)" for p using that by (simp add: keeps_def)
  then show ?thesis unfolding keeps_def
    by (intro hoareI) (force simp: demo_seen_def split: sum.splits dest: hoareD)
qed

lemma both_win:
  assumes "hoare P m (\<lambda>_. P') never" and "keeps demo_seen m"
  shows "hoare (\<lambda>s. P s \<and> demo_seen s) m (\<lambda>_ s. P' s \<and> demo_seen s) never"
  by (rule hoareI) (use hoareD[OF assms(1)] hoareD[OF assms(2)[unfolded keeps_def]] in \<open>fastforce split: sum.splits\<close>)

abbreviation demo_branching :: branch_settings where
  "demo_branching \<equiv> \<lparr>branch_prefix = PStr ''proxbox-sync'', on_conflict = PStr ''fail''\<rparr>"

definition has_row :: "job_run \<Rightarrow> bool" where
  "has_row s \<longleftrightarrow> jr_rows s (job_pk (jr_job s)) \<noteq> None"

lemma demo_merge_wins:
  "hoare (row_on_branch (Some demo_branch)) (merge_sync_branch demo_job_env (demo_ctx demo_branching)) (\<lambda>_. has_row) never"
proof -
  let ?rep = "verify_merge demo_engine demo_answers demo_branch"
  have r: "merge_branch_run demo_engine demo_answers demo_branch (PStr ''fail'') = Inr ?rep" by code_simp
  have m: "merged ?rep" "disposition ?rep = None" by code_simp+
  have run: "hoare has_row (merge_with demo_job_env demo_branching demo_branch) (\<lambda>_. has_row) never"
    unfolding merge_with_def demo_env_simps settle_merge_def
    by (simp add: hoare_def has_row_def abind_def consult_def r m ret_def modify_def emit_def lift_exc_def split: prod.splits)
  have merge: "merge_sync_branch demo_job_env (demo_ctx demo_branching) s = merge_with demo_job_env demo_branching demo_branch s"
    if "row_on_branch (Some demo_branch) s" for s
    using that by (simp add: merge_sync_branch_def demo_ctx_def row_on_branch_def abind_def gets_def)
  show ?thesis
  proof (rule hoareI)
    fix s r s' assume row: "row_on_branch (Some demo_branch) s"
      and "merge_sync_branch demo_job_env (demo_ctx demo_branching) s = (r, s')"
    then have "merge_with demo_job_env demo_branching demo_branch s = (r, s')" by (simp only: merge[OF row])
    from hoareD[OF run _ this] row show "case r of Inl _ \<Rightarrow> False | Inr _ \<Rightarrow> has_row s'"
      unfolding row_on_branch_def has_row_def by blast
  qed
qed

lemma demo_merge_seen: "keeps (seen p) (merge_sync_branch env ctx)"
proof -
  have noted: "keeps (seen p) (modify (\<lambda>s. s\<lparr>jr_branch := v\<rparr>))" for v
    by (rule keeps_modify) (simp add: seen_def)
  have called: "keeps (seen p) (emit (Merge_called b))" for b
    by (rule keeps_emit) (simp add: seen_def)
  show ?thesis
    unfolding merge_sync_branch_def merge_with_def by (intro see.outside.basic noted called see.outside.keeps_settle)
qed

lemma demo_release_wins: "hoare has_row (release_run demo_job_env) (\<lambda>_. has_row) never"
  by (rule hoareI)
    (auto simp: release_run_def release_same release_sync_ownership_def Let_def has_row_def abind_def gets_def
      modify_def emit_def lift_py_def ret_def save_job_data_def split: option.splits if_splits)

lemma demo_bootstrap_wins: "hoare (row_on_branch b) (bootstrap_backend_endpoints demo_job_env) (\<lambda>_. row_on_branch b) never"
  unfolding bootstrap_backend_endpoints_def demo_env_simps
  by (rule hoare_abind[OF said_wins], rule known) (simp add: abind_simps hoare_ret)

lemma demo_results_win:
  "hoare (row_on_branch (Some demo_branch)) (batch_results demo_job_env (demo_ctx config) (PStr ''br4'') ''virtual-machine'')
    (\<lambda>_ s. row_on_branch (Some demo_branch) s \<and> demo_seen s) never"
proof -
  have scope: "nonempty_texts (cx_proxmox (demo_ctx config)) = []" by (simp add: demo_ctx_def nonempty_texts_def)
  have recorded: "hoare (\<lambda>s. (row_on_branch (Some demo_branch) s \<and> demo_seen s) \<and> bs_failed batch = 0)
     (abind (backfill_sync_state_endpoints demo_job_env wire) (\<lambda>_.
      abind (persist_batch_result demo_job_env (demo_ctx config) (PStr ''br4'') batch phases) (\<lambda>_.
       raise_for_batch_failures batch)))
     (\<lambda>_ s. row_on_branch (Some demo_branch) s \<and> demo_seen s) never" for batch wire phases
    by (rule hoare_pure, rule hoare_abind[OF both_win[OF demo_backfill_wins demo_seen_kept[OF see.keeps_backfill]]],
        rule hoare_abind[OF both_win[OF saves_win(2) demo_seen_kept[OF see.outside.keeps_batch]]])
      (simp add: raise_for_batch_failures_def hoare_ret)
  show ?thesis
    unfolding batch_results_def demo_env_simps scope list.map
    by (rule hoare_abind[OF demo_bootstrap_wins], rule known)
      (simp add: demo_scope abind_simps, rule hoare_abind[OF demo_execute_wins recorded])
qed

lemma demo_context_wins:
  "hoare (row_on_branch None) (context_run demo_job_env (demo_ctx demo_branching)) (\<lambda>_ s. has_row s \<and> demo_seen s) never"
proof -
  have ctx: "cx_config (demo_ctx demo_branching) = Some demo_branching" "cx_batch_type (demo_ctx demo_branching) = Some ''virtual-machine''"
    "cx_batch_ids (demo_ctx demo_branching) \<noteq> []" "0 < deadline_remaining (cx_deadline (demo_ctx demo_branching)) 0"
    by (simp_all add: demo_ctx_def deadline_remaining_def)
  have phase: "hoare (row_on_branch (Some demo_branch)) (run_batch_phase demo_job_env (demo_ctx demo_branching) (PStr ''br4'') ''virtual-machine'')
      (\<lambda>_ s. has_row s \<and> demo_seen s) never"
    unfolding run_batch_phase_def
    by (rule hoare_abind[OF demo_results_win both_win[OF demo_merge_wins demo_seen_kept[OF demo_merge_seen]]])
  have run: "hoare (\<lambda>s. schema = PStr ''br4'' \<and> row_on_branch (Some demo_branch) s)
      (run_batch_phase demo_job_env (demo_ctx demo_branching) schema ''virtual-machine'') (\<lambda>_ s. has_row s \<and> demo_seen s) never" for schema
    by (cases "schema = PStr ''br4''") (auto intro: phase, simp add: hoare_def)
  show ?thesis
    unfolding context_run_def ctx(2) option.case
    by (rule hoare_abind[OF demo_begin_wins[OF ctx(1,4)]]) (simp add: ctx(3) run)
qed

lemma demo_claim: "\<exists>rows job. claim_rq_sync_ownership (je_loads demo_job_env) (je_stamp demo_job_env) (je_orm demo_job_env)
    (jr_rows demo_start) (jr_job demo_start) = Inr (True, rows, job) \<and> rows (job_pk job) \<noteq> None"
proof -
  let ?c = "claim_rq_sync_ownership (je_loads demo_job_env) (je_stamp demo_job_env) (je_orm demo_job_env)
    (jr_rows demo_start) (jr_job demo_start)"
  have "case ?c of Inl _ \<Rightarrow> False | Inr (claimed, rows, job) \<Rightarrow>
      claimed \<and> (case rows (job_pk job) of None \<Rightarrow> False | Some _ \<Rightarrow> True)"
    by code_simp
  then show ?thesis by (auto split: sum.splits option.splits)
qed

definition demo_end :: job_run where
  "demo_end = snd (run_sync_job demo_job_env demo_job_args demo_start)"

lemma demo_claimed_wins: "hoare (row_on_branch None) (claimed_run demo_job_env demo_job_args) (\<lambda>_ s. has_row s \<and> demo_seen s) never"
proof -
  have run: "hoare (\<lambda>s. ctx = demo_ctx demo_branching \<and> row_on_branch None s) (context_run demo_job_env ctx)
      (\<lambda>_ s. has_row s \<and> demo_seen s) never" for ctx
    by (cases "ctx = demo_ctx demo_branching") (auto intro: demo_context_wins, simp add: hoare_def)
  have owned: "hoare (row_on_branch None) (owned_run demo_job_env demo_job_args) (\<lambda>_ s. has_row s \<and> demo_seen s) never"
    unfolding owned_run_def demo_env_simps demo_config demo_prepared
    by (simp add: abind_simps demo_prepared) (rule hoare_abind[OF known[OF hoare_ret] run], simp)
  show ?thesis
    unfolding claimed_run_def
    by (rule hoare_try_finally[where Q = "\<lambda>_ s. has_row s \<and> demo_seen s" and R = never],
        rule hoare_try_except[OF owned])
      (simp_all add: hoare_def both_win[OF demo_release_wins demo_seen_kept[OF see.outside.keeps_release], unfolded hoare_def, rule_format])
qed

lemma demo_run_job: "run_sync_job demo_job_env demo_job_args demo_start = (Inr (), demo_end)"
  and demo_end_seen: "demo_seen demo_end"
proof -
  from demo_claim obtain rows job where c: "claim_rq_sync_ownership (je_loads demo_job_env) (je_stamp demo_job_env) (je_orm demo_job_env)
    (jr_rows demo_start) (jr_job demo_start) = Inr (True, rows, job)" "rows (job_pk job) \<noteq> None" by blast
  let ?s = "demo_start\<lparr>jr_rows := rows, jr_job := job, jr_log := [Claimed True]\<rparr>"
  have run: "run_sync_job demo_job_env demo_job_args demo_start = claimed_run demo_job_env demo_job_args ?s"
    by (simp add: run_sync_job_def claim_run_def abind_def gets_def lift_py_def ret_def modify_def emit_def c(1)) (simp add: demo_start_def)
  have "row_on_branch None ?s" using c(2) by (simp add: row_on_branch_def) (simp add: demo_start_def)
  from hoareD[OF demo_claimed_wins this, of "fst (claimed_run demo_job_env demo_job_args ?s)" "snd (claimed_run demo_job_env demo_job_args ?s)"]
  show "run_sync_job demo_job_env demo_job_args demo_start = (Inr (), demo_end)" "demo_seen demo_end"
    unfolding demo_end_def run by (auto simp: prod_eq_iff split: sum.splits)
qed

lemma demo_isolation: "\<not> main_allowed (je_site demo_job_env)" "keeps_schema demo_job_env ''br4''" "jr_log demo_start = []"
proof -
  show "\<not> main_allowed (je_site demo_job_env)" by code_simp
  have "attr_value demo_branch ''schema_id'' = PStr ''br4''" by code_simp
  then show "keeps_schema demo_job_env ''br4''" by (auto simp: keeps_schema_def demo_job_env_def demo_engine_def)
  show "jr_log demo_start = []" by (simp add: demo_start_def)
qed




theorem isolated_success_is_merged_witness: "\<exists>b. Merge_called b \<in> set (jr_log demo_end)"
proof -
  from demo_claim obtain rows job where c: "claim_rq_sync_ownership (je_loads demo_job_env) (je_stamp demo_job_env)
      (je_orm demo_job_env) (jr_rows demo_start) (jr_job demo_start) = Inr (True, rows, job)" by blast
  show ?thesis by (rule isolated_success_is_merged[OF demo_isolation(1) demo_run_job c])
qed

section \<open>Where the run falls short\<close>

subsection \<open>Tenants\<close>

definition tenants_on_main :: "job_run \<Rightarrow> bool" where
  "tenants_on_main s \<longleftrightarrow> (\<forall>oid b. Tenant_assigned oid (Some b) \<notin> set (jr_log s))"

definition outside_branch :: "job_run \<Rightarrow> bool" where
  "outside_branch s \<longleftrightarrow> jr_active s = None \<and> tenants_on_main s"

lemma tenant_not_quiet: "quiet_event ev \<Longrightarrow> Tenant_assigned oid a \<noteq> ev"
  by (auto simp: quiet_event_def)

interpretation tm: branch_invariant outside_branch tenants_on_main env schema for env schema
  by unfold_locales (auto simp: outside_branch_def tenants_on_main_def tenant_not_quiet)

lemma batch_tenants: "keeps outside_branch (execute_batch_sync env ctx schema ty scope by_pk)"
proof -
  have sent: "hoare (\<lambda>s. outside_branch s \<and> a = jr_active s)
      (emit_all (map Batch_request reqs @ map (\<lambda>oid. Tenant_assigned oid a) oids)) (\<lambda>_. outside_branch) outside_branch"
    for reqs oids a
    by (rule hoare_emit_all) (auto simp: outside_branch_def tenants_on_main_def)
  have logged: "keeps outside_branch (abind (gets jr_active) (\<lambda>active.
       abind (emit_all (map Batch_request reqs @ map (\<lambda>oid. Tenant_assigned oid active) oids)) (\<lambda>_. ret batch)))"
    for reqs oids and batch :: batch_summary
    unfolding keeps_def by (rule hoare_gets_eq, rule hoare_abind[OF sent], rule hoare_ret)
  show ?thesis
    unfolding execute_batch_sync_def by (intro tm.outside.basic logged)
qed

lemma run_tenants: "keeps outside_branch (run_sync_job env args)"
proof -
  have noted: "keeps outside_branch (modify (\<lambda>s. s\<lparr>jr_branch := v\<rparr>))" for v
    by (rule keeps_modify) (simp add: outside_branch_def tenants_on_main_def)
  have called: "keeps outside_branch (emit (Merge_called b))" for b
    by (rule keeps_emit) (simp add: outside_branch_def tenants_on_main_def)
  have merge: "keeps outside_branch (merge_sync_branch env ctx)" for ctx
    unfolding merge_sync_branch_def merge_with_def by (intro tm.outside.basic noted called tm.outside.keeps_settle)
  have begun: "keeps outside_branch (begin_sync_run env ctx)" for ctx
    unfolding begin_sync_run_def create_sync_branch_def
    by (intro tm.outside.basic noted tm.outside.keeps_creation_failed tm.outside.keeps_initial tm.outside.keeps_verify_key)
  have "keeps outside_branch (context_run env ctx)" for ctx
    unfolding context_run_def run_batch_phase_def batch_results_def staged_run_def finish_staged_sync_def
    by (intro tm.outside.basic begun merge tm.keeps_start tm.keeps_local tm.keeps_staged_results
        tm.outside.keeps_bootstrap batch_tenants tm.keeps_backfill tm.outside.keeps_batch tm.outside.keeps_raise_batch)
  then show ?thesis
    unfolding run_sync_job_def claimed_run_def owned_run_def
    by (intro tm.outside.basic tm.outside.keeps_claim tm.outside.keeps_release tm.outside.keeps_failure tm.outside.keeps_prepare)
qed

text \<open>C39. Tenants are assigned on main. After a selected virtual machine has been synced the run assigns
  its tenant in the worker, outside every activation of the branch: whatever the isolation setting, the
  branch that is active then is none, so the assignment is written to main while the sync itself went to
  the branch.\<close>

theorem tenants_assigned_on_main:
  assumes "jr_log s = []" and "jr_active s = None"
    and "Tenant_assigned oid active \<in> set (jr_log (snd (run_sync_job env args s)))"
  shows "active = None"
proof -
  have "outside_branch s" using assms(1,2) by (simp add: outside_branch_def tenants_on_main_def)
  from keeps_any[OF run_tenants this, of env args] assms(3) show ?thesis
    by (cases active) (auto simp: outside_branch_def tenants_on_main_def)
qed

lemma is_tenant_ofD: "is_tenant_of oid ev \<Longrightarrow> \<exists>a. ev = Tenant_assigned oid a"
  by (cases ev) (simp_all add: is_tenant_of_def)

theorem tenants_assigned_on_main_witness:
  "\<not> main_allowed (je_site demo_job_env) \<and> Tenant_assigned ''7'' None \<in> set (jr_log demo_end)"
proof -
  from demo_end_seen obtain a where t: "Tenant_assigned ''7'' a \<in> set (jr_log demo_end)"
    unfolding demo_seen_def seen_def list_ex_iff using is_tenant_ofD by blast
  have "a = None"
    by (rule tenants_assigned_on_main[OF demo_isolation(3) _ t[unfolded demo_end_def]]) (simp add: demo_start_def)
  with t demo_isolation(1) show ?thesis by simp
qed

end
