(* ===== verification/Sync_Job_Limits.thy ===== *)
theory Sync_Job_Limits
  imports Sync_Job_Facts
begin

text \<open>
  Bounds and limits of the sync job (\<open>netbox_proxbox/jobs.py\<close>): the number and the length of the waits of the
  backend key check, the claim that the run itself erases from its row, and the exhausted run that has no
  endpoint to report.
\<close>

section \<open>The backend key check\<close>

definition key_event :: "job_event \<Rightarrow> bool" where
  "key_event ev = (case ev of Key_checked \<Rightarrow> True | Slept w \<Rightarrow> 0 < w \<and> w \<le> 60 | _ \<Rightarrow> False)"

definition key_checks :: "job_event list \<Rightarrow> nat" where
  "key_checks evs = length (filter (\<lambda>ev. ev = Key_checked) evs)"

definition seconds_slept :: "job_event list \<Rightarrow> rat" where
  "seconds_slept evs = sum_list (map (\<lambda>ev. case ev of Slept w \<Rightarrow> w | _ \<Rightarrow> 0) evs)"

text \<open>The log is \<open>before\<close> and then events of the check: at most \<open>n\<close> attempts and \<open>t\<close> seconds of sleep.\<close>

definition key_log :: "job_event list \<Rightarrow> nat \<Rightarrow> rat \<Rightarrow> job_run \<Rightarrow> bool" where
  "key_log before n t s \<longleftrightarrow>
     (\<exists>evs. jr_log s = before @ evs \<and> list_all key_event evs \<and> key_checks evs \<le> n \<and> seconds_slept evs \<le> t)"

lemma key_log_tick [simp]: "key_log before n t (s\<lparr>jr_tick := k\<rparr>) = key_log before n t s"
  by (simp add: key_log_def)

lemma key_log_mono: "key_log before n t s \<Longrightarrow> n \<le> n' \<Longrightarrow> t \<le> t' \<Longrightarrow> key_log before n' t' s"
  by (force simp: key_log_def)

lemma key_log_checked: "key_log before n t s \<Longrightarrow> key_log before (Suc n) t (s\<lparr>jr_log := jr_log s @ [Key_checked]\<rparr>)"
  unfolding key_log_def
  by (elim exE, rename_tac evs, rule_tac x = "evs @ [Key_checked]" in exI)
    (simp add: key_event_def key_checks_def seconds_slept_def)

lemma key_log_slept:
  "key_log before n t s \<Longrightarrow> 0 < w \<Longrightarrow> w \<le> 60 \<Longrightarrow> key_log before n (t + w) (s\<lparr>jr_log := jr_log s @ [Slept w]\<rparr>)"
  unfolding key_log_def
  by (elim exE, rename_tac evs, rule_tac x = "evs @ [Slept w]" in exI)
    (simp add: key_event_def key_checks_def seconds_slept_def)

lemma key_wait_bound:
  "deadline_cap d (case parse_retry_after tf pd w v BACKEND_KEY_RETRY_MAX_DELAY of Some r \<Rightarrow> r
     | None \<Rightarrow> min delay BACKEND_KEY_RETRY_MAX_DELAY) t \<le> 60"
  using parse_retry_after_bounds[of BACKEND_KEY_RETRY_MAX_DELAY tf pd w v]
  by (auto simp: deadline_cap_def BACKEND_KEY_RETRY_MAX_DELAY_def min_def split: option.splits)

abbreviation key_result :: "job_env \<Rightarrow> job_event list \<Rightarrow> unit \<Rightarrow> job_run \<Rightarrow> bool" where
  "key_result env before \<equiv> (\<lambda>_ s. key_log before 10 180 s \<and> (\<exists>k. key_ok (je_key env k)))"

lemma key_attempt_step:
  assumes "slept \<le> 180" and "Suc n \<le> 10"
    and "\<And>answer. hoare (key_log before (Suc n) slept) (g answer) (key_result env before) (key_log before 10 180)"
  shows "hoare (key_log before n slept)
    (abind (now env) (\<lambda>t1. abind (if deadline_remaining d t1 \<le> 0 then raise_exc deadline_exc else ret ()) (\<lambda>_.
      abind (emit Key_checked) (\<lambda>_. abind (consult (je_key env)) (\<lambda>answer. if key_ok answer then ret () else g answer)))))
    (key_result env before) (key_log before 10 180)"
proof -
  have low: "key_log before n slept s \<Longrightarrow> key_log before 10 180 s" for s using assms by (auto elim: key_log_mono)
  have high: "key_log before (Suc n) slept s \<Longrightarrow> key_log before 10 180 s" for s using assms by (auto elim: key_log_mono)
  have answered: "hoare (\<lambda>s. key_log before (Suc n) slept s \<and> (\<exists>k. a = je_key env k)) (if key_ok a then ret () else g a)
      (key_result env before) (key_log before 10 180)" for a
    using high by (auto intro!: hoare_if hoare_ret intro: hoare_pre[OF assms(3)])
  show ?thesis
    unfolding now_def
    by (rule hoare_abind[where R = "\<lambda>_. key_log before n slept"], rule hoare_consult, simp,
        rule hoare_abind[where R = "\<lambda>_. key_log before n slept"], rule hoare_if, rule hoare_raise, erule low,
        rule hoare_ret, assumption, rule hoare_abind[OF hoare_emit hoare_abind[OF hoare_consult answered]],
        erule key_log_checked) force
qed

lemma key_attempt_fails:
  assumes "slept \<le> 180" and "Suc n \<le> 10"
  shows "hoare (key_log before (Suc n) slept)
    (abind (now env) (\<lambda>t3. if deadline_remaining d t3 \<le> 0 then raise_exc deadline_exc else raise_exc e))
    Q (key_log before 10 180)"
  unfolding now_def using assms
  by (intro hoare_abind[where R = "\<lambda>_. key_log before (Suc n) slept"])
    (auto intro!: hoare_consult hoare_if hoare_raise elim: key_log_mono)

lemma key_attempts_bounded:
  assumes "slept \<le> 180" and "n + Suc left \<le> 10"
  shows "hoare (key_log before n slept) (key_attempts env d left slept delay) (key_result env before) (key_log before 10 180)"
  using assms
proof (induction left arbitrary: n slept delay)
  case 0
  then show ?case
    unfolding key_attempts.simps
    by (intro key_attempt_step hoare_abind[where R = "\<lambda>_. key_log before (Suc n) slept", OF _ key_attempt_fails])
      (auto simp: now_def intro!: hoare_consult)
next
  case (Suc left)
  have retry: "hoare (key_log before (Suc n) slept)
      (abind (emit (Slept w)) (\<lambda>_. key_attempts env d left (slept + w) next_delay)) (key_result env before) (key_log before 10 180)"
    if "0 < w" "w \<le> 60" "slept + w \<le> 180" for w next_delay
    by (rule hoare_abind[OF hoare_emit Suc.IH[where n = "Suc n"]], erule key_log_slept) (use that Suc.prems in auto)
  have now: "hoare (key_log before (Suc n) slept) (now env) (\<lambda>_. key_log before (Suc n) slept) (key_log before 10 180)"
    unfolding now_def by (rule hoare_consult) simp
  show ?case
    unfolding key_attempts.simps Let_def using Suc.prems
    by (intro key_attempt_step hoare_abind[OF now] hoare_if key_attempt_fails retry key_wait_bound)
      (auto simp: BACKEND_KEY_RETRY_TOTAL_BUDGET_def)
qed

text \<open>C36. The backend key check is bounded. Whatever the backend answers it is asked at most ten times, each
  sleep between two attempts is longer than zero and at most 60 seconds, the sleeps add up to at most 180 seconds,
  and the check leaves no other event in the log of the run; it returns only when some answer accepted the key.\<close>

theorem key_check_bounded:
  "(\<exists>evs. jr_log (snd (require_backend_key env d s)) = jr_log s @ evs \<and> list_all key_event evs
      \<and> key_checks evs \<le> 10 \<and> seconds_slept evs \<le> 180)
   \<and> (case fst (require_backend_key env d s) of Inl _ \<Rightarrow> True | Inr _ \<Rightarrow> \<exists>k. key_ok (je_key env k))"
proof -
  have "key_log (jr_log s) 0 0 s" by (simp add: key_log_def key_checks_def seconds_slept_def)
  from hoareD[OF key_attempts_bounded[of 0 0 9] this, of env d 2 "fst (require_backend_key env d s)" "snd (require_backend_key env d s)"]
  show ?thesis
    by (auto simp: require_backend_key_def BACKEND_KEY_RETRY_MAX_ATTEMPTS_def key_log_def split: sum.splits)
qed

section \<open>The claim of the run\<close>

text \<open>The stored row of the job names no owner.\<close>

definition disowned :: "job_run \<Rightarrow> bool" where
  "disowned s \<longleftrightarrow> (\<exists>sync_data. jr_rows s (job_pk (jr_job s)) = Some (PDict [(''proxbox_sync'', PDict sync_data)])
     \<and> dget sync_data ''sync_owner'' = PNone)"

lemma persist_disowns:
  assumes "dget sync_data ''sync_owner'' = PNone"
  shows "hoare P (persist_data [(''proxbox_sync'', PDict sync_data)]) (\<lambda>_. disowned) (\<lambda>_. True)"
  by (rule hoareI)
    (auto simp: persist_data_def abind_def gets_def modify_def lift_py_def ret_def raise_exc_def emit_def save_job_data_def
      disowned_def assms split: option.splits sum.splits)

lemma initial_data_disowns: "hoare P (persist_initial_sync_data env ctx) (\<lambda>_. disowned) (\<lambda>_. True)"
proof -
  have read: "hoare P (sync_data_with_branch params) (\<lambda>d _. True \<and> dget d ''sync_owner'' = PNone) E" for P params E
    unfolding sync_data_with_branch_def by (rule hoare_gets) (auto simp: dget_def split: option.splits)
  show ?thesis
    unfolding persist_initial_sync_data_def
    by (rule hoare_abind[OF read]) (rule hoare_pure, erule persist_disowns)
qed

lemma key_check_disowned: "hoare disowned (verify_backend_key env ctx schema) (\<lambda>_. disowned) (\<lambda>_. True)"
proof -
  have same: "disowned (s\<lparr>jr_tick := k\<rparr>) = disowned s" "disowned (s\<lparr>jr_log := l\<rparr>) = disowned s" for s k l
    by (simp_all add: disowned_def)
  have told: "keeps disowned (emit ev)" and asked: "keeps disowned (consult f)" for ev and f :: "nat \<Rightarrow> 'a"
    by (auto intro: keeps_emit keeps_consult simp: same)
  have "keeps disowned (key_attempts env d n t delay)" for d n t delay
    by (induction n arbitrary: t delay)
      (auto simp: now_def Let_def intro!: keeps_rules keeps_emit keeps_consult simp: same)
  then have key: "hoare disowned (require_backend_key env d) (\<lambda>_. disowned) (\<lambda>_. True)" for d
    unfolding require_backend_key_def keeps_def by (rule hoare_conseq) simp_all
  have raises: "hoare (\<lambda>_. True) (abind m (\<lambda>x. abind (m' x) (\<lambda>_. raise_exc e))) Q (\<lambda>_. True)"
    for m :: "'b act" and m' :: "'b \<Rightarrow> unit act" and e Q
    by (auto simp: hoare_def abind_def raise_exc_def split: prod.splits sum.splits)
  show ?thesis
    unfolding verify_backend_key_def
    by (rule hoare_try_except[OF key]) (auto intro!: raises hoare_raise split: job_exc.splits)
qed

lemma begin_disowns: "hoare P (begin_sync_run env ctx) (\<lambda>_. disowned) (\<lambda>_. True)"
proof -
  have any: "hoare P m (\<lambda>_ _. True) (\<lambda>_. True)" for P and m :: "'c act"
    by (auto simp: hoare_def split: sum.splits)
  show ?thesis
    unfolding begin_sync_run_def
    by (intro hoare_abind[OF any] hoare_abind[OF initial_data_disowns] hoare_abind[where R = "\<lambda>_. disowned", OF hoare_gets]
        hoare_abind[OF key_check_disowned] hoare_ret)
qed

text \<open>C38. The run erases its own claim. Once a run has begun, the row it claimed names no owner: the initial
  data replace the block that held the claim. A reader of the row sees no owner, and a claim by any other owner
  succeeds while the run is still working.\<close>

theorem run_erases_its_claim:
  assumes "begin_sync_run env ctx s = (Inr schema, s')"
  shows "\<exists>row rows job. jr_rows s' (job_pk (jr_job s')) = Some row
    \<and> get_sync_ownership loads ((jr_job s')\<lparr>job_data := row\<rparr>) = None
    \<and> claim_sync_ownership loads stamp (jr_rows s') ((jr_job s')\<lparr>job_data := row\<rparr>) owner = Inr (True, rows, job)"
proof -
  from hoare_Inr[OF begin_disowns TrueI assms] obtain sync_data
    where row: "jr_rows s' (job_pk (jr_job s')) = Some (PDict [(''proxbox_sync'', PDict sync_data)])"
      and none: "dget sync_data ''sync_owner'' = PNone"
    unfolding disowned_def by blast
  have block: "proxbox_sync_mapping (job_data_mapping loads (PDict [(''proxbox_sync'', PDict sync_data)])) = sync_data"
    by (simp add: proxbox_sync_mapping_def job_data_mapping_def dget_def)
  show ?thesis
    using row by (simp add: get_sync_ownership_def claim_sync_ownership_def Let_def block none save_job_data_def)
qed

lemma demo_begins: "\<exists>s'. begin_sync_run demo_job_env (demo_ctx demo_branching) demo_start = (Inr (PStr ''br4''), s')"
proof -
  have start: "row_on_branch None demo_start" by (simp add: row_on_branch_def demo_start_def)
  have "cx_config (demo_ctx demo_branching) = Some demo_branching" "0 < deadline_remaining (cx_deadline (demo_ctx demo_branching)) 0"
    by (simp_all add: demo_ctx_def deadline_remaining_def)
  from hoareD[OF demo_begin_wins[OF this] start] show ?thesis
    by (cases "begin_sync_run demo_job_env (demo_ctx demo_branching) demo_start") (auto split: sum.splits)
qed

theorem run_erases_its_claim_witness:
  "\<exists>s' rows job. begin_sync_run demo_job_env (demo_ctx demo_branching) demo_start = (Inr (PStr ''br4''), s')
     \<and> claim_sync_ownership (\<lambda>_. None) ''t'' (jr_rows s') ((jr_job s')\<lparr>job_data := the (jr_rows s' (job_pk (jr_job s')))\<rparr>) ''sse''
       = Inr (True, rows, job)"
proof -
  from demo_begins obtain s' where b: "begin_sync_run demo_job_env (demo_ctx demo_branching) demo_start = (Inr (PStr ''br4''), s')" by blast
  from run_erases_its_claim[OF b, of "\<lambda>_. None" "''t''" "''sse''"] b show ?thesis by auto
qed

section \<open>The exhausted run\<close>

text \<open>What the run sees when its deadline has passed and the endpoint table answers.\<close>

definition exhausted :: "job_env \<Rightarrow> sync_ctx \<Rightarrow> pyval list \<Rightarrow> bool" where
  "exhausted env ctx rows \<longleftrightarrow>
     (\<forall>n. je_endpoints env n = Inr rows) \<and> (\<forall>n. deadline_remaining (cx_deadline ctx) (je_clock env n) \<le> 0)"

lemma deadline_scopes_fail:
  assumes "deadline_sse_stages env ctx s = (Inr stages, s')" and "exhausted env ctx rows"
  shows "failed_endpoint_scopes stages = stages" and "length stages = length (enabled_endpoint_ids (cx_proxmox ctx) rows)"
    and "jr_log s' = jr_log s" and "jr_rows s' = jr_rows s" and "jr_job s' = jr_job s"
  using assms
  by (auto simp: deadline_sse_stages_def staged_endpoint_ids_def abind_def consult_def lift_py_def ret_def now_def
      exhausted_def failed_endpoint_scopes_def summary_get_def getattr_or_def dget_def filter_id_conv)

lemma deadline_stages_answer:
  assumes "exhausted env ctx rows"
  shows "\<exists>stages s'. deadline_sse_stages env ctx s = (Inr stages, s')"
  using assms by (auto simp: deadline_sse_stages_def staged_endpoint_ids_def abind_def consult_def lift_py_def ret_def now_def
      exhausted_def)

lemma persist_logs:
  assumes "persist_staged_result env ctx schema stages phases disp s = (r, s')" and "jr_rows s (job_pk (jr_job s)) \<noteq> None"
  shows "r = Inr ()" and "\<exists>data. jr_log s' = jr_log s @ [Data_saved data]" and "jr_rows s' (job_pk (jr_job s')) \<noteq> None"
  using assms
  by (auto simp: persist_staged_result_def sync_data_with_branch_def persist_data_def abind_def gets_def modify_def now_def
      consult_def lift_py_def ret_def emit_def save_job_data_def Let_def split: option.splits)

lemma exhausted_results:
  assumes "exhausted env ctx rows" and "jr_rows s (job_pk (jr_job s)) \<noteq> None"
  shows "\<exists>stages s3 data. length stages = length (enabled_endpoint_ids (cx_proxmox ctx) rows)
    \<and> failed_endpoint_scopes stages = stages \<and> jr_log s3 = jr_log s @ [Data_saved data]
    \<and> staged_results env ctx schema phases s = abind (raise_for_failed_endpoint_scopes stages)
        (\<lambda>_. raise_for_failed_local_phases (phases @ phases_from_stage_results (je_parse env) stages)) s3"
proof -
  let ?s = "s\<lparr>jr_tick := Suc (jr_tick s)\<rparr>"
  from deadline_stages_answer[OF assms(1), of ?s] obtain stages s1
    where d: "deadline_sse_stages env ctx ?s = (Inr stages, s1)" by blast
  note f = deadline_scopes_fail[OF d assms(1)]
  let ?p = "phases @ phases_from_stage_results (je_parse env) stages"
  let ?d = "if failed_endpoint_scopes stages = [] then None else sse_failure_disposition (jr_branch s1) ?p"
  obtain r2 s2 where p: "persist_staged_result env ctx schema stages ?p ?d s1 = (r2, s2)" by fastforce
  have row: "jr_rows s1 (job_pk (jr_job s1)) \<noteq> None" using assms(2) f(4,5) by simp
  from persist_logs[OF p row] obtain data row where g: "r2 = Inr ()" "jr_log s2 = jr_log s1 @ [Data_saved data]"
    "jr_rows s2 (job_pk (jr_job s2)) = Some row" by blast
  have "deadline_remaining (cx_deadline ctx) (je_clock env (jr_tick s)) \<le> 0" using assms(1) by (simp add: exhausted_def)
  then have "staged_results env ctx schema phases s = abind (raise_for_failed_endpoint_scopes stages)
      (\<lambda>_. raise_for_failed_local_phases ?p) (s2\<lparr>jr_job := (jr_job s2)\<lparr>job_data := row\<rparr>\<rparr>)"
    using d p g by (simp add: staged_results_def abind_def now_def consult_def Let_def gets_def refresh_job_def modify_def)
  with f g show ?thesis
    by (intro exI[of _ stages] exI[of _ "s2\<lparr>jr_job := (jr_job s2)\<lparr>job_data := row\<rparr>\<rparr>"] exI[of _ data]) simp
qed

text \<open>C37. What an exhausted run reports. When the deadline has passed before the backend stages, no local phase
  failed and the job row is there, the run stores its result, asks no stage, and ends as a success exactly when
  no endpoint is enabled for it; with an endpoint in scope it fails.\<close>

theorem exhausted_run_outcome:
  assumes "exhausted env ctx rows" and "failed_local_phases phases = []" and "jr_rows s (job_pk (jr_job s)) \<noteq> None"
  shows "\<exists>r s' data. staged_results env ctx schema phases s = (r, s') \<and> jr_log s' = jr_log s @ [Data_saved data]
    \<and> (r = Inr () \<longleftrightarrow> enabled_endpoint_ids (cx_proxmox ctx) rows = [])"
proof -
  from exhausted_results[OF assms(1,3), of schema phases] obtain stages s3 data
    where f: "length stages = length (enabled_endpoint_ids (cx_proxmox ctx) rows)" "failed_endpoint_scopes stages = stages"
        "jr_log s3 = jr_log s @ [Data_saved data]"
      and run: "staged_results env ctx schema phases s = abind (raise_for_failed_endpoint_scopes stages)
        (\<lambda>_. raise_for_failed_local_phases (phases @ phases_from_stage_results (je_parse env) stages)) s3" by blast
  show ?thesis
  proof (cases "stages = []")
    case True
    then show ?thesis using f assms(2)
      by (simp add: run raise_for_failed_endpoint_scopes_def raise_for_failed_local_phases_def abind_def ret_def
          failed_endpoint_scopes_def phases_from_stage_results_def)
  next
    case False
    then have "\<exists>e. raise_for_failed_endpoint_scopes stages = raise_exc e"
      using f(2) by (auto simp: raise_for_failed_endpoint_scopes_def Let_def)
    then show ?thesis using f False by (auto simp: run abind_def raise_exc_def)
  qed
qed

text \<open>An isolated run past its deadline with no endpoint enabled.\<close>

definition late_env :: job_env where
  "late_env = demo_job_env\<lparr>je_clock := (\<lambda>_. 9000)\<rparr>"

theorem exhausted_run_outcome_witness:
  "\<exists>s' data. staged_results late_env (demo_ctx demo_branching) (PStr ''br4'') [] demo_start = (Inr (), s')
     \<and> jr_log s' = [Data_saved data]"
proof -
  have "exhausted late_env (demo_ctx demo_branching) []"
    by (simp add: exhausted_def late_env_def demo_job_env_def demo_ctx_def deadline_remaining_def)
  moreover have "failed_local_phases [] = []" by (simp add: failed_local_phases_def local_phases_def)
  moreover have "jr_rows demo_start (job_pk (jr_job demo_start)) \<noteq> None" by (simp add: demo_start_def)
  ultimately obtain r s' data where "staged_results late_env (demo_ctx demo_branching) (PStr ''br4'') [] demo_start = (r, s')"
    "jr_log s' = jr_log demo_start @ [Data_saved data]" "r = Inr () \<longleftrightarrow> enabled_endpoint_ids (cx_proxmox (demo_ctx demo_branching)) [] = []"
    using exhausted_run_outcome by blast
  then show ?thesis by (auto simp: demo_start_def demo_ctx_def enabled_endpoint_ids_def enabled_rows_def)
qed

end
