(* ===== verification/Spec2Isabelle.thy ===== *)
theory Spec2Isabelle
  imports Sync_Batch Individual_Sync Deletion_Request Sync_Ownership Netbox_Push Intent_Apply Sync_Job_Limits
begin

text \<open>
  A verification library for \<^emph>\<open>netbox-proxbox\<close>, the NetBox plugin that synchronises Proxmox
  clusters into NetBox through the proxbox-api backend and writes approved intent back. All paths
  below are relative to \<open>src/netbox_proxbox/\<close>.

  \<^bold>\<open>The program.\<close> The plugin stores endpoints (Proxmox, NetBox and the FastAPI backend), plugin
  settings and synchronised objects in NetBox's database. It acts in two directions.
  \<^item> \<^emph>\<open>Sync\<close>: a job (\<open>jobs.py\<close>) claims its row, creates a branch unless isolation is switched off
    (\<open>services/branch_lifecycle.py\<close>), checks the backend's key, runs the local passes of every endpoint, and
    then (\<open>sync_stages.py\<close>) expands the selected stages, resolves every enabled endpoint
    to the row the backend holds for it, and requests the stages of every endpoint in order, with
    retries and a deadline; or it refreshes selected objects one by one, each pinned to the endpoint
    that owns it. It stores what happened, fails when anything failed, and otherwise merges its branch. Before that, endpoint rows and their credentials are pushed to the backend
    (\<open>views/backend_sync.py\<close>), which is allowed only for a connection target that a person reviewed
    (\<open>services/connection_authority.py\<close>).
  \<^item> \<^emph>\<open>Intent\<close>: the change rows of a branch are classified (\<open>intent/diff_union.py\<close>,
    \<open>intent/diff_classify.py\<close>), turned into payloads (\<open>intent/payload.py\<close>, \<open>intent/firewall_payload.py\<close>),
    judged before the merge (\<open>intent/merge_validator.py\<close>), and after it
    written to Proxmox (\<open>intent/apply_job.py\<close>) through the endpoint that owns the object
    (\<open>intent/firewall_common.py\<close>).
    Deletions go through a request that a second person approves (\<open>models/deletion_request.py\<close>,
    \<open>views/deletion_requests.py\<close>, \<open>intent/deletion_executor.py\<close>).

  \<^bold>\<open>Conventions.\<close> Text is \<open>string\<close>; a dynamic Python value is a \<open>pyval\<close> (no floats); an object that
  the code reads by attribute name (a model row, a form) is a \<open>PDict\<close> read with \<open>attr_value\<close> and
  \<open>getattr_or\<close>; a dictionary is an association list. A raising operation returns a sum, with the
  exception at the left. Requests, saves and cache writes are events of a list in the order the
  code makes them. What is not source of the repository (the backend's answers, database queries,
  permissions, digests, the clock) is a field of an environment record. A leading underscore of a
  Python name is dropped, and a name that HOL reserves gets a suffix.

  \<^bold>\<open>Theories.\<close>
  \<^item> \<open>Py_Base\<close>: exceptions as values, \<open>str\<close>, \<open>int\<close>, truth values, insertion-ordered dictionaries.
    \<open>Interfaces\<close>: the contracts (\<open>ranked_order\<close>, \<open>guarded_machine\<close>, \<open>one_way_machine\<close>), each
    interpreted on the model in the theory that provides it. \<open>Json_Text\<close>: canonical JSON text and
    that it determines its value. \<open>Ip_Text\<close>: the texts \<open>ip_network\<close> accepts.
  \<^item> \<open>Sync_Types\<close> (\<open>sync_types.py\<close>, \<open>backend_errors.py\<close>): the stage plan contains every requested stage
    once, in dependency order, with a backend path; normalisation is canonical; a failure message
    names the cause the application reported.
  \<^item> \<open>Vm_Identity\<close> (\<open>vm_identity.py\<close>): cluster, node, type, VMID and endpoint of a virtual machine.
  \<^item> \<open>Sync_Params\<close> (\<open>sync_params.py\<close>, \<open>constants.py\<close>): settings with endpoint overrides, the job parameter
    block, individual requests, and the job name round trip. \<open>Sync_Modes\<close>: the cascade of sync modes
    is exactly the ancestor closure; a skipped parent skips its dependents.
  \<^item> \<open>Sync_Stage_Exec\<close> (\<open>sync_stages.py\<close>, \<open>services/retry_after.py\<close>, \<open>services/sync_deadline.py\<close>): one stage
    with its retries: attempts and waiting are bounded, a rejection is not retried, the settling
    reply decides the outcome.
  \<^item> \<open>Endpoint_Resolution\<close> (\<open>views/backend_sync.py\<close>): the row used for an endpoint is that endpoint's, no
    row serves two endpoints, and a NetBox record is used only when proven to be ours.
  \<^item> \<open>Sync_Run\<close>: the staged run over all endpoints. Every request names the resolved backend row and the
    owning endpoint, every selected endpoint is accounted for, a required failure ends the endpoint,
    an empty scope fails loudly. \<open>Sync_Batch\<close>: selected objects stay pinned to their owner.
    \<open>Individual_Sync\<close> (\<open>services/individual_sync.py\<close>): dependency requests keep the pins.
  \<^item> \<open>Sync_Ownership\<close> (\<open>sync_ownership.py\<close>, \<open>views/job_stream.py\<close>): a job has one owner as long as claims
    start from the stored row; with a stale handle the stream view takes over an owned job.
  \<^item> \<open>Deletion_Request\<close>: a deletion runs at most once, after the approval of another person, and its
    outcome is final.
  \<^item> \<open>Backend_Path\<close> (\<open>services/backend_path.py\<close>): the segment validators accept exactly inert segments.
  \<^item> \<open>Connection_Authority\<close>: after any run of approvals, saves, column updates and deletions, secrets are
    released only to a target a permitted user reviewed.
  \<^item> \<open>Endpoint_Push\<close>, \<open>Netbox_Push\<close>: credentials leave only with an approval, a binding receipt is
    stored before the request it describes, ambiguous rows are revoked, the image-build grant needs
    every gate, and a rotated token is noticed.
  \<^item> \<open>Operational_Target\<close> (\<open>services/operational_target.py\<close>, \<open>services/endpoint_scope.py\<close>) and \<open>Firewall_Push\<close>
    (\<open>intent/firewall_common.py\<close> and its helpers): a firewall write is authorised and goes to the
    endpoint that owns the object, no editable name changes its route, and the update of an IP set
    entry of a virtual machine misses the entry.
  \<^item> \<open>Intent_Diff\<close>, \<open>Firewall_Intent\<close>: the union of the change rows of a branch equals its declarative
    specification, and the plan and apply diffs of the firewall rows.

  \<^item> \<open>Redaction\<close> (\<open>redaction.py\<close>, \<open>views/error_utils.py\<close>): error details hide credentials, in structured
    answers by the names of the keys and in free text by the assignments found in it.
  \<^item> \<open>Intent_Gate\<close> (\<open>services/branch_intent.py\<close>, \<open>intent/plan_client.py\<close>, \<open>intent/merge_validator.py\<close>): a
    merge passes only with a permitted plan and, for deletions, the stored confirmation.
  \<^item> \<open>Description_Metadata\<close> (\<open>intent/description_metadata.py\<close>): stripping undoes embedding.
    \<open>Intent_Payload\<close> (\<open>intent/payload.py\<close>, \<open>intent/snapshot.py\<close>): the payloads of machines and containers.
  \<^item> \<open>Intent_Apply\<close> (\<open>intent/apply_job.py\<close>): nothing is written or requested without the permission of the
    merging user, the job always ends in a final state, and a failed creation can be reported as a success.
  \<^item> \<open>Branch_Lifecycle\<close> (\<open>services/branch_lifecycle.py\<close>): a sync runs on main only when isolation is
    explicitly off, the wait for a branch is bounded, a merge that is reported did happen.
  \<^item> \<open>Job_State\<close>: the state of a run, its log of effects, actions with exceptions over it, Hoare triples and
    invariants of actions. Answers from outside are indexed by a counter of the run, so that two questions
    may have different answers. \<open>Runtime_Phases\<close> (\<open>jobs.py\<close>): the phase records and their cards, which
    partition the phases.
  \<^item> \<open>Sync_Job\<close> (\<open>jobs.py\<close>, \<open>ProxboxSyncJob.run\<close>): the run, with the endpoint push before the sync, the four local services,
    the key request and the backfill as answers of its environment. \<open>Sync_Job_Facts\<close>: the local passes, bindings and requests of an
    isolated run go to its branch, it asks for the merge only after a stored result without a failure, and
    whenever it succeeds; the tenants of selected machines are written to main. The contracts
    \<open>quiet_invariant\<close> and \<open>branch_invariant\<close> carry an invariant through all the steps of the run and are
    interpreted for every invariant used. \<open>Sync_Job_Limits\<close>: the key check is bounded; a run erases the
    claim on its own row; an exhausted run without endpoints reports success.

  \<^bold>\<open>Bounds and fuel.\<close> The only fuelled definition is the dependency recursion of \<open>Individual_Sync\<close>
  (the visited set stops it); \<open>dependency_recursion_terminates\<close> proves that as much fuel as there are
  keys is enough. Every other loop is structural or has a termination proof. Integers are Python's
  and unbounded; the caps of the code (VMID range, port, retry delay, Python's 4300 digit limit of
  \<open>int\<close>) are written out where it has them.

  \<^bold>\<open>Not modelled.\<close> Of the sync job: the endpoint push before the sync (\<open>_ensure_backend_endpoints\<close>), the
  local services (\<open>services/sync_cluster.py\<close>, \<open>sync_firewall.py\<close>, \<open>sync_datacenter.py\<close>, \<open>sync_vm_template.py\<close>),
  the backfill (\<open>services/sync_state_endpoint_backfill.py\<close>), tenant assignment, queueing, and the service
  monitoring job. They are logic that this development has not reached, and the properties of the run
  hold for any answers they give. Not reached either: key adoption (\<open>services/backend_key_adoption.py\<close>), the request proxy
  (\<open>services/backend_proxy.py\<close>), encryption recovery, endpoint autoconfiguration, repair of sync state, the
  scheduler. Further left out: views, tables, forms, filter sets, serializers and templates that only present or
  validate rows through Django's own machinery; migrations; the websocket client and the
  server-sent-event transport; the OpenBao integrations; the command line client and the release scripts. Log lines,
  headers, TLS flags and timeouts of requests are left out of the modelled functions.
\<close>

section \<open>From a merged branch to a deletion on Proxmox\<close>

lemma created_request_is_fresh:
  assumes "Deletion_created dr \<in> set (snd (run_apply_job env run job))"
  shows "fresh_request (dr, []) \<and> actor_may env run (DELETE_PERMISSIONS (dr_kind dr))
    \<and> apply_destroy_confirmed (resolve_branch_intent_flags (ap_branching env) (ar_branch run))
    \<and> (\<exists>vm row. (vm, ''delete'', row) \<in> set (virtual_machine_diff_union (ar_diffs run)))"
proof -
  from apply_diffs_events[OF run_events[OF assms]] obtain vm op row where
    e: "(vm, op, row) \<in> set (virtual_machine_diff_union (ar_diffs run))"
    and ok: "diff_event_ok env run (vm, op, row) (Deletion_created dr)" by auto
  from ok have "op = ''delete''" "fresh_request (dr, [])"
    "actor_may env run (DELETE_PERMISSIONS (dr_kind dr))"
    "apply_destroy_confirmed (resolve_branch_intent_flags (ap_branching env) (ar_branch run))"
    by (auto simp: diff_event_ok_def permission_for_def Let_def)
  with e show ?thesis by auto
qed


definition demo_approved_deletion :: deletion_request where
  "demo_approved_deletion = demo_deletion\<lparr>authorizer := Some 20, dr_state := APPROVED, approved_at := Some 1\<rparr>"

lemma demo_deletion_run:
  obtains t where "(del_step False)\<^sup>*\<^sup>* (demo_deletion, []) t" and "snd t \<noteq> []"
proof -
  have "approve_post False 20 (Some 101) 1 demo_deletion = (Redirect, demo_approved_deletion, True)" by code_simp
  then have 1: "del_step False (demo_deletion, []) (demo_approved_deletion, [])" by (rule del_step.approve)
  obtain dr' posts where e: "executor_run False demo_exec_env 2 demo_approved_deletion = (dr', posts)" and p: "posts \<noteq> []"
    by (simp add: executor_run_def executor_dispatch_def demo_approved_deletion_def demo_deletion_def demo_exec_env_def Let_def)
  note 2 = del_step.execute[OF e, of "[]"]
  show thesis
    by (rule that[OF rtranclp.rtrancl_into_rtrancl[OF r_into_rtranclp[of "del_step False", OF 1] 2]]) (simp add: p)
qed


end
